(* ===== verification/TS_Prelude.thy ===== *)
theory TS_Prelude
  imports Complex_Main "HOL-Library.AList" "HOL-Library.Monad_Syntax"
begin

text \<open>
  Shared vocabulary of the development: Python dictionaries (insertion-ordered association
  lists), JSON values, text, timestamps, and the error-result type, with the generic lemmas
  the component theories use.

  Conventions. A Python \<open>str\<close> is the byte string of its UTF-8 encoding (a HOL
  \<open>string\<close>); \<open>py_len\<close> counts its code points, as Python's \<open>len\<close> does. A
  Python \<open>int\<close> is \<open>int\<close>. A finite float (confidence, seconds) and a
  \<open>Decimal\<close> is the rational number it denotes. A timezone-aware \<open>datetime\<close> is its
  number of microseconds since the epoch and a \<open>timedelta\<close> a number of microseconds.
  An operation that can raise returns \<open>error + value\<close>.
\<close>

named_theorems dict_simps \<open>lookup, update and key facts about dictionaries\<close>
named_theorems inv_intros \<open>one invariant-preservation fact per operation\<close>

section \<open>Results\<close>

text \<open>Sequencing of operations that may raise: the first error is the result.\<close>

definition and_then :: "'e + 'a \<Rightarrow> ('a \<Rightarrow> 'e + 'b) \<Rightarrow> 'e + 'b" where
  "and_then m f = (case m of Inl e \<Rightarrow> Inl e | Inr a \<Rightarrow> f a)"

lemma and_then_simps [simp]:
  "and_then (Inl e) f = Inl e"
  "and_then (Inr a) f = f a"
  by (simp_all add: and_then_def)

lemma and_then_eq_Inr:
  "and_then m f = Inr b \<longleftrightarrow> (\<exists>a. m = Inr a \<and> f a = Inr b)"
  by (cases m) simp_all

definition is_ok :: "'e + 'a \<Rightarrow> bool" where
  "is_ok r = (case r of Inl _ \<Rightarrow> False | Inr _ \<Rightarrow> True)"

lemma is_ok_simps [simp]: "\<not> is_ok (Inl e)" "is_ok (Inr a)"
  by (simp_all add: is_ok_def)

lemma is_ok_iff: "is_ok r \<longleftrightarrow> (\<exists>a. r = Inr a)"
  by (cases r) simp_all

section \<open>Dictionaries\<close>

text \<open>
  A Python \<open>dict\<close> keeps insertion order; assigning to a key it holds keeps that key's
  position, and a new key goes last. \<open>AList.update\<close> does exactly this.
\<close>

type_synonym ('k, 'v) dict = "('k \<times> 'v) list"

definition dict_get :: "('k, 'v) dict \<Rightarrow> 'k \<Rightarrow> 'v option" where
  "dict_get d k = map_of d k"

definition dict_set :: "('k, 'v) dict \<Rightarrow> 'k \<Rightarrow> 'v \<Rightarrow> ('k, 'v) dict" where
  "dict_set d k v = AList.update k v d"

definition dict_pop :: "('k, 'v) dict \<Rightarrow> 'k \<Rightarrow> ('k, 'v) dict" where
  "dict_pop d k = filter (\<lambda>p. fst p \<noteq> k) d"

definition dict_keys :: "('k, 'v) dict \<Rightarrow> 'k set" where
  "dict_keys d = fst ` set d"

definition dict_default :: "('k, 'v) dict \<Rightarrow> 'k \<Rightarrow> 'v \<Rightarrow> 'v" where
  "dict_default d k v = (case dict_get d k of None \<Rightarrow> v | Some w \<Rightarrow> w)"

text \<open>The laws every user of a dictionary relies on.\<close>

locale dict_ops =
  fixes get :: "'d \<Rightarrow> 'k \<Rightarrow> 'v option"
    and put :: "'d \<Rightarrow> 'k \<Rightarrow> 'v \<Rightarrow> 'd"
    and pop :: "'d \<Rightarrow> 'k \<Rightarrow> 'd"
    and keys :: "'d \<Rightarrow> 'k set"
  assumes get_put: "get (put d k v) k' = (if k' = k then Some v else get d k')"
    and get_pop: "get (pop d k) k' = (if k' = k then None else get d k')"
    and mem_keys: "k \<in> keys d \<longleftrightarrow> get d k \<noteq> None"
begin

lemma keys_put: "keys (put d k v) = insert k (keys d)"
  by (auto simp: mem_keys get_put split: if_splits)

lemma keys_pop: "keys (pop d k) = keys d - {k}"
  by (auto simp: mem_keys get_pop split: if_splits)

lemma put_preserves:
  assumes "\<And>k w. get d k = Some w \<Longrightarrow> P k w" and "P k v" and "get (put d k v) k' = Some w"
  shows "P k' w"
  using assms by (cases "k' = k") (auto simp: get_put)

lemma pop_preserves:
  assumes "\<And>k w. get d k = Some w \<Longrightarrow> P k w" and "get (pop d k) k' = Some w"
  shows "P k' w"
  using assms by (cases "k' = k") (auto simp: get_pop)

end

interpretation py_dict: dict_ops dict_get dict_set dict_pop dict_keys
proof
  fix d :: "('a \<times> 'b) list" and k k' :: 'a and v :: 'b
  show "dict_get (dict_set d k v) k' = (if k' = k then Some v else dict_get d k')"
    by (simp add: dict_get_def dict_set_def update_conv')
  show "dict_get (dict_pop d k) k' = (if k' = k then None else dict_get d k')"
    unfolding dict_get_def dict_pop_def by (induction d) auto
  show "k \<in> dict_keys d \<longleftrightarrow> dict_get d k \<noteq> None"
    by (simp add: dict_keys_def dict_get_def map_of_eq_None_iff)
qed

lemmas dict_laws [dict_simps] =
  py_dict.get_put py_dict.get_pop py_dict.keys_put py_dict.keys_pop

lemma dict_get_Nil [simp]: "dict_get [] k = None"
  by (simp add: dict_get_def)

lemma dict_keys_Nil [simp]: "dict_keys [] = {}"
  by (simp add: dict_keys_def)

lemma dict_get_Cons [simp]:
  "dict_get ((k', v) # d) k = (if k = k' then Some v else dict_get d k)"
  by (simp add: dict_get_def)

lemma dict_set_simps [simp]:
  "dict_set [] k v = [(k, v)]"
  "dict_set ((k', w) # d) k v = (if k' = k then (k, v) # d else (k', w) # dict_set d k v)"
  by (simp_all add: dict_set_def)

lemma dict_default_set:
  "dict_default (dict_set d k v) k' w = (if k' = k then v else dict_default d k' w)"
  by (simp add: dict_default_def dict_simps)

lemma distinct_dict_set [simp]:
  "distinct (map fst d) \<Longrightarrow> distinct (map fst (dict_set d k v))"
  by (simp add: dict_set_def distinct_update)

lemma distinct_dict_pop [simp]:
  "distinct (map fst d) \<Longrightarrow> distinct (map fst (dict_pop d k))"
  by (simp add: dict_pop_def distinct_map_filter)

section \<open>JSON values\<close>

text \<open>
  What \<open>json.loads\<close> and \<open>yaml.safe_load\<close> hand the program: Python's
  \<open>None\<close>, \<open>bool\<close>, \<open>int\<close>, \<open>float\<close>, \<open>str\<close>, \<open>list\<close> and
  \<open>dict\<close> with string keys.
\<close>

datatype json =
    JNull
  | JBool bool
  | JInt int
  | JNum rat
  | JStr string
  | JArr "json list"
  | JObj "(string \<times> json) list"

definition json_field :: "json \<Rightarrow> string \<Rightarrow> json option" where
  "json_field j k = (case j of JObj d \<Rightarrow> dict_get d k | _ \<Rightarrow> None)"

section \<open>Text\<close>

text \<open>
  Code points of UTF-8 text: every byte except the continuation bytes (those with the top
  bits 10) starts one.
\<close>

definition is_continuation :: "char \<Rightarrow> bool" where
  "is_continuation c = (128 \<le> (of_char c :: nat) \<and> (of_char c :: nat) < 192)"

definition py_len :: "string \<Rightarrow> nat" where
  "py_len s = length (filter (\<lambda>c. \<not> is_continuation c) s)"

lemma py_len_le_length: "py_len s \<le> length s"
  by (simp add: py_len_def)

lemma py_len_append: "py_len (s @ t) = py_len s + py_len t"
  by (simp add: py_len_def)

text \<open>\<open>str(n)\<close> of an integer.\<close>

definition digit_char :: "nat \<Rightarrow> char" where
  "digit_char d = char_of (48 + d)"

fun show_nat :: "nat \<Rightarrow> string" where
  "show_nat n =
     (if n < 10 then [digit_char n] else show_nat (n div 10) @ [digit_char (n mod 10)])"

declare show_nat.simps [simp del]

definition show_int :: "int \<Rightarrow> string" where
  "show_int i = (if i < 0 then CHR ''-'' # show_nat (nat (- i)) else show_nat (nat i))"

fun read_nat :: "string \<Rightarrow> nat" where
  "read_nat s = fold (\<lambda>c n. 10 * n + ((of_char c :: nat) - 48)) s 0"

lemma of_char_digit_char: "d < 10 \<Longrightarrow> (of_char (digit_char d) :: nat) = 48 + d"
  by (simp add: digit_char_def)

lemma read_show_nat: "read_nat (show_nat n) = n"
proof (induction n rule: show_nat.induct)
  case (1 n)
  show ?case
  proof (cases "n < 10")
    case True
    then show ?thesis by (simp add: show_nat.simps [of n] of_char_digit_char)
  next
    case False
    with 1 have "read_nat (show_nat (n div 10)) = n div 10" by simp
    with False show ?thesis
      by (simp add: show_nat.simps [of n] of_char_digit_char)
  qed
qed

lemma show_nat_inj: "show_nat m = show_nat n \<longleftrightarrow> m = n"
  by (metis read_show_nat)

lemma show_nat_no_minus: "show_nat n \<noteq> CHR ''-'' # s"
proof -
  have "\<forall>c \<in> set (show_nat n). 48 \<le> (of_char c :: nat)"
    by (induction n rule: show_nat.induct)
      (subst show_nat.simps, auto simp: of_char_digit_char)
  then show ?thesis by auto
qed

lemma show_int_inj: "show_int i = show_int j \<longleftrightarrow> i = j"
  using show_nat_no_minus
  by (auto simp: show_int_def show_nat_inj nat_eq_iff split: if_splits)
    (metis show_nat_no_minus)+

section \<open>Time\<close>

type_synonym time = int

definition minutes_us :: "int \<Rightarrow> int" where
  "minutes_us n = n * 60 * 1000000"

definition total_seconds :: "int \<Rightarrow> rat" where
  "total_seconds d = of_int d / 1000000"

lemma minutes_us_mono: "a \<le> b \<Longrightarrow> minutes_us a \<le> minutes_us b"
  by (simp add: minutes_us_def)

lemma minutes_us_pos: "0 < n \<Longrightarrow> 0 < minutes_us n"
  by (simp add: minutes_us_def)

section \<open>Lists and options\<close>

text \<open>Python's bounds-checked read used by the code: negative and past-the-end give \<open>None\<close>.\<close>

definition nth_opt :: "'a list \<Rightarrow> int \<Rightarrow> 'a option" where
  "nth_opt xs i = (if i < 0 \<or> i \<ge> int (length xs) then None else Some (xs ! nat i))"

lemma nth_opt_Some_iff:
  "nth_opt xs i = Some x \<longleftrightarrow> 0 \<le> i \<and> i < int (length xs) \<and> x = xs ! nat i"
  by (auto simp: nth_opt_def)

lemma nth_opt_None_iff: "nth_opt xs i = None \<longleftrightarrow> i < 0 \<or> int (length xs) \<le> i"
  by (auto simp: nth_opt_def)

lemma nth_opt_mem: "nth_opt xs i = Some x \<Longrightarrow> x \<in> set xs"
  by (auto simp: nth_opt_def split: if_splits)

text \<open>The last \<open>n\<close> elements, \<open>xs[-n:]\<close> for positive \<open>n\<close>.\<close>

definition last_n :: "nat \<Rightarrow> 'a list \<Rightarrow> 'a list" where
  "last_n n xs = drop (length xs - n) xs"

lemma length_last_n: "length (last_n n xs) \<le> n"
  by (simp add: last_n_def)

lemma set_last_n: "set (last_n n xs) \<subseteq> set xs"
  by (simp add: last_n_def set_drop_subset)

end
