(* ===== verification/Pydantic.thy ===== *)
theory Pydantic
  imports TS_Prelude
begin

text \<open>
  The boundary to pydantic, which is not part of the repository. What a field declaration
  checks (presence, bounds, lengths, extra keys) is written out where the field is declared;
  how pydantic's lax mode coerces one JSON value to a Python scalar is the argument
  \<open>px\<close>, a record of coercions. \<open>pydantic_ok\<close> states the documented fact the
  code relies on: a value that already has the field's type is taken as it is.
\<close>

record pydantic =
  px_int :: "json \<Rightarrow> int option"
  px_float :: "json \<Rightarrow> rat option"
  px_str :: "json \<Rightarrow> string option"
  px_bool :: "json \<Rightarrow> bool option"
  px_list :: "json \<Rightarrow> json list option"
  px_decimal :: "json \<Rightarrow> rat option"

definition pydantic_ok :: "pydantic \<Rightarrow> bool" where
  "pydantic_ok px \<longleftrightarrow>
     (\<forall>n. px_int px (JInt n) = Some n) \<and> (\<forall>q. px_float px (JNum q) = Some q)
     \<and> (\<forall>s. px_str px (JStr s) = Some s) \<and> (\<forall>b. px_bool px (JBool b) = Some b)
     \<and> (\<forall>xs. px_list px (JArr xs) = Some xs) \<and> (\<forall>q. px_decimal px (JNum q) = Some q)"

lemma pydantic_okD [simp]:
  assumes "pydantic_ok px"
  shows "px_int px (JInt n) = Some n" "px_float px (JNum q) = Some q"
    "px_str px (JStr s) = Some s" "px_bool px (JBool b) = Some b"
    "px_list px (JArr xs) = Some xs" "px_decimal px (JNum q) = Some q"
  using assms by (simp_all add: pydantic_ok_def)

text \<open>The decimal numerals a quoted price or ceiling is written with.\<close>

definition is_digit :: "char \<Rightarrow> bool" where
  "is_digit c = (48 \<le> (of_char c :: nat) \<and> (of_char c :: nat) \<le> 57)"

definition decimal_of_string :: "string \<Rightarrow> rat option" where
  "decimal_of_string s =
     (let whole = takeWhile (\<lambda>c. c \<noteq> CHR ''.'') s; rest = dropWhile (\<lambda>c. c \<noteq> CHR ''.'') s;
          frac = drop 1 rest
      in if whole \<noteq> [] \<and> list_all is_digit whole \<and> list_all is_digit frac
            \<and> (rest = [] \<or> frac \<noteq> [])
         then Some (of_nat (read_nat whole) + of_nat (read_nat frac) / 10 ^ length frac)
         else None)"

text \<open>Pydantic's strict mode: no coercion at all. One instance of the boundary.\<close>

definition strict_px :: pydantic where
  "strict_px = \<lparr>
     px_int = (\<lambda>j. case j of JInt n \<Rightarrow> Some n | _ \<Rightarrow> None),
     px_float = (\<lambda>j. case j of JNum q \<Rightarrow> Some q | JInt n \<Rightarrow> Some (of_int n) | _ \<Rightarrow> None),
     px_str = (\<lambda>j. case j of JStr s \<Rightarrow> Some s | _ \<Rightarrow> None),
     px_bool = (\<lambda>j. case j of JBool b \<Rightarrow> Some b | _ \<Rightarrow> None),
     px_list = (\<lambda>j. case j of JArr xs \<Rightarrow> Some xs | _ \<Rightarrow> None),
     px_decimal = (\<lambda>j. case j of JNum q \<Rightarrow> Some q | JInt n \<Rightarrow> Some (of_int n)
                       | JStr s \<Rightarrow> decimal_of_string s | _ \<Rightarrow> None)\<rparr>"

lemma strict_px_ok: "pydantic_ok strict_px"
  by (simp add: pydantic_ok_def strict_px_def)

section \<open>Field combinators\<close>

text \<open>A required field, a field with a default, and a constrained value.\<close>

definition req :: "(string, json) dict \<Rightarrow> string \<Rightarrow> (json \<Rightarrow> 'a option) \<Rightarrow> 'a option" where
  "req d k f = (case dict_get d k of None \<Rightarrow> None | Some j \<Rightarrow> f j)"

definition with_default ::
  "(string, json) dict \<Rightarrow> string \<Rightarrow> 'a \<Rightarrow> (json \<Rightarrow> 'a option) \<Rightarrow> 'a option" where
  "with_default d k x f = (case dict_get d k of None \<Rightarrow> Some x | Some j \<Rightarrow> f j)"

definition checked :: "('a \<Rightarrow> bool) \<Rightarrow> 'a option \<Rightarrow> 'a option" where
  "checked P m = (case m of None \<Rightarrow> None | Some x \<Rightarrow> if P x then Some x else None)"

fun all_of :: "('a \<Rightarrow> 'b option) \<Rightarrow> 'a list \<Rightarrow> 'b list option" where
  "all_of f [] = Some []"
| "all_of f (x # xs) =
     (case f x of None \<Rightarrow> None
      | Some y \<Rightarrow> (case all_of f xs of None \<Rightarrow> None | Some ys \<Rightarrow> Some (y # ys)))"

definition no_extra :: "string list \<Rightarrow> (string, json) dict \<Rightarrow> bool" where
  "no_extra allowed d = list_all (\<lambda>p. fst p \<in> set allowed) d"

definition as_object :: "((string, json) dict \<Rightarrow> 'a option) \<Rightarrow> json \<Rightarrow> 'a option" where
  "as_object f j = (case j of JObj d \<Rightarrow> f d | _ \<Rightarrow> None)"

definition nullable :: "(json \<Rightarrow> 'a option) \<Rightarrow> json \<Rightarrow> 'a option option" where
  "nullable f j = (case j of JNull \<Rightarrow> Some None
     | _ \<Rightarrow> (case f j of None \<Rightarrow> None | Some x \<Rightarrow> Some (Some x)))"

lemma req_Some: "req d k f = Some x \<longleftrightarrow> (\<exists>j. dict_get d k = Some j \<and> f j = Some x)"
  by (auto simp: req_def split: option.splits)

lemma checked_Some [simp]: "checked P m = Some x \<longleftrightarrow> m = Some x \<and> P x"
  by (auto simp: checked_def split: option.splits)

lemma as_object_Some: "as_object f j = Some x \<longleftrightarrow> (\<exists>d. j = JObj d \<and> f d = Some x)"
  by (cases j) (simp_all add: as_object_def)

lemma all_of_Some_iff:
  "all_of f xs = Some ys \<longleftrightarrow> list_all2 (\<lambda>x y. f x = Some y) xs ys"
  by (induction xs arbitrary: ys)
    (auto split: option.splits simp: list_all2_Cons1, metis option.inject)

lemma all_of_map:
  "(\<And>y. y \<in> set ys \<Longrightarrow> f (g y) = Some y) \<Longrightarrow> all_of f (map g ys) = Some ys"
  by (induction ys) auto

lemma all_of_length: "all_of f xs = Some ys \<Longrightarrow> length ys = length xs"
  by (auto simp: all_of_Some_iff dest: list_all2_lengthD)

lemma all_of_range:
  assumes "all_of f xs = Some ys" and "\<And>x y. f x = Some y \<Longrightarrow> P y"
  shows "\<forall>y \<in> set ys. P y"
  using assms by (induction xs arbitrary: ys) (auto split: option.splits)

end
