(* ===== verification/Plan.thy ===== *)
theory Plan
  imports Pydantic
begin

text \<open>
  \<open>app/backend/orchestrator/plan.py\<close>: the interview plan, its validation
  (\<open>PlanSnapshot.validate_plan\<close>), its accessors and its serialisation
  (\<open>plan_payload\<close>).
\<close>

record planned_competency =
  node_id :: string
  label_uk :: string
  target_level :: int
  minutes :: int
  seed_questions_uk :: "string list"
  probe_branches_uk :: "string list"

record plan_snapshot =
  plan_version :: int
  competencies :: "planned_competency list"
  qa_minutes :: int
  session_max_minutes :: int

datatype plan_error = PlanInvalid

section \<open>Accessors\<close>

definition seed_question :: "planned_competency \<Rightarrow> int \<Rightarrow> string option" where
  "seed_question c index =
     (if index < 0 \<or> index \<ge> int (length (seed_questions_uk c)) then None
      else Some (seed_questions_uk c ! nat index))"

definition probe_branch :: "planned_competency \<Rightarrow> int \<Rightarrow> string option" where
  "probe_branch c index =
     (if index < 0 \<or> index \<ge> int (length (probe_branches_uk c)) then None
      else Some (probe_branches_uk c ! nat index))"

definition competency :: "plan_snapshot \<Rightarrow> int \<Rightarrow> planned_competency option" where
  "competency p index =
     (if index < 0 \<or> index \<ge> int (length (competencies p)) then None
      else Some (competencies p ! nat index))"

section \<open>Validation\<close>

definition non_empty_str :: "pydantic \<Rightarrow> json \<Rightarrow> string option" where
  "non_empty_str px j = checked (\<lambda>s. 1 \<le> py_len s) (px_str px j)"

definition non_empty_strs :: "pydantic \<Rightarrow> json \<Rightarrow> string list option" where
  "non_empty_strs px j =
     (case px_list px j of None \<Rightarrow> None | Some xs \<Rightarrow> all_of (non_empty_str px) xs)"

definition validate_competency :: "pydantic \<Rightarrow> json \<Rightarrow> planned_competency option" where
  "validate_competency px = as_object (\<lambda>d. do {
     n \<leftarrow> req d ''node_id'' (non_empty_str px);
     l \<leftarrow> req d ''label_uk'' (non_empty_str px);
     t \<leftarrow> req d ''target_level'' (\<lambda>j. checked (\<lambda>i. 1 \<le> i \<and> i \<le> 5) (px_int px j));
     m \<leftarrow> req d ''minutes'' (\<lambda>j. checked (\<lambda>i. 1 \<le> i) (px_int px j));
     s \<leftarrow> req d ''seed_questions_uk'' (\<lambda>j. checked (\<lambda>xs. 1 \<le> length xs) (non_empty_strs px j));
     b \<leftarrow> with_default d ''probe_branches_uk'' [] (non_empty_strs px);
     Some \<lparr>node_id = n, label_uk = l, target_level = t, minutes = m,
           seed_questions_uk = s, probe_branches_uk = b\<rparr>
   })"

definition model_validate_plan :: "pydantic \<Rightarrow> json \<Rightarrow> plan_snapshot option" where
  "model_validate_plan px = as_object (\<lambda>d. do {
     v \<leftarrow> req d ''plan_version'' (\<lambda>j. checked (\<lambda>i. 1 \<le> i) (px_int px j));
     cs \<leftarrow> req d ''competencies'' (\<lambda>j. checked (\<lambda>xs. 1 \<le> length xs)
            (case px_list px j of None \<Rightarrow> None | Some xs \<Rightarrow> all_of (validate_competency px) xs));
     q \<leftarrow> req d ''qa_minutes'' (\<lambda>j. checked (\<lambda>i. 0 \<le> i) (px_int px j));
     m \<leftarrow> req d ''session_max_minutes'' (\<lambda>j. checked (\<lambda>i. 1 \<le> i) (px_int px j));
     Some \<lparr>plan_version = v, competencies = cs, qa_minutes = q, session_max_minutes = m\<rparr>
   })"

definition validate_plan :: "pydantic \<Rightarrow> json \<Rightarrow> plan_error + plan_snapshot" where
  "validate_plan px raw =
     (case raw of
        JObj d \<Rightarrow>
          (case model_validate_plan px raw of None \<Rightarrow> Inl PlanInvalid | Some p \<Rightarrow> Inr p)
      | _ \<Rightarrow> Inl PlanInvalid)"

section \<open>Serialisation\<close>

definition competency_payload :: "planned_competency \<Rightarrow> json" where
  "competency_payload c = JObj [
     (''node_id'', JStr (node_id c)),
     (''label_uk'', JStr (label_uk c)),
     (''target_level'', JInt (target_level c)),
     (''minutes'', JInt (minutes c)),
     (''seed_questions_uk'', JArr (map JStr (seed_questions_uk c))),
     (''probe_branches_uk'', JArr (map JStr (probe_branches_uk c)))]"

definition plan_payload :: "plan_snapshot \<Rightarrow> json" where
  "plan_payload p = JObj [
     (''plan_version'', JInt (plan_version p)),
     (''competencies'', JArr (map competency_payload (competencies p))),
     (''qa_minutes'', JInt (qa_minutes p)),
     (''session_max_minutes'', JInt (session_max_minutes p))]"

section \<open>What a validated plan satisfies\<close>

definition competency_ok :: "planned_competency \<Rightarrow> bool" where
  "competency_ok c \<longleftrightarrow>
     1 \<le> py_len (node_id c) \<and> 1 \<le> py_len (label_uk c)
     \<and> 1 \<le> target_level c \<and> target_level c \<le> 5 \<and> 1 \<le> minutes c
     \<and> seed_questions_uk c \<noteq> []
     \<and> list_all (\<lambda>s. 1 \<le> py_len s) (seed_questions_uk c)
     \<and> list_all (\<lambda>s. 1 \<le> py_len s) (probe_branches_uk c)"

definition plan_ok :: "plan_snapshot \<Rightarrow> bool" where
  "plan_ok p \<longleftrightarrow>
     1 \<le> plan_version p \<and> competencies p \<noteq> [] \<and> list_all competency_ok (competencies p)
     \<and> 0 \<le> qa_minutes p \<and> 1 \<le> session_max_minutes p"

lemma non_empty_strs_range:
  "non_empty_strs px j = Some xs \<Longrightarrow> list_all (\<lambda>s. 1 \<le> py_len s) xs"
  using all_of_range [of "non_empty_str px" _ xs "\<lambda>s. 1 \<le> py_len s"]
  by (auto simp: non_empty_strs_def non_empty_str_def list_all_iff split: option.splits)

lemma validate_competency_ok:
  "validate_competency px j = Some c \<Longrightarrow> competency_ok c"
  by (auto simp: validate_competency_def as_object_Some req_Some with_default_def
      competency_ok_def non_empty_str_def bind_eq_Some_conv
      dest!: non_empty_strs_range split: option.splits)

lemma validate_plan_sound:
  assumes "validate_plan px raw = Inr p"
  shows "plan_ok p"
proof -
  from assms obtain d xs where
    "all_of (validate_competency px) xs = Some (competencies p)"
    and rest: "1 \<le> plan_version p" "1 \<le> length (competencies p)"
      "0 \<le> qa_minutes p" "1 \<le> session_max_minutes p"
    by (auto simp: validate_plan_def model_validate_plan_def as_object_Some req_Some
        bind_eq_Some_conv split: json.splits option.splits)
  then have "\<forall>c \<in> set (competencies p). competency_ok c"
    using all_of_range [of "validate_competency px" xs "competencies p" competency_ok]
      validate_competency_ok by blast
  with rest show ?thesis by (auto simp: plan_ok_def list_all_iff)
qed

lemma non_empty_strs_payload:
  assumes "pydantic_ok px" and "list_all (\<lambda>s. 1 \<le> py_len s) xs"
  shows "non_empty_strs px (JArr (map JStr xs)) = Some xs"
  using assms all_of_map [of xs "non_empty_str px" JStr]
  by (simp add: non_empty_strs_def non_empty_str_def list_all_iff)

lemma competency_payload_validates:
  assumes "pydantic_ok px" and "competency_ok c"
  shows "validate_competency px (competency_payload c) = Some c"
  using assms
  by (auto simp: validate_competency_def competency_payload_def as_object_def req_def
      with_default_def competency_ok_def non_empty_strs_payload non_empty_str_def checked_def
      Suc_le_eq)

lemma plan_payload_validates:
  assumes "pydantic_ok px" and "plan_ok p"
  shows "validate_plan px (plan_payload p) = Inr p"
proof -
  have "all_of (validate_competency px) (map competency_payload (competencies p))
      = Some (competencies p)"
    using assms by (intro all_of_map competency_payload_validates)
      (auto simp: plan_ok_def list_all_iff)
  with assms show ?thesis
    by (auto simp: validate_plan_def model_validate_plan_def plan_payload_def as_object_def
        req_def checked_def plan_ok_def Suc_le_eq)
qed

lemma plan_ok_competency:
  "plan_ok p \<Longrightarrow> competency p i = Some c \<Longrightarrow> competency_ok c"
  by (auto simp: plan_ok_def competency_def list_all_iff split: if_splits)

lemma competency_ok_seed0: "competency_ok c \<Longrightarrow> seed_question c 0 = Some (hd (seed_questions_uk c))"
  by (auto simp: competency_ok_def seed_question_def hd_conv_nth)

end
