(* ===== verification/Orch_Config.thy ===== *)
theory Orch_Config
  imports Pydantic
begin

text \<open>
  \<open>app/backend/orchestrator/config.py\<close>: the routing thresholds of
  \<open>configs/orchestrator.yaml\<close> and their load-time validation. Reading the file and
  parsing YAML is outside the model; \<open>from_yaml\<close> takes the parsed document.
\<close>

record adjudication_config =
  confidence_min :: rat
  max_probes_per_competency :: int
  min_probe_seconds :: int

record flags_config =
  cheat_flags_to_review :: int
  drift_to_review :: int

record timing_config =
  candidate_timeout_minutes :: int
  tick_seconds :: int

record orchestrator_config =
  adjudication :: adjudication_config
  flags :: flags_config
  timing :: timing_config
  config_schema_version :: int

datatype config_error = OrchestratorConfigError

definition validate_adjudication :: "pydantic \<Rightarrow> json \<Rightarrow> adjudication_config option" where
  "validate_adjudication px = as_object (\<lambda>d.
     if no_extra [''confidence_min'', ''max_probes_per_competency'', ''min_probe_seconds''] d
     then do {
       c \<leftarrow> req d ''confidence_min'' (\<lambda>j. checked (\<lambda>x. 0 \<le> x \<and> x \<le> 99 / 100) (px_float px j));
       p \<leftarrow> req d ''max_probes_per_competency'' (\<lambda>j. checked (\<lambda>n. 0 \<le> n) (px_int px j));
       s \<leftarrow> req d ''min_probe_seconds'' (\<lambda>j. checked (\<lambda>n. 0 \<le> n) (px_int px j));
       Some \<lparr>confidence_min = c, max_probes_per_competency = p, min_probe_seconds = s\<rparr>
     }
     else None)"

definition validate_flags :: "pydantic \<Rightarrow> json \<Rightarrow> flags_config option" where
  "validate_flags px = as_object (\<lambda>d.
     if no_extra [''cheat_flags_to_review'', ''drift_to_review''] d
     then do {
       c \<leftarrow> req d ''cheat_flags_to_review'' (\<lambda>j. checked (\<lambda>n. 1 \<le> n) (px_int px j));
       r \<leftarrow> req d ''drift_to_review'' (\<lambda>j. checked (\<lambda>n. 1 \<le> n) (px_int px j));
       Some \<lparr>cheat_flags_to_review = c, drift_to_review = r\<rparr>
     }
     else None)"

definition validate_timing :: "pydantic \<Rightarrow> json \<Rightarrow> timing_config option" where
  "validate_timing px = as_object (\<lambda>d.
     if no_extra [''candidate_timeout_minutes'', ''tick_seconds''] d
     then do {
       t \<leftarrow> req d ''candidate_timeout_minutes'' (\<lambda>j. checked (\<lambda>n. 1 \<le> n) (px_int px j));
       k \<leftarrow> req d ''tick_seconds'' (\<lambda>j. checked (\<lambda>n. 15 \<le> n) (px_int px j));
       Some \<lparr>candidate_timeout_minutes = t, tick_seconds = k\<rparr>
     }
     else None)"

definition validate_config :: "pydantic \<Rightarrow> json \<Rightarrow> orchestrator_config option" where
  "validate_config px = as_object (\<lambda>d.
     if no_extra [''adjudication'', ''flags'', ''timing'', ''state_schema_version''] d
     then do {
       a \<leftarrow> req d ''adjudication'' (validate_adjudication px);
       f \<leftarrow> req d ''flags'' (validate_flags px);
       t \<leftarrow> req d ''timing'' (validate_timing px);
       v \<leftarrow> req d ''state_schema_version'' (\<lambda>j. checked (\<lambda>n. 1 \<le> n) (px_int px j));
       Some \<lparr>adjudication = a, flags = f, timing = t, config_schema_version = v\<rparr>
     }
     else None)"

definition config_from_yaml :: "pydantic \<Rightarrow> json \<Rightarrow> config_error + orchestrator_config" where
  "config_from_yaml px raw =
     (case raw of
        JObj d \<Rightarrow>
          (case validate_config px raw of
             None \<Rightarrow> Inl OrchestratorConfigError
           | Some c \<Rightarrow> Inr c)
      | _ \<Rightarrow> Inl OrchestratorConfigError)"

text \<open>What a loaded configuration satisfies: the declared range of every threshold.\<close>

definition config_ok :: "orchestrator_config \<Rightarrow> bool" where
  "config_ok c \<longleftrightarrow>
     0 \<le> confidence_min (adjudication c) \<and> confidence_min (adjudication c) \<le> 99 / 100
     \<and> 0 \<le> max_probes_per_competency (adjudication c)
     \<and> 0 \<le> min_probe_seconds (adjudication c)
     \<and> 1 \<le> cheat_flags_to_review (flags c) \<and> 1 \<le> drift_to_review (flags c)
     \<and> 1 \<le> candidate_timeout_minutes (timing c) \<and> 15 \<le> tick_seconds (timing c)
     \<and> 1 \<le> config_schema_version c"

lemma config_from_yaml_in_range:
  "config_from_yaml px raw = Inr c \<Longrightarrow> config_ok c"
  by (auto simp: config_from_yaml_def validate_config_def validate_adjudication_def
      validate_flags_def validate_timing_def as_object_Some req_Some config_ok_def bind_eq_Some_conv
      split: json.splits option.splits if_splits)

text \<open>
  The converse for a document whose scalars are already typed: every configuration in
  range has a document that loads to it, so no threshold the contract allows is refused.
\<close>

definition config_payload :: "orchestrator_config \<Rightarrow> json" where
  "config_payload c = JObj [
     (''adjudication'', JObj [
        (''confidence_min'', JNum (confidence_min (adjudication c))),
        (''max_probes_per_competency'', JInt (max_probes_per_competency (adjudication c))),
        (''min_probe_seconds'', JInt (min_probe_seconds (adjudication c)))]),
     (''flags'', JObj [
        (''cheat_flags_to_review'', JInt (cheat_flags_to_review (flags c))),
        (''drift_to_review'', JInt (drift_to_review (flags c)))]),
     (''timing'', JObj [
        (''candidate_timeout_minutes'', JInt (candidate_timeout_minutes (timing c))),
        (''tick_seconds'', JInt (tick_seconds (timing c)))]),
     (''state_schema_version'', JInt (config_schema_version c))]"

lemma config_payload_loads:
  assumes "pydantic_ok px" and "config_ok c"
  shows "config_from_yaml px (config_payload c) = Inr c"
  using assms
  by (simp add: config_from_yaml_def config_payload_def validate_config_def
      validate_adjudication_def validate_flags_def validate_timing_def as_object_def no_extra_def
      req_def checked_def config_ok_def)

lemma config_rejects_unknown_key:
  assumes "(k, v) \<in> set d"
    and "k \<notin> {''adjudication'', ''flags'', ''timing'', ''state_schema_version''}"
  shows "config_from_yaml px (JObj d) = Inl OrchestratorConfigError"
proof -
  have "\<not> no_extra [''adjudication'', ''flags'', ''timing'', ''state_schema_version''] d"
    using assms by (force simp: no_extra_def list_all_iff)
  then show ?thesis
    by (simp add: config_from_yaml_def validate_config_def as_object_def)
qed

text \<open>The committed \<open>configs/orchestrator.yaml\<close>.\<close>

definition committed_config :: orchestrator_config where
  "committed_config = \<lparr>
     adjudication = \<lparr>confidence_min = 6 / 10, max_probes_per_competency = 2,
                     min_probe_seconds = 60\<rparr>,
     flags = \<lparr>cheat_flags_to_review = 1, drift_to_review = 3\<rparr>,
     timing = \<lparr>candidate_timeout_minutes = 10, tick_seconds = 15\<rparr>,
     config_schema_version = 1\<rparr>"

lemma committed_config_ok: "config_ok committed_config"
  by (simp add: config_ok_def committed_config_def)

end
