(* ===== verification/Uuid5.thy ===== *)
theory Uuid5
  imports TS_Prelude "HOL-Library.Word"
begin

text \<open>
  Python's \<open>uuid.uuid5\<close> (RFC 4122, version 5): SHA-1 over the namespace bytes and the
  name, the first sixteen bytes, then the version and variant bits. The orchestrator derives
  every command id from it, so it is modelled and not left abstract; no proof depends on
  its value at a point.
\<close>

unbundle bit_operations_syntax

type_synonym byte = "8 word"
type_synonym uuid = "128 word"

section \<open>SHA-1\<close>

definition be_bytes :: "nat \<Rightarrow> int \<Rightarrow> byte list" where
  "be_bytes k n = map (\<lambda>i. word_of_int (drop_bit (8 * (k - 1 - i)) n)) [0..<k]"

definition be_word :: "byte list \<Rightarrow> 32 word" where
  "be_word bs = fold (\<lambda>b w. push_bit 8 w OR ucast b) bs 0"

definition sha1_pad :: "byte list \<Rightarrow> byte list" where
  "sha1_pad m = m @ [0x80] @ replicate ((119 - length m mod 64) mod 64) 0
     @ be_bytes 8 (8 * int (length m))"

fun chunks :: "nat \<Rightarrow> 'a list \<Rightarrow> 'a list list" where
  "chunks n xs = (if n = 0 \<or> xs = [] then [] else take n xs # chunks n (drop n xs))"

declare chunks.simps [simp del]

text \<open>The message schedule, newest word first.\<close>

fun sha1_schedule :: "nat \<Rightarrow> 32 word list \<Rightarrow> 32 word list" where
  "sha1_schedule 0 ws = ws"
| "sha1_schedule (Suc k) ws =
     sha1_schedule k (word_rotl 1 (ws ! 2 XOR ws ! 7 XOR ws ! 13 XOR ws ! 15) # ws)"

fun sha1_rounds ::
  "nat \<Rightarrow> 32 word list \<Rightarrow> 32 word \<times> 32 word \<times> 32 word \<times> 32 word \<times> 32 word
    \<Rightarrow> 32 word \<times> 32 word \<times> 32 word \<times> 32 word \<times> 32 word" where
  "sha1_rounds t [] s = s"
| "sha1_rounds t (w # ws) (a, b, c, d, e) =
     (let (f, k) =
        (if t < 20 then ((b AND c) OR (NOT b AND d), 0x5A827999)
         else if t < 40 then (b XOR c XOR d, 0x6ED9EBA1)
         else if t < 60 then ((b AND c) OR (b AND d) OR (c AND d), 0x8F1BBCDC)
         else (b XOR c XOR d, 0xCA62C1D6))
      in sha1_rounds (Suc t) ws (word_rotl 5 a + f + e + k + w, a, word_rotl 30 b, c, d))"

definition sha1_block ::
  "byte list \<Rightarrow> 32 word \<times> 32 word \<times> 32 word \<times> 32 word \<times> 32 word
    \<Rightarrow> 32 word \<times> 32 word \<times> 32 word \<times> 32 word \<times> 32 word" where
  "sha1_block blk h =
     (let ws = rev (sha1_schedule 64 (rev (map be_word (chunks 4 blk))));
          (h0, h1, h2, h3, h4) = h;
          (a, b, c, d, e) = sha1_rounds 0 ws h
      in (h0 + a, h1 + b, h2 + c, h3 + d, h4 + e))"

definition sha1 :: "byte list \<Rightarrow> byte list" where
  "sha1 m =
     (let (h0, h1, h2, h3, h4) =
        fold sha1_block (chunks 64 (sha1_pad m))
          (0x67452301, 0xEFCDAB89, 0x98BADCFE, 0x10325476, 0xC3D2E1F0)
      in concat (map (\<lambda>h. be_bytes 4 (uint h)) [h0, h1, h2, h3, h4]))"

section \<open>UUIDs\<close>

definition uuid_bytes :: "uuid \<Rightarrow> byte list" where
  "uuid_bytes u = be_bytes 16 (uint u)"

definition uuid_of_bytes :: "byte list \<Rightarrow> uuid" where
  "uuid_of_bytes bs = fold (\<lambda>b w. push_bit 8 w OR ucast b) bs 0"

definition utf8_bytes :: "string \<Rightarrow> byte list" where
  "utf8_bytes s = map of_char s"

definition uuid5 :: "uuid \<Rightarrow> string \<Rightarrow> uuid" where
  "uuid5 ns name =
     (let u = uuid_of_bytes (take 16 (sha1 (uuid_bytes ns @ utf8_bytes name)))
      in ((u AND NOT (push_bit 48 0xC000) OR push_bit 48 0x8000)
            AND NOT (push_bit 64 0xF000)) OR push_bit 76 5)"

end
