(* ===== verification/Agent_Types.thy ===== *)
theory Agent_Types
  imports Pydantic Uuid5
begin

text \<open>
  The typed contracts of the two agents: \<open>app/backend/agents/interviewer.py\<close>
  (\<open>InterviewerMove\<close>, \<open>InterviewerOutput\<close>) and
  \<open>app/backend/agents/assessor.py\<close> (\<open>RedFlagType\<close>, \<open>AssessmentItem\<close>,
  \<open>RedFlagItem\<close>, \<open>AssessorOutput\<close>), with the bounds their field declarations
  enforce. Fields whose name two records share carry a prefix here.
\<close>

datatype interviewer_move =
    AskSeed
  | DepthProbe
  | AcknowledgeAndTransition
  | Redirect
  | CloseCompetency

record interviewer_output =
  utterance :: string
  internal_move_executed :: interviewer_move

datatype red_flag_type =
    FactuallyWrong
  | Contradiction
  | FabricatedTechnology
  | LikelyCheating
  | RedFlagOther

record assessment_item =
  rubric_node_id :: string
  level :: int
  confidence :: rat
  rationale_en :: string
  evidence_spans :: "string list"

record red_flag_item =
  flag_type :: red_flag_type
  flag_rubric_node_id :: "string option"
  description_en :: string
  evidence_span :: "string option"

record assessor_output =
  out_turn_id :: uuid
  out_session_id :: uuid
  competency_focus :: string
  assessments :: "assessment_item list"
  red_flag_items :: "red_flag_item list"
  out_needs_manual_review :: bool
  manual_review_reason_en :: "string option"

section \<open>Field bounds\<close>

definition interviewer_output_ok :: "interviewer_output \<Rightarrow> bool" where
  "interviewer_output_ok o1 \<longleftrightarrow> 1 \<le> py_len (utterance o1) \<and> py_len (utterance o1) \<le> 1200"

definition assessment_item_ok :: "assessment_item \<Rightarrow> bool" where
  "assessment_item_ok a \<longleftrightarrow>
     0 \<le> level a \<and> level a \<le> 5
     \<and> 0 \<le> confidence a \<and> confidence a \<le> 99 / 100
     \<and> 1 \<le> py_len (rationale_en a) \<and> py_len (rationale_en a) \<le> 600
     \<and> evidence_spans a \<noteq> [] \<and> list_all (\<lambda>s. 1 \<le> py_len s) (evidence_spans a)"

definition red_flag_item_ok :: "red_flag_item \<Rightarrow> bool" where
  "red_flag_item_ok r \<longleftrightarrow> 1 \<le> py_len (description_en r) \<and> py_len (description_en r) \<le> 400"

definition assessor_output_ok :: "assessor_output \<Rightarrow> bool" where
  "assessor_output_ok out \<longleftrightarrow>
     list_all assessment_item_ok (assessments out)
     \<and> list_all red_flag_item_ok (red_flag_items out)
     \<and> (case manual_review_reason_en out of None \<Rightarrow> True | Some s \<Rightarrow> py_len s \<le> 400)"

section \<open>Wire names\<close>

definition move_name :: "interviewer_move \<Rightarrow> string" where
  "move_name m = (case m of
     AskSeed \<Rightarrow> ''ask_seed''
   | DepthProbe \<Rightarrow> ''depth_probe''
   | AcknowledgeAndTransition \<Rightarrow> ''acknowledge_and_transition''
   | Redirect \<Rightarrow> ''redirect''
   | CloseCompetency \<Rightarrow> ''close_competency'')"

definition move_of_name :: "string \<Rightarrow> interviewer_move option" where
  "move_of_name s =
     (if s = ''ask_seed'' then Some AskSeed
      else if s = ''depth_probe'' then Some DepthProbe
      else if s = ''acknowledge_and_transition'' then Some AcknowledgeAndTransition
      else if s = ''redirect'' then Some Redirect
      else if s = ''close_competency'' then Some CloseCompetency
      else None)"

lemma move_of_name_inverse [simp]: "move_of_name (move_name m) = Some m"
  by (cases m) (simp_all add: move_name_def move_of_name_def)

definition red_flag_name :: "red_flag_type \<Rightarrow> string" where
  "red_flag_name t = (case t of
     FactuallyWrong \<Rightarrow> ''FACTUALLY_WRONG''
   | Contradiction \<Rightarrow> ''CONTRADICTION''
   | FabricatedTechnology \<Rightarrow> ''FABRICATED_TECHNOLOGY''
   | LikelyCheating \<Rightarrow> ''LIKELY_CHEATING''
   | RedFlagOther \<Rightarrow> ''RED_FLAG_OTHER'')"

definition red_flag_of_name :: "string \<Rightarrow> red_flag_type option" where
  "red_flag_of_name s =
     (if s = ''FACTUALLY_WRONG'' then Some FactuallyWrong
      else if s = ''CONTRADICTION'' then Some Contradiction
      else if s = ''FABRICATED_TECHNOLOGY'' then Some FabricatedTechnology
      else if s = ''LIKELY_CHEATING'' then Some LikelyCheating
      else if s = ''RED_FLAG_OTHER'' then Some RedFlagOther
      else None)"

lemma red_flag_of_name_inverse [simp]: "red_flag_of_name (red_flag_name t) = Some t"
  by (cases t) (simp_all add: red_flag_name_def red_flag_of_name_def)

end
