(* ===== verification/Orchestrator.thy ===== *)
theory Orchestrator
  imports Plan Orch_Config Agent_Types
begin

text \<open>
  \<open>app/backend/orchestrator/state_machine.py\<close>, the pure core of the interview: its
  state, events and commands, the adjudication table, and \<open>transition\<close>, one definition
  per function of the module in the order the module has them. A record update stands for
  \<open>_evolve\<close> (whose check for unknown field names the type checker performs here).
\<close>

section \<open>Vocabulary\<close>

definition opening_script_path :: string where
  "opening_script_path = ''prompts/shared/candidate-facing/opening.md''"

definition closing_script_path :: string where
  "closing_script_path = ''prompts/shared/candidate-facing/closing.md''"

definition cheat_red_flag :: red_flag_type where
  "cheat_red_flag = LikelyCheating"

datatype phase = Created | Intro | Tech | Qa | Close | Completed | Aborted

definition terminal_phases :: "phase set" where
  "terminal_phases = {Completed, Aborted}"

datatype awaiting = Interviewer | Candidate

datatype abort_reason = CandidateTimeout | CostCeiling | OperatorAborted | FatalAgentError

datatype decision_reason =
  PlanInvalidDecision | AgentFailure | Timeout | OperatorDecision | CompletedDecision

datatype verdict = Answered | Clarify | NoneVerdict

datatype adjudication_basis = Assessment | Pending | Failed | NotAssessable

datatype gap_marker =
  GapNotAssessable | GapBudgetExhausted | GapAssessmentFailed | LevelZero

datatype orchestrator_error = OrchestratorStateError | IndexError

section \<open>State\<close>

record coverage_cell =
  best_level :: "int option"
  best_confidence :: "rat option"
  latest_level :: "int option"
  latest_confidence :: "rat option"
  gap_not_assessable :: bool
  assessment_failed :: bool
  gap_budget_exhausted :: bool
  cell_needs_manual_review :: bool
  red_flags :: "red_flag_type list"

definition empty_cell :: coverage_cell where
  "empty_cell = \<lparr>best_level = None, best_confidence = None, latest_level = None,
     latest_confidence = None, gap_not_assessable = False, assessment_failed = False,
     gap_budget_exhausted = False, cell_needs_manual_review = False, red_flags = []\<rparr>"

record tech_state =
  competency_index :: int
  seed_index :: int
  probes_used :: int
  drift_count :: int
  competency_started_at :: "time option"
  coverage :: "(string, coverage_cell) dict"
  pending_assessments :: "uuid list"
  assessment_focus :: "(uuid, string) dict"

definition initial_tech :: tech_state where
  "initial_tech = \<lparr>competency_index = 0, seed_index = 0, probes_used = 0, drift_count = 0,
     competency_started_at = None, coverage = [], pending_assessments = [],
     assessment_focus = []\<rparr>"

section \<open>Commands\<close>

record run_interviewer =
  ri_turn_id :: uuid
  ri_move :: interviewer_move
  ri_competency_node_id :: "string option"
  ri_move_context :: "(string, json) dict"
  ri_retry :: bool

text \<open>
  \<open>PendingCommand\<close>, the union of the four outbound commands, and \<open>Command\<close>, which
  is that union and seven more variants. The scripted commands carry their script path.
\<close>

datatype pending_command =
    RunInterviewer run_interviewer
  | DeliverUtterance uuid string
  | EmitScriptedOpening uuid string
  | EmitScriptedClosing uuid string

datatype command =
    Outbound pending_command
  | RunAssessor uuid string
  | FlagTurnDegraded uuid string
  | RecordGap string gap_marker
  | RecordDecision decision_reason
  | EndSession
  | PersistState
  | ReissuePendingCommand pending_command

definition pending_turn_id :: "pending_command \<Rightarrow> uuid" where
  "pending_turn_id c = (case c of
     RunInterviewer r \<Rightarrow> ri_turn_id r
   | DeliverUtterance t _ \<Rightarrow> t
   | EmitScriptedOpening t _ \<Rightarrow> t
   | EmitScriptedClosing t _ \<Rightarrow> t)"

lemma pending_turn_id_simps [simp]:
  "pending_turn_id (RunInterviewer r) = ri_turn_id r"
  "pending_turn_id (DeliverUtterance t u) = t"
  "pending_turn_id (EmitScriptedOpening t p) = t"
  "pending_turn_id (EmitScriptedClosing t p) = t"
  by (simp_all add: pending_turn_id_def)

record session_state =
  state_schema_version :: int
  session_id :: uuid
  phase :: phase
  awaiting :: "awaiting option"
  last_issued_move :: "interviewer_move option"
  plan_input :: "(string, json) dict"
  plan :: "plan_snapshot option"
  tech :: tech_state
  abort_reason :: "abort_reason option"
  flagged_for_review :: bool
  needs_manual_review :: bool
  cheat_flag_count :: int
  interviewer_failure_streak :: int
  turn_seq :: int
  session_started_at :: "time option"
  qa_started_at :: "time option"
  last_candidate_activity :: "time option"
  pending_command :: "pending_command option"

section \<open>Events and results\<close>

datatype event =
    SessionStarted time
  | CandidateTurnReceived uuid string time
  | InterviewerReplyReady uuid interviewer_output time
  | InterviewerFailed uuid string time
  | AssessmentCompleted uuid assessor_output time
  | AssessmentFailed uuid string time
  | TimerTick time
  | Reconnected time
  | OperatorAbort abort_reason time

record adjudication =
  verdict :: verdict
  basis :: adjudication_basis
  adj_gap_marker :: "gap_marker option"

record transition_result =
  new_state :: session_state
  commands :: "command list"

section \<open>Small pure helpers\<close>

definition derive_turn_id :: "uuid \<Rightarrow> string \<Rightarrow> uuid" where
  "derive_turn_id sid path = uuid5 sid path"

definition turn_path :: "int \<Rightarrow> string" where
  "turn_path n = ''turn/'' @ show_int n"

definition require_plan :: "session_state \<Rightarrow> orchestrator_error + plan_snapshot" where
  "require_plan s = (case plan s of None \<Rightarrow> Inl OrchestratorStateError | Some p \<Rightarrow> Inr p)"

definition current_competency ::
  "session_state \<Rightarrow> orchestrator_error + planned_competency" where
  "current_competency s =
     and_then (require_plan s) (\<lambda>p.
       case competency p (competency_index (tech s)) of
         None \<Rightarrow> Inl OrchestratorStateError
       | Some c \<Rightarrow> Inr c)"

definition seconds_remaining :: "planned_competency \<Rightarrow> time option \<Rightarrow> time \<Rightarrow> rat" where
  "seconds_remaining c started_at now =
     (let budget = of_int (minutes c) * 60
      in case started_at of
           None \<Rightarrow> budget
         | Some s \<Rightarrow> budget - total_seconds (now - s))"

definition ignore :: "session_state \<Rightarrow> transition_result" where
  "ignore s = \<lparr>new_state = s, commands = []\<rparr>"

definition answers_pending_command :: "session_state \<Rightarrow> uuid \<Rightarrow> bool" where
  "answers_pending_command s t =
     (case pending_command s of None \<Rightarrow> False | Some c \<Rightarrow> pending_turn_id c = t)"

section \<open>Adjudication\<close>

definition cell_basis :: "coverage_cell option \<Rightarrow> adjudication_basis" where
  "cell_basis cell = (case cell of
     None \<Rightarrow> Pending
   | Some c \<Rightarrow>
       if best_level c \<noteq> None then Assessment
       else if gap_not_assessable c then NotAssessable
       else if assessment_failed c then Failed
       else Pending)"

definition answered :: "coverage_cell option \<Rightarrow> int \<Rightarrow> adjudication_config \<Rightarrow> bool" where
  "answered cell target th = (case cell of
     None \<Rightarrow> False
   | Some c \<Rightarrow>
       (case (best_level c, best_confidence c) of
          (Some l, Some q) \<Rightarrow> l \<ge> target \<and> q \<ge> confidence_min th
        | _ \<Rightarrow> False))"

definition adjudicate ::
  "coverage_cell option \<Rightarrow> int \<Rightarrow> int \<Rightarrow> rat \<Rightarrow> orchestrator_config \<Rightarrow> adjudication" where
  "adjudicate cell target_level' probes_used' seconds_remaining' config =
     (let thresholds = adjudication config; b = cell_basis cell
      in if answered cell target_level' thresholds
         then \<lparr>verdict = Answered, basis = b, adj_gap_marker = None\<rparr>
         else if (case cell of None \<Rightarrow> False | Some c \<Rightarrow> latest_level c = Some 0)
         then \<lparr>verdict = NoneVerdict, basis = b, adj_gap_marker = Some LevelZero\<rparr>
         else if probes_used' \<ge> max_probes_per_competency thresholds
              \<or> seconds_remaining' \<le> of_int (min_probe_seconds thresholds)
         then \<lparr>verdict = NoneVerdict, basis = b, adj_gap_marker = Some GapBudgetExhausted\<rparr>
         else if (case cell of None \<Rightarrow> False | Some c \<Rightarrow> gap_not_assessable c) \<and> probes_used' \<ge> 1
         then \<lparr>verdict = NoneVerdict, basis = b, adj_gap_marker = Some GapNotAssessable\<rparr>
         else \<lparr>verdict = Clarify, basis = b, adj_gap_marker = None\<rparr>)"

section \<open>\<open>move_context\<close> builders\<close>

text \<open>A read of \<open>seed_questions_uk[0]\<close>: Python raises on an empty tuple.\<close>

definition first_seed :: "planned_competency \<Rightarrow> orchestrator_error + string" where
  "first_seed c = (case seed_questions_uk c of [] \<Rightarrow> Inl IndexError | q # _ \<Rightarrow> Inr q)"

definition json_opt_str :: "string option \<Rightarrow> json" where
  "json_opt_str m = (case m of None \<Rightarrow> JNull | Some s \<Rightarrow> JStr s)"

definition first_seed_context ::
  "planned_competency \<Rightarrow> orchestrator_error + (string, json) dict" where
  "first_seed_context c =
     and_then (first_seed c) (\<lambda>q. Inr [
       (''competency_node_id'', JStr (node_id c)),
       (''seed_index'', JInt 0),
       (''seed_question_uk'', JStr q)])"

definition next_seed_context :: "planned_competency \<Rightarrow> int \<Rightarrow> string \<Rightarrow> (string, json) dict" where
  "next_seed_context c i seed = [
     (''competency_node_id'', JStr (node_id c)),
     (''seed_index'', JInt i),
     (''next_seed_question_uk'', JStr seed)]"

definition probe_context :: "planned_competency \<Rightarrow> int \<Rightarrow> (string, json) dict" where
  "probe_context c i = [
     (''competency_node_id'', JStr (node_id c)),
     (''probe_index'', JInt i),
     (''probe_branch_uk'', json_opt_str (probe_branch c i))]"

definition advance_context ::
  "planned_competency option \<Rightarrow> planned_competency
    \<Rightarrow> orchestrator_error + (string, json) dict" where
  "advance_context closing following =
     and_then (first_seed following) (\<lambda>q. Inr [
       (''closing_competency_node_id'', json_opt_str (map_option node_id closing)),
       (''competency_node_id'', JStr (node_id following)),
       (''next_competency_node_id'', JStr (node_id following)),
       (''next_competency_label_uk'', JStr (label_uk following)),
       (''seed_index'', JInt 0),
       (''next_seed_question_uk'', JStr q)])"

definition qa_context :: "plan_snapshot \<Rightarrow> (string, json) dict" where
  "qa_context p = [(''phase'', JStr ''qa''), (''qa_minutes'', JInt (qa_minutes p))]"

section \<open>State constructors\<close>

definition initial_state ::
  "uuid \<Rightarrow> (string, json) dict \<Rightarrow> orchestrator_config \<Rightarrow> session_state" where
  "initial_state sid input config = \<lparr>
     state_schema_version = config_schema_version config, session_id = sid,
     phase = Created, awaiting = None, last_issued_move = None, plan_input = input,
     plan = None, tech = initial_tech, abort_reason = None, flagged_for_review = False,
     needs_manual_review = False, cheat_flag_count = 0, interviewer_failure_streak = 0,
     turn_seq = 0, session_started_at = None, qa_started_at = None,
     last_candidate_activity = None, pending_command = None\<rparr>"

definition issue_interviewer ::
  "session_state \<Rightarrow> interviewer_move \<Rightarrow> string option \<Rightarrow> (string, json) dict
    \<Rightarrow> session_state \<times> pending_command" where
  "issue_interviewer s move node context =
     (let command = RunInterviewer
            \<lparr>ri_turn_id = derive_turn_id (session_id s) (turn_path (turn_seq s)),
             ri_move = move, ri_competency_node_id = node, ri_move_context = context,
             ri_retry = False\<rparr>
      in (s\<lparr>turn_seq := turn_seq s + 1,
            awaiting := Some Interviewer,
            last_issued_move := Some move,
            interviewer_failure_streak := 0,
            pending_command := Some command\<rparr>,
          command))"

definition abort ::
  "session_state \<Rightarrow> abort_reason \<Rightarrow> decision_reason \<Rightarrow> bool \<Rightarrow> transition_result" where
  "abort s reason decision persist = \<lparr>
     new_state = s\<lparr>phase := Aborted, abort_reason := Some reason, awaiting := None,
                   pending_command := None\<rparr>,
     commands = RecordDecision decision # (if persist then [PersistState] else [])\<rparr>"

definition enter_close :: "session_state \<Rightarrow> transition_result" where
  "enter_close s =
     (let closing = EmitScriptedClosing
            (derive_turn_id (session_id s) (turn_path (turn_seq s))) closing_script_path
      in \<lparr>new_state = s\<lparr>phase := Close, awaiting := Some Interviewer, last_issued_move := None,
                        turn_seq := turn_seq s + 1, pending_command := Some closing\<rparr>,
          commands = [Outbound closing, PersistState]\<rparr>)"

definition complete :: "session_state \<Rightarrow> transition_result" where
  "complete s = \<lparr>
     new_state = s\<lparr>phase := Completed, awaiting := None, pending_command := None\<rparr>,
     commands = [EndSession, RecordDecision CompletedDecision]\<rparr>"

definition enter_qa ::
  "session_state \<Rightarrow> time \<Rightarrow> orchestrator_error + session_state \<times> pending_command" where
  "enter_qa s now =
     and_then (require_plan s) (\<lambda>p. Inr
       (issue_interviewer (s\<lparr>phase := Qa, qa_started_at := Some now\<rparr>)
          AcknowledgeAndTransition None (qa_context p)))"

section \<open>Budget predicates\<close>

definition candidate_timed_out :: "session_state \<Rightarrow> time \<Rightarrow> orchestrator_config \<Rightarrow> bool" where
  "candidate_timed_out s now config = (case last_candidate_activity s of
     None \<Rightarrow> False
   | Some t \<Rightarrow> now - t > minutes_us (candidate_timeout_minutes (timing config)))"

definition session_budget_exhausted :: "session_state \<Rightarrow> time \<Rightarrow> bool" where
  "session_budget_exhausted s now = (case (session_started_at s, plan s) of
     (Some t, Some p) \<Rightarrow> now - t \<ge> minutes_us (session_max_minutes p)
   | _ \<Rightarrow> False)"

definition qa_budget_exhausted :: "session_state \<Rightarrow> time \<Rightarrow> bool" where
  "qa_budget_exhausted s now = (case (qa_started_at s, plan s) of
     (Some t, Some p) \<Rightarrow> now - t \<ge> minutes_us (qa_minutes p)
   | _ \<Rightarrow> True)"

section \<open>Coverage updates\<close>

definition record_item ::
  "(string, coverage_cell) dict \<Rightarrow> assessment_item \<Rightarrow> (string, coverage_cell) dict" where
  "record_item cov item =
     (let cell = dict_default cov (rubric_node_id item) empty_cell;
          take_it = (case best_level cell of None \<Rightarrow> True | Some b \<Rightarrow> level item \<ge> b)
      in dict_set cov (rubric_node_id item)
           (cell\<lparr>best_level := (if take_it then Some (level item) else best_level cell),
                 best_confidence :=
                   (if take_it then Some (confidence item) else best_confidence cell),
                 latest_level := Some (level item),
                 latest_confidence := Some (confidence item)\<rparr>))"

definition record_levels ::
  "(string, coverage_cell) dict \<Rightarrow> assessor_output \<Rightarrow> (string, coverage_cell) dict" where
  "record_levels cov out =
     (if assessments out = []
      then dict_set cov (competency_focus out)
             ((dict_default cov (competency_focus out) empty_cell)\<lparr>gap_not_assessable := True\<rparr>)
      else foldl record_item cov (assessments out))"

definition record_review_signals ::
  "(string, coverage_cell) dict \<Rightarrow> assessor_output \<Rightarrow> (string, coverage_cell) dict" where
  "record_review_signals cov out =
     (let cell = dict_default cov (competency_focus out) empty_cell
      in dict_set cov (competency_focus out)
           (cell\<lparr>cell_needs_manual_review :=
                   cell_needs_manual_review cell \<or> out_needs_manual_review out,
                 red_flags := red_flags cell @ map flag_type (red_flag_items out)\<rparr>))"

definition drop_pending :: "tech_state \<Rightarrow> uuid \<Rightarrow> tech_state" where
  "drop_pending t turn = t\<lparr>
     pending_assessments := filter (\<lambda>u. u \<noteq> turn) (pending_assessments t),
     assessment_focus := dict_pop (assessment_focus t) turn\<rparr>"

section \<open>Event handlers\<close>

definition on_session_started ::
  "pydantic \<Rightarrow> session_state \<Rightarrow> time \<Rightarrow> transition_result" where
  "on_session_started px s now =
     (case validate_plan px (JObj (plan_input s)) of
        Inl PlanInvalid \<Rightarrow> abort s OperatorAborted PlanInvalidDecision False
      | Inr p \<Rightarrow>
          (let opening = EmitScriptedOpening
                 (derive_turn_id (session_id s) (turn_path (turn_seq s))) opening_script_path
           in \<lparr>new_state = s\<lparr>phase := Intro, awaiting := Some Interviewer, plan := Some p,
                 session_started_at := Some now, last_candidate_activity := Some now,
                 turn_seq := turn_seq s + 1, pending_command := Some opening\<rparr>,
               commands = [Outbound opening, PersistState]\<rparr>))"

definition first_competency :: "plan_snapshot \<Rightarrow> orchestrator_error + planned_competency" where
  "first_competency p = (case competencies p of [] \<Rightarrow> Inl IndexError | c # _ \<Rightarrow> Inr c)"

definition on_intro_candidate_turn ::
  "session_state \<Rightarrow> time \<Rightarrow> orchestrator_error + transition_result" where
  "on_intro_candidate_turn s now =
     and_then (require_plan s) (\<lambda>p.
     and_then (first_competency p) (\<lambda>c.
     and_then (first_seed_context c) (\<lambda>context.
       let entered = s\<lparr>phase := Tech, last_candidate_activity := Some now,
             tech := (tech s)\<lparr>competency_index := 0, seed_index := 0, probes_used := 0,
                              competency_started_at := Some now\<rparr>\<rparr>;
           (s', command) = issue_interviewer entered AskSeed (Some (node_id c)) context
       in Inr \<lparr>new_state = s', commands = [Outbound command, PersistState]\<rparr>)))"

text \<open>
  Edge 7. \<open>schedule_assessor\<close>, \<open>turn_verdict\<close>, \<open>note_gap\<close>, \<open>gap_commands\<close>
  and \<open>leave_competency\<close> are the handler's steps; the handler composes them.
\<close>

definition schedule_assessor :: "tech_state \<Rightarrow> uuid \<Rightarrow> string \<Rightarrow> tech_state" where
  "schedule_assessor t turn node = t\<lparr>
     pending_assessments := pending_assessments t @ [turn],
     assessment_focus := dict_set (assessment_focus t) turn node\<rparr>"

definition turn_remaining :: "tech_state \<Rightarrow> planned_competency \<Rightarrow> time \<Rightarrow> rat" where
  "turn_remaining t c now = seconds_remaining c (competency_started_at t) now"

definition turn_verdict ::
  "tech_state \<Rightarrow> planned_competency \<Rightarrow> time \<Rightarrow> orchestrator_config \<Rightarrow> adjudication" where
  "turn_verdict t c now config =
     adjudicate (dict_get (coverage t) (node_id c)) (target_level c) (probes_used t)
       (turn_remaining t c now) config"

definition note_gap :: "tech_state \<Rightarrow> string \<Rightarrow> adjudication \<Rightarrow> tech_state" where
  "note_gap t node v =
     (if verdict v = NoneVerdict \<and> adj_gap_marker v = Some GapBudgetExhausted
      then t\<lparr>coverage := dict_set (coverage t) node
               ((dict_default (coverage t) node empty_cell)\<lparr>gap_budget_exhausted := True\<rparr>)\<rparr>
      else t)"

definition gap_commands :: "string \<Rightarrow> adjudication \<Rightarrow> command list" where
  "gap_commands node v =
     (if verdict v = NoneVerdict
      then [RecordGap node
              (case adj_gap_marker v of None \<Rightarrow> GapBudgetExhausted | Some m \<Rightarrow> m)]
      else [])"

definition leave_competency ::
  "session_state \<Rightarrow> tech_state \<Rightarrow> plan_snapshot \<Rightarrow> planned_competency \<Rightarrow> adjudication \<Rightarrow> time
    \<Rightarrow> orchestrator_error + session_state \<times> pending_command" where
  "leave_competency s t p c v now =
     (case competency p (competency_index t + 1) of
        None \<Rightarrow> enter_qa (s\<lparr>last_candidate_activity := Some now, tech := t\<rparr>) now
      | Some following \<Rightarrow>
          and_then (advance_context (Some c) following) (\<lambda>context. Inr
            (issue_interviewer
               (s\<lparr>last_candidate_activity := Some now,
                  tech := t\<lparr>competency_index := competency_index t + 1, seed_index := 0,
                            probes_used := 0, competency_started_at := Some now\<rparr>\<rparr>)
               (if verdict v = Answered then AcknowledgeAndTransition else CloseCompetency)
               (Some (node_id following)) context)))"

definition on_tech_candidate_turn ::
  "session_state \<Rightarrow> uuid \<Rightarrow> time \<Rightarrow> orchestrator_config
    \<Rightarrow> orchestrator_error + transition_result" where
  "on_tech_candidate_turn s turn now config =
     and_then (require_plan s) (\<lambda>p.
     and_then (current_competency s) (\<lambda>c.
       let assessor = RunAssessor turn (node_id c);
           t = schedule_assessor (tech s) turn (node_id c);
           remaining = turn_remaining t c now;
           v = turn_verdict t c now config;
           next_seed = seed_question c (seed_index t + 1)
       in if verdict v = Clarify
          then
            (let (s', interviewer) = issue_interviewer
                   (s\<lparr>last_candidate_activity := Some now,
                      tech := t\<lparr>probes_used := probes_used t + 1\<rparr>\<rparr>)
                   DepthProbe (Some (node_id c)) (probe_context c (probes_used t))
             in Inr \<lparr>new_state = s', commands = [assessor, Outbound interviewer, PersistState]\<rparr>)
          else if verdict v = Answered \<and> next_seed \<noteq> None \<and> remaining > 0
          then
            (let (s', interviewer) = issue_interviewer
                   (s\<lparr>last_candidate_activity := Some now,
                      tech := t\<lparr>seed_index := seed_index t + 1\<rparr>\<rparr>)
                   AcknowledgeAndTransition (Some (node_id c))
                   (next_seed_context c (seed_index t + 1) (the next_seed))
             in Inr \<lparr>new_state = s', commands = [assessor, Outbound interviewer, PersistState]\<rparr>)
          else
            and_then (leave_competency s (note_gap t (node_id c) v) p c v now)
              (\<lambda>(s', interviewer). Inr \<lparr>new_state = s',
                 commands = [assessor, Outbound interviewer] @ gap_commands (node_id c) v
                            @ [PersistState]\<rparr>)))"

definition on_qa_candidate_turn ::
  "session_state \<Rightarrow> time \<Rightarrow> orchestrator_error + transition_result" where
  "on_qa_candidate_turn s now =
     (let heard = s\<lparr>last_candidate_activity := Some now\<rparr>
      in if qa_budget_exhausted s now then Inr (enter_close heard)
         else and_then (require_plan s) (\<lambda>p.
           let (s', interviewer) =
                 issue_interviewer heard AcknowledgeAndTransition None (qa_context p)
           in Inr \<lparr>new_state = s', commands = [Outbound interviewer]\<rparr>))"

definition on_candidate_turn ::
  "session_state \<Rightarrow> uuid \<Rightarrow> time \<Rightarrow> orchestrator_config
    \<Rightarrow> orchestrator_error + transition_result" where
  "on_candidate_turn s turn now config = (case phase s of
     Intro \<Rightarrow> on_intro_candidate_turn s now
   | Tech \<Rightarrow> if awaiting s \<noteq> Some Candidate then Inr (ignore s)
             else on_tech_candidate_turn s turn now config
   | Qa \<Rightarrow> on_qa_candidate_turn s now
   | _ \<Rightarrow> Inr (ignore s))"

definition on_interviewer_reply ::
  "session_state \<Rightarrow> uuid \<Rightarrow> interviewer_output \<Rightarrow> orchestrator_config \<Rightarrow> transition_result" where
  "on_interviewer_reply s turn out config =
     (if \<not> answers_pending_command s turn then ignore s
      else if phase s = Close then complete s
      else if phase s \<notin> {Tech, Qa} \<or> awaiting s \<noteq> Some Interviewer then ignore s
      else
        (let drifted = (case last_issued_move s of
               None \<Rightarrow> False | Some m \<Rightarrow> internal_move_executed out \<noteq> m);
             t = (if drifted then (tech s)\<lparr>drift_count := drift_count (tech s) + 1\<rparr> else tech s);
             flagged = (if drifted
               then flagged_for_review s \<or> drift_count t \<ge> drift_to_review (flags config)
               else flagged_for_review s);
             delivery = DeliverUtterance turn (utterance out)
         in \<lparr>new_state = s\<lparr>awaiting := Some Candidate, interviewer_failure_streak := 0,
               tech := t, flagged_for_review := flagged, pending_command := Some delivery\<rparr>,
             commands = [Outbound delivery, PersistState]\<rparr>))"

definition on_interviewer_failed ::
  "session_state \<Rightarrow> uuid \<Rightarrow> string \<Rightarrow> transition_result" where
  "on_interviewer_failed s turn error_kind =
     (if \<not> answers_pending_command s turn then ignore s
      else if phase s \<notin> {Tech, Qa} \<or> awaiting s \<noteq> Some Interviewer then ignore s
      else
        (case pending_command s of
           Some (RunInterviewer pending) \<Rightarrow>
             if interviewer_failure_streak s \<ge> 1
             then abort s FatalAgentError AgentFailure True
             else
               (let retry = RunInterviewer (pending\<lparr>ri_retry := True\<rparr>)
                in \<lparr>new_state = s\<lparr>
                      interviewer_failure_streak := interviewer_failure_streak s + 1,
                      pending_command := Some retry\<rparr>,
                    commands = [Outbound retry, FlagTurnDegraded turn error_kind, PersistState]\<rparr>)
         | _ \<Rightarrow> ignore s))"

definition count_cheat_flags :: "assessor_output \<Rightarrow> int" where
  "count_cheat_flags out =
     int (length (filter (\<lambda>f. flag_type f = cheat_red_flag) (red_flag_items out)))"

definition on_assessment_completed ::
  "session_state \<Rightarrow> uuid \<Rightarrow> assessor_output \<Rightarrow> orchestrator_config \<Rightarrow> transition_result" where
  "on_assessment_completed s turn out config =
     (if turn \<notin> set (pending_assessments (tech s)) then ignore s
      else
        (let cov = record_review_signals (record_levels (coverage (tech s)) out) out;
             t = (drop_pending (tech s) turn)\<lparr>coverage := cov\<rparr>;
             cheat_total = cheat_flag_count s + count_cheat_flags out
         in \<lparr>new_state = s\<lparr>tech := t, cheat_flag_count := cheat_total,
               needs_manual_review := needs_manual_review s \<or> out_needs_manual_review out,
               flagged_for_review :=
                 flagged_for_review s \<or> cheat_total \<ge> cheat_flags_to_review (flags config)\<rparr>,
             commands = [PersistState]\<rparr>))"

definition on_assessment_failed :: "session_state \<Rightarrow> uuid \<Rightarrow> transition_result" where
  "on_assessment_failed s turn =
     (if turn \<notin> set (pending_assessments (tech s)) then ignore s
      else
        (let t = drop_pending (tech s) turn;
             t' = (case dict_get (assessment_focus (tech s)) turn of
                     None \<Rightarrow> t
                   | Some node \<Rightarrow> t\<lparr>coverage := dict_set (coverage t) node
                       ((dict_default (coverage t) node empty_cell)\<lparr>assessment_failed := True\<rparr>)\<rparr>)
         in \<lparr>new_state = s\<lparr>tech := t'\<rparr>, commands = [PersistState]\<rparr>))"

definition on_timer_tick ::
  "session_state \<Rightarrow> time \<Rightarrow> orchestrator_config \<Rightarrow> orchestrator_error + transition_result" where
  "on_timer_tick s now config =
     (if candidate_timed_out s now config then Inr (abort s CandidateTimeout Timeout True)
      else if phase s = Tech \<and> session_budget_exhausted s now
      then and_then (enter_qa s now) (\<lambda>(s', interviewer).
             Inr \<lparr>new_state = s', commands = [Outbound interviewer]\<rparr>)
      else if phase s = Qa \<and> session_budget_exhausted s now then Inr (enter_close s)
      else if phase s = Qa \<and> qa_budget_exhausted s now then Inr (enter_close s)
      else if phase s = Close then Inr (complete s)
      else Inr (ignore s))"

definition on_reconnected :: "session_state \<Rightarrow> transition_result" where
  "on_reconnected s = (case pending_command s of
     None \<Rightarrow> \<lparr>new_state = s, commands = [PersistState]\<rparr>
   | Some c \<Rightarrow> \<lparr>new_state = s, commands = [ReissuePendingCommand c, PersistState]\<rparr>)"

section \<open>The transition function\<close>

definition transition ::
  "pydantic \<Rightarrow> session_state \<Rightarrow> event \<Rightarrow> orchestrator_config
    \<Rightarrow> orchestrator_error + transition_result" where
  "transition px s e config =
     (if phase s \<in> terminal_phases then Inr (ignore s)
      else case e of
        AssessmentCompleted turn out _ \<Rightarrow> Inr (on_assessment_completed s turn out config)
      | AssessmentFailed turn _ _ \<Rightarrow> Inr (on_assessment_failed s turn)
      | OperatorAbort reason _ \<Rightarrow> Inr (abort s reason OperatorDecision True)
      | Reconnected _ \<Rightarrow> Inr (on_reconnected s)
      | TimerTick now \<Rightarrow> on_timer_tick s now config
      | SessionStarted now \<Rightarrow>
          if phase s = Created then Inr (on_session_started px s now) else Inr (ignore s)
      | CandidateTurnReceived turn _ now \<Rightarrow>
          if phase s = Created then Inr (ignore s) else on_candidate_turn s turn now config
      | InterviewerReplyReady turn out _ \<Rightarrow>
          if phase s = Created then Inr (ignore s)
          else Inr (on_interviewer_reply s turn out config)
      | InterviewerFailed turn kind _ \<Rightarrow>
          if phase s = Created then Inr (ignore s)
          else Inr (on_interviewer_failed s turn kind))"

end
