(* ===== verification/Orchestrator_Inv.thy ===== *)
theory Orchestrator_Inv
  imports Orchestrator
begin

text \<open>
  The state invariant of the interview machine, preserved by every handler, and the
  reachable states. \<open>core_inv\<close> is about the plan, the cursor and the coverage;
  \<open>link_inv\<close> ties the phase, whose move it is and the outstanding command together.
  The interface \<open>safe_machine\<close> is what the shell relies on: from a good state every
  event gives a good state and never an error.
\<close>

section \<open>The interface\<close>

locale safe_machine =
  fixes step :: "'s \<Rightarrow> 'e \<Rightarrow> 'err + 's \<times> 'c list"
    and inv :: "'s \<Rightarrow> bool"
    and good_event :: "'e \<Rightarrow> bool"
  assumes step_total: "inv s \<Longrightarrow> good_event e \<Longrightarrow> \<exists>s' cs. step s e = Inr (s', cs)"
    and step_inv: "inv s \<Longrightarrow> good_event e \<Longrightarrow> step s e = Inr (s', cs) \<Longrightarrow> inv s'"

text \<open>A run: the events of a session in order, collecting every command.\<close>

fun run_events ::
  "('s \<Rightarrow> 'e \<Rightarrow> 'err + 's \<times> 'c list) \<Rightarrow> 's \<Rightarrow> 'e list \<Rightarrow> 'err + 's \<times> 'c list" where
  "run_events step s [] = Inr (s, [])"
| "run_events step s (e # es) =
     and_then (step s e) (\<lambda>(s', cs).
     and_then (run_events step s' es) (\<lambda>(s'', ds). Inr (s'', cs @ ds)))"

context safe_machine
begin

lemma run_safe:
  "inv s \<Longrightarrow> \<forall>e \<in> set es. good_event e \<Longrightarrow>
     \<exists>s' cs. run_events step s es = Inr (s', cs) \<and> inv s'"
proof (induction es arbitrary: s)
  case Nil
  then show ?case by simp
next
  case (Cons e es)
  then obtain s' cs where step: "step s e = Inr (s', cs)" and "inv s'"
    using step_total step_inv by (metis list.set_intros(1))
  with Cons obtain s'' ds where "run_events step s' es = Inr (s'', ds)" "inv s''"
    by (metis list.set_intros(2))
  with step show ?case by simp
qed

lemma run_inv:
  assumes "inv s" "\<forall>e \<in> set es. good_event e" "run_events step s es = Inr (s', cs)"
  shows "inv s'"
  using run_safe [OF assms(1,2)] assms(3) by auto

text \<open>What holds of every step, and composes, holds of every run.\<close>

lemma run_relation:
  assumes refl: "\<And>s. P s [] s"
    and trans: "\<And>s cs s' ds s''. P s cs s' \<Longrightarrow> P s' ds s'' \<Longrightarrow> P s (cs @ ds) s''"
    and each: "\<And>s e s' cs. inv s \<Longrightarrow> good_event e \<Longrightarrow> step s e = Inr (s', cs) \<Longrightarrow> P s cs s'"
    and "inv s" "\<forall>e \<in> set es. good_event e" "run_events step s es = Inr (s', cs)"
  shows "P s cs s'"
  using assms(4-6)
proof (induction es arbitrary: s s' cs)
  case Nil
  then show ?case using refl by simp
next
  case (Cons e es)
  then obtain t ds ds' where one: "step s e = Inr (t, ds)"
    and rest: "run_events step t es = Inr (s', ds')" and cs: "cs = ds @ ds'"
    by (auto simp: and_then_eq_Inr)
  have "good_event e" using Cons.prems by simp
  with one Cons.prems have "P s ds t" and "inv t" using each step_inv by blast+
  moreover have "P t ds' s'" using Cons.IH rest \<open>inv t\<close> Cons.prems by simp
  ultimately show ?case unfolding cs by (intro trans)
qed

end

section \<open>The invariant\<close>

definition cell_inv :: "coverage_cell \<Rightarrow> bool" where
  "cell_inv c \<longleftrightarrow>
     (best_level c = None \<and> best_confidence c = None
      \<and> latest_level c = None \<and> latest_confidence c = None)
     \<or> (\<exists>b q l r. best_level c = Some b \<and> best_confidence c = Some q
          \<and> latest_level c = Some l \<and> latest_confidence c = Some r
          \<and> 0 \<le> l \<and> l \<le> b \<and> b \<le> 5
          \<and> 0 \<le> q \<and> q \<le> 99 / 100 \<and> 0 \<le> r \<and> r \<le> 99 / 100)"

definition coverage_inv :: "(string, coverage_cell) dict \<Rightarrow> bool" where
  "coverage_inv cov \<longleftrightarrow>
     (\<forall>node cell. dict_get cov node = Some cell \<longrightarrow> cell_inv cell) \<and> distinct (map fst cov)"

definition bookkeeping_inv :: "tech_state \<Rightarrow> bool" where
  "bookkeeping_inv t \<longleftrightarrow> set (pending_assessments t) = dict_keys (assessment_focus t)
     \<and> distinct (map fst (assessment_focus t))"

definition plan_inv :: "pydantic \<Rightarrow> session_state \<Rightarrow> bool" where
  "plan_inv px s \<longleftrightarrow>
     (plan s = None \<longrightarrow> phase s \<in> {Created, Aborted})
     \<and> (\<forall>p. plan s = Some p \<longrightarrow> plan_ok p \<and> validate_plan px (JObj (plan_input s)) = Inr p
          \<and> phase s \<noteq> Created \<and> session_started_at s \<noteq> None
          \<and> last_candidate_activity s \<noteq> None)
     \<and> (abort_reason s \<noteq> None \<longleftrightarrow> phase s = Aborted)
     \<and> (phase s = Qa \<longrightarrow> qa_started_at s \<noteq> None)"

definition cursor_inv :: "orchestrator_config \<Rightarrow> session_state \<Rightarrow> bool" where
  "cursor_inv config s \<longleftrightarrow>
     (phase s = Tech \<longrightarrow>
       (\<exists>p c. plan s = Some p \<and> competency p (competency_index (tech s)) = Some c
          \<and> 0 \<le> seed_index (tech s) \<and> seed_index (tech s) < int (length (seed_questions_uk c))
          \<and> 0 \<le> probes_used (tech s)
          \<and> probes_used (tech s) \<le> max_probes_per_competency (adjudication config)
          \<and> competency_started_at (tech s) \<noteq> None))"

definition core_inv :: "pydantic \<Rightarrow> orchestrator_config \<Rightarrow> session_state \<Rightarrow> bool" where
  "core_inv px config s \<longleftrightarrow>
     plan_inv px s \<and> cursor_inv config s \<and> bookkeeping_inv (tech s)
     \<and> coverage_inv (coverage (tech s)) \<and> 0 \<le> turn_seq s
     \<and> state_schema_version s = config_schema_version config"

definition link_inv :: "session_state \<Rightarrow> bool" where
  "link_inv s \<longleftrightarrow>
     (case pending_command s of
        None \<Rightarrow> awaiting s = None \<and> phase s \<in> {Created, Completed, Aborted}
          \<and> (phase s = Created \<longrightarrow> turn_seq s = 0 \<and> interviewer_failure_streak s = 0)
      | Some c \<Rightarrow>
          1 \<le> turn_seq s
          \<and> pending_turn_id c = derive_turn_id (session_id s) (turn_path (turn_seq s - 1))
          \<and> (case c of
               RunInterviewer r \<Rightarrow> phase s \<in> {Tech, Qa} \<and> awaiting s = Some Interviewer
                 \<and> last_issued_move s = Some (ri_move r)
                 \<and> interviewer_failure_streak s = (if ri_retry r then 1 else 0)
             | DeliverUtterance _ _ \<Rightarrow> phase s \<in> {Tech, Qa} \<and> awaiting s = Some Candidate
                 \<and> last_issued_move s \<noteq> None \<and> interviewer_failure_streak s = 0
             | EmitScriptedOpening _ _ \<Rightarrow> phase s = Intro \<and> awaiting s = Some Interviewer
             | EmitScriptedClosing _ _ \<Rightarrow> phase s = Close \<and> awaiting s = Some Interviewer))"

definition machine_inv :: "pydantic \<Rightarrow> orchestrator_config \<Rightarrow> session_state \<Rightarrow> bool" where
  "machine_inv px config s \<longleftrightarrow> core_inv px config s \<and> link_inv s"

text \<open>Events as the wrappers deliver them: outputs that passed their own models.\<close>

definition event_ok :: "event \<Rightarrow> bool" where
  "event_ok e = (case e of
     AssessmentCompleted _ out _ \<Rightarrow> assessor_output_ok out
   | InterviewerReplyReady _ out _ \<Rightarrow> interviewer_output_ok out
   | _ \<Rightarrow> True)"

section \<open>Coverage\<close>

lemma cell_inv_empty [simp]: "cell_inv empty_cell"
  by (simp add: cell_inv_def empty_cell_def)

lemma cell_inv_markers [simp]:
  "cell_inv (c\<lparr>gap_not_assessable := b\<rparr>) = cell_inv c"
  "cell_inv (c\<lparr>assessment_failed := b\<rparr>) = cell_inv c"
  "cell_inv (c\<lparr>gap_budget_exhausted := b\<rparr>) = cell_inv c"
  "cell_inv (c\<lparr>cell_needs_manual_review := b, red_flags := fs\<rparr>) = cell_inv c"
  by (simp_all add: cell_inv_def)

lemma coverage_inv_default:
  "coverage_inv cov \<Longrightarrow> cell_inv (dict_default cov node empty_cell)"
  by (auto simp: coverage_inv_def dict_default_def split: option.splits)

lemma coverage_inv_set:
  "coverage_inv cov \<Longrightarrow> cell_inv cell \<Longrightarrow> coverage_inv (dict_set cov node cell)"
  unfolding coverage_inv_def
  using py_dict.put_preserves [of cov "\<lambda>_. cell_inv"] distinct_dict_set [of cov node cell] by blast

lemma coverage_inv_update:
  assumes "coverage_inv cov" and "\<And>c. cell_inv c \<Longrightarrow> cell_inv (f c)"
  shows "coverage_inv (dict_set cov node (f (dict_default cov node empty_cell)))"
  using assms by (intro coverage_inv_set) (auto intro: coverage_inv_default)

lemma coverage_inv_Nil [simp]: "coverage_inv []"
  by (simp add: coverage_inv_def)

lemma record_item_inv:
  assumes "coverage_inv cov" and "assessment_item_ok item"
  shows "coverage_inv (record_item cov item)"
proof -
  let ?c = "dict_default cov (rubric_node_id item) empty_cell"
  from assms(1) have "cell_inv ?c" by (rule coverage_inv_default)
  then consider "best_level ?c = None"
    | b q where "best_level ?c = Some b" "best_confidence ?c = Some q"
        "0 \<le> b" "b \<le> 5" "0 \<le> q" "q \<le> 99 / 100"
    by (auto simp: cell_inv_def)
  then show ?thesis
    unfolding record_item_def Let_def
    by cases (rule coverage_inv_set [OF assms(1)],
        use assms(2) in \<open>simp add: cell_inv_def assessment_item_ok_def\<close>)+
qed

lemma record_items_inv:
  "coverage_inv cov \<Longrightarrow> list_all assessment_item_ok items \<Longrightarrow>
     coverage_inv (foldl record_item cov items)"
  by (induction items arbitrary: cov) (auto intro: record_item_inv)

lemma record_levels_inv:
  "coverage_inv cov \<Longrightarrow> assessor_output_ok out \<Longrightarrow> coverage_inv (record_levels cov out)"
  by (auto simp: record_levels_def assessor_output_ok_def
      intro: record_items_inv coverage_inv_update)

lemma record_review_signals_inv:
  "coverage_inv cov \<Longrightarrow> coverage_inv (record_review_signals cov out)"
  unfolding record_review_signals_def Let_def
  by (intro coverage_inv_set) (auto intro: coverage_inv_default)

section \<open>The invariant under each constructor of states\<close>

lemmas core_defs = core_inv_def plan_inv_def cursor_inv_def

text \<open>What the core part of the invariant does not look at.\<close>

lemma core_inv_frame [simp]:
  "core_inv px config (s\<lparr>awaiting := a\<rparr>) = core_inv px config s"
  "core_inv px config (s\<lparr>last_issued_move := m\<rparr>) = core_inv px config s"
  "core_inv px config (s\<lparr>interviewer_failure_streak := n\<rparr>) = core_inv px config s"
  "core_inv px config (s\<lparr>pending_command := c\<rparr>) = core_inv px config s"
  "core_inv px config (s\<lparr>flagged_for_review := f\<rparr>) = core_inv px config s"
  "core_inv px config (s\<lparr>needs_manual_review := f\<rparr>) = core_inv px config s"
  "core_inv px config (s\<lparr>cheat_flag_count := n\<rparr>) = core_inv px config s"
  by (simp_all add: core_defs)

lemma core_inv_bump: "core_inv px config s \<Longrightarrow> core_inv px config (s\<lparr>turn_seq := turn_seq s + 1\<rparr>)"
  by (simp add: core_defs)

lemma core_inv_heard:
  "core_inv px config s \<Longrightarrow> core_inv px config (s\<lparr>last_candidate_activity := Some now\<rparr>)"
  by (simp add: core_defs)

lemma core_inv_turn_seq: "core_inv px config s \<Longrightarrow> 0 \<le> turn_seq s"
  by (simp add: core_inv_def)

lemma core_inv_plan:
  assumes "core_inv px config s" and "phase s \<notin> {Created, Aborted}"
  obtains p where "plan s = Some p" and "plan_ok p"
  using assms by (cases "plan s") (auto simp: core_defs)

lemma initial_state_inv: "machine_inv px config (initial_state sid input config)"
  by (simp add: machine_inv_def link_inv_def core_defs initial_state_def initial_tech_def
      bookkeeping_inv_def)

lemma issue_interviewer_inv:
  assumes "core_inv px config s" and "phase s \<in> {Tech, Qa}"
    and "issue_interviewer s move node context = (s', c)"
  shows "machine_inv px config s'"
proof -
  from assms(3) have s': "s' = s\<lparr>turn_seq := turn_seq s + 1, awaiting := Some Interviewer,
      last_issued_move := Some move, interviewer_failure_streak := 0, pending_command := Some c\<rparr>"
    and c: "c = RunInterviewer \<lparr>ri_turn_id = derive_turn_id (session_id s) (turn_path (turn_seq s)),
      ri_move = move, ri_competency_node_id = node, ri_move_context = context, ri_retry = False\<rparr>"
    by (auto simp: issue_interviewer_def Let_def)
  have "core_inv px config s'"
    using core_inv_bump [OF assms(1)] by (simp add: s')
  moreover have "link_inv s'"
    using assms(1,2) by (simp add: s' c link_inv_def core_inv_turn_seq)
  ultimately show ?thesis by (simp add: machine_inv_def)
qed

lemma abort_inv:
  assumes "core_inv px config s"
  shows "machine_inv px config (new_state (abort s reason decision persist))"
  using assms by (simp add: abort_def machine_inv_def link_inv_def core_defs)

lemma enter_close_inv:
  assumes "core_inv px config s" and "phase s = Qa"
  shows "machine_inv px config (new_state (enter_close s))"
  using assms
  by (simp add: enter_close_def Let_def machine_inv_def link_inv_def core_defs)

lemma complete_inv:
  assumes "core_inv px config s" and "phase s = Close"
  shows "machine_inv px config (new_state (complete s))"
  using assms
  by (simp add: complete_def machine_inv_def link_inv_def core_defs)

lemma enter_qa_total:
  assumes "core_inv px config s" and "phase s = Tech"
  shows "\<exists>s' c. enter_qa s now = Inr (s', c) \<and> machine_inv px config s' \<and> phase s' = Qa"
proof -
  obtain p where p: "plan s = Some p"
    using core_inv_plan [OF assms(1)] assms(2) by auto
  let ?s = "s\<lparr>phase := Qa, qa_started_at := Some now\<rparr>"
  have core: "core_inv px config ?s"
    using assms p by (simp add: core_defs)
  obtain s' c where iss: "issue_interviewer ?s AcknowledgeAndTransition None (qa_context p) = (s', c)"
    by (cases "issue_interviewer ?s AcknowledgeAndTransition None (qa_context p)")
  moreover have "machine_inv px config s'"
    using issue_interviewer_inv [OF core _ iss] by simp
  moreover have "phase s' = Qa"
    using iss by (auto simp: issue_interviewer_def Let_def)
  ultimately show ?thesis
    using p by (simp add: enter_qa_def require_plan_def)
qed

section \<open>Every handler keeps the invariant and returns\<close>

text \<open>A handler's outcome is good: it returned, and its state satisfies the invariant.\<close>

definition good_outcome ::
  "pydantic \<Rightarrow> orchestrator_config \<Rightarrow> orchestrator_error + transition_result \<Rightarrow> bool" where
  "good_outcome px config r = (case r of Inl _ \<Rightarrow> False | Inr t \<Rightarrow> machine_inv px config (new_state t))"

lemma good_outcome_Inr [simp]:
  "good_outcome px config (Inr t) = machine_inv px config (new_state t)"
  by (simp add: good_outcome_def)

lemma ignore_state [simp]: "new_state (ignore s) = s" "commands (ignore s) = []"
  by (simp_all add: ignore_def)

lemma machine_inv_core: "machine_inv px config s \<Longrightarrow> core_inv px config s"
  by (simp add: machine_inv_def)

lemma on_session_started_inv [inv_intros]:
  assumes "machine_inv px config s" and "phase s = Created"
  shows "machine_inv px config (new_state (on_session_started px s now))"
proof (cases "validate_plan px (JObj (plan_input s))")
  case (Inl e)
  then show ?thesis
    using abort_inv [OF machine_inv_core [OF assms(1)]]
    by (cases e) (simp add: on_session_started_def)
next
  case (Inr p)
  moreover have "link_inv s" "core_inv px config s"
    using assms(1) by (simp_all add: machine_inv_def)
  moreover have "pending_command s = None"
    using \<open>link_inv s\<close> assms(2)
    by (cases "pending_command s") (auto simp: link_inv_def split: pending_command.splits)
  ultimately show ?thesis
    using assms(2) validate_plan_sound [OF Inr]
    by (simp add: on_session_started_def Let_def machine_inv_def link_inv_def core_defs)
qed

lemma core_inv_enter_tech:
  assumes "core_inv px config s" and "phase s = Intro" and "config_ok config"
    and "plan s = Some p" and "competencies p = c # cs"
  shows "core_inv px config (s\<lparr>phase := Tech, last_candidate_activity := Some now,
           tech := (tech s)\<lparr>competency_index := 0, seed_index := 0, probes_used := 0,
                            competency_started_at := Some now\<rparr>\<rparr>)"
proof -
  have "competency_ok c"
    using assms by (auto simp: core_defs plan_ok_def)
  then have "0 < length (seed_questions_uk c)" by (simp add: competency_ok_def)
  moreover have "competency p 0 = Some c"
    using assms(5) by (simp add: competency_def)
  ultimately show ?thesis
    using assms by (simp add: core_defs bookkeeping_inv_def config_ok_def)
qed

lemma first_seed_ok: "competency_ok c \<Longrightarrow> \<exists>q. first_seed c = Inr q"
  by (cases "seed_questions_uk c") (simp_all add: first_seed_def competency_ok_def)

lemma on_intro_candidate_turn_inv [inv_intros]:
  assumes "machine_inv px config s" and "phase s = Intro" and "config_ok config"
  shows "good_outcome px config (on_intro_candidate_turn s now)"
proof -
  have core: "core_inv px config s" using assms(1) by (rule machine_inv_core)
  then obtain p where p: "plan s = Some p" "plan_ok p"
    using assms(2) by (auto elim: core_inv_plan)
  then obtain c cs where c: "competencies p = c # cs" "competency_ok c"
    by (cases "competencies p") (auto simp: plan_ok_def)
  then obtain q where q: "first_seed c = Inr q" using first_seed_ok by blast
  let ?s = "s\<lparr>phase := Tech, last_candidate_activity := Some now,
      tech := (tech s)\<lparr>competency_index := 0, seed_index := 0, probes_used := 0,
                       competency_started_at := Some now\<rparr>\<rparr>"
  have "core_inv px config ?s"
    by (rule core_inv_enter_tech [OF core assms(2,3) p(1) c(1)])
  then have "machine_inv px config s'"
    if "issue_interviewer ?s move node ctx = (s', cmd)" for move node ctx s' cmd
    using that issue_interviewer_inv by fastforce
  with p c q show ?thesis
    by (simp add: on_intro_candidate_turn_def require_plan_def first_competency_def
        first_seed_context_def Let_def split: prod.splits)
qed

text \<open>Edge 7, step by step.\<close>

lemma bookkeeping_schedule [simp]:
  "bookkeeping_inv t \<Longrightarrow> bookkeeping_inv (schedule_assessor t turn node)"
  by (simp add: bookkeeping_inv_def schedule_assessor_def dict_simps)

lemma schedule_assessor_simps [simp]:
  "competency_index (schedule_assessor t turn node) = competency_index t"
  "seed_index (schedule_assessor t turn node) = seed_index t"
  "probes_used (schedule_assessor t turn node) = probes_used t"
  "drift_count (schedule_assessor t turn node) = drift_count t"
  "competency_started_at (schedule_assessor t turn node) = competency_started_at t"
  "coverage (schedule_assessor t turn node) = coverage t"
  by (simp_all add: schedule_assessor_def)

lemma note_gap_simps [simp]:
  "competency_index (note_gap t node v) = competency_index t"
  "seed_index (note_gap t node v) = seed_index t"
  "probes_used (note_gap t node v) = probes_used t"
  "drift_count (note_gap t node v) = drift_count t"
  "competency_started_at (note_gap t node v) = competency_started_at t"
  "pending_assessments (note_gap t node v) = pending_assessments t"
  "assessment_focus (note_gap t node v) = assessment_focus t"
  by (simp_all add: note_gap_def)

lemma note_gap_inv:
  "bookkeeping_inv t \<Longrightarrow> bookkeeping_inv (note_gap t node v)"
  "coverage_inv (coverage t) \<Longrightarrow> coverage_inv (coverage (note_gap t node v))"
  by (simp add: bookkeeping_inv_def)
    (auto simp: note_gap_def intro: coverage_inv_update)

lemma core_inv_tech:
  assumes "core_inv px config s" and "bookkeeping_inv t" and "coverage_inv (coverage t)"
    and "cursor_inv config (s\<lparr>tech := t\<rparr>)"
  shows "core_inv px config (s\<lparr>last_candidate_activity := Some now, tech := t\<rparr>)"
  using assms by (simp add: core_defs)

lemma adjudicate_clarify_budget:
  "verdict (adjudicate cell target probes secs config) = Clarify \<Longrightarrow>
     probes < max_probes_per_competency (adjudication config)"
  by (auto simp: adjudicate_def Let_def split: if_splits)

lemma leave_competency_inv:
  assumes core: "core_inv px config s" and ph: "phase s = Tech" and cfg: "config_ok config"
    and p: "plan s = Some p" and c: "competency p (competency_index t) = Some c"
    and t: "bookkeeping_inv t" "coverage_inv (coverage t)"
    and cur: "cursor_inv config (s\<lparr>tech := t\<rparr>)"
  shows "\<exists>s' cmd. leave_competency s t p c v now = Inr (s', cmd) \<and> machine_inv px config s'"
proof (cases "competency p (competency_index t + 1)")
  case None
  have "core_inv px config (s\<lparr>last_candidate_activity := Some now, tech := t\<rparr>)"
    by (rule core_inv_tech [OF core t cur])
  from enter_qa_total [OF this] ph None show ?thesis
    by (fastforce simp: leave_competency_def)
next
  case (Some following)
  let ?t = "t\<lparr>competency_index := competency_index t + 1, seed_index := 0, probes_used := 0,
              competency_started_at := Some now\<rparr>"
  have "plan_ok p" using core p by (simp add: core_defs)
  then have fok: "competency_ok following" using Some by (rule plan_ok_competency)
  then obtain q where q: "first_seed following = Inr q" using first_seed_ok by blast
  have "cursor_inv config (s\<lparr>tech := ?t\<rparr>)"
    using p Some fok cfg by (simp add: cursor_inv_def competency_ok_def config_ok_def)
  then have "core_inv px config (s\<lparr>last_candidate_activity := Some now, tech := ?t\<rparr>)"
    using t by (intro core_inv_tech [OF core]) (simp_all add: bookkeeping_inv_def)
  then have inv: "machine_inv px config s'"
    if "issue_interviewer (s\<lparr>last_candidate_activity := Some now, tech := ?t\<rparr>) move node ctx
          = (s', cmd)" for move node ctx s' cmd
    using that ph issue_interviewer_inv by fastforce
  obtain ctx where ctx: "advance_context (Some c) following = Inr ctx"
    using q by (simp add: advance_context_def)
  obtain s' cmd where "issue_interviewer (s\<lparr>last_candidate_activity := Some now, tech := ?t\<rparr>)
      (if verdict v = Answered then AcknowledgeAndTransition else CloseCompetency)
      (Some (node_id following)) ctx = (s', cmd)"
    by (rule prod.exhaust)
  moreover from this have "machine_inv px config s'" by (rule inv)
  ultimately show ?thesis
    unfolding leave_competency_def Some option.case ctx and_then_simps by blast
qed

lemma on_tech_candidate_turn_unfold:
  assumes "plan s = Some p" and "competency p (competency_index (tech s)) = Some c"
    and "t = schedule_assessor (tech s) turn (node_id c)" and "v = turn_verdict t c now config"
  shows "on_tech_candidate_turn s turn now config =
    (let issue = (\<lambda>t' move context.
           let (s', cmd) = issue_interviewer (s\<lparr>last_candidate_activity := Some now, tech := t'\<rparr>)
                 move (Some (node_id c)) context
           in Inr \<lparr>new_state = s', commands = [RunAssessor turn (node_id c), Outbound cmd, PersistState]\<rparr>)
     in if verdict v = Clarify
        then issue (t\<lparr>probes_used := probes_used t + 1\<rparr>) DepthProbe
               (probe_context c (probes_used t))
        else if verdict v = Answered \<and> seed_question c (seed_index t + 1) \<noteq> None
                \<and> turn_remaining t c now > 0
        then issue (t\<lparr>seed_index := seed_index t + 1\<rparr>) AcknowledgeAndTransition
               (next_seed_context c (seed_index t + 1) (the (seed_question c (seed_index t + 1))))
        else and_then (leave_competency s (note_gap t (node_id c) v) p c v now)
               (\<lambda>(s', cmd). Inr \<lparr>new_state = s',
                  commands = [RunAssessor turn (node_id c), Outbound cmd]
                    @ gap_commands (node_id c) v @ [PersistState]\<rparr>))"
  by (simp only: assms on_tech_candidate_turn_def require_plan_def current_competency_def
      option.case and_then_simps Let_def)

lemma cursor_inv_same_competency:
  assumes "plan s = Some p" and "competency p (competency_index (tech s)) = Some c"
    and "competency_index t = competency_index (tech s)"
    and "0 \<le> seed_index t" "seed_index t < int (length (seed_questions_uk c))"
    and "0 \<le> probes_used t" "probes_used t \<le> max_probes_per_competency (adjudication config)"
    and "competency_started_at t \<noteq> None"
  shows "cursor_inv config (s\<lparr>tech := t\<rparr>)"
  using assms by (simp add: cursor_inv_def)

lemma issue_in_tech_good:
  assumes "core_inv px config s" "phase s = Tech"
    and "bookkeeping_inv t" "coverage_inv (coverage t)" "cursor_inv config (s\<lparr>tech := t\<rparr>)"
  shows "good_outcome px config
    (case issue_interviewer (s\<lparr>last_candidate_activity := Some now, tech := t\<rparr>) move node ctx of
       (s', cmd) \<Rightarrow> Inr \<lparr>new_state = s', commands = f cmd\<rparr>)"
  using issue_interviewer_inv [OF core_inv_tech [OF assms(1,3-5)]] assms(2)
  by (cases "issue_interviewer (s\<lparr>last_candidate_activity := Some now, tech := t\<rparr>) move node ctx")
    simp

lemma on_tech_candidate_turn_inv [inv_intros]:
  assumes inv: "machine_inv px config s" and ph: "phase s = Tech" and cfg: "config_ok config"
  shows "good_outcome px config (on_tech_candidate_turn s turn now config)"
proof -
  have core: "core_inv px config s" using inv by (rule machine_inv_core)
  then obtain p c where p: "plan s = Some p"
    and c: "competency p (competency_index (tech s)) = Some c"
    and seed: "0 \<le> seed_index (tech s)" "seed_index (tech s) < int (length (seed_questions_uk c))"
    and probes: "0 \<le> probes_used (tech s)"
      "probes_used (tech s) \<le> max_probes_per_competency (adjudication config)"
    and started: "competency_started_at (tech s) \<noteq> None"
    using ph by (auto simp: core_inv_def cursor_inv_def)
  define t where "t = schedule_assessor (tech s) turn (node_id c)"
  define v where "v = turn_verdict t c now config"
  note unf = on_tech_candidate_turn_unfold [OF p c t_def v_def]
  have t: "bookkeeping_inv t" "coverage_inv (coverage t)"
    using core by (simp_all add: t_def core_inv_def)
  note cur = cursor_inv_same_competency [OF p c]
  note issue = issue_in_tech_good [OF core ph]
  consider (clarify) "verdict v = Clarify"
    | (more) "verdict v = Answered" "seed_question c (seed_index t + 1) \<noteq> None"
        "turn_remaining t c now > 0"
    | (leave) "verdict v \<noteq> Clarify" "\<not> (verdict v = Answered
        \<and> seed_question c (seed_index t + 1) \<noteq> None \<and> turn_remaining t c now > 0)"
    by blast
  then show ?thesis
  proof cases
    case clarify
    then have "probes_used t < max_probes_per_competency (adjudication config)"
      by (simp add: v_def turn_verdict_def adjudicate_clarify_budget)
    then have "cursor_inv config (s\<lparr>tech := t\<lparr>probes_used := probes_used t + 1\<rparr>\<rparr>)"
      using seed probes started by (intro cur) (simp_all add: t_def)
    with clarify t show ?thesis
      unfolding unf Let_def by (simp add: issue bookkeeping_inv_def)
  next
    case more
    then have "cursor_inv config (s\<lparr>tech := t\<lparr>seed_index := seed_index t + 1\<rparr>\<rparr>)"
      using seed probes started
      by (intro cur) (auto simp: t_def seed_question_def split: if_splits)
    with more t show ?thesis
      unfolding unf Let_def by (simp add: issue bookkeeping_inv_def)
  next
    case leave
    let ?t = "note_gap t (node_id c) v"
    have "cursor_inv config (s\<lparr>tech := ?t\<rparr>)"
      using seed probes started by (intro cur) (simp_all add: t_def)
    moreover have "competency p (competency_index ?t) = Some c"
      using c by (simp add: t_def)
    ultimately obtain s' cmd
      where "leave_competency s ?t p c v now = Inr (s', cmd)" "machine_inv px config s'"
      using leave_competency_inv [OF core ph cfg p _ note_gap_inv(1) [OF t(1)] note_gap_inv(2) [OF t(2)]]
      by blast
    with leave show ?thesis unfolding unf Let_def by auto
  qed
qed

text \<open>The other handlers.\<close>

lemma on_qa_candidate_turn_inv [inv_intros]:
  assumes inv: "machine_inv px config s" and ph: "phase s = Qa"
  shows "good_outcome px config (on_qa_candidate_turn s now)"
proof (cases "qa_budget_exhausted s now")
  case True
  with inv ph show ?thesis
    by (simp add: on_qa_candidate_turn_def Let_def enter_close_inv core_inv_heard machine_inv_core)
next
  case False
  have core: "core_inv px config (s\<lparr>last_candidate_activity := Some now\<rparr>)"
    using machine_inv_core [OF inv] by (rule core_inv_heard)
  obtain p where p: "plan s = Some p"
    using core_inv_plan [OF machine_inv_core [OF inv]] ph by auto
  obtain s' cmd where iss: "issue_interviewer (s\<lparr>last_candidate_activity := Some now\<rparr>)
      AcknowledgeAndTransition None (qa_context p) = (s', cmd)"
    by (rule prod.exhaust)
  then have "machine_inv px config s'"
    using issue_interviewer_inv [OF core] ph by simp
  with False p iss show ?thesis
    by (simp add: on_qa_candidate_turn_def Let_def require_plan_def)
qed

lemma on_candidate_turn_inv [inv_intros]:
  assumes "machine_inv px config s" and "config_ok config"
  shows "good_outcome px config (on_candidate_turn s turn now config)"
  using assms
  by (cases "phase s") (simp_all add: on_candidate_turn_def inv_intros)

lemma core_inv_drift:
  "core_inv px config s \<Longrightarrow> core_inv px config
     (s\<lparr>awaiting := a, interviewer_failure_streak := k, tech := (tech s)\<lparr>drift_count := n\<rparr>\<rparr>)"
  by (simp add: core_defs bookkeeping_inv_def)

lemma on_interviewer_reply_inv [inv_intros]:
  assumes inv: "machine_inv px config s"
  shows "machine_inv px config (new_state (on_interviewer_reply s turn out config))"
proof -
  have core: "core_inv px config s" and link: "link_inv s"
    using inv by (simp_all add: machine_inv_def)
  consider "\<not> answers_pending_command s turn"
    | "answers_pending_command s turn" "phase s = Close"
    | "answers_pending_command s turn" "phase s \<noteq> Close"
        "phase s \<notin> {Tech, Qa} \<or> awaiting s \<noteq> Some Interviewer"
    | (deliver) "answers_pending_command s turn" "phase s \<in> {Tech, Qa}" "awaiting s = Some Interviewer"
    by blast
  then show ?thesis
  proof cases
    case deliver
    then obtain c where c: "pending_command s = Some c" "pending_turn_id c = turn"
      by (auto simp: answers_pending_command_def split: option.splits)
    with link deliver have r: "last_issued_move s \<noteq> None"
      "1 \<le> turn_seq s" "turn = derive_turn_id (session_id s) (turn_path (turn_seq s - 1))"
      by (cases c; force simp: link_inv_def)+
    with deliver core show ?thesis
      by (auto simp: on_interviewer_reply_def Let_def machine_inv_def link_inv_def
          intro: core_inv_drift)
  qed (use inv core in \<open>auto simp: on_interviewer_reply_def intro: complete_inv\<close>)
qed

lemma on_interviewer_failed_inv [inv_intros]:
  assumes inv: "machine_inv px config s"
  shows "machine_inv px config (new_state (on_interviewer_failed s turn kind))"
proof -
  have core: "core_inv px config s" and link: "link_inv s"
    using inv by (simp_all add: machine_inv_def)
  show ?thesis
  proof (cases "\<exists>r. pending_command s = Some (RunInterviewer r)
      \<and> answers_pending_command s turn \<and> interviewer_failure_streak s < 1")
    case True
    then obtain r where r: "pending_command s = Some (RunInterviewer r)"
      "answers_pending_command s turn" "interviewer_failure_streak s < 1" by blast
    with core link show ?thesis
      by (auto simp: on_interviewer_failed_def Let_def machine_inv_def link_inv_def split: if_splits)
  next
    case False
    then have "new_state (on_interviewer_failed s turn kind) \<in>
        {s, new_state (abort s FatalAgentError AgentFailure True)}"
      by (auto simp: on_interviewer_failed_def split: option.splits pending_command.splits)
    with inv core show ?thesis using abort_inv by fastforce
  qed
qed

text \<open>What the link between phase and outstanding command does not look at.\<close>

lemma link_inv_frame [simp]:
  "link_inv (s\<lparr>tech := t\<rparr>) = link_inv s"
  "link_inv (s\<lparr>flagged_for_review := f\<rparr>) = link_inv s"
  "link_inv (s\<lparr>needs_manual_review := f\<rparr>) = link_inv s"
  "link_inv (s\<lparr>cheat_flag_count := n\<rparr>) = link_inv s"
  by (simp_all add: link_inv_def cong: option.case_cong pending_command.case_cong)

lemma tech_update_inv:
  assumes "machine_inv px config s"
    and "competency_index t = competency_index (tech s)" "seed_index t = seed_index (tech s)"
      "probes_used t = probes_used (tech s)"
      "competency_started_at t = competency_started_at (tech s)"
    and "bookkeeping_inv t" "coverage_inv (coverage t)"
  shows "machine_inv px config (s\<lparr>tech := t\<rparr>)"
  using assms by (simp add: machine_inv_def core_defs)

lemma machine_inv_flags [simp]:
  "machine_inv px config (s\<lparr>flagged_for_review := f\<rparr>) = machine_inv px config s"
  "machine_inv px config (s\<lparr>needs_manual_review := m\<rparr>) = machine_inv px config s"
  "machine_inv px config (s\<lparr>cheat_flag_count := n\<rparr>) = machine_inv px config s"
  by (simp_all add: machine_inv_def)

lemma bookkeeping_drop [simp]:
  "bookkeeping_inv t \<Longrightarrow> bookkeeping_inv (drop_pending t turn)"
  by (auto simp: bookkeeping_inv_def drop_pending_def dict_simps)

lemma drop_pending_simps [simp]:
  "competency_index (drop_pending t turn) = competency_index t"
  "seed_index (drop_pending t turn) = seed_index t"
  "probes_used (drop_pending t turn) = probes_used t"
  "drift_count (drop_pending t turn) = drift_count t"
  "competency_started_at (drop_pending t turn) = competency_started_at t"
  "coverage (drop_pending t turn) = coverage t"
  by (simp_all add: drop_pending_def)

lemma bookkeeping_coverage [simp]:
  "bookkeeping_inv (t\<lparr>coverage := cov\<rparr>) = bookkeeping_inv t"
  by (simp add: bookkeeping_inv_def)

lemma machine_inv_tech_parts:
  "machine_inv px config s \<Longrightarrow> bookkeeping_inv (tech s) \<and> coverage_inv (coverage (tech s))"
  by (simp add: machine_inv_def core_inv_def)

lemma on_assessment_completed_inv [inv_intros]:
  assumes inv: "machine_inv px config s" and ok: "assessor_output_ok out"
  shows "machine_inv px config (new_state (on_assessment_completed s turn out config))"
proof -
  let ?t = "(drop_pending (tech s) turn)\<lparr>coverage :=
      record_review_signals (record_levels (coverage (tech s)) out) out\<rparr>"
  have "machine_inv px config (s\<lparr>tech := ?t\<rparr>)"
    using inv ok machine_inv_tech_parts [OF inv]
    by (intro tech_update_inv) (simp_all add: record_levels_inv record_review_signals_inv)
  with inv show ?thesis by (simp add: on_assessment_completed_def Let_def)
qed

lemma on_assessment_failed_inv [inv_intros]:
  assumes inv: "machine_inv px config s"
  shows "machine_inv px config (new_state (on_assessment_failed s turn))"
  using inv machine_inv_tech_parts [OF inv]
  by (auto simp: on_assessment_failed_def Let_def split: option.splits
      intro!: tech_update_inv coverage_inv_update)

lemma on_timer_tick_inv [inv_intros]:
  assumes inv: "machine_inv px config s"
  shows "good_outcome px config (on_timer_tick s now config)"
proof (cases "phase s = Tech \<and> session_budget_exhausted s now \<and> \<not> candidate_timed_out s now config")
  case True
  then obtain s' c where "enter_qa s now = Inr (s', c)" "machine_inv px config s'"
    using enter_qa_total [OF machine_inv_core [OF inv]] by blast
  with True show ?thesis by (simp add: on_timer_tick_def)
next
  case False
  with inv show ?thesis
    by (auto simp: on_timer_tick_def machine_inv_core intro: abort_inv enter_close_inv complete_inv)
qed

lemma on_reconnected_inv [inv_intros]:
  "machine_inv px config s \<Longrightarrow> machine_inv px config (new_state (on_reconnected s))"
  by (auto simp: on_reconnected_def split: option.splits)

lemma transition_inv:
  assumes "machine_inv px config s" and "config_ok config" and "event_ok e"
  shows "good_outcome px config (transition px s e config)"
  using assms
  by (cases e) (simp_all add: transition_def inv_intros abort_inv machine_inv_core event_ok_def)

section \<open>The machine provides the interface\<close>

definition machine_step ::
  "pydantic \<Rightarrow> orchestrator_config \<Rightarrow> session_state \<Rightarrow> event
    \<Rightarrow> orchestrator_error + session_state \<times> command list" where
  "machine_step px config s e =
     and_then (transition px s e config) (\<lambda>r. Inr (new_state r, commands r))"

text \<open>
  The thresholds are those of a loaded configuration, so \<open>config_ok\<close> holds of every
  machine that runs; the interface carries it in its invariant.
\<close>

interpretation machine: safe_machine
  "machine_step px config" "\<lambda>s. config_ok config \<and> machine_inv px config s" event_ok
proof
  fix s e
  assume "config_ok config \<and> machine_inv px config s" and "event_ok e"
  then have good: "good_outcome px config (transition px s e config)"
    using transition_inv by blast
  then show "\<exists>s' cs. machine_step px config s e = Inr (s', cs)"
    by (cases "transition px s e config") (simp_all add: machine_step_def good_outcome_def)
  fix s' cs
  assume "machine_step px config s e = Inr (s', cs)"
  with good \<open>config_ok config \<and> machine_inv px config s\<close>
  show "config_ok config \<and> machine_inv px config s'"
    by (cases "transition px s e config") (auto simp: machine_step_def)
qed

text \<open>The states a session can be in: from creation, by any events in any order.\<close>

inductive reachable ::
  "pydantic \<Rightarrow> orchestrator_config \<Rightarrow> session_state \<Rightarrow> bool" for px config where
  created: "reachable px config (initial_state sid input config)"
| step: "reachable px config s \<Longrightarrow> event_ok e \<Longrightarrow> transition px s e config = Inr r \<Longrightarrow>
    reachable px config (new_state r)"

lemma reachable_inv:
  "reachable px config s \<Longrightarrow> config_ok config \<Longrightarrow> machine_inv px config s"
proof (induction rule: reachable.induct)
  case (created sid input)
  show ?case by (rule initial_state_inv)
next
  case (step s e r)
  then have "good_outcome px config (transition px s e config)"
    using transition_inv by blast
  with step.hyps show ?case by simp
qed

inductive_simps reachable_created_simp: "reachable px config (initial_state sid input config)"

end
