(* ===== verification/Orchestrator_Table.thy ===== *)
theory Orchestrator_Table
  imports Orchestrator_Inv
begin

text \<open>
  The contract of the interview machine, the transition table of
  \<open>docs/contracts/state-machine.md\<close> section 10, as a relation on phases: each row says
  which phase an event leads to and which commands the shell is told to run. Section 2
  shows that every outcome of \<open>transition\<close> is a row, and derives what the rows give:
  the order of the phases, where assessments are asked for, who may speak.
\<close>

section \<open>The table\<close>

definition live :: "phase \<Rightarrow> bool" where
  "live ph \<longleftrightarrow> ph \<notin> terminal_phases"

inductive table_row :: "phase \<Rightarrow> event \<Rightarrow> phase \<Rightarrow> command list \<Rightarrow> bool" where
  row_untabulated: "table_row ph e ph []"
| row1: "table_row Created (SessionStarted now) Intro
    [Outbound (EmitScriptedOpening t opening_script_path), PersistState]"
| row2: "table_row Created (SessionStarted now) Aborted [RecordDecision PlanInvalidDecision]"
| row3: "ri_move r = AskSeed \<Longrightarrow> \<not> ri_retry r \<Longrightarrow>
    table_row Intro (CandidateTurnReceived t said now) Tech
      [Outbound (RunInterviewer r), PersistState]"
| row4: "ph \<in> {Tech, Qa} \<Longrightarrow>
    table_row ph (InterviewerReplyReady t out now) ph
      [Outbound (DeliverUtterance t (utterance out)), PersistState]"
| row5: "ph \<in> {Tech, Qa} \<Longrightarrow> ri_turn_id r = t \<Longrightarrow> ri_retry r \<Longrightarrow>
    table_row ph (InterviewerFailed t kind now) ph
      [Outbound (RunInterviewer r), FlagTurnDegraded t kind, PersistState]"
| row6: "ph \<in> {Tech, Qa} \<Longrightarrow>
    table_row ph (InterviewerFailed t kind now) Aborted
      [RecordDecision AgentFailure, PersistState]"
| row8: "live ph \<Longrightarrow> table_row ph (AssessmentCompleted t a now) ph [PersistState]"
| row9: "live ph \<Longrightarrow> table_row ph (AssessmentFailed t kind now) ph [PersistState]"
| row10: "ri_move r = AcknowledgeAndTransition \<Longrightarrow> ri_competency_node_id r \<noteq> None \<Longrightarrow>
    \<not> ri_retry r \<Longrightarrow>
    table_row Tech (CandidateTurnReceived t said now) Tech
      [RunAssessor t node, Outbound (RunInterviewer r), PersistState]"
| row11: "ri_move r = DepthProbe \<Longrightarrow> ri_competency_node_id r = Some node \<Longrightarrow> \<not> ri_retry r \<Longrightarrow>
    table_row Tech (CandidateTurnReceived t said now) Tech
      [RunAssessor t node, Outbound (RunInterviewer r), PersistState]"
| row12: "ri_move r = CloseCompetency \<Longrightarrow> ri_competency_node_id r \<noteq> None \<Longrightarrow> \<not> ri_retry r \<Longrightarrow>
    table_row Tech (CandidateTurnReceived t said now) Tech
      [RunAssessor t node, Outbound (RunInterviewer r), RecordGap node m, PersistState]"
| row13: "ri_move r = AcknowledgeAndTransition \<Longrightarrow> ri_competency_node_id r = None \<Longrightarrow>
    \<not> ri_retry r \<Longrightarrow> gap = [] \<or> (\<exists>m. gap = [RecordGap node m]) \<Longrightarrow>
    table_row Tech (CandidateTurnReceived t said now) Qa
      ([RunAssessor t node, Outbound (RunInterviewer r)] @ gap @ [PersistState])"
| row14: "ri_move r = AcknowledgeAndTransition \<Longrightarrow> ri_competency_node_id r = None \<Longrightarrow>
    \<not> ri_retry r \<Longrightarrow> table_row Tech (TimerTick now) Qa [Outbound (RunInterviewer r)]"
| row15: "ri_move r = AcknowledgeAndTransition \<Longrightarrow> ri_competency_node_id r = None \<Longrightarrow>
    \<not> ri_retry r \<Longrightarrow>
    table_row Qa (CandidateTurnReceived t said now) Qa [Outbound (RunInterviewer r)]"
| row16: "e = TimerTick now \<or> e = CandidateTurnReceived t text now \<Longrightarrow>
    table_row Qa e Close [Outbound (EmitScriptedClosing u closing_script_path), PersistState]"
| row17: "e = TimerTick now \<or> e = InterviewerReplyReady t out now \<Longrightarrow>
    table_row Close e Completed [EndSession, RecordDecision CompletedDecision]"
| row18: "live ph \<Longrightarrow>
    table_row ph (TimerTick now) Aborted [RecordDecision Timeout, PersistState]"
| row19: "live ph \<Longrightarrow>
    table_row ph (OperatorAbort reason now) Aborted [RecordDecision OperatorDecision, PersistState]"
| row21: "live ph \<Longrightarrow> reissue = [] \<or> (\<exists>c. reissue = [ReissuePendingCommand c]) \<Longrightarrow>
    table_row ph (Reconnected now) ph (reissue @ [PersistState])"

section \<open>Every transition is a row\<close>

lemmas table_rows = table_row.intros

lemma live_simps [simp]: "live Created" "live Intro" "live Tech" "live Qa" "live Close"
  "\<not> live Completed" "\<not> live Aborted"
  by (simp_all add: live_def terminal_phases_def)

lemma issue_interviewer_fields:
  assumes "issue_interviewer s move node context = (s', c)"
  shows "phase s' = phase s" "tech s' = tech s" "plan s' = plan s"
    "plan_input s' = plan_input s" "session_id s' = session_id s"
    "session_started_at s' = session_started_at s" "qa_started_at s' = qa_started_at s"
    "last_candidate_activity s' = last_candidate_activity s" "abort_reason s' = abort_reason s"
    "flagged_for_review s' = flagged_for_review s" "cheat_flag_count s' = cheat_flag_count s"
    "turn_seq s' = turn_seq s + 1" "pending_command s' = Some c" "awaiting s' = Some Interviewer"
    "interviewer_failure_streak s' = 0"
    and "\<exists>r. c = RunInterviewer r \<and> ri_move r = move \<and> ri_competency_node_id r = node
          \<and> ri_turn_id r = derive_turn_id (session_id s) (turn_path (turn_seq s)) \<and> \<not> ri_retry r"
  using assms unfolding issue_interviewer_def Let_def by fastforce+

lemma enter_qa_fields:
  assumes "enter_qa s now = Inr (s', c)"
  shows "phase s' = Qa" "tech s' = tech s" "plan s' = plan s"
    "plan_input s' = plan_input s" "session_id s' = session_id s"
    "session_started_at s' = session_started_at s" "qa_started_at s' = Some now"
    "last_candidate_activity s' = last_candidate_activity s" "abort_reason s' = abort_reason s"
    "flagged_for_review s' = flagged_for_review s" "cheat_flag_count s' = cheat_flag_count s"
    "turn_seq s' = turn_seq s + 1"
    and "\<exists>r. c = RunInterviewer r \<and> ri_move r = AcknowledgeAndTransition
          \<and> ri_competency_node_id r = None
          \<and> ri_turn_id r = derive_turn_id (session_id s) (turn_path (turn_seq s)) \<and> \<not> ri_retry r"
proof -
  obtain p where "issue_interviewer (s\<lparr>phase := Qa, qa_started_at := Some now\<rparr>)
      AcknowledgeAndTransition None (qa_context p) = (s', c)"
    using assms by (auto simp: enter_qa_def and_then_eq_Inr)
  note fields = issue_interviewer_fields [OF this]
  show "phase s' = Qa" "tech s' = tech s" "plan s' = plan s"
    "plan_input s' = plan_input s" "session_id s' = session_id s"
    "session_started_at s' = session_started_at s" "qa_started_at s' = Some now"
    "last_candidate_activity s' = last_candidate_activity s" "abort_reason s' = abort_reason s"
    "flagged_for_review s' = flagged_for_review s" "cheat_flag_count s' = cheat_flag_count s"
    "turn_seq s' = turn_seq s + 1"
    by (simp_all add: fields(1-15))
  show "\<exists>r. c = RunInterviewer r \<and> ri_move r = AcknowledgeAndTransition
      \<and> ri_competency_node_id r = None
      \<and> ri_turn_id r = derive_turn_id (session_id s) (turn_path (turn_seq s)) \<and> \<not> ri_retry r"
    using fields(16) by simp
qed

lemma issued_version:
  "issue_interviewer s move node context = (s', c) \<Longrightarrow>
     state_schema_version s' = state_schema_version s"
  "enter_qa s now = Inr (s', c) \<Longrightarrow> state_schema_version s' = state_schema_version s"
  by (auto simp: enter_qa_def issue_interviewer_def and_then_eq_Inr Let_def)

text \<open>The four ways a TECH turn ends.\<close>

lemma on_tech_candidate_turn_cases:
  assumes "on_tech_candidate_turn s turn now config = Inr r"
  obtains (probe) p c s' cmd where "plan s = Some p" "competency p (competency_index (tech s)) = Some c"
      "verdict (turn_verdict (schedule_assessor (tech s) turn (node_id c)) c now config) = Clarify"
      "issue_interviewer (s\<lparr>last_candidate_activity := Some now,
         tech := (schedule_assessor (tech s) turn (node_id c))\<lparr>probes_used := probes_used (tech s) + 1\<rparr>\<rparr>)
         DepthProbe (Some (node_id c)) (probe_context c (probes_used (tech s))) = (s', cmd)"
      "r = \<lparr>new_state = s', commands = [RunAssessor turn (node_id c), Outbound cmd, PersistState]\<rparr>"
  | (next_seed) p c q s' cmd where "plan s = Some p"
      "competency p (competency_index (tech s)) = Some c"
      "verdict (turn_verdict (schedule_assessor (tech s) turn (node_id c)) c now config) = Answered"
      "seed_question c (seed_index (tech s) + 1) = Some q"
      "issue_interviewer (s\<lparr>last_candidate_activity := Some now,
         tech := (schedule_assessor (tech s) turn (node_id c))\<lparr>seed_index := seed_index (tech s) + 1\<rparr>\<rparr>)
         AcknowledgeAndTransition (Some (node_id c)) (next_seed_context c (seed_index (tech s) + 1) q)
         = (s', cmd)"
      "r = \<lparr>new_state = s', commands = [RunAssessor turn (node_id c), Outbound cmd, PersistState]\<rparr>"
  | (next_competency) p c v following ctx s' cmd where "plan s = Some p"
      "competency p (competency_index (tech s)) = Some c"
      "v = turn_verdict (schedule_assessor (tech s) turn (node_id c)) c now config"
      "verdict v \<noteq> Clarify"
      "competency p (competency_index (tech s) + 1) = Some following"
      "issue_interviewer (s\<lparr>last_candidate_activity := Some now,
         tech := (note_gap (schedule_assessor (tech s) turn (node_id c)) (node_id c) v)
           \<lparr>competency_index := competency_index (tech s) + 1, seed_index := 0, probes_used := 0,
            competency_started_at := Some now\<rparr>\<rparr>)
         (if verdict v = Answered then AcknowledgeAndTransition else CloseCompetency)
         (Some (node_id following)) ctx = (s', cmd)"
      "r = \<lparr>new_state = s', commands = [RunAssessor turn (node_id c), Outbound cmd]
         @ gap_commands (node_id c) v @ [PersistState]\<rparr>"
  | (last_competency) p c v s' cmd where "plan s = Some p"
      "competency p (competency_index (tech s)) = Some c"
      "v = turn_verdict (schedule_assessor (tech s) turn (node_id c)) c now config"
      "verdict v \<noteq> Clarify"
      "competency p (competency_index (tech s) + 1) = None"
      "enter_qa (s\<lparr>last_candidate_activity := Some now,
         tech := note_gap (schedule_assessor (tech s) turn (node_id c)) (node_id c) v\<rparr>) now = Inr (s', cmd)"
      "r = \<lparr>new_state = s', commands = [RunAssessor turn (node_id c), Outbound cmd]
         @ gap_commands (node_id c) v @ [PersistState]\<rparr>"
proof -
  obtain p c where p: "plan s = Some p" and c: "competency p (competency_index (tech s)) = Some c"
    using assms
    by (auto simp: on_tech_candidate_turn_def and_then_eq_Inr require_plan_def
        current_competency_def split: option.splits)
  note unf = on_tech_candidate_turn_unfold [OF p c refl refl, of turn now config]
  consider (a) "verdict (turn_verdict (schedule_assessor (tech s) turn (node_id c)) c now config) = Clarify"
    | (b) q where "verdict (turn_verdict (schedule_assessor (tech s) turn (node_id c)) c now config) = Answered"
        "seed_question c (seed_index (tech s) + 1) = Some q"
        "turn_remaining (schedule_assessor (tech s) turn (node_id c)) c now > 0"
    | (d) "verdict (turn_verdict (schedule_assessor (tech s) turn (node_id c)) c now config) \<noteq> Clarify"
        "\<not> (verdict (turn_verdict (schedule_assessor (tech s) turn (node_id c)) c now config) = Answered
           \<and> seed_question c (seed_index (tech s) + 1) \<noteq> None
           \<and> turn_remaining (schedule_assessor (tech s) turn (node_id c)) c now > 0)"
    by fastforce
  then show thesis
  proof cases
    case a
    with assms show thesis
      unfolding unf Let_def by (auto split: prod.splits intro: probe [OF p c])
  next
    case b
    with assms show thesis
      unfolding unf Let_def by (auto split: prod.splits intro: next_seed [OF p c])
  next
    case d
    let ?v = "turn_verdict (schedule_assessor (tech s) turn (node_id c)) c now config"
    obtain s' cmd where l: "leave_competency s
          (note_gap (schedule_assessor (tech s) turn (node_id c)) (node_id c) ?v) p c ?v now
        = Inr (s', cmd)"
      and r: "r = \<lparr>new_state = s', commands = [RunAssessor turn (node_id c), Outbound cmd]
         @ gap_commands (node_id c) ?v @ [PersistState]\<rparr>"
      using assms d unfolding unf Let_def by (auto simp: and_then_eq_Inr)
    show thesis
    proof (cases "competency p (competency_index (tech s) + 1)")
      case None
      with l show thesis
        by (intro last_competency [OF p c refl d(1) None _ r]) (simp add: leave_competency_def)
    next
      case (Some following)
      with l show thesis
        by (auto simp: leave_competency_def and_then_eq_Inr
            intro: next_competency [OF p c refl d(1) Some _ r])
    qed
  qed
qed

lemma gap_commands_Answered [simp]: "verdict v = Answered \<Longrightarrow> gap_commands node v = []"
  by (simp add: gap_commands_def)

lemma gap_commands_None: "verdict v = NoneVerdict \<Longrightarrow> \<exists>m. gap_commands node v = [RecordGap node m]"
  by (simp add: gap_commands_def)

lemma on_tech_candidate_turn_row:
  assumes "on_tech_candidate_turn s turn now config = Inr r" and "phase s = Tech"
  shows "table_row Tech (CandidateTurnReceived turn said now) (phase (new_state r)) (commands r)"
  using assms(1)
proof (cases rule: on_tech_candidate_turn_cases)
  case (probe p c s' cmd)
  with issue_interviewer_fields [OF probe(4)] assms(2) show ?thesis
    by (auto intro: row11)
next
  case (next_seed p c q s' cmd)
  with issue_interviewer_fields [OF next_seed(5)] assms(2) show ?thesis
    by (auto intro: row10)
next
  case (next_competency p c v following ctx s' cmd)
  note fields = issue_interviewer_fields [OF next_competency(6)]
  show ?thesis
  proof (cases "verdict v")
    case Answered
    with next_competency fields assms(2) show ?thesis by (auto intro: row10)
  next
    case NoneVerdict
    then obtain m where "gap_commands (node_id c) v = [RecordGap (node_id c) m]"
      using gap_commands_None by blast
    with NoneVerdict next_competency fields assms(2) show ?thesis by (auto intro: row12)
  qed (use next_competency in simp)
next
  case (last_competency p c v s' cmd)
  have "gap_commands (node_id c) v = [] \<or> (\<exists>m. gap_commands (node_id c) v = [RecordGap (node_id c) m])"
    using last_competency(4) gap_commands_None by (cases "verdict v") auto
  moreover from enter_qa_fields [OF last_competency(6)] obtain r' where "phase s' = Qa"
    "cmd = RunInterviewer r'" "ri_move r' = AcknowledgeAndTransition"
    "ri_competency_node_id r' = None" "\<not> ri_retry r'" by auto
  ultimately show ?thesis
    using row13 [of r' "gap_commands (node_id c) v" "node_id c" turn said now]
    by (simp add: last_competency(7))
qed

lemma on_qa_candidate_turn_cases:
  assumes "on_qa_candidate_turn s now = Inr r"
  obtains (close) "qa_budget_exhausted s now"
      "r = enter_close (s\<lparr>last_candidate_activity := Some now\<rparr>)"
  | (reply) p s' cmd where "\<not> qa_budget_exhausted s now" "plan s = Some p"
      "issue_interviewer (s\<lparr>last_candidate_activity := Some now\<rparr>) AcknowledgeAndTransition None
         (qa_context p) = (s', cmd)"
      "r = \<lparr>new_state = s', commands = [Outbound cmd]\<rparr>"
proof (cases "qa_budget_exhausted s now")
  case True
  with assms show thesis by (intro close) (simp_all add: on_qa_candidate_turn_def Let_def)
next
  case False
  then obtain p where p: "plan s = Some p"
    using assms by (auto simp: on_qa_candidate_turn_def Let_def require_plan_def split: option.splits)
  obtain s' cmd where iss: "issue_interviewer (s\<lparr>last_candidate_activity := Some now\<rparr>)
      AcknowledgeAndTransition None (qa_context p) = (s', cmd)"
    by (rule prod.exhaust)
  with assms False p show thesis
    by (intro reply [OF False p iss]) (simp add: on_qa_candidate_turn_def Let_def require_plan_def)
qed

lemma on_intro_candidate_turn_cases:
  assumes "on_intro_candidate_turn s now = Inr r"
  obtains p node ctx s' cmd where "plan s = Some p"
      "issue_interviewer (s\<lparr>phase := Tech, last_candidate_activity := Some now,
         tech := (tech s)\<lparr>competency_index := 0, seed_index := 0, probes_used := 0,
                          competency_started_at := Some now\<rparr>\<rparr>)
         AskSeed (Some node) ctx = (s', cmd)"
      "r = \<lparr>new_state = s', commands = [Outbound cmd, PersistState]\<rparr>"
proof -
  obtain p c ctx where p: "plan s = Some p" "first_competency p = Inr c"
      "first_seed_context c = Inr ctx"
    using assms
    by (auto simp: on_intro_candidate_turn_def and_then_eq_Inr require_plan_def split: option.splits)
  obtain s' cmd where iss: "issue_interviewer (s\<lparr>phase := Tech, last_candidate_activity := Some now,
         tech := (tech s)\<lparr>competency_index := 0, seed_index := 0, probes_used := 0,
                          competency_started_at := Some now\<rparr>\<rparr>)
         AskSeed (Some (node_id c)) ctx = (s', cmd)"
    by (rule prod.exhaust)
  with assms p show thesis
    by (intro that [OF p(1) iss]) (simp add: on_intro_candidate_turn_def Let_def require_plan_def)
qed

lemma on_timer_tick_cases:
  assumes "on_timer_tick s now config = Inr r"
  obtains (silent) "candidate_timed_out s now config" "r = abort s CandidateTimeout Timeout True"
  | (to_qa) s' cmd where "phase s = Tech" "session_budget_exhausted s now"
      "enter_qa s now = Inr (s', cmd)" "r = \<lparr>new_state = s', commands = [Outbound cmd]\<rparr>"
  | (to_close) "phase s = Qa" "r = enter_close s"
  | (finish) "phase s = Close" "r = complete s"
  | (quiet) "r = ignore s"
  using assms by (auto simp: on_timer_tick_def and_then_eq_Inr split: if_splits)

lemma on_qa_candidate_turn_row:
  assumes "on_qa_candidate_turn s now = Inr r" and "phase s = Qa"
  shows "table_row Qa (CandidateTurnReceived turn said now) (phase (new_state r)) (commands r)"
  using assms(1)
proof (cases rule: on_qa_candidate_turn_cases)
  case close
  then show ?thesis by (auto simp: enter_close_def Let_def intro: row16)
next
  case (reply p s' cmd)
  with issue_interviewer_fields [OF reply(3)] assms(2) show ?thesis by (auto intro: row15)
qed

lemma on_intro_candidate_turn_row:
  assumes "on_intro_candidate_turn s now = Inr r"
  shows "table_row Intro (CandidateTurnReceived turn said now) (phase (new_state r)) (commands r)"
  using assms
proof (cases rule: on_intro_candidate_turn_cases)
  case (1 p node ctx s' cmd)
  with issue_interviewer_fields [OF 1(2)] show ?thesis by (auto intro: row3)
qed

lemma on_candidate_turn_row:
  assumes "on_candidate_turn s turn now config = Inr r"
  shows "table_row (phase s) (CandidateTurnReceived turn said now) (phase (new_state r)) (commands r)"
  using assms
  by (cases "phase s")
    (auto simp: on_candidate_turn_def row_untabulated on_tech_candidate_turn_row
      on_qa_candidate_turn_row on_intro_candidate_turn_row split: if_splits)

lemma on_interviewer_reply_row:
  "table_row (phase s) (InterviewerReplyReady turn out now)
     (phase (new_state (on_interviewer_reply s turn out config)))
     (commands (on_interviewer_reply s turn out config))"
  by (cases "phase s")
    (auto simp: on_interviewer_reply_def complete_def Let_def row_untabulated
      intro: row4 row17)

lemma on_interviewer_failed_row:
  "table_row (phase s) (InterviewerFailed turn kind now)
     (phase (new_state (on_interviewer_failed s turn kind)))
     (commands (on_interviewer_failed s turn kind))"
  by (auto simp: on_interviewer_failed_def abort_def Let_def answers_pending_command_def
      row_untabulated split: option.splits pending_command.splits intro!: row5 row6)

lemma on_timer_tick_row:
  assumes "on_timer_tick s now config = Inr r" and "live (phase s)"
  shows "table_row (phase s) (TimerTick now) (phase (new_state r)) (commands r)"
  using assms(1)
proof (cases rule: on_timer_tick_cases)
  case silent
  with assms(2) show ?thesis by (auto simp: abort_def intro: row18)
next
  case (to_qa s' cmd)
  with enter_qa_fields [OF to_qa(3)] show ?thesis by (auto intro: row14)
qed (auto simp: enter_close_def complete_def Let_def row_untabulated intro: row16 row17)

lemma on_reconnected_row:
  assumes "live (phase s)"
  shows "table_row (phase s) (Reconnected now) (phase (new_state (on_reconnected s)))
    (commands (on_reconnected s))"
proof (cases "pending_command s")
  case None
  with assms row21 [of "phase s" "[]" now] show ?thesis by (simp add: on_reconnected_def)
next
  case (Some c)
  with assms row21 [of "phase s" "[ReissuePendingCommand c]" now] show ?thesis
    by (simp add: on_reconnected_def)
qed

lemma on_session_started_row:
  "table_row Created (SessionStarted now) (phase (new_state (on_session_started px s now)))
     (commands (on_session_started px s now))"
  by (auto simp: on_session_started_def abort_def Let_def intro: row1 row2
      split: sum.splits plan_error.splits)

lemma transition_row:
  assumes "transition px s e config = Inr r"
  shows "table_row (phase s) e (phase (new_state r)) (commands r)"
proof (cases "live (phase s)")
  case False
  with assms show ?thesis by (auto simp: transition_def live_def row_untabulated)
next
  case True
  then have t: "phase s \<notin> terminal_phases" by (simp add: live_def)
  show ?thesis
  proof (cases e)
    case (SessionStarted now)
    with assms t show ?thesis
      using on_session_started_row [of now px s]
      by (auto simp: transition_def row_untabulated split: if_splits)
  next
    case (AssessmentCompleted turn out now)
    with assms t True show ?thesis
      by (auto simp: transition_def on_assessment_completed_def Let_def row_untabulated intro: row8)
  next
    case (AssessmentFailed turn kind now)
    with assms t True show ?thesis
      by (auto simp: transition_def on_assessment_failed_def Let_def row_untabulated intro: row9)
  next
    case (OperatorAbort reason now)
    with assms t True show ?thesis
      by (auto simp: transition_def abort_def intro: row19)
  qed (use assms t True in \<open>auto simp: transition_def row_untabulated on_candidate_turn_row
      on_interviewer_reply_row on_interviewer_failed_row on_timer_tick_row on_reconnected_row
      split: if_splits\<close>)
qed

end
