(* ===== verification/Orchestrator_Runs.thy ===== *)
theory Orchestrator_Runs
  imports Orchestrator_Table
begin

text \<open>
  What a whole run of the interview machine does, whatever the order of its events: the
  numbering of its turns, the data that never changes, the number of candidate turns it
  can ask an assessment for, and when it raises the review flag. Each is a relation
  between the states before and after that every handler satisfies and that composes.
\<close>

section \<open>Turn numbering and frozen data\<close>

text \<open>
  A fresh outbound turn is one the machine issues a new id for: a new interviewer move or
  a scripted utterance. A retry and the delivery of a reply keep their turn's id.
\<close>

fun fresh_id :: "command \<Rightarrow> uuid list" where
  "fresh_id (Outbound (RunInterviewer r)) = (if ri_retry r then [] else [ri_turn_id r])"
| "fresh_id (Outbound (EmitScriptedOpening t _)) = [t]"
| "fresh_id (Outbound (EmitScriptedClosing t _)) = [t]"
| "fresh_id _ = []"

definition fresh_ids :: "command list \<Rightarrow> uuid list" where
  "fresh_ids cs = concat (map fresh_id cs)"

lemma fresh_ids_simps [simp]:
  "fresh_ids [] = []" "fresh_ids (c # cs) = fresh_id c @ fresh_ids cs"
  "fresh_ids (cs @ ds) = fresh_ids cs @ fresh_ids ds"
  by (simp_all add: fresh_ids_def)

definition turn_ids :: "uuid \<Rightarrow> int \<Rightarrow> int \<Rightarrow> uuid list" where
  "turn_ids sid m n = map (\<lambda>k. derive_turn_id sid (turn_path k)) [m..n - 1]"

lemma turn_ids_simps [simp]:
  "turn_ids sid m m = []"
  "turn_ids sid m (m + 1) = [derive_turn_id sid (turn_path m)]"
  by (simp_all add: turn_ids_def)

lemma turn_ids_append:
  "m \<le> n \<Longrightarrow> n \<le> k \<Longrightarrow> turn_ids sid m k = turn_ids sid m n @ turn_ids sid n k"
  unfolding turn_ids_def map_append [symmetric]
  by (cases "n = k") (simp_all add: upto_split1 [of m n "k - 1"])

text \<open>\<open>effect s cs s'\<close>: what every step keeps, and the ids it hands out.\<close>

definition effect :: "session_state \<Rightarrow> command list \<Rightarrow> session_state \<Rightarrow> bool" where
  "effect s cs s' \<longleftrightarrow>
     session_id s' = session_id s \<and> state_schema_version s' = state_schema_version s
     \<and> plan_input s' = plan_input s
     \<and> (\<forall>p. plan s = Some p \<longrightarrow> plan s' = Some p)
     \<and> turn_seq s \<le> turn_seq s'
     \<and> fresh_ids cs = turn_ids (session_id s) (turn_seq s) (turn_seq s')"

lemma effect_refl: "effect s [] s"
  by (simp add: effect_def)

lemma effect_trans:
  assumes "effect s cs s'" and "effect s' ds s''"
  shows "effect s (cs @ ds) s''"
proof -
  have "turn_seq s \<le> turn_seq s'" "turn_seq s' \<le> turn_seq s''"
    using assms by (simp_all add: effect_def)
  from turn_ids_append [OF this, of "session_id s"] assms show ?thesis
    by (simp add: effect_def)
qed

lemma effect_ignore: "effect s (commands (ignore s)) (new_state (ignore s))"
  by (simp add: effect_refl)

text \<open>An issued move, from a state that differs from \<open>s\<close> in fields a step may change.\<close>

lemma effect_issue:
  assumes "issue_interviewer t move node context = (s', c)"
    and "session_id t = session_id s" "plan_input t = plan_input s" "plan t = plan s"
      "turn_seq t = turn_seq s" "state_schema_version t = state_schema_version s"
    and "fresh_ids cs = fresh_id (Outbound c)"
  shows "effect s cs s'"
  using issue_interviewer_fields [OF assms(1)] issued_version(1) [OF assms(1)] assms(2-)
  by (auto simp: effect_def)

lemma effect_enter_qa:
  assumes "enter_qa t now = Inr (s', c)"
    and "session_id t = session_id s" "plan_input t = plan_input s" "plan t = plan s"
      "turn_seq t = turn_seq s" "state_schema_version t = state_schema_version s"
    and "fresh_ids cs = fresh_id (Outbound c)"
  shows "effect s cs s'"
  using enter_qa_fields [OF assms(1)] issued_version(2) [OF assms(1)] assms(2-)
  by (auto simp: effect_def)

lemma fresh_gap [simp]: "fresh_ids (gap_commands node v) = []"
  by (simp add: gap_commands_def)

lemma effect_abort: "effect s (commands (abort s a d b)) (new_state (abort s a d b))"
  by (simp add: effect_def abort_def)

lemma effect_complete: "effect s (commands (complete s)) (new_state (complete s))"
  by (simp add: effect_def complete_def)

lemma effect_enter_close:
  assumes "session_id t = session_id s" "plan_input t = plan_input s" "plan t = plan s"
    "turn_seq t = turn_seq s"
    and "state_schema_version t = state_schema_version s"
  shows "effect s (commands (enter_close t)) (new_state (enter_close t))"
  using assms by (simp add: effect_def enter_close_def Let_def)

lemma effect_session_started:
  assumes "plan s = None"
  shows "effect s (commands (on_session_started px s now)) (new_state (on_session_started px s now))"
  using assms effect_abort
  by (auto simp: on_session_started_def effect_def abort_def Let_def
      split: sum.splits plan_error.splits)

lemma effect_tech_turn:
  assumes "on_tech_candidate_turn s turn now config = Inr r"
  shows "effect s (commands r) (new_state r)"
  using assms
proof (cases rule: on_tech_candidate_turn_cases)
  case (probe p c s' cmd)
  then show ?thesis by (simp add: effect_issue [OF probe(4)])
next
  case (next_seed p c q s' cmd)
  then show ?thesis by (simp add: effect_issue [OF next_seed(5)])
next
  case (next_competency p c v following ctx s' cmd)
  then show ?thesis by (simp add: effect_issue [OF next_competency(6)])
next
  case (last_competency p c v s' cmd)
  then show ?thesis by (simp add: effect_enter_qa [OF last_competency(6)])
qed

lemma effect_qa_turn:
  assumes "on_qa_candidate_turn s now = Inr r"
  shows "effect s (commands r) (new_state r)"
  using assms
proof (cases rule: on_qa_candidate_turn_cases)
  case close
  then show ?thesis by (simp add: effect_enter_close)
next
  case (reply p s' cmd)
  then show ?thesis by (simp add: effect_issue [OF reply(3)])
qed

lemma effect_intro_turn:
  assumes "on_intro_candidate_turn s now = Inr r"
  shows "effect s (commands r) (new_state r)"
  using assms
proof (cases rule: on_intro_candidate_turn_cases)
  case (1 p node ctx s' cmd)
  then show ?thesis by (simp add: effect_issue [OF 1(2)])
qed

lemma effect_candidate_turn:
  "on_candidate_turn s turn now config = Inr r \<Longrightarrow> effect s (commands r) (new_state r)"
  by (cases "phase s")
    (auto simp: on_candidate_turn_def effect_refl effect_tech_turn effect_qa_turn effect_intro_turn
      split: if_splits)

lemma effect_interviewer_reply:
  "effect s (commands (on_interviewer_reply s turn out config))
     (new_state (on_interviewer_reply s turn out config))"
  using effect_complete by (auto simp: on_interviewer_reply_def Let_def effect_def)

lemma effect_interviewer_failed:
  "effect s (commands (on_interviewer_failed s turn kind))
     (new_state (on_interviewer_failed s turn kind))"
  using effect_abort effect_ignore
  by (auto simp: on_interviewer_failed_def Let_def split: option.splits pending_command.splits)
    (simp_all add: effect_def)

lemma effect_timer_tick:
  assumes "on_timer_tick s now config = Inr r"
  shows "effect s (commands r) (new_state r)"
  using assms
proof (cases rule: on_timer_tick_cases)
  case (to_qa s' cmd)
  then show ?thesis by (simp add: effect_enter_qa [OF to_qa(3)])
qed (simp_all add: effect_abort effect_enter_close effect_complete effect_refl)

lemma effect_assessment:
  "effect s (commands (on_assessment_completed s turn out config))
     (new_state (on_assessment_completed s turn out config))"
  "effect s (commands (on_assessment_failed s turn)) (new_state (on_assessment_failed s turn))"
  "effect s (commands (on_reconnected s)) (new_state (on_reconnected s))"
  by (simp_all add: effect_def on_assessment_completed_def on_assessment_failed_def
      on_reconnected_def Let_def split: option.splits)

lemma transition_effect:
  assumes "transition px s e config = Inr r" and "machine_inv px config s"
  shows "effect s (commands r) (new_state r)"
proof -
  have plan: "plan s = None" if "phase s = Created"
    using assms(2) that by (cases "plan s") (auto simp: machine_inv_def core_defs)
  show ?thesis
    using assms(1) effect_abort effect_session_started [OF plan]
    by (cases e) (auto simp: transition_def effect_refl effect_candidate_turn
        effect_interviewer_reply effect_interviewer_failed effect_timer_tick effect_assessment
        split: if_splits)
qed

section \<open>How many candidate turns are assessed\<close>

text \<open>
  \<open>assessable s\<close> bounds the assessor calls still to come: before TECH the whole plan's
  seeds and probes, inside it the seeds and probes left in the current competency (its
  present seed included) and all of those after it, and none once TECH is over.
\<close>

definition competency_work :: "orchestrator_config \<Rightarrow> planned_competency \<Rightarrow> int" where
  "competency_work config c =
     int (length (seed_questions_uk c)) + max_probes_per_competency (adjudication config)"

definition work_after :: "orchestrator_config \<Rightarrow> plan_snapshot \<Rightarrow> int \<Rightarrow> int" where
  "work_after config p i = sum_list (map (competency_work config) (drop (nat i) (competencies p)))"

definition plan_work :: "orchestrator_config \<Rightarrow> plan_snapshot \<Rightarrow> int" where
  "plan_work config p = work_after config p 0"

definition cursor_work :: "orchestrator_config \<Rightarrow> plan_snapshot \<Rightarrow> tech_state \<Rightarrow> int" where
  "cursor_work config p t =
     work_after config p (competency_index t) - seed_index t - probes_used t"

definition assessable ::
  "pydantic \<Rightarrow> orchestrator_config \<Rightarrow> session_state \<Rightarrow> int" where
  "assessable px config s = (case phase s of
     Tech \<Rightarrow> (case plan s of None \<Rightarrow> 0 | Some p \<Rightarrow> cursor_work config p (tech s))
   | Created \<Rightarrow> (case validate_plan px (JObj (plan_input s)) of
                  Inl _ \<Rightarrow> 0 | Inr p \<Rightarrow> plan_work config p)
   | Intro \<Rightarrow> (case plan s of None \<Rightarrow> 0 | Some p \<Rightarrow> plan_work config p)
   | _ \<Rightarrow> 0)"

fun is_assessor :: "command \<Rightarrow> bool" where
  "is_assessor (RunAssessor _ _) = True"
| "is_assessor _ = False"

definition assessor_calls :: "command list \<Rightarrow> int" where
  "assessor_calls cs = int (length (filter is_assessor cs))"

lemma assessor_calls_simps [simp]:
  "assessor_calls [] = 0"
  "assessor_calls (c # cs) = (if is_assessor c then 1 else 0) + assessor_calls cs"
  "assessor_calls (cs @ ds) = assessor_calls cs + assessor_calls ds"
  "assessor_calls (gap_commands node v) = 0"
  by (simp_all add: assessor_calls_def gap_commands_def)

lemma work_after_step:
  assumes "competency p i = Some c"
  shows "work_after config p i = competency_work config c + work_after config p (i + 1)"
proof -
  have i: "0 \<le> i" "nat i < length (competencies p)" "competencies p ! nat i = c"
    using assms by (auto simp: competency_def nth_opt_def split: if_splits)
  then have "drop (nat i) (competencies p) = c # drop (Suc (nat i)) (competencies p)"
    using Cons_nth_drop_Suc by metis
  moreover have "Suc (nat i) = nat (i + 1)" using i(1) by simp
  ultimately show ?thesis by (simp add: work_after_def)
qed

lemma competency_work_nonneg:
  "config_ok config \<Longrightarrow> 0 \<le> competency_work config c"
  by (simp add: competency_work_def config_ok_def)

lemma work_after_nonneg: "config_ok config \<Longrightarrow> 0 \<le> work_after config p i"
  unfolding work_after_def by (rule sum_list_nonneg) (auto simp: competency_work_nonneg)

lemma assessable_nonneg:
  assumes "machine_inv px config s" and "config_ok config"
  shows "0 \<le> assessable px config s"
proof (cases "phase s")
  case Tech
  then obtain p c where p: "plan s = Some p" "competency p (competency_index (tech s)) = Some c"
    "seed_index (tech s) < int (length (seed_questions_uk c))"
    "probes_used (tech s) \<le> max_probes_per_competency (adjudication config)"
    using assms(1) by (auto simp: machine_inv_def core_inv_def cursor_inv_def)
  then have "0 \<le> cursor_work config p (tech s)"
    using work_after_step [OF p(2), of config]
      work_after_nonneg [OF assms(2), of p "competency_index (tech s) + 1"]
    by (simp add: cursor_work_def competency_work_def)
  with Tech p show ?thesis by (simp add: assessable_def)
qed (use work_after_nonneg [OF assms(2)] in
    \<open>simp_all add: assessable_def plan_work_def split: sum.split option.split\<close>)

text \<open>A step spends at most what the measure loses.\<close>

definition spends :: "pydantic \<Rightarrow> orchestrator_config \<Rightarrow> session_state \<Rightarrow> command list
    \<Rightarrow> session_state \<Rightarrow> bool" where
  "spends px config s cs s' \<longleftrightarrow>
     assessor_calls cs + assessable px config s' \<le> assessable px config s"

lemma spends_leave:
  assumes "phase s' \<notin> {Created, Intro, Tech}" and "assessor_calls cs = 0"
    and "machine_inv px config s" and "config_ok config"
  shows "spends px config s cs s'"
  using assms(1,2) assessable_nonneg [OF assms(3,4)]
  by (cases "phase s'") (simp_all add: spends_def assessable_def)

lemma spends_same:
  assumes "phase s' = phase s" "plan s' = plan s" "plan_input s' = plan_input s"
    "competency_index (tech s') = competency_index (tech s)"
    "seed_index (tech s') = seed_index (tech s)" "probes_used (tech s') = probes_used (tech s)"
    and "assessor_calls cs = 0"
  shows "spends px config s cs s'"
  using assms
  by (simp add: spends_def assessable_def cursor_work_def split: phase.split option.split)

lemma spends_tech_turn:
  assumes "on_tech_candidate_turn s turn now config = Inr r" and ph: "phase s = Tech"
    and inv: "machine_inv px config s" and cfg: "config_ok config"
  shows "spends px config s (commands r) (new_state r)"
proof -
  obtain p c where p: "plan s = Some p" and c: "competency p (competency_index (tech s)) = Some c"
    and seed: "0 \<le> seed_index (tech s)" "seed_index (tech s) < int (length (seed_questions_uk c))"
    and probes: "probes_used (tech s) \<le> max_probes_per_competency (adjudication config)"
    using inv ph by (auto simp: machine_inv_def core_inv_def cursor_inv_def)
  note step = work_after_step [OF c, of config, unfolded competency_work_def]
  note later = work_after_nonneg [OF cfg, of p "competency_index (tech s) + 1"]
  show ?thesis
    using assms(1)
  proof (cases rule: on_tech_candidate_turn_cases)
    case (probe p' c' s' cmd)
    with issue_interviewer_fields [OF probe(4)] p ph show ?thesis
      by (auto simp: spends_def assessable_def cursor_work_def)
  next
    case (next_seed p' c' q s' cmd)
    with issue_interviewer_fields [OF next_seed(5)] p ph show ?thesis
      by (auto simp: spends_def assessable_def cursor_work_def)
  next
    case (next_competency p' c' v following ctx s' cmd)
    with issue_interviewer_fields [OF next_competency(6)] p ph step later seed probes show ?thesis
      by (auto simp: spends_def assessable_def cursor_work_def)
  next
    case (last_competency p' c' v s' cmd)
    with enter_qa_fields [OF last_competency(6)] p ph step later seed probes show ?thesis
      by (auto simp: spends_def assessable_def cursor_work_def)
  qed
qed

lemma spends_intro_turn:
  assumes "on_intro_candidate_turn s now = Inr r" and "phase s = Intro"
  shows "spends px config s (commands r) (new_state r)"
  using assms(1)
proof (cases rule: on_intro_candidate_turn_cases)
  case (1 p node ctx s' cmd)
  with issue_interviewer_fields [OF 1(2)] assms(2) show ?thesis
    by (auto simp: spends_def assessable_def cursor_work_def plan_work_def)
qed

lemma spends_qa_turn:
  assumes "on_qa_candidate_turn s now = Inr r" and "phase s = Qa"
  shows "spends px config s (commands r) (new_state r)"
  using assms(1)
proof (cases rule: on_qa_candidate_turn_cases)
  case (reply p s' cmd)
  with issue_interviewer_fields [OF reply(3)] assms(2) show ?thesis
    by (auto simp: spends_def assessable_def)
qed (use assms(2) in \<open>simp add: spends_def assessable_def enter_close_def Let_def\<close>)

lemma transition_spends:
  assumes tr: "transition px s e config = Inr r" and inv: "machine_inv px config s"
    and cfg: "config_ok config"
  shows "spends px config s (commands r) (new_state r)"
proof (cases "phase s \<in> terminal_phases")
  case True
  with tr show ?thesis by (auto simp: transition_def spends_same)
next
  case live: False
  note leave = spends_leave [OF _ _ inv cfg]
  show ?thesis
  proof (cases e)
    case (SessionStarted now)
    with tr live consider "r = ignore s"
      | "phase s = Created" "r = on_session_started px s now"
      by (auto simp: transition_def split: if_splits)
    then show ?thesis
    proof cases
      case 2
      then show ?thesis
        by (auto simp: on_session_started_def abort_def spends_def assessable_def plan_work_def
            work_after_nonneg [OF cfg] Let_def split: sum.splits plan_error.splits)
    qed (simp add: spends_same)
  next
    case (CandidateTurnReceived turn said now)
    with tr live have "r = ignore s \<or> (phase s = Intro \<and> on_intro_candidate_turn s now = Inr r)
        \<or> (phase s = Tech \<and> on_tech_candidate_turn s turn now config = Inr r)
        \<or> (phase s = Qa \<and> on_qa_candidate_turn s now = Inr r)"
      by (cases "phase s") (auto simp: transition_def on_candidate_turn_def split: if_splits)
    then show ?thesis
      using spends_intro_turn spends_tech_turn [OF _ _ inv cfg] spends_qa_turn
        spends_same [of s s "[]" px config] by auto
  next
    case (InterviewerReplyReady turn out now)
    with tr live have "r = ignore s \<or> r = on_interviewer_reply s turn out config"
      by (auto simp: transition_def split: if_splits)
    then show ?thesis
      by (auto simp: on_interviewer_reply_def complete_def Let_def leave spends_same)
  next
    case (InterviewerFailed turn kind now)
    with tr live have "r = ignore s \<or> r = on_interviewer_failed s turn kind"
      by (auto simp: transition_def split: if_splits)
    then show ?thesis
      by (auto simp: on_interviewer_failed_def abort_def Let_def
          leave spends_same split: option.splits pending_command.splits)
  next
    case (TimerTick now)
    with tr live have "on_timer_tick s now config = Inr r" by (simp add: transition_def)
    then show ?thesis
    proof (cases rule: on_timer_tick_cases)
      case (to_qa s' cmd)
      with enter_qa_fields [OF to_qa(3)] show ?thesis by (auto simp: leave)
    qed (auto simp: abort_def enter_close_def complete_def Let_def leave spends_same)
  qed (use tr live in \<open>auto simp: transition_def abort_def on_reconnected_def
      on_assessment_completed_def on_assessment_failed_def drop_pending_def Let_def
      leave spends_same split: option.splits\<close>)
qed

lemma spends_trans:
  "spends px config s cs s' \<Longrightarrow> spends px config s' ds s'' \<Longrightarrow> spends px config s (cs @ ds) s''"
  by (simp add: spends_def)

section \<open>The review flag\<close>

text \<open>The flag is up exactly when one of the two counts has reached its threshold.\<close>

definition review_inv :: "orchestrator_config \<Rightarrow> session_state \<Rightarrow> bool" where
  "review_inv config s \<longleftrightarrow>
     (flagged_for_review s \<longleftrightarrow>
        cheat_flag_count s \<ge> cheat_flags_to_review (flags config)
        \<or> drift_count (tech s) \<ge> drift_to_review (flags config))"

text \<open>What the flag depends on.\<close>

definition same_review :: "session_state \<Rightarrow> session_state \<Rightarrow> bool" where
  "same_review s s' \<longleftrightarrow> flagged_for_review s' = flagged_for_review s
     \<and> cheat_flag_count s' = cheat_flag_count s \<and> drift_count (tech s') = drift_count (tech s)"

lemma review_inv_same: "same_review s s' \<Longrightarrow> review_inv config s \<Longrightarrow> review_inv config s'"
  by (simp add: review_inv_def same_review_def)

lemma same_review_refl [simp]: "same_review s s"
  by (simp add: same_review_def)

lemma same_review_tech_turn:
  assumes "on_tech_candidate_turn s turn now config = Inr r"
  shows "same_review s (new_state r)"
  using assms
proof (cases rule: on_tech_candidate_turn_cases)
  case (probe p c s' cmd)
  with issue_interviewer_fields [OF probe(4)] show ?thesis by (simp add: same_review_def)
next
  case (next_seed p c q s' cmd)
  with issue_interviewer_fields [OF next_seed(5)] show ?thesis by (simp add: same_review_def)
next
  case (next_competency p c v following ctx s' cmd)
  with issue_interviewer_fields [OF next_competency(6)] show ?thesis by (simp add: same_review_def)
next
  case (last_competency p c v s' cmd)
  with enter_qa_fields [OF last_competency(6)] show ?thesis by (simp add: same_review_def)
qed

lemma same_review_candidate_turn:
  assumes "on_candidate_turn s turn now config = Inr r"
  shows "same_review s (new_state r)"
proof -
  have "same_review s (new_state r)" if "on_intro_candidate_turn s now = Inr r"
    using that
  proof (cases rule: on_intro_candidate_turn_cases)
    case (1 p node ctx s' cmd)
    with issue_interviewer_fields [OF 1(2)] show ?thesis by (simp add: same_review_def)
  qed
  moreover have "same_review s (new_state r)" if "on_qa_candidate_turn s now = Inr r"
    using that
  proof (cases rule: on_qa_candidate_turn_cases)
    case (reply p s' cmd)
    with issue_interviewer_fields [OF reply(3)] show ?thesis by (simp add: same_review_def)
  qed (simp add: enter_close_def Let_def same_review_def)
  ultimately show ?thesis
    using assms same_review_tech_turn
    by (cases "phase s") (auto simp: on_candidate_turn_def split: if_splits)
qed

lemma same_review_timer_tick:
  assumes "on_timer_tick s now config = Inr r"
  shows "same_review s (new_state r)"
  using assms
proof (cases rule: on_timer_tick_cases)
  case (to_qa s' cmd)
  with enter_qa_fields [OF to_qa(3)] show ?thesis by (simp add: same_review_def)
qed (simp_all add: abort_def enter_close_def complete_def Let_def same_review_def)

lemma same_review_others:
  "same_review s (new_state (on_session_started px s now))"
  "same_review s (new_state (on_interviewer_failed s turn kind))"
  "same_review s (new_state (on_assessment_failed s turn))"
  "same_review s (new_state (on_reconnected s))"
  "same_review s (new_state (abort s a d b))"
  by (auto simp: on_session_started_def on_interviewer_failed_def on_assessment_failed_def
      on_reconnected_def abort_def Let_def same_review_def
      split: sum.split plan_error.split option.split pending_command.split)

lemma transition_review_inv:
  assumes tr: "transition px s e config = Inr r" and rev: "review_inv config s"
  shows "review_inv config (new_state r)"
proof -
  have reply: "review_inv config (new_state (on_interviewer_reply s turn out config))" for turn out
    using rev by (auto simp: on_interviewer_reply_def complete_def review_inv_def Let_def)
  have assessed: "review_inv config (new_state (on_assessment_completed s turn out config))" for turn out
    using rev by (auto simp: on_assessment_completed_def review_inv_def Let_def count_cheat_flags_def)
  note same = review_inv_same [OF _ rev]
  show ?thesis
    using tr rev
    by (cases e) (auto simp: transition_def reply assessed same_review_others
        same_review_candidate_turn same_review_timer_tick split: if_splits intro: same)
qed

lemma reachable_review_inv:
  "reachable px config s \<Longrightarrow> config_ok config \<Longrightarrow> review_inv config s"
proof (induction rule: reachable.induct)
  case (created sid input)
  then show ?case
    by (simp add: review_inv_def initial_state_def initial_tech_def config_ok_def)
next
  case (step s e r)
  then show ?case using transition_review_inv by blast
qed

section \<open>Coverage\<close>

text \<open>
  The levels an assessor output gives a rubric node, in order, and what the evidence
  cell must say after them: the latest level is the last one, the best level the highest
  ever given, and the best confidence belongs to the last item that attained it.
\<close>

definition node_items :: "string \<Rightarrow> assessment_item list \<Rightarrow> assessment_item list" where
  "node_items node items = filter (\<lambda>i. rubric_node_id i = node) items"

fun best_item :: "assessment_item list \<Rightarrow> assessment_item option" where
  "best_item [] = None"
| "best_item (i # is) = (case best_item is of
     None \<Rightarrow> Some i
   | Some b \<Rightarrow> if level i > level b then Some i else Some b)"

definition cell_best :: "coverage_cell \<Rightarrow> (int \<times> rat) option" where
  "cell_best c = (case (best_level c, best_confidence c) of
     (Some l, Some q) \<Rightarrow> Some (l, q) | _ \<Rightarrow> None)"

definition better :: "(int \<times> rat) option \<Rightarrow> assessment_item option \<Rightarrow> (int \<times> rat) option" where
  "better old new = (case new of
     None \<Rightarrow> old
   | Some i \<Rightarrow> (case old of
       None \<Rightarrow> Some (level i, confidence i)
     | Some (l, q) \<Rightarrow> if l > level i then Some (l, q) else Some (level i, confidence i)))"

lemma best_item_None [simp]: "best_item items = None \<longleftrightarrow> items = []"
  by (cases items) (auto split: option.splits)

lemma best_item_snoc:
  "best_item (items @ [i]) = (case best_item items of
     None \<Rightarrow> Some i | Some b \<Rightarrow> if level b > level i then Some b else Some i)"
  by (induction items) (auto split: option.splits)

lemma best_item_max: "items \<noteq> [] \<Longrightarrow> \<exists>b. best_item items = Some b \<and> b \<in> set items
    \<and> (\<forall>i \<in> set items. level i \<le> level b)"
proof (induction items rule: rev_induct)
  case (snoc i items)
  then show ?case by (cases "items = []") (auto simp: best_item_snoc split: option.splits)
qed simp

lemma better_snoc: "better (better old (best_item items)) (Some i) = better old (best_item (items @ [i]))"
  by (auto simp: better_def best_item_snoc split: option.splits)

lemma node_items_simps [simp]:
  "node_items node [] = []"
  "node_items node (items @ [i]) =
     node_items node items @ (if rubric_node_id i = node then [i] else [])"
  by (simp_all add: node_items_def)

lemma record_item_other:
  "rubric_node_id i \<noteq> node \<Longrightarrow>
     dict_default (record_item cov i) node d = dict_default cov node d"
  by (simp add: record_item_def Let_def dict_default_set)

lemma record_item_same:
  assumes "cell_inv (dict_default cov (rubric_node_id i) empty_cell)"
  shows "let c = dict_default cov (rubric_node_id i) empty_cell;
             c' = dict_default (record_item cov i) (rubric_node_id i) empty_cell
         in cell_best c' = better (cell_best c) (Some i)
            \<and> latest_level c' = Some (level i) \<and> latest_confidence c' = Some (confidence i)"
  using assms
  by (auto simp: record_item_def Let_def dict_default_set cell_best_def better_def cell_inv_def)

text \<open>Recording a list of items, seen from one node.\<close>

lemma record_items_cell:
  assumes "coverage_inv cov" and "list_all assessment_item_ok items"
  shows "cell_best (dict_default (foldl record_item cov items) node empty_cell)
       = better (cell_best (dict_default cov node empty_cell)) (best_item (node_items node items))
    \<and> latest_level (dict_default (foldl record_item cov items) node empty_cell) =
       (if node_items node items = [] then latest_level (dict_default cov node empty_cell)
        else Some (level (last (node_items node items))))"
  using assms(2)
proof (induction items rule: rev_induct)
  case Nil
  show ?case by (simp add: better_def)
next
  case (snoc i items)
  have "coverage_inv (foldl record_item cov items)"
    using snoc.prems by (intro record_items_inv [OF assms(1)]) simp
  then have "cell_inv (dict_default (foldl record_item cov items) (rubric_node_id i) empty_cell)"
    by (rule coverage_inv_default)
  note same = record_item_same [OF this, unfolded Let_def]
  show ?case
    using snoc.IH snoc.prems same
    by (cases "rubric_node_id i = node") (auto simp: record_item_other better_snoc)
qed

end
