(* ===== verification/Orchestrator_Props.thy ===== *)
theory Orchestrator_Props
  imports Orchestrator_Runs
begin

text \<open>
  The correctness properties of the interview machine, stated over \<open>transition\<close> and over
  runs of it, and the concrete session the witnesses use.
\<close>

section \<open>A concrete session\<close>

definition demo_plan :: plan_snapshot where
  "demo_plan = \<lparr>plan_version = 1,
     competencies = [\<lparr>node_id = ''n1'', label_uk = ''SQL'', target_level = 3, minutes = 10,
                      seed_questions_uk = [''q1'', ''q2''], probe_branches_uk = [''p1'']\<rparr>],
     qa_minutes = 5, session_max_minutes = 30\<rparr>"

definition demo_input :: "(string, json) dict" where
  "demo_input = (case plan_payload demo_plan of JObj d \<Rightarrow> d | _ \<Rightarrow> [])"

definition demo_created :: session_state where
  "demo_created = initial_state 7 demo_input committed_config"

definition demo_intro :: session_state where
  "demo_intro = demo_created\<lparr>phase := Intro, awaiting := Some Interviewer, plan := Some demo_plan,
     session_started_at := Some 0, last_candidate_activity := Some 0, turn_seq := 1,
     pending_command := Some (EmitScriptedOpening (derive_turn_id 7 (turn_path 0))
       opening_script_path)\<rparr>"

definition demo_context :: "(string, json) dict" where
  "demo_context = [(''competency_node_id'', JStr ''n1''), (''seed_index'', JInt 0),
     (''seed_question_uk'', JStr ''q1'')]"

definition demo_asking :: session_state where
  "demo_asking = demo_intro\<lparr>phase := Tech, last_candidate_activity := Some 1,
     tech := initial_tech\<lparr>competency_started_at := Some 1\<rparr>,
     turn_seq := 2, last_issued_move := Some AskSeed,
     pending_command := Some (RunInterviewer \<lparr>ri_turn_id = derive_turn_id 7 (turn_path 1),
       ri_move = AskSeed, ri_competency_node_id = Some ''n1'', ri_move_context = demo_context,
       ri_retry = False\<rparr>)\<rparr>"

definition demo_reply :: interviewer_output where
  "demo_reply = \<lparr>utterance = ''q1?'', internal_move_executed = AskSeed\<rparr>"

definition demo_tech :: session_state where
  "demo_tech = demo_asking\<lparr>awaiting := Some Candidate,
     pending_command := Some (DeliverUtterance (derive_turn_id 7 (turn_path 1)) ''q1?'')\<rparr>"

definition demo_transition :: "session_state \<Rightarrow> event \<Rightarrow> orchestrator_error + transition_result" where
  "demo_transition s e = transition strict_px s e committed_config"

lemma demo_plan_ok: "plan_ok demo_plan"
  by (simp add: plan_ok_def demo_plan_def competency_ok_def py_len_def is_continuation_def)

lemma demo_plan_validates: "validate_plan strict_px (JObj demo_input) = Inr demo_plan"
proof -
  have "JObj demo_input = plan_payload demo_plan"
    by (simp add: demo_input_def plan_payload_def)
  then show ?thesis using plan_payload_validates [OF strict_px_ok demo_plan_ok] by simp
qed

lemmas demo_states = demo_created_def demo_intro_def demo_asking_def demo_tech_def
  initial_state_def initial_tech_def

lemma demo_starts:
  "transition strict_px demo_created (SessionStarted 0) committed_config =
     Inr \<lparr>new_state = demo_intro,
          commands = [Outbound (EmitScriptedOpening (derive_turn_id 7 (turn_path 0))
            opening_script_path), PersistState]\<rparr>"
proof -
  have "plan_input demo_created = demo_input" "phase demo_created = Created"
    by (simp_all add: demo_states)
  then show ?thesis
    by (simp add: transition_def terminal_phases_def on_session_started_def demo_plan_validates
        Let_def) (simp add: demo_states)
qed

lemma demo_asks:
  "transition strict_px demo_intro (CandidateTurnReceived 100 ''ready'' 1) committed_config =
     Inr \<lparr>new_state = demo_asking, commands = [Outbound (the (pending_command demo_asking)), PersistState]\<rparr>"
  by (simp add: transition_def on_candidate_turn_def terminal_phases_def on_intro_candidate_turn_def
      require_plan_def first_competency_def demo_plan_def first_seed_context_def first_seed_def
      issue_interviewer_def Let_def demo_context_def demo_states)

lemma demo_answers:
  "transition strict_px demo_asking
     (InterviewerReplyReady (derive_turn_id 7 (turn_path 1)) demo_reply 2) committed_config =
     Inr \<lparr>new_state = demo_tech,
          commands = [Outbound (the (pending_command demo_tech)), PersistState]\<rparr>"
  by (simp add: transition_def on_interviewer_reply_def terminal_phases_def demo_reply_def
      answers_pending_command_def Let_def demo_states)

lemma demo_reply_ok: "interviewer_output_ok demo_reply"
  by (simp add: interviewer_output_ok_def demo_reply_def py_len_def is_continuation_def)

lemma demo_reachable:
  "reachable strict_px committed_config demo_created"
  "reachable strict_px committed_config demo_intro"
  "reachable strict_px committed_config demo_asking"
  "reachable strict_px committed_config demo_tech"
proof -
  show c: "reachable strict_px committed_config demo_created"
    unfolding demo_created_def by (rule reachable.created)
  have "reachable strict_px committed_config (new_state \<lparr>new_state = demo_intro,
          commands = [Outbound (EmitScriptedOpening (derive_turn_id 7 (turn_path 0))
            opening_script_path), PersistState]\<rparr>)"
    by (rule reachable.step [OF c _ demo_starts]) (simp add: event_ok_def)
  then show i: "reachable strict_px committed_config demo_intro" by simp
  from reachable.step [OF i _ demo_asks]
  show a: "reachable strict_px committed_config demo_asking" by (simp add: event_ok_def)
  from reachable.step [OF a _ demo_answers]
  show "reachable strict_px committed_config demo_tech" by (simp add: event_ok_def demo_reply_ok)
qed

section \<open>Whole runs\<close>

text \<open>The runs of the machine inherit every relation its transitions keep.\<close>

lemma machine_run_relation:
  assumes "\<And>s. P s [] s"
    and "\<And>s cs s' ds s''. P s cs s' \<Longrightarrow> P s' ds s'' \<Longrightarrow> P s (cs @ ds) s''"
    and each: "\<And>s e r. machine_inv px config s \<Longrightarrow> event_ok e \<Longrightarrow>
      transition px s e config = Inr r \<Longrightarrow> P s (commands r) (new_state r)"
    and "config_ok config" "machine_inv px config s" "\<forall>e \<in> set es. event_ok e"
    and "run_events (machine_step px config) s es = Inr (s', cs)"
  shows "P s cs s'"
proof (rule machine.run_relation [where P = P, OF assms(1,2) _ _ assms(6,7)])
  show "config_ok config \<and> machine_inv px config s" using assms(4,5) by simp
next
  fix s e s' cs
  assume "config_ok config \<and> machine_inv px config s" "event_ok e"
    "machine_step px config s e = Inr (s', cs)"
  then show "P s cs s'"
    using each by (auto simp: machine_step_def and_then_eq_Inr)
qed

lemma run_effect:
  assumes "config_ok config" "machine_inv px config s" "\<forall>e \<in> set es. event_ok e"
    "run_events (machine_step px config) s es = Inr (s', cs)"
  shows "effect s cs s'"
  using machine_run_relation [where P = effect, OF effect_refl _ _ assms]
    effect_trans transition_effect by blast

lemma run_spends:
  assumes "config_ok config" "machine_inv px config s" "\<forall>e \<in> set es. event_ok e"
    "run_events (machine_step px config) s es = Inr (s', cs)"
  shows "spends px config s cs s'"
proof (rule machine_run_relation [where P = "spends px config", OF _ _ _ assms])
  fix s e r
  assume "machine_inv px config s" "transition px s e config = Inr r"
  then show "spends px config s (commands r) (new_state r)"
    using transition_spends assms(1) by blast
qed (simp_all add: spends_def)

lemma demo_created_inv: "machine_inv strict_px committed_config demo_created"
  unfolding demo_created_def by (rule initial_state_inv)

lemma demo_run: "run_events (machine_step strict_px committed_config) demo_created
    [SessionStarted 0, CandidateTurnReceived 100 ''ready'' 1,
     InterviewerReplyReady (derive_turn_id 7 (turn_path 1)) demo_reply 2] =
   Inr (demo_tech, [Outbound (the (pending_command demo_intro)), PersistState,
     Outbound (the (pending_command demo_asking)), PersistState,
     Outbound (the (pending_command demo_tech)), PersistState])"
proof -
  have "the (pending_command demo_intro) =
      EmitScriptedOpening (derive_turn_id 7 (turn_path 0)) opening_script_path"
    by (simp add: demo_intro_def)
  then show ?thesis
    by (simp add: machine_step_def demo_starts demo_asks demo_answers)
qed

lemma demo_events_ok: "\<forall>e \<in> set [SessionStarted 0, CandidateTurnReceived 100 ''ready'' 1,
     InterviewerReplyReady (derive_turn_id 7 (turn_path 1)) demo_reply 2]. event_ok e"
  by (simp add: event_ok_def demo_reply_ok)





text \<open>
  C16: the interview is bounded. Over a whole run, whatever the candidate, the agents and the
  timer do, the assessor is called at most as often as the plan has seed questions and
  allowed probes.
\<close>

theorem assessor_calls_bounded:
  assumes "config_ok config" and "\<forall>e \<in> set es. event_ok e"
    and "validate_plan px (JObj input) = Inr p"
    and "run_events (machine_step px config) (initial_state sid input config) es = Inr (s, cs)"
  shows "assessor_calls cs \<le> plan_work config p"
proof -
  have "spends px config (initial_state sid input config) cs s"
    by (rule run_spends [OF assms(1) initial_state_inv assms(2,4)])
  moreover have "0 \<le> assessable px config s"
    using machine.run_inv [OF _ assms(2,4)] assms(1) initial_state_inv assessable_nonneg by blast
  ultimately show ?thesis
    using assms(3) by (simp add: spends_def assessable_def initial_state_def)
qed

theorem assessor_calls_bounded_witness:
  "assessor_calls [Outbound (the (pending_command demo_intro)), PersistState,
     Outbound (the (pending_command demo_asking)), PersistState,
     Outbound (the (pending_command demo_tech)), PersistState]
   \<le> plan_work committed_config demo_plan"
  by (rule assessor_calls_bounded [OF committed_config_ok demo_events_ok demo_plan_validates
        demo_run [unfolded demo_created_def]])

text \<open>
  C17: turn ids are structural. The ids a run hands out to fresh outbound turns are, in
  order and without gap or repetition of their counter, \<open>uuid5(session, "turn/0")\<close>,
  \<open>"turn/1"\<close> and so on up to the counter of the final state; the session id, the plan
  input and a validated plan never change.
\<close>

theorem run_turn_ids:
  assumes "config_ok config" and "\<forall>e \<in> set es. event_ok e"
    and "run_events (machine_step px config) (initial_state sid input config) es = Inr (s, cs)"
  shows "fresh_ids cs = map (\<lambda>k. uuid5 sid (''turn/'' @ show_int k)) [0..turn_seq s - 1]
    \<and> session_id s = sid \<and> plan_input s = input"
proof -
  have "effect (initial_state sid input config) cs s"
    by (rule run_effect [OF assms(1) initial_state_inv assms(2,3)])
  then show ?thesis
    by (simp add: effect_def initial_state_def turn_ids_def derive_turn_id_def turn_path_def)
qed

theorem run_turn_ids_witness:
  "fresh_ids [Outbound (the (pending_command demo_intro)), PersistState,
     Outbound (the (pending_command demo_asking)), PersistState,
     Outbound (the (pending_command demo_tech)), PersistState] =
     map (\<lambda>k. uuid5 7 (''turn/'' @ show_int k)) [0..turn_seq demo_tech - 1]
   \<and> session_id demo_tech = 7 \<and> plan_input demo_tech = demo_input"
  by (rule run_turn_ids [OF committed_config_ok demo_events_ok demo_run [unfolded demo_created_def]])

text \<open>Phases in the order an interview goes through them.\<close>

definition phase_rank :: "phase \<Rightarrow> nat" where
  "phase_rank ph = (case ph of
     Created \<Rightarrow> 0 | Intro \<Rightarrow> 1 | Tech \<Rightarrow> 2 | Qa \<Rightarrow> 3 | Close \<Rightarrow> 4 | Completed \<Rightarrow> 5 | Aborted \<Rightarrow> 5)"

text \<open>The two ends of an interview are incomparable, so the order is a partial one.\<close>

instantiation phase :: order
begin

definition less_eq_phase :: "phase \<Rightarrow> phase \<Rightarrow> bool" where
  "p \<le> q \<longleftrightarrow> p = q \<or> phase_rank p < phase_rank q"

definition less_phase :: "phase \<Rightarrow> phase \<Rightarrow> bool" where
  "p < q \<longleftrightarrow> phase_rank p < phase_rank q"

instance
  by standard (auto simp: less_eq_phase_def less_phase_def)

end

lemma row_rank:
  "table_row ph e ph' cs \<Longrightarrow> ph \<le> ph'"
  by (cases rule: table_row.cases)
    (auto simp: less_eq_phase_def phase_rank_def live_def terminal_phases_def split: phase.splits)

lemma terminal_step:
  "phase s \<in> terminal_phases \<Longrightarrow> machine_step px config s e = Inr (s, [])"
  by (simp add: machine_step_def transition_def)

text \<open>
  C27: an interview only moves forward, and the end is final. In any run a phase is never
  re-entered once left, and once a session is completed or aborted every further event
  leaves its state as it is and emits no command.
\<close>

theorem phases_only_advance:
  assumes "config_ok config" and "machine_inv px config s" and "\<forall>e \<in> set es. event_ok e"
    and "run_events (machine_step px config) s es = Inr (s', cs)"
  shows "phase s \<le> phase s'
    \<and> (phase s' \<in> terminal_phases \<longrightarrow>
        run_events (machine_step px config) s' es' = Inr (s', []))"
proof -
  have "phase s \<le> phase s'"
  proof (rule machine_run_relation [where P = "\<lambda>s cs s'. phase s \<le> phase s'", OF _ _ _ assms])
    fix s e r
    assume "transition px s e config = Inr r"
    then show "phase s \<le> phase (new_state r)" using transition_row row_rank by blast
  qed auto
  moreover have "run_events (machine_step px config) s' es' = Inr (s', [])"
    if "phase s' \<in> terminal_phases"
    using that by (induction es') (simp_all add: terminal_step)
  ultimately show ?thesis by blast
qed

theorem phases_only_advance_witness:
  "run_events (machine_step strict_px committed_config)
     (new_state (abort demo_created OperatorAborted OperatorDecision True))
     [SessionStarted 5, TimerTick 6]
   = Inr (new_state (abort demo_created OperatorAborted OperatorDecision True), [])"
proof -
  let ?final = "new_state (abort demo_created OperatorAborted OperatorDecision True)"
  have run: "run_events (machine_step strict_px committed_config) demo_created
      [OperatorAbort OperatorAborted 1] = Inr (?final, [RecordDecision OperatorDecision, PersistState])"
    by (simp add: machine_step_def transition_def terminal_phases_def abort_def demo_states)
  have "phase ?final \<in> terminal_phases" by (simp add: abort_def terminal_phases_def)
  then show ?thesis
    using phases_only_advance [OF committed_config_ok demo_created_inv _ run,
        of "[SessionStarted 5, TimerTick 6]"] by (simp add: event_ok_def)
qed

lemma first_match:
  "let v = (if a then \<lparr>verdict = Answered, basis = b, adj_gap_marker = None\<rparr>
            else if z then \<lparr>verdict = NoneVerdict, basis = b, adj_gap_marker = Some LevelZero\<rparr>
            else if sp then \<lparr>verdict = NoneVerdict, basis = b, adj_gap_marker = Some GapBudgetExhausted\<rparr>
            else if m then \<lparr>verdict = NoneVerdict, basis = b, adj_gap_marker = Some GapNotAssessable\<rparr>
            else \<lparr>verdict = Clarify, basis = b, adj_gap_marker = None\<rparr>)
   in (verdict v = Answered \<longleftrightarrow> a) \<and> (verdict v = NoneVerdict \<longleftrightarrow> \<not> a \<and> (z \<or> sp \<or> m))
    \<and> (verdict v = Clarify \<longleftrightarrow> \<not> (a \<or> z \<or> sp \<or> m))
    \<and> adj_gap_marker v =
        (if verdict v \<noteq> NoneVerdict then None
         else if z then Some LevelZero else if sp then Some GapBudgetExhausted
         else Some GapNotAssessable)"
  by (simp add: Let_def)

text \<open>
  C28: the verdict of an answer is the contract's 2/1/0 table (section 5). ANSWERED exactly
  when the best level reaches the target with enough confidence; otherwise NONE exactly when
  the latest level is zero, the probe or time budget is spent, or an unassessable answer has
  already been probed; otherwise CLARIFY. A NONE always carries a gap marker, chosen in that
  order, and no other verdict does.
\<close>

theorem adjudicate_is_the_table:
  "let ans = (\<exists>c l q. cell = Some c \<and> best_level c = Some l \<and> best_confidence c = Some q
        \<and> target \<le> l \<and> confidence_min (adjudication config) \<le> q);
       zero = (\<exists>c. cell = Some c \<and> latest_level c = Some 0);
       spent = (max_probes_per_competency (adjudication config) \<le> probes
        \<or> secs \<le> of_int (min_probe_seconds (adjudication config)));
       mute = (\<exists>c. cell = Some c \<and> gap_not_assessable c \<and> 1 \<le> probes);
       v = adjudicate cell target probes secs config
   in (verdict v = Answered \<longleftrightarrow> ans)
    \<and> (verdict v = NoneVerdict \<longleftrightarrow> \<not> ans \<and> (zero \<or> spent \<or> mute))
    \<and> (verdict v = Clarify \<longleftrightarrow> \<not> (ans \<or> zero \<or> spent \<or> mute))
    \<and> adj_gap_marker v =
        (if verdict v \<noteq> NoneVerdict then None
         else if zero then Some LevelZero else if spent then Some GapBudgetExhausted
         else Some GapNotAssessable)"
proof -
  have a: "answered cell target (adjudication config) \<longleftrightarrow>
      (\<exists>c l q. cell = Some c \<and> best_level c = Some l \<and> best_confidence c = Some q
        \<and> target \<le> l \<and> confidence_min (adjudication config) \<le> q)"
    by (auto simp: answered_def split: option.splits)
  have z: "(case cell of None \<Rightarrow> False | Some c \<Rightarrow> latest_level c = Some 0) \<longleftrightarrow>
      (\<exists>c. cell = Some c \<and> latest_level c = Some 0)"
    by (auto split: option.splits)
  have m: "((case cell of None \<Rightarrow> False | Some c \<Rightarrow> gap_not_assessable c) \<and> probes \<ge> 1) \<longleftrightarrow>
      (\<exists>c. cell = Some c \<and> gap_not_assessable c \<and> 1 \<le> probes)"
    by (auto split: option.splits)
  show ?thesis
    unfolding adjudicate_def Let_def a z m by (rule first_match [unfolded Let_def])
qed

text \<open>
  Measurement never routes. A completed or a failed assessment changes neither the phase,
  nor whose turn it is, nor the outstanding command, nor the position in the plan, nor any
  clock; the only command it emits is the one to persist. Only coverage, counters, flags and
  the pending list may change.
\<close>

theorem assessments_never_route:
  assumes "transition px s e config = Inr r"
    and "e = AssessmentCompleted turn out now \<or> e = AssessmentFailed turn kind now"
  shows "phase (new_state r) = phase s \<and> awaiting (new_state r) = awaiting s
    \<and> pending_command (new_state r) = pending_command s
    \<and> last_issued_move (new_state r) = last_issued_move s
    \<and> turn_seq (new_state r) = turn_seq s
    \<and> interviewer_failure_streak (new_state r) = interviewer_failure_streak s
    \<and> (\<forall>f \<in> {competency_index, seed_index, probes_used}. f (tech (new_state r)) = f (tech s))
    \<and> (\<forall>f \<in> {session_started_at, qa_started_at, last_candidate_activity}.
          f (new_state r) = f s)
    \<and> competency_started_at (tech (new_state r)) = competency_started_at (tech s)
    \<and> set (commands r) \<subseteq> {PersistState}"
  using assms
  by (auto simp: transition_def on_assessment_completed_def on_assessment_failed_def Let_def
      drop_pending_def split: if_splits option.splits)

theorem assessments_never_route_witness:
  "\<exists>r. demo_transition (demo_tech\<lparr>tech := schedule_assessor (tech demo_tech) 100 ''n1''\<rparr>)
      (AssessmentFailed 100 ''timeout'' 9) = Inr r
    \<and> commands r = [PersistState] \<and> phase (new_state r) = Tech"
proof -
  let ?s = "demo_tech\<lparr>tech := schedule_assessor (tech demo_tech) 100 ''n1''\<rparr>"
  have "phase ?s = Tech" by (simp add: demo_states)
  then have t: "transition strict_px ?s (AssessmentFailed 100 ''timeout'' 9) committed_config
      = Inr (on_assessment_failed ?s 100)"
    by (simp add: transition_def terminal_phases_def)
  have "phase (new_state (on_assessment_failed ?s 100)) = Tech"
    using assessments_never_route [OF t] \<open>phase ?s = Tech\<close> by simp
  moreover have "commands (on_assessment_failed ?s 100) = [PersistState]"
    by (simp add: on_assessment_failed_def schedule_assessor_def Let_def)
  ultimately show ?thesis using t by (simp add: demo_transition_def)
qed

text \<open>
  The review flag is the two thresholds. In every reachable state the session is flagged
  for review exactly when the cheating flags counted so far have reached
  \<open>cheat_flags_to_review\<close> or the interviewer's drifts \<open>drift_to_review\<close>.
\<close>

theorem flagged_iff_threshold:
  assumes "reachable px config s" and "config_ok config"
  shows "flagged_for_review s \<longleftrightarrow>
      cheat_flags_to_review (flags config) \<le> cheat_flag_count s
      \<or> drift_to_review (flags config) \<le> drift_count (tech s)"
  using reachable_review_inv [OF assms] by (simp add: review_inv_def)

theorem flagged_iff_threshold_witness:
  "flagged_for_review demo_tech \<longleftrightarrow>
      cheat_flags_to_review (flags committed_config) \<le> cheat_flag_count demo_tech
      \<or> drift_to_review (flags committed_config) \<le> drift_count (tech demo_tech)"
  by (rule flagged_iff_threshold [OF demo_reachable(4) committed_config_ok])

text \<open>
  Coverage is the evidence. When a pending assessment with items completes, each rubric
  node's best level and confidence are those of the highest level ever given to it (of two
  equal ones the later), its latest level is that of the output's last item for it, and
  nodes the output does not mention keep both.
\<close>

theorem coverage_keeps_best_and_latest:
  assumes "machine_inv px config s" and "assessor_output_ok out"
    and "assessments out \<noteq> []" and "turn \<in> set (pending_assessments (tech s))"
    and "phase s \<notin> terminal_phases"
    and "transition px s (AssessmentCompleted turn out now) config = Inr r"
  shows "let old = dict_default (coverage (tech s)) node empty_cell;
             new = dict_default (coverage (tech (new_state r))) node empty_cell;
             given = node_items node (assessments out)
         in cell_best new = better (cell_best old) (best_item given)
            \<and> latest_level new = (if given = [] then latest_level old
                                  else Some (level (last given)))"
proof -
  let ?cov = "record_levels (coverage (tech s)) out"
  have r: "coverage (tech (new_state r)) = record_review_signals ?cov out"
    using assms(4-6) by (auto simp: transition_def on_assessment_completed_def Let_def)
  have keep: "cell_best (dict_default (record_review_signals ?cov out) node empty_cell)
        = cell_best (dict_default ?cov node empty_cell)
      \<and> latest_level (dict_default (record_review_signals ?cov out) node empty_cell)
        = latest_level (dict_default ?cov node empty_cell)"
    by (simp add: record_review_signals_def Let_def dict_default_set cell_best_def cong: option.case_cong)
  have "coverage_inv (coverage (tech s))" "list_all assessment_item_ok (assessments out)"
    using assms(1,2) by (auto simp: machine_inv_tech_parts assessor_output_ok_def)
  from record_items_cell [OF this, of node] assms(3) show ?thesis
    unfolding r Let_def keep [THEN conjunct1] keep [THEN conjunct2]
    by (simp add: record_levels_def)
qed

definition demo_item :: assessment_item where
  "demo_item = \<lparr>rubric_node_id = ''n1'', level = 4, confidence = 8 / 10, rationale_en = ''ok'',
     evidence_spans = [''e'']\<rparr>"

definition demo_assessment :: assessor_output where
  "demo_assessment = \<lparr>out_turn_id = 100, out_session_id = 7, competency_focus = ''n1'',
     assessments = [demo_item], red_flag_items = [], out_needs_manual_review = False,
     manual_review_reason_en = None\<rparr>"

definition demo_pending :: session_state where
  "demo_pending = demo_tech\<lparr>tech := schedule_assessor (tech demo_tech) 100 ''n1''\<rparr>"

lemma demo_assessment_ok: "assessor_output_ok demo_assessment"
  by (simp add: assessor_output_ok_def demo_assessment_def demo_item_def assessment_item_ok_def
      py_len_def is_continuation_def)

lemma demo_pending_inv: "machine_inv strict_px committed_config demo_pending"
proof -
  have inv: "machine_inv strict_px committed_config demo_tech"
    using reachable_inv [OF demo_reachable(4) committed_config_ok] .
  show ?thesis unfolding demo_pending_def
    by (rule tech_update_inv [OF inv]) (use machine_inv_tech_parts [OF inv] in simp_all)
qed

theorem coverage_keeps_best_and_latest_witness:
  "latest_level (dict_default (coverage (tech (new_state
     (on_assessment_completed demo_pending 100 demo_assessment committed_config)))) ''n1'' empty_cell)
   = Some 4"
proof -
  have ph: "phase demo_pending \<notin> terminal_phases" "100 \<in> set (pending_assessments (tech demo_pending))"
    by (simp_all add: demo_pending_def demo_states terminal_phases_def schedule_assessor_def)
  then have t: "transition strict_px demo_pending (AssessmentCompleted 100 demo_assessment 9)
      committed_config = Inr (on_assessment_completed demo_pending 100 demo_assessment committed_config)"
    by (simp add: transition_def)
  have "assessments demo_assessment \<noteq> []" by (simp add: demo_assessment_def)
  from coverage_keeps_best_and_latest [OF demo_pending_inv demo_assessment_ok this ph(2,1) t,
      of "''n1''"] show ?thesis
    by (simp add: Let_def node_items_def demo_assessment_def demo_item_def)
qed

text \<open>
  The interviewer's failure ladder. From a reachable state with a first attempt in
  flight, one failure repeats the same command for the same turn with the retry flag set and
  marks the turn degraded; a second failure in a row aborts the session with
  \<open>fatal_agent_error\<close>; a reply after the first failure is delivered and clears the streak.
\<close>

theorem interviewer_failure_ladder:
  assumes reach: "reachable px config s" and "config_ok config"
    and pend: "pending_command s = Some (RunInterviewer r)" and first: "\<not> ri_retry r"
  shows "\<exists>s1 s2. transition px s (InterviewerFailed (ri_turn_id r) k n) config =
        Inr \<lparr>new_state = s1, commands = [Outbound (RunInterviewer (r\<lparr>ri_retry := True\<rparr>)),
              FlagTurnDegraded (ri_turn_id r) k, PersistState]\<rparr>
      \<and> phase s1 = phase s
      \<and> transition px s1 (InterviewerFailed (ri_turn_id r) k' n') config =
        Inr \<lparr>new_state = s2, commands = [RecordDecision AgentFailure, PersistState]\<rparr>
      \<and> phase s2 = Aborted \<and> abort_reason s2 = Some FatalAgentError
      \<and> (\<exists>s3. transition px s1 (InterviewerReplyReady (ri_turn_id r) out n') config =
            Inr \<lparr>new_state = s3,
                 commands = [Outbound (DeliverUtterance (ri_turn_id r) (utterance out)), PersistState]\<rparr>
          \<and> awaiting s3 = Some Candidate \<and> interviewer_failure_streak s3 = 0)"
proof -
  have "link_inv s" using reachable_inv [OF assms(1,2)] by (simp add: machine_inv_def)
  with pend first have st: "phase s = Tech \<or> phase s = Qa" "awaiting s = Some Interviewer"
    "interviewer_failure_streak s = 0" by (auto simp: link_inv_def)
  let ?s1 = "s\<lparr>interviewer_failure_streak := 1,
      pending_command := Some (RunInterviewer (r\<lparr>ri_retry := True\<rparr>))\<rparr>"
  have live: "phase s \<notin> terminal_phases" "phase s \<noteq> Created" "phase s \<noteq> Close" "phase s \<in> {Tech, Qa}"
    using st(1) by (auto simp: terminal_phases_def)
  have fail: "transition px s (InterviewerFailed (ri_turn_id r) k n) config =
      Inr \<lparr>new_state = ?s1, commands = [Outbound (RunInterviewer (r\<lparr>ri_retry := True\<rparr>)),
              FlagTurnDegraded (ri_turn_id r) k, PersistState]\<rparr>"
    using live by (simp add: transition_def on_interviewer_failed_def st(2,3) pend
        answers_pending_command_def Let_def)
  have again: "transition px ?s1 (InterviewerFailed (ri_turn_id r) k' n') config =
      Inr (abort ?s1 FatalAgentError AgentFailure True)"
    using live by (simp add: transition_def on_interviewer_failed_def st(2)
        answers_pending_command_def)
  have reply: "transition px ?s1 (InterviewerReplyReady (ri_turn_id r) out n') config =
      Inr (on_interviewer_reply ?s1 (ri_turn_id r) out config)"
    using live by (simp add: transition_def)
  have "\<exists>s3. on_interviewer_reply ?s1 (ri_turn_id r) out config = \<lparr>new_state = s3,
      commands = [Outbound (DeliverUtterance (ri_turn_id r) (utterance out)), PersistState]\<rparr>
      \<and> awaiting s3 = Some Candidate \<and> interviewer_failure_streak s3 = 0"
    using live by (simp add: on_interviewer_reply_def answers_pending_command_def Let_def st(2))
  with fail again reply live show ?thesis
    by (intro exI [of _ ?s1] exI [of _ "new_state (abort ?s1 FatalAgentError AgentFailure True)"])
      (simp add: abort_def)
qed

theorem interviewer_failure_ladder_witness:
  "\<exists>s1. phase s1 = Tech \<and> phase s1 = phase demo_asking
     \<and> (\<exists>s2. demo_transition s1 (InterviewerFailed (derive_turn_id 7 (turn_path 1)) ''x'' 4) =
        Inr \<lparr>new_state = s2, commands = [RecordDecision AgentFailure, PersistState]\<rparr>)"
proof -
  have "pending_command demo_asking = Some (RunInterviewer \<lparr>ri_turn_id = derive_turn_id 7 (turn_path 1),
       ri_move = AskSeed, ri_competency_node_id = Some ''n1'', ri_move_context = demo_context,
       ri_retry = False\<rparr>)" (is "_ = Some (RunInterviewer ?r)")
    by (simp add: demo_asking_def)
  from interviewer_failure_ladder [OF demo_reachable(3) committed_config_ok this,
      of "''x''" 3 "''x''" 4 demo_reply]
  show ?thesis by (auto simp: demo_transition_def demo_asking_def)
qed

text \<open>
  A preempted reply is never spoken. When the timer moves a session out of TECH while
  an interviewer call is in flight, a later reply or failure that does not carry the id of
  the move the machine then issued changes nothing and emits nothing.
\<close>

theorem preempted_reply_ignored:
  assumes "phase s = Tech" and "transition px s (TimerTick now) config = Inr r"
    and "phase (new_state r) = Qa"
    and "turn \<noteq> derive_turn_id (session_id s) (turn_path (turn_seq s))"
  shows "transition px (new_state r) (InterviewerReplyReady turn out n) config
      = Inr \<lparr>new_state = new_state r, commands = []\<rparr>
    \<and> transition px (new_state r) (InterviewerFailed turn kind n) config
      = Inr \<lparr>new_state = new_state r, commands = []\<rparr>"
proof -
  have "on_timer_tick s now config = Inr r"
    using assms(1,2) by (simp add: transition_def terminal_phases_def)
  then have "pending_command (new_state r) \<noteq> None
    \<and> pending_turn_id (the (pending_command (new_state r)))
        = derive_turn_id (session_id s) (turn_path (turn_seq s))"
  proof (cases rule: on_timer_tick_cases)
    case (to_qa s' cmd)
    then show ?thesis
      by (auto simp: enter_qa_def and_then_eq_Inr issue_interviewer_def Let_def)
  qed (use assms(1,3) in \<open>simp_all add: abort_def ignore_def\<close>)
  with assms(4) have "\<not> answers_pending_command (new_state r) turn"
    by (auto simp: answers_pending_command_def)
  with assms(3) show ?thesis
    by (simp add: transition_def terminal_phases_def on_interviewer_reply_def
        on_interviewer_failed_def ignore_def)
qed

definition demo_late :: time where
  "demo_late = minutes_us 30"

definition demo_budget_spent :: session_state where
  "demo_budget_spent = demo_asking\<lparr>last_candidate_activity := Some demo_late\<rparr>"

theorem preempted_reply_ignored_witness:
  "\<exists>q. phase q = Qa
     \<and> demo_transition q (InterviewerReplyReady
          (derive_turn_id 7 (turn_path 2) + 1) demo_reply 5) = Inr \<lparr>new_state = q, commands = []\<rparr>"
proof -
  have st: "phase demo_budget_spent = Tech" "session_id demo_budget_spent = 7"
    "turn_seq demo_budget_spent = 2"
    by (simp_all add: demo_budget_spent_def demo_states)
  have "session_budget_exhausted demo_budget_spent demo_late"
    "\<not> candidate_timed_out demo_budget_spent demo_late committed_config"
    by (simp_all add: session_budget_exhausted_def candidate_timed_out_def demo_budget_spent_def
        demo_late_def demo_states demo_plan_def minutes_us_def committed_config_def)
  moreover obtain s' c where qa: "enter_qa demo_budget_spent demo_late = Inr (s', c)"
    by (simp add: enter_qa_def require_plan_def demo_budget_spent_def demo_states
        issue_interviewer_def Let_def)
  ultimately have t: "transition strict_px demo_budget_spent (TimerTick demo_late) committed_config
      = Inr \<lparr>new_state = s', commands = [Outbound c]\<rparr>"
    using st by (simp add: transition_def terminal_phases_def on_timer_tick_def)
  have "phase s' = Qa" using enter_qa_fields(1) [OF qa] .
  with preempted_reply_ignored [OF st(1) t, of "derive_turn_id 7 (turn_path 2) + 1" demo_reply 5]
  show ?thesis by (auto simp: demo_transition_def st)
qed

text \<open>
  One tick, one priority. On a started, live session a tick moves the phase by the
  order of section 6.7: candidate silence aborts before any budget; then the session budget
  takes TECH to Q and A and Q and A to the closing; then the Q and A budget; then a closing
  session completes; otherwise nothing moves.
\<close>

theorem tick_priority:
  assumes "reachable px config s" and "config_ok config" and "phase s \<notin> terminal_phases"
  shows "\<exists>r. transition px s (TimerTick now) config = Inr r
    \<and> phase (new_state r) =
        (if candidate_timed_out s now config then Aborted
         else if phase s = Tech \<and> session_budget_exhausted s now then Qa
         else if phase s = Qa \<and> (session_budget_exhausted s now \<or> qa_budget_exhausted s now) then Close
         else if phase s = Close then Completed
         else phase s)
    \<and> (candidate_timed_out s now config \<longrightarrow>
         abort_reason (new_state r) = Some CandidateTimeout
         \<and> commands r = [RecordDecision Timeout, PersistState])"
proof -
  have core: "core_inv px config s"
    using reachable_inv [OF assms(1,2)] by (rule machine_inv_core)
  have tick: "transition px s (TimerTick now) config = on_timer_tick s now config"
    using assms(3) by (simp add: transition_def)
  show ?thesis
  proof (cases "phase s = Tech \<and> session_budget_exhausted s now \<and> \<not> candidate_timed_out s now config")
    case True
    then obtain s' c where "enter_qa s now = Inr (s', c)" "phase s' = Qa"
      using enter_qa_total [OF core] by blast
    with True show ?thesis by (simp add: tick on_timer_tick_def)
  next
    case False
    then show ?thesis
      by (auto simp: tick on_timer_tick_def abort_def enter_close_def complete_def Let_def)
  qed
qed

theorem tick_priority_witness:
  "\<exists>r. transition strict_px demo_tech (TimerTick (minutes_us 60)) committed_config = Inr r
     \<and> phase (new_state r) = Aborted \<and> abort_reason (new_state r) = Some CandidateTimeout"
proof -
  have "candidate_timed_out demo_tech (minutes_us 60) committed_config" "phase demo_tech = Tech"
    by (simp_all add: candidate_timed_out_def demo_states minutes_us_def committed_config_def)
  with tick_priority [OF demo_reachable(4) committed_config_ok, of "minutes_us 60"]
  show ?thesis by (auto simp: terminal_phases_def)
qed

text \<open>What the next tick does to a session whose budget is over.\<close>

definition over_budget :: "session_state \<Rightarrow> time \<Rightarrow> bool" where
  "over_budget s now \<longleftrightarrow> phase s \<in> terminal_phases \<or> phase s = Close
     \<or> (phase s \<in> {Tech, Qa} \<and> session_budget_exhausted s now)"

definition ticks_left :: "session_state \<Rightarrow> nat" where
  "ticks_left s = (case phase s of Tech \<Rightarrow> 3 | Qa \<Rightarrow> 2 | Close \<Rightarrow> 1 | _ \<Rightarrow> 0)"

lemma session_budget_mono:
  "session_budget_exhausted s now \<Longrightarrow> now \<le> now' \<Longrightarrow> session_budget_exhausted s now'"
  by (auto simp: session_budget_exhausted_def split: option.splits)

lemma tick_over_budget:
  assumes inv: "machine_inv px config s" and over: "over_budget s now"
  shows "\<exists>s' cs. machine_step px config s (TimerTick now) = Inr (s', cs) \<and> over_budget s' now
    \<and> (ticks_left s' < ticks_left s \<or> phase s' \<in> terminal_phases)"
proof (cases "phase s = Tech \<and> \<not> candidate_timed_out s now config")
  case True
  then have ex: "session_budget_exhausted s now"
    using over by (simp add: over_budget_def terminal_phases_def)
  obtain s' c where qa: "enter_qa s now = Inr (s', c)"
    using enter_qa_total [OF machine_inv_core [OF inv]] True by blast
  note fields = enter_qa_fields [OF qa]
  have "session_budget_exhausted s' now"
    using ex fields by (simp add: session_budget_exhausted_def)
  with True ex qa fields show ?thesis
    by (simp add: machine_step_def transition_def terminal_phases_def on_timer_tick_def
        over_budget_def ticks_left_def)
next
  case False
  with over show ?thesis
    by (cases "phase s \<in> terminal_phases")
      (auto simp: terminal_step machine_step_def transition_def on_timer_tick_def abort_def
        enter_close_def complete_def over_budget_def ticks_left_def terminal_phases_def Let_def)
qed

lemma over_budget_mono: "over_budget s now \<Longrightarrow> now \<le> now' \<Longrightarrow> over_budget s now'"
  using session_budget_mono by (auto simp: over_budget_def)

text \<open>
  C34: the clock ends every interview. Once a session's budget is over, three ticks of the
  timer are enough to bring a session in TECH to an end (two from Q and A, one from the
  closing), whether or not any model answers.
\<close>

theorem clock_ends_interview:
  assumes "reachable px config s" and "config_ok config"
    and "phase s \<in> {Tech, Qa, Close}" and "phase s \<noteq> Close \<longrightarrow> session_budget_exhausted s t1"
    and "t1 \<le> t2" and "t2 \<le> t3"
  shows "\<exists>s' cs. run_events (machine_step px config) s [TimerTick t1, TimerTick t2, TimerTick t3]
      = Inr (s', cs) \<and> phase s' \<in> terminal_phases"
proof -
  have inv: "machine_inv px config s" by (rule reachable_inv [OF assms(1,2)])
  have keep: "machine_inv px config s'"
    if "machine_inv px config s" "machine_step px config s (TimerTick t) = Inr (s', cs)" for s s' cs t
    using that machine.step_inv [of config px s "TimerTick t" s' cs] assms(2) by (auto simp: event_ok_def)
  have "over_budget s t1" using assms(3,4) by (auto simp: over_budget_def)
  then obtain s1 c1 where 1: "machine_step px config s (TimerTick t1) = Inr (s1, c1)"
    "over_budget s1 t1" "ticks_left s1 < ticks_left s \<or> phase s1 \<in> terminal_phases"
    using tick_over_budget [OF inv] by blast
  note inv1 = keep [OF inv 1(1)]
  obtain s2 c2 where 2: "machine_step px config s1 (TimerTick t2) = Inr (s2, c2)"
    "over_budget s2 t2" "ticks_left s2 < ticks_left s1 \<or> phase s2 \<in> terminal_phases"
    using tick_over_budget [OF inv1 over_budget_mono [OF 1(2) assms(5)]] by blast
  obtain s3 c3 where 3: "machine_step px config s2 (TimerTick t3) = Inr (s3, c3)"
    "over_budget s3 t3" "ticks_left s3 < ticks_left s2 \<or> phase s3 \<in> terminal_phases"
    using tick_over_budget [OF keep [OF inv1 2(1)] over_budget_mono [OF 2(2) assms(6)]] by blast
  have stay: "phase s3 \<in> terminal_phases" if "phase s2 \<in> terminal_phases"
    using that 3(1) by (simp add: terminal_step)
  have stay': "phase s2 \<in> terminal_phases" if "phase s1 \<in> terminal_phases"
    using that 2(1) by (simp add: terminal_step)
  have bound: "ticks_left s \<le> 3" by (simp add: ticks_left_def split: phase.split)
  have zero: "phase s3 \<in> terminal_phases" if "ticks_left s3 = 0"
    using that 3(2) by (auto simp: ticks_left_def over_budget_def split: phase.splits)
  have "phase s3 \<in> terminal_phases"
    using stay stay' zero bound 1(3) 2(3) 3(3) by linarith
  with 1 2 3 show ?thesis by simp
qed

theorem clock_ends_interview_witness:
  "\<exists>s' cs. run_events (machine_step strict_px committed_config) demo_tech
     [TimerTick (minutes_us 31), TimerTick (minutes_us 32), TimerTick (minutes_us 33)] = Inr (s', cs)
     \<and> phase s' \<in> terminal_phases"
proof (rule clock_ends_interview [OF demo_reachable(4) committed_config_ok])
  show "phase demo_tech \<in> {Tech, Qa, Close}" by (simp add: demo_states)
  show "phase demo_tech \<noteq> Close \<longrightarrow> session_budget_exhausted demo_tech (minutes_us 31)"
    by (simp add: session_budget_exhausted_def demo_states demo_plan_def minutes_us_def)
qed (simp_all add: minutes_us_def)

text \<open>
  Every answer in TECH is measured once, and only those. The machine asks for an
  assessment exactly when it handles a candidate turn in TECH that it was waiting for; the
  request names that turn and the competency under discussion, the turn joins the pending
  list with that competency as its focus, and no other event ever asks for one.
\<close>

theorem assessor_scheduled_exactly_in_tech:
  assumes "transition px s e config = Inr r"
  shows "filter is_assessor (commands r) =
      (case e of
         CandidateTurnReceived turn said now \<Rightarrow>
           (if phase s = Tech \<and> awaiting s = Some Candidate
            then [RunAssessor turn (node_id (the (competency (the (plan s)) (competency_index (tech s)))))]
            else [])
       | _ \<Rightarrow> [])
    \<and> (\<forall>turn node. RunAssessor turn node \<in> set (commands r) \<longrightarrow>
         turn \<in> set (pending_assessments (tech (new_state r)))
         \<and> dict_get (assessment_focus (tech (new_state r))) turn = Some node)"
proof (cases "\<exists>turn said now. e = CandidateTurnReceived turn said now
    \<and> phase s = Tech \<and> awaiting s = Some Candidate")
  case True
  then obtain turn said now where e: "e = CandidateTurnReceived turn said now"
    and st: "phase s = Tech" "awaiting s = Some Candidate" by blast
  have "on_tech_candidate_turn s turn now config = Inr r"
    using assms by (simp add: e st transition_def terminal_phases_def on_candidate_turn_def)
  then show ?thesis
  proof (cases rule: on_tech_candidate_turn_cases)
    case (probe p c s' cmd)
    with issue_interviewer_fields [OF probe(4)] e st show ?thesis
      by (simp add: schedule_assessor_def dict_simps)
  next
    case (next_seed p c q s' cmd)
    with issue_interviewer_fields [OF next_seed(5)] e st show ?thesis
      by (simp add: schedule_assessor_def dict_simps)
  next
    case (next_competency p c v following ctx s' cmd)
    with issue_interviewer_fields [OF next_competency(6)] e st show ?thesis
      by (simp add: schedule_assessor_def dict_simps gap_commands_def)
  next
    case (last_competency p c v s' cmd)
    with enter_qa_fields [OF last_competency(6)] e st show ?thesis
      by (simp add: schedule_assessor_def dict_simps gap_commands_def)
  qed
next
  case False
  have "filter is_assessor (commands r) = []"
  proof (cases "\<exists>turn said now. e = CandidateTurnReceived turn said now \<and> phase s = Tech")
    case True
    with False assms show ?thesis
      by (auto simp: transition_def terminal_phases_def on_candidate_turn_def)
  next
    case other: False
    show ?thesis
      using transition_row [OF assms] other by (cases rule: table_row.cases) auto
  qed
  with False show ?thesis
    by (auto simp: filter_empty_conv split: event.splits)
qed

theorem assessor_scheduled_exactly_in_tech_witness:
  "\<exists>r. demo_transition demo_tech (CandidateTurnReceived 101 ''answer'' 5) = Inr r
     \<and> filter is_assessor (commands r) = [RunAssessor 101 ''n1'']
     \<and> 101 \<in> set (pending_assessments (tech (new_state r)))"
proof -
  have "good_outcome strict_px committed_config
      (demo_transition demo_tech (CandidateTurnReceived 101 ''answer'' 5))"
    unfolding demo_transition_def
    by (rule transition_inv [OF reachable_inv [OF demo_reachable(4) committed_config_ok]
          committed_config_ok]) (simp add: event_ok_def)
  then obtain r where t: "transition strict_px demo_tech (CandidateTurnReceived 101 ''answer'' 5)
      committed_config = Inr r"
    unfolding demo_transition_def by (auto simp: good_outcome_def split: sum.splits)
  have calls: "filter is_assessor (commands r) = [RunAssessor 101 ''n1'']"
    using assessor_scheduled_exactly_in_tech [OF t]
    by (simp add: demo_states demo_plan_def competency_def)
  then have "RunAssessor 101 ''n1'' \<in> set (commands r)"
    using filter_is_subset [of is_assessor "commands r"] by auto
  with calls t assessor_scheduled_exactly_in_tech [OF t] show ?thesis
    by (auto simp: demo_transition_def)
qed

text \<open>
  A plan that is accepted is a plan the machine can run, and it survives its own
  serialisation. Whatever pydantic coerces, an accepted plan has a competency, every
  competency a seed question, a target level of 1 to 5 and a positive time budget; and the
  payload written from it validates back to the same plan.
\<close>

theorem accepted_plan_is_sound_and_stable:
  assumes "pydantic_ok px" and "validate_plan px raw = Inr p"
  shows "plan_ok p \<and> validate_plan px (plan_payload p) = Inr p"
  using assms validate_plan_sound plan_payload_validates by blast

theorem accepted_plan_is_sound_and_stable_witness:
  "plan_ok demo_plan \<and> validate_plan strict_px (plan_payload demo_plan) = Inr demo_plan"
  by (rule accepted_plan_is_sound_and_stable [OF strict_px_ok demo_plan_validates])

text \<open>
  A loaded configuration has every threshold in its declared range, loads again from
  its own document, and a document with a key the contract does not know is refused.
\<close>

theorem loaded_config_is_in_range:
  assumes "pydantic_ok px" and "config_from_yaml px raw = Inr c"
  shows "config_ok c \<and> config_from_yaml px (config_payload c) = Inr c
    \<and> (\<forall>d k v. raw = JObj d \<and> (k, v) \<in> set d \<longrightarrow>
         k \<in> {''adjudication'', ''flags'', ''timing'', ''state_schema_version''})"
  using assms config_from_yaml_in_range config_payload_loads config_rejects_unknown_key
  by (metis Inl_Inr_False)

theorem loaded_config_is_in_range_witness:
  "config_ok committed_config
   \<and> config_from_yaml strict_px (config_payload committed_config) = Inr committed_config"
  using loaded_config_is_in_range [OF strict_px_ok
      config_payload_loads [OF strict_px_ok committed_config_ok]] by blast

end
