(* ===== verification/Llm_Backend.thy ===== *)
theory Llm_Backend
  imports Pydantic
begin

text \<open>
  The boundary to the model provider: \<open>app/backend/llm/errors.py\<close>,
  \<open>_backend_protocol.py\<close> and \<open>_real_backend.py\<close>. The provider's SDK is an argument; what
  is modelled is how its failures are classified and how its answer becomes the envelope
  the wrapper reads. Exceptions are values; their diagnostic text is not modelled, except
  the raw payload a schema error carries.
\<close>

section \<open>Errors\<close>

datatype wrapper_error =
    WrapperErrorBase
  | ModelCallConfigError
  | VertexTimeoutError
  | VertexUpstreamUnavailableError
  | VertexSchemaError string
  | SessionBudgetExceeded
  | TraceWriteError

text \<open>What a backend call may raise: the transport classes, a wrapper error, or anything else.\<close>

datatype backend_exc =
    BackendErrorBase
  | BackendTransientError
  | BackendDeadlineExceededError
  | BackendCallerError
  | BackendUpstreamError
  | ConnectionError
  | RaisedWrapper wrapper_error
  | BuiltinTimeoutError
  | OtherException

datatype transport_exc =
    GenAiAPIError "int option"
  | HttpxTimeoutException
  | HttpxTransportError
  | UnknownTransport

definition classify_http_status :: "int \<Rightarrow> backend_exc" where
  "classify_http_status code =
     (if code = 504 then BackendDeadlineExceededError
      else if code \<in> {400, 403} then BackendCallerError
      else if code = 429 \<or> (500 \<le> code \<and> code < 600) then BackendTransientError
      else BackendUpstreamError)"

text \<open>\<open>exc.code or 0\<close>: a missing code and the code 0 are the same.\<close>

definition translate_transport_error :: "transport_exc \<Rightarrow> backend_exc" where
  "translate_transport_error exc = (case exc of
     GenAiAPIError code \<Rightarrow> classify_http_status (case code of None \<Rightarrow> 0 | Some c \<Rightarrow> c)
   | HttpxTimeoutException \<Rightarrow> BackendDeadlineExceededError
   | HttpxTransportError \<Rightarrow> BackendTransientError
   | UnknownTransport \<Rightarrow> BackendUpstreamError)"

section \<open>The envelope and the real backend\<close>

record raw_backend_result =
  raw_text :: string
  raw_input_tokens :: int
  raw_output_tokens :: int
  raw_model :: string
  raw_model_version :: string

definition raw_ok :: "raw_backend_result \<Rightarrow> bool" where
  "raw_ok r \<longleftrightarrow> 0 \<le> raw_input_tokens r \<and> 0 \<le> raw_output_tokens r
     \<and> 1 \<le> py_len (raw_model r) \<and> 1 \<le> py_len (raw_model_version r)"

record generate_request =
  gr_system_prompt :: string
  gr_user_payload :: string
  gr_json_schema :: "(string, json) dict option"
  gr_model :: string
  gr_temperature :: rat
  gr_max_output_tokens :: int

record generate_config =
  gc_system_instruction :: string
  gc_temperature :: rat
  gc_max_output_tokens :: int
  gc_response_mime_type :: "string option"
  gc_response_json_schema :: "(string, json) dict option"

record sdk_response =
  resp_text :: "string option"
  resp_usage :: "(int option \<times> int option) option"
  resp_model_version :: "string option"

definition real_config :: "generate_request \<Rightarrow> generate_config" where
  "real_config q = \<lparr>
     gc_system_instruction = gr_system_prompt q,
     gc_temperature = gr_temperature q,
     gc_max_output_tokens = gr_max_output_tokens q,
     gc_response_mime_type =
       (case gr_json_schema q of None \<Rightarrow> None | Some _ \<Rightarrow> Some ''application/json''),
     gc_response_json_schema = gr_json_schema q\<rparr>"

text \<open>\<open>x or d\<close> for an optional string and an optional count.\<close>

definition or_string :: "string option \<Rightarrow> string \<Rightarrow> string" where
  "or_string m d = (case m of None \<Rightarrow> d | Some s \<Rightarrow> if s = '''' then d else s)"

definition or_zero :: "int option \<Rightarrow> int" where
  "or_zero m = (case m of None \<Rightarrow> 0 | Some n \<Rightarrow> n)"

text \<open>
  \<open>RealVertexBackend.generate\<close>: \<open>sdk\<close> is the provider call. Only provider errors and
  transport errors are translated; anything else escapes as it is, and so does the
  validation error of an envelope with impossible counts.
\<close>

definition real_generate ::
  "(string \<Rightarrow> string \<Rightarrow> generate_config \<Rightarrow> transport_exc + sdk_response)
    \<Rightarrow> generate_request \<Rightarrow> backend_exc + raw_backend_result" where
  "real_generate sdk q =
     (case sdk (gr_model q) (gr_user_payload q) (real_config q) of
        Inl UnknownTransport \<Rightarrow> Inl OtherException
      | Inl exc \<Rightarrow> Inl (translate_transport_error exc)
      | Inr resp \<Rightarrow>
          (let raw = \<lparr>raw_text = or_string (resp_text resp) '''',
                 raw_input_tokens = (case resp_usage resp of None \<Rightarrow> 0 | Some (i, _) \<Rightarrow> or_zero i),
                 raw_output_tokens = (case resp_usage resp of None \<Rightarrow> 0 | Some (_, u) \<Rightarrow> or_zero u),
                 raw_model = gr_model q,
                 raw_model_version = or_string (resp_model_version resp) (gr_model q)\<rparr>
           in if raw_ok raw then Inr raw else Inl OtherException))"

section \<open>Classification for the wrapper\<close>

definition retryable :: "backend_exc \<Rightarrow> bool" where
  "retryable e \<longleftrightarrow> e = BackendTransientError \<or> e = ConnectionError"

definition classify_provider_error :: "backend_exc \<Rightarrow> wrapper_error" where
  "classify_provider_error e =
     (if e = BackendDeadlineExceededError then VertexTimeoutError
      else if retryable e then VertexUpstreamUnavailableError
      else if e = BackendCallerError then ModelCallConfigError
      else VertexUpstreamUnavailableError)"

lemma retryable_simps [simp]:
  "retryable BackendTransientError" "retryable ConnectionError"
  "\<not> retryable BackendErrorBase" "\<not> retryable BackendDeadlineExceededError"
  "\<not> retryable BackendCallerError" "\<not> retryable BackendUpstreamError"
  "\<not> retryable (RaisedWrapper w)" "\<not> retryable BuiltinTimeoutError" "\<not> retryable OtherException"
  by (simp_all add: retryable_def)

lemma real_generate_ok: "real_generate sdk q = Inr raw \<Longrightarrow> raw_ok raw \<and> raw_model raw = gr_model q"
  by (auto simp: real_generate_def Let_def split: sum.splits transport_exc.splits if_splits)

end
