(* ===== verification/Llm_Config.thy ===== *)
theory Llm_Config
  imports Llm_Backend Py_Text
begin

text \<open>
  The committed LLM configuration: prices (\<open>app/backend/llm/pricing.py\<close>), the per-agent
  registry (\<open>models_config.py\<close>), the session ceiling (\<open>limits_config.py\<close>) and the
  part of \<open>app/backend/settings.py\<close> the wrapper reads. Money is the exact rational of its
  \<open>Decimal\<close>. YAML documents arrive parsed; their mappings have string keys.
\<close>

section \<open>Prices\<close>

record model_pricing =
  input_per_1k_tokens :: rat
  output_per_1k_tokens :: rat

type_synonym pricing_table = "(string, model_pricing) dict"

definition validate_pricing :: "pydantic \<Rightarrow> json \<Rightarrow> model_pricing option" where
  "validate_pricing px = as_object (\<lambda>d. do {
     i \<leftarrow> req d ''input_per_1k_tokens'' (\<lambda>j. checked (\<lambda>p. 0 < p) (px_decimal px j));
     u \<leftarrow> req d ''output_per_1k_tokens'' (\<lambda>j. checked (\<lambda>p. 0 < p) (px_decimal px j));
     Some \<lparr>input_per_1k_tokens = i, output_per_1k_tokens = u\<rparr>
   })"

fun load_prices ::
  "pydantic \<Rightarrow> (string \<times> json) list \<Rightarrow> pricing_table \<Rightarrow> wrapper_error + pricing_table" where
  "load_prices px [] models = Inr models"
| "load_prices px ((model_id, entry) # rest) models =
     (case entry of
        JObj _ \<Rightarrow>
          (case validate_pricing px entry of
             None \<Rightarrow> Inl ModelCallConfigError
           | Some p \<Rightarrow> load_prices px rest (dict_set models model_id p))
      | _ \<Rightarrow> Inl ModelCallConfigError)"

definition pricing_from_yaml :: "pydantic \<Rightarrow> json \<Rightarrow> wrapper_error + pricing_table" where
  "pricing_from_yaml px raw =
     (case raw of JObj d \<Rightarrow> load_prices px d [] | _ \<Rightarrow> Inl ModelCallConfigError)"

definition cost_for :: "pricing_table \<Rightarrow> string \<Rightarrow> int \<Rightarrow> int \<Rightarrow> wrapper_error + rat" where
  "cost_for table m i u =
     (if i < 0 \<or> u < 0 then Inl ModelCallConfigError
      else case dict_get table m of
        None \<Rightarrow> Inl ModelCallConfigError
      | Some p \<Rightarrow> Inr (input_per_1k_tokens p * of_int i / 1000
                      + output_per_1k_tokens p * of_int u / 1000))"

definition prices_ok :: "pricing_table \<Rightarrow> bool" where
  "prices_ok table \<longleftrightarrow>
     (\<forall>m p. dict_get table m = Some p \<longrightarrow> 0 < input_per_1k_tokens p \<and> 0 < output_per_1k_tokens p)"

lemma validate_pricing_positive:
  "validate_pricing px j = Some p \<Longrightarrow> 0 < input_per_1k_tokens p \<and> 0 < output_per_1k_tokens p"
  by (auto simp: validate_pricing_def as_object_Some req_Some bind_eq_Some_conv)

lemma load_prices_ok:
  "load_prices px d models = Inr table \<Longrightarrow> prices_ok models \<Longrightarrow> prices_ok table"
proof (induction px d models rule: load_prices.induct)
  case (2 px model_id entry rest models)
  then obtain p where p: "validate_pricing px entry = Some p"
    "load_prices px rest (dict_set models model_id p) = Inr table"
    by (auto split: json.splits option.splits)
  have "prices_ok (dict_set models model_id p)"
    using 2(3) validate_pricing_positive [OF p(1)] by (auto simp: prices_ok_def dict_simps)
  with 2(1) p 2(2) show ?case by (auto split: json.splits)
qed simp

lemma pricing_from_yaml_ok: "pricing_from_yaml px raw = Inr table \<Longrightarrow> prices_ok table"
  by (auto simp: pricing_from_yaml_def prices_ok_def split: json.splits
      dest!: load_prices_ok)

lemma cost_for_nonneg:
  assumes "prices_ok table" and "cost_for table m i u = Inr c"
  shows "0 \<le> c"
  using assms by (auto simp: cost_for_def prices_ok_def less_imp_le split: if_splits option.splits)

lemma cost_for_known:
  "cost_for table m 0 0 = Inr c \<Longrightarrow> 0 \<le> i \<Longrightarrow> 0 \<le> u \<Longrightarrow> \<exists>d. cost_for table m i u = Inr d"
  by (auto simp: cost_for_def split: option.splits)

section \<open>The agent registry\<close>

record model_config =
  mc_model :: string
  mc_prompt_version :: string
  mc_temperature :: rat
  mc_max_output_tokens :: int

record models_config =
  cfg_interviewer :: model_config
  cfg_assessor :: model_config
  cfg_planner :: model_config

definition required_agents :: "string list" where
  "required_agents = [''assessor'', ''interviewer'', ''planner'']"

definition validate_model_config :: "pydantic \<Rightarrow> json \<Rightarrow> model_config option" where
  "validate_model_config px = as_object (\<lambda>d. do {
     m \<leftarrow> req d ''model'' (\<lambda>j. checked (\<lambda>s. 1 \<le> py_len s) (px_str px j));
     v \<leftarrow> req d ''prompt_version'' (\<lambda>j. checked (\<lambda>s. 1 \<le> py_len s) (px_str px j));
     t \<leftarrow> req d ''temperature'' (\<lambda>j. checked (\<lambda>x. 0 \<le> x \<and> x \<le> 2) (px_float px j));
     n \<leftarrow> req d ''max_output_tokens'' (\<lambda>j. checked (\<lambda>k. 1 \<le> k \<and> k \<le> 4096) (px_int px j));
     Some \<lparr>mc_model = m, mc_prompt_version = v, mc_temperature = t, mc_max_output_tokens = n\<rparr>
   })"

definition validate_models :: "pydantic \<Rightarrow> json \<Rightarrow> models_config option" where
  "validate_models px = as_object (\<lambda>d. do {
     i \<leftarrow> req d ''interviewer'' (validate_model_config px);
     a \<leftarrow> req d ''assessor'' (validate_model_config px);
     p \<leftarrow> req d ''planner'' (validate_model_config px);
     Some \<lparr>cfg_interviewer = i, cfg_assessor = a, cfg_planner = p\<rparr>
   })"

definition models_from_yaml :: "pydantic \<Rightarrow> json \<Rightarrow> wrapper_error + models_config" where
  "models_from_yaml px raw =
     (case raw of
        JObj d \<Rightarrow>
          if \<not> list_all (\<lambda>a. dict_get d a \<noteq> None) required_agents then Inl ModelCallConfigError
          else (case validate_models px raw of
                  None \<Rightarrow> Inl ModelCallConfigError
                | Some c \<Rightarrow> Inr c)
      | _ \<Rightarrow> Inl ModelCallConfigError)"

definition for_agent :: "models_config \<Rightarrow> string \<Rightarrow> wrapper_error + model_config" where
  "for_agent c agent =
     (if agent \<notin> set required_agents then Inl ModelCallConfigError
      else if agent = ''interviewer'' then Inr (cfg_interviewer c)
      else if agent = ''assessor'' then Inr (cfg_assessor c)
      else Inr (cfg_planner c))"

definition model_config_ok :: "model_config \<Rightarrow> bool" where
  "model_config_ok c \<longleftrightarrow> 1 \<le> py_len (mc_model c) \<and> 1 \<le> py_len (mc_prompt_version c)
     \<and> 0 \<le> mc_temperature c \<and> mc_temperature c \<le> 2
     \<and> 1 \<le> mc_max_output_tokens c \<and> mc_max_output_tokens c \<le> 4096"

definition models_ok :: "models_config \<Rightarrow> bool" where
  "models_ok c \<longleftrightarrow> model_config_ok (cfg_interviewer c) \<and> model_config_ok (cfg_assessor c)
     \<and> model_config_ok (cfg_planner c)"

lemma validate_model_config_ok: "validate_model_config px j = Some c \<Longrightarrow> model_config_ok c"
  by (auto simp: validate_model_config_def as_object_Some req_Some bind_eq_Some_conv
      model_config_ok_def)

lemma validate_models_ok: "validate_models px j = Some c \<Longrightarrow> models_ok c"
  by (auto simp: validate_models_def as_object_Some req_Some bind_eq_Some_conv models_ok_def
      intro: validate_model_config_ok)

lemma models_from_yaml_ok: "models_from_yaml px raw = Inr c \<Longrightarrow> models_ok c"
  by (cases raw) (auto simp: models_from_yaml_def intro: validate_models_ok
      split: if_splits option.splits)

lemma for_agent_ok: "models_ok c \<Longrightarrow> for_agent c a = Inr m \<Longrightarrow> model_config_ok m"
  by (auto simp: for_agent_def models_ok_def split: if_splits)

section \<open>The session ceiling and the settings\<close>

datatype limits_error = LlmLimitsConfigError

definition limits_from_yaml :: "pydantic \<Rightarrow> json \<Rightarrow> limits_error + rat" where
  "limits_from_yaml px raw =
     (case raw of
        JObj d \<Rightarrow>
          if \<not> no_extra [''session_cost_ceiling_usd''] d then Inl LlmLimitsConfigError
          else (case req d ''session_cost_ceiling_usd'' (\<lambda>j. checked (\<lambda>c. 0 < c) (px_decimal px j)) of
                  None \<Rightarrow> Inl LlmLimitsConfigError
                | Some c \<Rightarrow> Inr c)
      | _ \<Rightarrow> Inl LlmLimitsConfigError)"

datatype llm_backend = MockBackend | VertexBackend
datatype app_env = Dev | Test | Prod
datatype auth_mode = AuthDisabled | IdentityPlatform

record settings =
  llm_backend :: llm_backend
  app_env :: app_env
  llm_budget_per_session_usd :: rat
  auth_mode :: auth_mode
  gcp_project :: string
  auth_allowed_domain :: string

definition prod_budget_ceiling_usd :: rat where
  "prod_budget_ceiling_usd = 5"

datatype startup_error = MockInProd | BudgetAboveCeiling | NoGcpProject

definition assert_safe_for_environment :: "settings \<Rightarrow> startup_error + unit" where
  "assert_safe_for_environment s =
     (if app_env s = Prod \<and> llm_backend s = MockBackend then Inl MockInProd
      else if app_env s = Prod \<and> llm_budget_per_session_usd s > prod_budget_ceiling_usd
      then Inl BudgetAboveCeiling
      else if auth_mode s = IdentityPlatform \<and> strip (gcp_project s) = '''' then Inl NoGcpProject
      else Inr ())"

end
