(* ===== verification/Sha256.thy ===== *)
theory Sha256
  imports Uuid5
begin

text \<open>
  \<open>hashlib.sha256(...).hexdigest()\<close>, which keys the mock fixtures and the prompts of the
  audit trail. Executable; the proofs use only that it is a function.
\<close>

unbundle bit_operations_syntax

text \<open>
  The constants are the first 32 bits of the fractional parts of the cube (square) roots of
  the first primes; they are computed, bit by bit from the top.
\<close>

fun int_root :: "nat \<Rightarrow> nat \<Rightarrow> nat \<Rightarrow> nat \<Rightarrow> nat" where
  "int_root e x 0 r = r"
| "int_root e x (Suc b) r = int_root e x b (if (r + 2 ^ b) ^ e \<le> x then r + 2 ^ b else r)"

definition first_primes :: "nat \<Rightarrow> nat list" where
  "first_primes k = take k (filter (\<lambda>n. list_all (\<lambda>d. n mod d \<noteq> 0) [2..<n]) [2..<312])"

definition root_fraction :: "nat \<Rightarrow> nat \<Rightarrow> 32 word" where
  "root_fraction e p = of_nat (int_root e (p * 2 ^ (32 * e)) 36 0)"

definition sha256_k :: "32 word list" where
  "sha256_k = map (root_fraction 3) (first_primes 64)"

definition sha256_init :: "32 word list" where
  "sha256_init = map (root_fraction 2) (first_primes 8)"

definition rotr :: "nat \<Rightarrow> 32 word \<Rightarrow> 32 word" where
  "rotr n w = word_rotr n w"

definition small_sigma0 :: "32 word \<Rightarrow> 32 word" where
  "small_sigma0 x = rotr 7 x XOR rotr 18 x XOR drop_bit 3 x"

definition small_sigma1 :: "32 word \<Rightarrow> 32 word" where
  "small_sigma1 x = rotr 17 x XOR rotr 19 x XOR drop_bit 10 x"

text \<open>The message schedule, latest word first.\<close>

fun sha256_schedule :: "nat \<Rightarrow> 32 word list \<Rightarrow> 32 word list" where
  "sha256_schedule 0 ws = ws"
| "sha256_schedule (Suc n) ws =
     sha256_schedule n
       ((ws ! 15 + small_sigma0 (ws ! 14) + ws ! 6 + small_sigma1 (ws ! 1)) # ws)"

definition sha256_round :: "32 word \<times> 32 word \<Rightarrow> 32 word list \<Rightarrow> 32 word list" where
  "sha256_round kw st =
     (let (k, w) = kw; a = st ! 0; b = st ! 1; c = st ! 2; d = st ! 3;
          e = st ! 4; f = st ! 5; g = st ! 6; h = st ! 7;
          s1 = rotr 6 e XOR rotr 11 e XOR rotr 25 e;
          ch = (e AND f) XOR (NOT e AND g);
          t1 = h + s1 + ch + k + w;
          s0 = rotr 2 a XOR rotr 13 a XOR rotr 22 a;
          maj = (a AND b) XOR (a AND c) XOR (b AND c);
          t2 = s0 + maj
      in [t1 + t2, a, b, c, d + t1, e, f, g])"

definition sha256_block :: "byte list \<Rightarrow> 32 word list \<Rightarrow> 32 word list" where
  "sha256_block blk st =
     map2 (+) st
       (fold sha256_round
          (zip sha256_k (rev (sha256_schedule 48 (rev (map be_word (chunks 4 blk)))))) st)"

definition sha256 :: "byte list \<Rightarrow> byte list" where
  "sha256 m = concat (map (\<lambda>h. be_bytes 4 (uint h))
     (fold sha256_block (chunks 64 (sha1_pad m))
        sha256_init))"

definition hex_nibble :: "nat \<Rightarrow> char" where
  "hex_nibble d = (if d < 10 then char_of (48 + d) else char_of (87 + d))"

definition hexdigest :: "byte list \<Rightarrow> string" where
  "hexdigest bs = concat (map (\<lambda>b. [hex_nibble (unat b div 16), hex_nibble (unat b mod 16)]) bs)"

definition sha256_hex :: "string \<Rightarrow> string" where
  "sha256_hex s = hexdigest (sha256 (utf8_bytes s))"

end
