(* ===== verification/Llm_Trace.thy ===== *)
theory Llm_Trace
  imports Llm_Config Sha256
begin

text \<open>
  The audit trail and the session cost ledger: \<open>app/backend/llm/trace.py\<close>,
  \<open>cost_ledger.py\<close>, \<open>persistent_trace.py\<close> and \<open>persistent_cost.py\<close>, with the
  \<open>turn_trace\<close> table as migration \<open>0007\<close> declares it. The wrapper sees a sink and a
  ledger only through their protocols; these are the locales \<open>trace_sink\<close> and
  \<open>cost_ledger\<close> here, over one world in which both live, because the durable ledger's
  total is a sum over the durable sink's rows.
\<close>

section \<open>Trace records\<close>

datatype trace_outcome =
    TraceOk
  | TraceSchemaError
  | TraceTimeout
  | TraceUpstreamUnavailable
  | TraceBudgetExceeded
  | TraceConfigError
  | TraceTraceWriteError

text \<open>The failure an \<open>error_message\<close> is the text of.\<close>

datatype trace_error =
    TextOfWrapperError wrapper_error
  | TextOfException backend_exc
  | TextOfWallClock int
  | TextOfBudget uuid rat rat

record trace_record =
  tr_id :: uuid
  tr_created_at :: time
  tr_agent :: string
  tr_session_id :: uuid
  tr_model :: string
  tr_model_version :: "string option"
  tr_prompt_sha256 :: string
  tr_outcome :: trace_outcome
  tr_attempts :: int
  tr_latency_ms :: int
  tr_input_tokens :: int
  tr_output_tokens :: int
  tr_cost_usd :: rat
  tr_error_message :: "trace_error option"
  tr_response_text :: "string option"
  tr_parsed :: "(string, json) dict option"

section \<open>The protocols\<close>

datatype ledger_error = ValueError

locale trace_sink =
  fixes store :: "'w \<Rightarrow> trace_record \<Rightarrow> wrapper_error + 'w"
    and ids :: "'w \<Rightarrow> uuid list"
  assumes write_appends: "store w r = Inr w' \<Longrightarrow> ids w' = ids w @ [tr_id r]"

locale cost_ledger =
  fixes total :: "'w \<Rightarrow> uuid \<Rightarrow> rat"
    and add :: "'w \<Rightarrow> uuid \<Rightarrow> rat \<Rightarrow> ledger_error + 'w"
  assumes add_negative: "c < 0 \<Longrightarrow> add w s c = Inl ValueError"
    and add_charges: "0 \<le> c \<Longrightarrow> \<exists>w'. add w s c = Inr w'"
    and add_other: "add w s c = Inr w' \<Longrightarrow> s' \<noteq> s \<Longrightarrow> total w' s' = total w s'"
    and add_mono: "add w s c = Inr w' \<Longrightarrow> total w s \<le> total w' s"

text \<open>A ledger that holds every charge itself.\<close>

locale exact_ledger = cost_ledger +
  assumes add_exact: "add w s c = Inr w' \<Longrightarrow> total w' s = total w s + c"

text \<open>What the wrapper works in: a sink and a ledger whose charge leaves the trail alone.\<close>

locale llm_world = trace_sink store ids + cost_ledger total add
  for store :: "'w \<Rightarrow> trace_record \<Rightarrow> wrapper_error + 'w" and ids :: "'w \<Rightarrow> uuid list"
    and total :: "'w \<Rightarrow> uuid \<Rightarrow> rat" and add :: "'w \<Rightarrow> uuid \<Rightarrow> rat \<Rightarrow> ledger_error + 'w" +
  assumes add_ids: "add w s c = Inr w' \<Longrightarrow> ids w' = ids w"

section \<open>In memory\<close>

record memory_sink =
  ms_records :: "trace_record list"
  ms_capacity :: int

definition memory_write :: "memory_sink \<Rightarrow> trace_record \<Rightarrow> wrapper_error + memory_sink" where
  "memory_write s r =
     (if int (length (ms_records s)) \<ge> ms_capacity s then Inl TraceWriteError
      else Inr (s\<lparr>ms_records := ms_records s @ [r]\<rparr>))"

type_synonym memory_ledger = "(uuid, rat) dict"

definition memory_total :: "memory_ledger \<Rightarrow> uuid \<Rightarrow> rat" where
  "memory_total l s = dict_default l s 0"

definition memory_add :: "memory_ledger \<Rightarrow> uuid \<Rightarrow> rat \<Rightarrow> ledger_error + memory_ledger" where
  "memory_add l s c =
     (if c < 0 then Inl ValueError else Inr (dict_set l s (memory_total l s + c)))"

record memory_world =
  mw_sink :: memory_sink
  mw_ledger :: memory_ledger

definition mem_write :: "memory_world \<Rightarrow> trace_record \<Rightarrow> wrapper_error + memory_world" where
  "mem_write w r = and_then (memory_write (mw_sink w) r) (\<lambda>s. Inr (w\<lparr>mw_sink := s\<rparr>))"

definition mem_ids :: "memory_world \<Rightarrow> uuid list" where
  "mem_ids w = map tr_id (ms_records (mw_sink w))"

definition mem_total :: "memory_world \<Rightarrow> uuid \<Rightarrow> rat" where
  "mem_total w s = memory_total (mw_ledger w) s"

definition mem_add :: "memory_world \<Rightarrow> uuid \<Rightarrow> rat \<Rightarrow> ledger_error + memory_world" where
  "mem_add w s c = and_then (memory_add (mw_ledger w) s c) (\<lambda>l. Inr (w\<lparr>mw_ledger := l\<rparr>))"

lemma memory_total_add:
  "memory_add l s c = Inr l' \<Longrightarrow> memory_total l' s' = (if s' = s then memory_total l s + c else memory_total l s')"
  by (auto simp: memory_add_def memory_total_def dict_default_set split: if_splits)

interpretation mem: exact_ledger mem_total mem_add
proof
  fix w :: memory_world and s s' :: uuid and c :: rat and w' :: memory_world
  show "c < 0 \<Longrightarrow> mem_add w s c = Inl ValueError"
    by (simp add: mem_add_def memory_add_def)
  show "0 \<le> c \<Longrightarrow> \<exists>w'. mem_add w s c = Inr w'"
    by (simp add: mem_add_def memory_add_def)
  assume "mem_add w s c = Inr w'"
  then obtain l where l: "memory_add (mw_ledger w) s c = Inr l" "w' = w\<lparr>mw_ledger := l\<rparr>" "0 \<le> c"
    by (auto simp: mem_add_def and_then_eq_Inr memory_add_def split: if_splits)
  show "s' \<noteq> s \<Longrightarrow> mem_total w' s' = mem_total w s'"
    using memory_total_add [OF l(1)] l(2) by (simp add: mem_total_def)
  show "mem_total w s \<le> mem_total w' s"
    using memory_total_add [OF l(1), of s] l(2,3) by (simp add: mem_total_def)
  show "mem_total w' s = mem_total w s + c"
    using memory_total_add [OF l(1), of s] l(2) by (simp add: mem_total_def)
qed

interpretation mem_world: llm_world mem_write mem_ids mem_total mem_add
proof
  fix w w' :: memory_world and r s c
  show "mem_write w r = Inr w' \<Longrightarrow> mem_ids w' = mem_ids w @ [tr_id r]"
    by (auto simp: mem_write_def memory_write_def mem_ids_def and_then_eq_Inr split: if_splits)
  show "mem_add w s c = Inr w' \<Longrightarrow> mem_ids w' = mem_ids w"
    by (auto simp: mem_add_def mem_ids_def and_then_eq_Inr)
qed

section \<open>The \<open>turn_trace\<close> table\<close>

datatype wrapper_outcome = Accepted | ContractMissRetried | Rejected

record transition_context =
  tc_phase :: string
  tc_issued_move :: "string option"
  tc_state_before_sha :: string
  tc_state_after_sha :: string

record turn_trace_context =
  cx_prompt_version :: string
  cx_turn_id :: "uuid option"
  cx_system_prompt :: string
  cx_user_payload :: string
  cx_wrapper_outcome :: "wrapper_outcome option"
  cx_transition :: "transition_context option"

definition empty_context :: turn_trace_context where
  "empty_context = \<lparr>cx_prompt_version = '''', cx_turn_id = None, cx_system_prompt = '''',
     cx_user_payload = '''', cx_wrapper_outcome = None, cx_transition = None\<rparr>"

record turn_trace_row =
  row_id :: uuid
  row_created_at :: time
  row_session :: uuid
  row_turn_id :: "uuid option"
  row_transition :: "transition_context option"
  row_agent :: string
  row_prompt_version :: string
  row_model :: string
  row_model_version :: "string option"
  row_outcome :: trace_outcome
  row_wrapper_outcome :: "wrapper_outcome option"
  row_attempts :: int
  row_latency_ms :: int
  row_input_tokens :: int
  row_output_tokens :: int
  row_cost_usd :: rat
  row_prompt_sha :: string
  row_error_message :: "trace_error option"
  row_system_prompt :: string
  row_user_payload :: string
  row_response_text :: string
  row_parsed :: "(string, json) dict option"

text \<open>A \<open>NUMERIC(12, 6)\<close> column rounds to six places, half away from zero.\<close>

definition numeric_12_6 :: "rat \<Rightarrow> rat option" where
  "numeric_12_6 x =
     (let n = (if 0 \<le> x then \<lfloor>x * 1000000 + 1 / 2\<rfloor> else - \<lfloor>- x * 1000000 + 1 / 2\<rfloor>)
      in if \<bar>n\<bar> < 1000000000000 then Some (of_int n / 1000000) else None)"

definition smallint :: "int \<Rightarrow> bool" where "smallint n \<longleftrightarrow> - 32768 \<le> n \<and> n \<le> 32767"
definition int4 :: "int \<Rightarrow> bool" where "int4 n \<longleftrightarrow> - 2147483648 \<le> n \<and> n \<le> 2147483647"

text \<open>
  The \<open>CHECK\<close> constraints of the migration and the widths of its columns. The primary
  key and the reference to \<open>interview_session\<close> are the baseline's.
\<close>

definition turn_trace_row_ok :: "turn_trace_row \<Rightarrow> bool" where
  "turn_trace_row_ok r \<longleftrightarrow>
     row_outcome r \<noteq> TraceTraceWriteError
     \<and> 1 \<le> row_attempts r \<and> row_attempts r \<le> 3 \<and> smallint (row_attempts r)
     \<and> 0 \<le> row_latency_ms r \<and> int4 (row_latency_ms r)
     \<and> 0 \<le> row_input_tokens r \<and> int4 (row_input_tokens r)
     \<and> 0 \<le> row_output_tokens r \<and> int4 (row_output_tokens r)
     \<and> 0 \<le> row_cost_usd r"

record trace_db =
  db_sessions :: "uuid list"
  db_turn_trace :: "turn_trace_row list"

definition insert_turn_trace :: "trace_db \<Rightarrow> turn_trace_row \<Rightarrow> trace_db option" where
  "insert_turn_trace db r =
     (case numeric_12_6 (row_cost_usd r) of
        None \<Rightarrow> None
      | Some cost \<Rightarrow>
          (let stored = r\<lparr>row_cost_usd := cost\<rparr>
           in if turn_trace_row_ok stored \<and> row_session r \<in> set (db_sessions db)
                 \<and> row_id r \<notin> row_id ` set (db_turn_trace db)
              then Some (db\<lparr>db_turn_trace := db_turn_trace db @ [stored]\<rparr>)
              else None))"

section \<open>The durable sink and ledger\<close>

record pg_world =
  pg_db :: trace_db
  pg_context :: turn_trace_context
  pg_written :: "uuid list"

definition trace_row :: "turn_trace_context \<Rightarrow> trace_record \<Rightarrow> turn_trace_row" where
  "trace_row cx r = \<lparr>
     row_id = tr_id r, row_created_at = tr_created_at r, row_session = tr_session_id r,
     row_turn_id = cx_turn_id cx, row_transition = cx_transition cx, row_agent = tr_agent r,
     row_prompt_version = cx_prompt_version cx, row_model = tr_model r,
     row_model_version = tr_model_version r, row_outcome = tr_outcome r,
     row_wrapper_outcome = cx_wrapper_outcome cx, row_attempts = tr_attempts r,
     row_latency_ms = tr_latency_ms r, row_input_tokens = tr_input_tokens r,
     row_output_tokens = tr_output_tokens r, row_cost_usd = tr_cost_usd r,
     row_prompt_sha = tr_prompt_sha256 r, row_error_message = tr_error_message r,
     row_system_prompt = cx_system_prompt cx, row_user_payload = cx_user_payload cx,
     row_response_text = or_string (tr_response_text r) '''', row_parsed = tr_parsed r\<rparr>"

definition pg_write :: "pg_world \<Rightarrow> trace_record \<Rightarrow> wrapper_error + pg_world" where
  "pg_write w r =
     (case insert_turn_trace (pg_db w) (trace_row (pg_context w) r) of
        None \<Rightarrow> Inl TraceWriteError
      | Some db \<Rightarrow> Inr (w\<lparr>pg_db := db, pg_written := pg_written w @ [tr_id r]\<rparr>))"

text \<open>\<open>with sink.bind(context)\<close>: the body runs under the context, which is then restored.\<close>

definition pg_bind ::
  "turn_trace_context \<Rightarrow> (pg_world \<Rightarrow> 'r \<times> pg_world) \<Rightarrow> pg_world \<Rightarrow> 'r \<times> pg_world" where
  "pg_bind cx body w =
     (let (r, w') = body (w\<lparr>pg_context := cx\<rparr>) in (r, w'\<lparr>pg_context := pg_context w\<rparr>))"

definition session_cost_total :: "trace_db \<Rightarrow> uuid \<Rightarrow> rat" where
  "session_cost_total db s =
     sum_list (map row_cost_usd (filter (\<lambda>r. row_session r = s) (db_turn_trace db)))"

definition pg_total :: "pg_world \<Rightarrow> uuid \<Rightarrow> rat" where
  "pg_total w s = session_cost_total (pg_db w) s"

definition pg_add :: "pg_world \<Rightarrow> uuid \<Rightarrow> rat \<Rightarrow> ledger_error + pg_world" where
  "pg_add w s c = (if c < 0 then Inl ValueError else Inr w)"

definition pg_ids :: "pg_world \<Rightarrow> uuid list" where
  "pg_ids w = map row_id (db_turn_trace (pg_db w))"

text \<open>
  The pre-call ceiling guard. \<open>enforced\<close> is the answer of the injected predicate
  (\<open>None\<close> when the caller injected none); the second component says whether the warning
  was logged.
\<close>

definition guard_session_budget ::
  "rat \<Rightarrow> bool option \<Rightarrow> pg_world \<Rightarrow> uuid \<Rightarrow> (wrapper_error + rat) \<times> bool" where
  "guard_session_budget limit enforcement w s =
     (let t = pg_total w s
      in if t < limit then (Inr t, False)
         else (case enforcement of
            Some True \<Rightarrow> (Inl SessionBudgetExceeded, True)
          | _ \<Rightarrow> (Inr t, True)))"

lemma insert_turn_trace_ids:
  "insert_turn_trace db r = Some db' \<Longrightarrow>
     map row_id (db_turn_trace db') = map row_id (db_turn_trace db) @ [row_id r]"
  by (auto simp: insert_turn_trace_def Let_def split: option.splits if_splits)

lemma trace_row_id [simp]: "row_id (trace_row cx r) = tr_id r"
  by (simp add: trace_row_def)

interpretation pg: llm_world pg_write pg_ids pg_total pg_add
proof
  fix w w' :: pg_world and r s s' c
  show "pg_write w r = Inr w' \<Longrightarrow> pg_ids w' = pg_ids w @ [tr_id r]"
    by (auto simp: pg_write_def pg_ids_def insert_turn_trace_ids split: option.splits)
  show "c < 0 \<Longrightarrow> pg_add w s c = Inl ValueError" by (simp add: pg_add_def)
  show "0 \<le> c \<Longrightarrow> \<exists>w'. pg_add w s c = Inr w'" by (simp add: pg_add_def)
  show "pg_add w s c = Inr w' \<Longrightarrow> s' \<noteq> s \<Longrightarrow> pg_total w' s' = pg_total w s'"
    by (auto simp: pg_add_def split: if_splits)
  show "pg_add w s c = Inr w' \<Longrightarrow> pg_total w s \<le> pg_total w' s"
    by (auto simp: pg_add_def split: if_splits)
  show "pg_add w s c = Inr w' \<Longrightarrow> pg_ids w' = pg_ids w"
    by (auto simp: pg_add_def split: if_splits)
qed

end
