(* ===== verification/Json_Text.thy ===== *)
theory Json_Text
  imports TS_Prelude "HOL-Library.List_Lexorder" "HOL-Library.Char_ord" "HOL-Library.Multiset"
begin

text \<open>
  Python's \<open>json.dumps(..., ensure_ascii=False)\<close> and \<open>json.loads\<close> over UTF-8 text, as
  far as the program uses them: the canonical prompt text, the agents' payloads, the
  fixtures and the model's answers. Printing a float is the argument \<open>sf\<close>
  (\<open>float.__repr__\<close>); reading one yields the rational its digits denote. The literals
  \<open>NaN\<close> and \<open>Infinity\<close>, which Python also reads, are not modelled.
\<close>

section \<open>Printing\<close>

definition hex_char :: "nat \<Rightarrow> char" where
  "hex_char d = (if d < 10 then char_of (48 + d) else char_of (87 + d))"

definition escape_char :: "char \<Rightarrow> string" where
  "escape_char c =
     (if c = CHR 0x22 then [CHR 0x5C, CHR 0x22]
      else if c = CHR 0x5C then [CHR 0x5C, CHR 0x5C]
      else if c = CHR 0x0A then [CHR 0x5C, CHR ''n'']
      else if c = CHR 0x0D then [CHR 0x5C, CHR ''r'']
      else if c = CHR 0x09 then [CHR 0x5C, CHR ''t'']
      else if c = CHR 0x0C then [CHR 0x5C, CHR ''f'']
      else if c = CHR 0x08 then [CHR 0x5C, CHR ''b'']
      else if (of_char c :: nat) < 32
      then [CHR 0x5C, CHR ''u'', CHR ''0'', CHR ''0'',
            hex_char (of_char c div 16), hex_char (of_char c mod 16)]
      else [c])"

definition quote_json :: "string \<Rightarrow> string" where
  "quote_json s = CHR 0x22 # concat (map escape_char s) @ [CHR 0x22]"

fun dumps :: "(rat \<Rightarrow> string) \<Rightarrow> json \<Rightarrow> string"
  and dumps_items :: "(rat \<Rightarrow> string) \<Rightarrow> json list \<Rightarrow> string"
  and dumps_fields :: "(rat \<Rightarrow> string) \<Rightarrow> (string \<times> json) list \<Rightarrow> string" where
  "dumps sf JNull = ''null''"
| "dumps sf (JBool b) = (if b then ''true'' else ''false'')"
| "dumps sf (JInt i) = show_int i"
| "dumps sf (JNum q) = sf q"
| "dumps sf (JStr s) = quote_json s"
| "dumps sf (JArr js) = ''['' @ dumps_items sf js @ '']''"
| "dumps sf (JObj d) = ''{'' @ dumps_fields sf d @ ''}''"
| "dumps_items sf [] = ''''"
| "dumps_items sf [j] = dumps sf j"
| "dumps_items sf (j # k # js) = dumps sf j @ '', '' @ dumps_items sf (k # js)"
| "dumps_fields sf [] = ''''"
| "dumps_fields sf [(k, j)] = quote_json k @ '': '' @ dumps sf j"
| "dumps_fields sf ((k, j) # f # d) =
     quote_json k @ '': '' @ dumps sf j @ '', '' @ dumps_fields sf (f # d)"

text \<open>
  \<open>sort_keys=True\<close> prints every object with its keys in code point order, which for
  UTF-8 is byte order.
\<close>

fun sort_json :: "json \<Rightarrow> json" where
  "sort_json (JArr js) = JArr (map sort_json js)"
| "sort_json (JObj d) = JObj (sort_key fst (map (\<lambda>(k, j). (k, sort_json j)) d))"
| "sort_json j = j"

definition dumps_sorted :: "(rat \<Rightarrow> string) \<Rightarrow> json \<Rightarrow> string" where
  "dumps_sorted sf j = dumps sf (sort_json j)"

section \<open>Reading\<close>

definition is_ws :: "char \<Rightarrow> bool" where
  "is_ws c \<longleftrightarrow> c = CHR 0x20 \<or> c = CHR 0x09 \<or> c = CHR 0x0A \<or> c = CHR 0x0D"

definition skip_ws :: "string \<Rightarrow> string" where
  "skip_ws s = dropWhile is_ws s"

definition digit_at :: "char \<Rightarrow> bool" where
  "digit_at c \<longleftrightarrow> 48 \<le> (of_char c :: nat) \<and> (of_char c :: nat) \<le> 57"

definition hex_value :: "char \<Rightarrow> nat option" where
  "hex_value c =
     (let n = of_char c :: nat
      in if 48 \<le> n \<and> n \<le> 57 then Some (n - 48)
         else if 97 \<le> n \<and> n \<le> 102 then Some (n - 87)
         else if 65 \<le> n \<and> n \<le> 70 then Some (n - 55)
         else None)"

definition hex4 :: "string \<Rightarrow> (nat \<times> string) option" where
  "hex4 s = (case s of
     a # b # c # d # r \<Rightarrow>
       (case (hex_value a, hex_value b, hex_value c, hex_value d) of
          (Some p, Some q, Some u, Some v) \<Rightarrow> Some (((p * 16 + q) * 16 + u) * 16 + v, r)
        | _ \<Rightarrow> None)
   | _ \<Rightarrow> None)"

text \<open>The UTF-8 bytes of a code point; a lone surrogate is encoded like any other.\<close>

definition utf8_of :: "nat \<Rightarrow> string" where
  "utf8_of n =
     (if n < 128 then [char_of n]
      else if n < 2048 then [char_of (192 + n div 64), char_of (128 + n mod 64)]
      else if n < 65536
      then [char_of (224 + n div 4096), char_of (128 + n div 64 mod 64), char_of (128 + n mod 64)]
      else [char_of (240 + n div 262144), char_of (128 + n div 4096 mod 64),
            char_of (128 + n div 64 mod 64), char_of (128 + n mod 64)])"

text \<open>A \<open>\\u\<close> escape, whose surrogate pairs make one code point.\<close>

definition read_unicode :: "string \<Rightarrow> (string \<times> string) option" where
  "read_unicode s = (case hex4 s of
     None \<Rightarrow> None
   | Some (u, r) \<Rightarrow>
       if 0xD800 \<le> u \<and> u \<le> 0xDBFF
       then (case r of
          a # b # r' \<Rightarrow>
            if a = CHR 0x5C \<and> b = CHR ''u''
            then (case hex4 r' of
                None \<Rightarrow> None
              | Some (v, r'') \<Rightarrow>
                  if 0xDC00 \<le> v \<and> v \<le> 0xDFFF
                  then Some (utf8_of (0x10000 + (u - 0xD800) * 1024 + (v - 0xDC00)), r'')
                  else Some (utf8_of u, r))
            else Some (utf8_of u, r)
        | _ \<Rightarrow> Some (utf8_of u, r))
       else Some (utf8_of u, r))"

definition simple_escape :: "char \<Rightarrow> char option" where
  "simple_escape e =
     (if e = CHR 0x22 \<or> e = CHR 0x5C \<or> e = CHR ''/'' then Some e
      else if e = CHR ''n'' then Some (CHR 0x0A)
      else if e = CHR ''r'' then Some (CHR 0x0D)
      else if e = CHR ''t'' then Some (CHR 0x09)
      else if e = CHR ''f'' then Some (CHR 0x0C)
      else if e = CHR ''b'' then Some (CHR 0x08)
      else None)"

text \<open>The body of a string literal, up to its closing quote. Fuel: one unit per character.\<close>

fun read_body :: "nat \<Rightarrow> string \<Rightarrow> (string \<times> string) option" where
  "read_body 0 s = None"
| "read_body (Suc n) [] = None"
| "read_body (Suc n) (c # s) =
     (if c = CHR 0x22 then Some ([], s)
      else if c = CHR 0x5C
      then (case s of
          [] \<Rightarrow> None
        | e # s' \<Rightarrow>
            (case (if e = CHR ''u'' then read_unicode s'
                   else map_option (\<lambda>x. ([x], s')) (simple_escape e)) of
               None \<Rightarrow> None
             | Some (x, r) \<Rightarrow> map_option (\<lambda>(t, r'). (x @ t, r')) (read_body n r)))
      else if (of_char c :: nat) < 32 then None
      else map_option (\<lambda>(t, r). (c # t, r)) (read_body n s))"

definition read_string :: "string \<Rightarrow> (string \<times> string) option" where
  "read_string s = read_body (Suc (length s)) s"

definition digits_value :: "string \<Rightarrow> nat" where
  "digits_value s = fold (\<lambda>c n. 10 * n + ((of_char c :: nat) - 48)) s 0"

definition read_exponent :: "string \<Rightarrow> (int \<times> string) option" where
  "read_exponent s = (case s of
     e # r \<Rightarrow>
       if e = CHR ''e'' \<or> e = CHR ''E''
       then (let (sign, r') = (case r of
                   c # r' \<Rightarrow> if c = CHR ''-'' then (-1, r') else if c = CHR ''+'' then (1, r') else (1, r)
                 | [] \<Rightarrow> (1 :: int, r));
                 ds = takeWhile digit_at r'
             in if ds = [] then None
                else Some (sign * int (digits_value ds), dropWhile digit_at r'))
       else None
   | [] \<Rightarrow> None)"

definition power_of_ten :: "int \<Rightarrow> rat" where
  "power_of_ten e = (if 0 \<le> e then 10 ^ nat e else 1 / 10 ^ nat (- e))"

definition read_sign :: "string \<Rightarrow> bool \<times> string" where
  "read_sign s = (case s of
     [] \<Rightarrow> (False, s) | c # r \<Rightarrow> if c = CHR ''-'' then (True, r) else (False, s))"

definition int_digits :: "string \<Rightarrow> string" where
  "int_digits s = (case s of
     [] \<Rightarrow> [] | c # r \<Rightarrow> if c = CHR ''0'' then [c] else takeWhile digit_at s)"

definition read_fraction :: "string \<Rightarrow> string \<times> string" where
  "read_fraction s = (case s of
     [] \<Rightarrow> ([], s)
   | c # r \<Rightarrow> if c = CHR ''.'' \<and> takeWhile digit_at r \<noteq> []
              then (takeWhile digit_at r, dropWhile digit_at r) else ([], s))"

definition signed :: "bool \<Rightarrow> 'a::uminus \<Rightarrow> 'a" where
  "signed neg x = (if neg then - x else x)"

definition decimal_value :: "string \<Rightarrow> string \<Rightarrow> int \<Rightarrow> rat" where
  "decimal_value ds fr e =
     (of_nat (digits_value ds) + of_nat (digits_value fr) / 10 ^ length fr) * power_of_ten e"

definition finish_number :: "bool \<Rightarrow> string \<Rightarrow> string \<Rightarrow> string \<Rightarrow> json \<times> string" where
  "finish_number neg ds fr s = (case read_exponent s of
     None \<Rightarrow> (if fr = [] then (JInt (signed neg (int (digits_value ds))), s)
              else (JNum (signed neg (decimal_value ds fr 0)), s))
   | Some (e, r) \<Rightarrow> (JNum (signed neg (decimal_value ds fr e)), r))"

definition read_number :: "string \<Rightarrow> (json \<times> string) option" where
  "read_number s =
     (let (neg, s1) = read_sign s; ds = int_digits s1;
          (fr, s3) = read_fraction (drop (length ds) s1)
      in if ds = [] then None else Some (finish_number neg ds fr s3))"

definition strip_prefix :: "string \<Rightarrow> string \<Rightarrow> string option" where
  "strip_prefix p s = (if take (length p) s = p then Some (drop (length p) s) else None)"

text \<open>
  A value, the rest of an array after its bracket or a comma, the rest of an object. Fuel:
  every call descends into the text, so its length bounds them.
\<close>

fun read_value :: "nat \<Rightarrow> string \<Rightarrow> (json \<times> string) option"
  and read_items :: "nat \<Rightarrow> string \<Rightarrow> (json list \<times> string) option"
  and read_fields :: "nat \<Rightarrow> string \<Rightarrow> ((string \<times> json) list \<times> string) option" where
  "read_value 0 s = None"
| "read_value (Suc n) s = (case s of
     [] \<Rightarrow> None
   | c # r \<Rightarrow>
       if c = CHR 0x22 then map_option (\<lambda>(t, r'). (JStr t, r')) (read_string r)
       else if c = CHR ''['' then
         (case skip_ws r of
            c' # r' \<Rightarrow> if c' = CHR '']'' then Some (JArr [], r')
                       else map_option (\<lambda>(js, r''). (JArr js, r'')) (read_items n (skip_ws r))
          | [] \<Rightarrow> None)
       else if c = CHR ''{'' then
         (case skip_ws r of
            c' # r' \<Rightarrow> if c' = CHR ''}'' then Some (JObj [], r')
                       else map_option (\<lambda>(d, r''). (JObj (foldl (\<lambda>m (k, j). dict_set m k j) [] d), r''))
                              (read_fields n (skip_ws r))
          | [] \<Rightarrow> None)
       else if c = CHR ''n'' then map_option (\<lambda>r'. (JNull, r')) (strip_prefix ''null'' s)
       else if c = CHR ''t'' then map_option (\<lambda>r'. (JBool True, r')) (strip_prefix ''true'' s)
       else if c = CHR ''f'' then map_option (\<lambda>r'. (JBool False, r')) (strip_prefix ''false'' s)
       else read_number s)"
| "read_items 0 s = None"
| "read_items (Suc n) s = (case read_value n s of
     None \<Rightarrow> None
   | Some (j, r) \<Rightarrow>
       (case skip_ws r of
          c # r' \<Rightarrow> if c = CHR '']'' then Some ([j], r')
                     else if c = CHR '','' then map_option (\<lambda>(js, r''). (j # js, r''))
                                                    (read_items n (skip_ws r'))
                     else None
        | [] \<Rightarrow> None))"
| "read_fields 0 s = None"
| "read_fields (Suc n) s = (case s of
     q # s' \<Rightarrow>
       if q \<noteq> CHR 0x22 then None
       else (case read_string s' of
          None \<Rightarrow> None
        | Some (k, r) \<Rightarrow>
            (case skip_ws r of
               c # r' \<Rightarrow>
                 if c \<noteq> CHR '':'' then None
                 else (case read_value n (skip_ws r') of
                    None \<Rightarrow> None
                  | Some (j, r2) \<Rightarrow>
                      (case skip_ws r2 of
                         c2 # r3 \<Rightarrow>
                           if c2 = CHR ''}'' then Some ([(k, j)], r3)
                           else if c2 = CHR '','' then map_option (\<lambda>(d, r4). ((k, j) # d, r4))
                                                           (read_fields n (skip_ws r3))
                           else None
                       | [] \<Rightarrow> None))
             | [] \<Rightarrow> None))
   | [] \<Rightarrow> None)"

definition loads :: "string \<Rightarrow> json option" where
  "loads s = (case read_value (Suc (2 * length s)) (skip_ws s) of
     None \<Rightarrow> None
   | Some (j, r) \<Rightarrow> if skip_ws r = [] then Some j else None)"

section \<open>The round trip\<close>

text \<open>What may follow a value inside a document.\<close>

definition delimited :: "string \<Rightarrow> bool" where
  "delimited r \<longleftrightarrow> r = [] \<or> hd r = CHR '','' \<or> hd r = CHR '']'' \<or> hd r = CHR ''}''"

definition number_start :: "char \<Rightarrow> bool" where
  "number_start c \<longleftrightarrow> c = CHR ''-'' \<or> digit_at c"

definition float_text :: "(rat \<Rightarrow> string) \<Rightarrow> rat \<Rightarrow> bool" where
  "float_text sf q \<longleftrightarrow> (sf q \<noteq> [] \<and> number_start (hd (sf q)))
     \<and> (\<forall>r. delimited r \<longrightarrow> read_number (sf q @ r) = Some (JNum q, r))"

text \<open>Values \<open>dumps\<close> prints faithfully: distinct keys, and floats whose text reads back.\<close>

fun printable :: "(rat \<Rightarrow> string) \<Rightarrow> json \<Rightarrow> bool" where
  "printable sf (JNum q) = float_text sf q"
| "printable sf (JArr js) = list_all (printable sf) js"
| "printable sf (JObj d) = (distinct (map fst d) \<and> list_all (\<lambda>(k, j). printable sf j) d)"
| "printable sf j = True"

lemma hex_value_char: "d < 16 \<Longrightarrow> hex_value (hex_char d) = Some d"
  by (auto simp: hex_value_def hex_char_def Let_def)

lemma read_unicode_control:
  assumes "(of_char c :: nat) < 32"
  shows "read_unicode (CHR ''0'' # CHR ''0'' # hex_char (of_char c div 16)
           # hex_char (of_char c mod 16) # t) = Some ([c], t)"
proof -
  have "(of_char c :: nat) div 16 < 16" "(of_char c :: nat) mod 16 < 16" using assms by simp_all
  then have "hex4 (CHR ''0'' # CHR ''0'' # hex_char (of_char c div 16)
      # hex_char (of_char c mod 16) # t) = Some (of_char c, t)"
    by (simp add: hex4_def hex_value_char hex_value_def [of "CHR ''0''"])
  with assms show ?thesis by (simp add: read_unicode_def utf8_of_def)
qed

lemma read_body_escape:
  "read_body (Suc n) (escape_char c @ t) = map_option (\<lambda>(u, r). (c # u, r)) (read_body n t)"
proof (cases "c \<in> {CHR 0x22, CHR 0x5C, CHR 0x0A, CHR 0x0D, CHR 0x09, CHR 0x0C, CHR 0x08}")
  case True
  then show ?thesis
    by (auto simp: escape_char_def simple_escape_def)
next
  case False
  then show ?thesis
    by (auto simp: escape_char_def read_unicode_control)
qed

lemma read_body_quote:
  "length s < n \<Longrightarrow> read_body n (concat (map escape_char s) @ CHR 0x22 # r) = Some (s, r)"
proof (induction s arbitrary: n)
  case Nil
  then show ?case by (cases n) simp_all
next
  case (Cons c s)
  then obtain m where n: "n = Suc m" "length s < m" by (cases n) auto
  then show ?case
    using Cons.IH [OF n(2)] by (simp add: n(1) read_body_escape del: read_body.simps)
qed

lemma escape_length: "length s \<le> length (concat (map escape_char s))"
proof (induction s)
  case (Cons c s)
  moreover have "1 \<le> length (escape_char c)" by (simp add: escape_char_def)
  ultimately show ?case by simp
qed simp

lemma read_string_quote: "read_string (concat (map escape_char s) @ CHR 0x22 # r) = Some (s, r)"
  unfolding read_string_def using escape_length [of s] by (intro read_body_quote) simp

lemma digit_at_digit_char: "d < 10 \<Longrightarrow> digit_at (digit_char d)"
  by (simp add: digit_at_def of_char_digit_char)

lemma show_nat_digits: "list_all digit_at (show_nat n)"
  by (induction n rule: show_nat.induct)
    (subst show_nat.simps, auto simp: digit_at_digit_char)

lemma show_nat_head: "\<exists>c t. show_nat n = c # t \<and> (c = CHR ''0'' \<longrightarrow> t = [] \<and> n = 0)"
proof (induction n rule: show_nat.induct)
  case (1 n)
  show ?case
  proof (cases "n < 10")
    case True
    have "digit_char n = CHR ''0'' \<longrightarrow> n = 0"
    proof
      assume "digit_char n = CHR ''0''"
      then have "(of_char (digit_char n) :: nat) = 48" by simp
      with True show "n = 0" by (simp add: of_char_digit_char)
    qed
    with True show ?thesis by (subst show_nat.simps) simp
  next
    case False
    with 1 obtain c t where "show_nat (n div 10) = c # t" "c = CHR ''0'' \<longrightarrow> t = [] \<and> n div 10 = 0"
      by blast
    with False show ?thesis by (subst show_nat.simps) auto
  qed
qed

lemma digits_value_show: "digits_value (show_nat n) = n"
  using read_show_nat by (simp add: digits_value_def)

lemma takeWhile_digits:
  assumes "list_all digit_at ds" and "r = [] \<or> \<not> digit_at (hd r)"
  shows "takeWhile digit_at (ds @ r) = ds"
  using assms by (induction ds) (auto simp: takeWhile_eq_Nil_iff)

lemma delimited_not_digit: "delimited r \<Longrightarrow> r = [] \<or> \<not> digit_at (hd r)"
  by (auto simp: delimited_def digit_at_def)

lemma finish_integer:
  assumes "delimited r"
  shows "finish_number neg ds [] r = (JInt (signed neg (int (digits_value ds))), r)"
    and "read_fraction r = ([], r)"
  using assms
  by (auto simp: finish_number_def read_exponent_def read_fraction_def delimited_def split: list.split)

lemma int_digits_show:
  assumes "delimited r"
  shows "int_digits (show_nat n @ r) = show_nat n"
proof -
  obtain c t where h: "show_nat n = c # t" "c = CHR ''0'' \<longrightarrow> t = [] \<and> n = 0"
    using show_nat_head by blast
  have "takeWhile digit_at (show_nat n @ r) = show_nat n"
    by (rule takeWhile_digits [OF show_nat_digits delimited_not_digit [OF assms]])
  with h show ?thesis by (simp add: int_digits_def)
qed

lemma read_sign_show:
  "read_sign (show_nat n @ r) = (False, show_nat n @ r)"
  "read_sign (CHR ''-'' # s) = (True, s)"
proof -
  obtain c t where h: "show_nat n = c # t" using show_nat_head by blast
  moreover have "c \<noteq> CHR ''-''" using show_nat_digits [of n] h by (auto simp: digit_at_def)
  ultimately show "read_sign (show_nat n @ r) = (False, show_nat n @ r)"
    by (simp add: read_sign_def)
qed (simp add: read_sign_def)

lemma read_number_nat:
  assumes "delimited r"
  shows "read_number (show_nat n @ r) = Some (JInt (int n), r)"
    and "read_number (CHR ''-'' # show_nat n @ r) = Some (JInt (- int n), r)"
proof -
  have "show_nat n \<noteq> []" using show_nat_head [of n] by auto
  then show "read_number (show_nat n @ r) = Some (JInt (int n), r)"
    "read_number (CHR ''-'' # show_nat n @ r) = Some (JInt (- int n), r)"
    using assms by (simp_all add: read_number_def read_sign_show int_digits_show finish_integer
        digits_value_show signed_def)
qed

lemma read_number_int: "delimited r \<Longrightarrow> read_number (show_int i @ r) = Some (JInt i, r)"
  by (simp add: show_int_def read_number_nat)

lemma show_int_start: "\<exists>c t. show_int i = c # t \<and> number_start c"
proof -
  have "\<exists>c t. show_nat n = c # t \<and> number_start c" for n
    using show_nat_head [of n] show_nat_digits [of n] by (auto simp: number_start_def)
  then show ?thesis by (auto simp: show_int_def number_start_def)
qed

lemma skip_ws_head: "\<not> is_ws c \<Longrightarrow> skip_ws (c # s) = c # s"
  by (simp add: skip_ws_def)

lemma skip_ws_space: "skip_ws (CHR '' '' # s) = skip_ws s"
  by (simp add: skip_ws_def is_ws_def)

text \<open>A printed value starts with a character that is no space and closes nothing.\<close>

definition value_start :: "char \<Rightarrow> bool" where
  "value_start c \<longleftrightarrow> \<not> is_ws c \<and> c \<noteq> CHR '']'' \<and> c \<noteq> CHR ''}''"

lemma number_start_value: "number_start c \<Longrightarrow> value_start c"
  by (auto simp: number_start_def value_start_def digit_at_def is_ws_def)

lemma dumps_start: "printable sf j \<Longrightarrow> \<exists>c t. dumps sf j = c # t \<and> value_start c"
proof (cases j)
  case (JInt i)
  then show ?thesis using show_int_start [of i] number_start_value by auto
next
  case (JNum q)
  assume "printable sf j"
  with JNum obtain c t where "sf q = c # t" "number_start c"
    by (auto simp: float_text_def neq_Nil_conv)
  with JNum show ?thesis using number_start_value by auto
qed (simp_all add: quote_json_def value_start_def is_ws_def)

lemma skip_dumps: "printable sf j \<Longrightarrow> skip_ws (dumps sf j @ r) = dumps sf j @ r"
  using dumps_start [of sf j] by (auto simp: skip_ws_head value_start_def)

lemma read_value_number:
  assumes "number_start c" and "read_number (c # t) = Some res"
  shows "read_value (Suc n) (c # t) = Some res"
proof -
  have "c \<noteq> CHR 0x22" "c \<noteq> CHR ''[''" "c \<noteq> CHR ''{''" "c \<noteq> CHR ''n''" "c \<noteq> CHR ''t''" "c \<noteq> CHR ''f''"
    using assms(1) by (auto simp: number_start_def digit_at_def)
  then show ?thesis by (simp add: assms(2))
qed

lemma delimited_simps [simp]:
  "delimited []" "delimited (CHR '','' # r)" "delimited (CHR '']'' # r)" "delimited (CHR ''}'' # r)"
  by (simp_all add: delimited_def)

lemma foldl_dict_set:
  "distinct (map fst (m @ d)) \<Longrightarrow> foldl (\<lambda>m (k, j). dict_set m k j) m d = m @ d"
proof (induction d arbitrary: m)
  case (Cons p d)
  obtain k j where p: "p = (k, j)" by fastforce
  have "dict_set m k j = m @ [(k, j)]"
    using Cons.prems p by (induction m) auto
  with Cons p show ?case by simp
qed simp

lemma read_dumps:
  shows "printable sf j \<Longrightarrow> length (dumps sf j) < n \<Longrightarrow> delimited r \<Longrightarrow>
      read_value n (dumps sf j @ r) = Some (j, r)"
    and "list_all (printable sf) js \<Longrightarrow> js \<noteq> [] \<Longrightarrow> length (dumps_items sf js) + 1 < n \<Longrightarrow>
      read_items n (dumps_items sf js @ CHR '']'' # r) = Some (js, r)"
    and "list_all (\<lambda>(k, j). printable sf j) d \<Longrightarrow> d \<noteq> [] \<Longrightarrow>
      length (dumps_fields sf d) + 1 < n \<Longrightarrow>
      read_fields n (dumps_fields sf d @ CHR ''}'' # r) = Some (d, r)"
proof (induction sf j and sf js and sf d arbitrary: n r and n r and n r
    rule: dumps_dumps_items_dumps_fields.induct)
  case (1 sf)
  then show ?case by (cases n) (simp_all add: strip_prefix_def)
next
  case (2 sf b)
  then show ?case by (cases n) (auto simp: strip_prefix_def)
next
  case (3 sf i)
  then obtain m where "n = Suc m" by (cases n) auto
  moreover obtain c t where "show_int i = c # t" "number_start c" using show_int_start by blast
  ultimately show ?case
    using read_value_number [of c "t @ r"] read_number_int [OF 3(3), of i] by simp
next
  case (4 sf q)
  then obtain m where "n = Suc m" by (cases n) auto
  moreover obtain c t where "sf q = c # t" "number_start c"
    using 4(1) by (auto simp: float_text_def neq_Nil_conv)
  ultimately show ?case
    using read_value_number [of c "t @ r"] 4(1,3) by (simp add: float_text_def)
next
  case (5 sf s)
  then obtain m where "n = Suc m" by (cases n) auto
  then show ?case by (simp add: quote_json_def read_string_quote)
next
  case (6 sf js)
  then obtain m where n: "n = Suc m" by (cases n) auto
  show ?case
  proof (cases js)
    case Nil
    then show ?thesis by (simp add: n skip_ws_def is_ws_def)
  next
    case (Cons j js')
    then obtain c t where "dumps sf j = c # t" "value_start c"
      using 6(2) dumps_start [of sf j] by auto
    then obtain u where h: "dumps_items sf js = c # u" "value_start c"
      using Cons by (cases js') auto
    have "read_items m (dumps_items sf js @ CHR '']'' # r) = Some (js, r)"
      using 6(1) [of m r] 6(2,3) n Cons by simp
    with h show ?thesis by (simp add: n skip_ws_head value_start_def)
  qed
next
  case (7 sf d)
  then obtain m where n: "n = Suc m" by (cases n) auto
  show ?case
  proof (cases d)
    case Nil
    then show ?thesis by (simp add: n skip_ws_def is_ws_def)
  next
    case (Cons f d')
    then obtain u where h: "dumps_fields sf d = CHR 0x22 # u"
      by (cases f; cases d') (simp_all add: quote_json_def)
    have "read_fields m (dumps_fields sf d @ CHR ''}'' # r) = Some (d, r)"
      using 7(1) [of m r] 7(2,3) n Cons by simp
    moreover have "foldl (\<lambda>m (k, j). dict_set m k j) [] d = d"
      using foldl_dict_set [of "[]" d] 7(2) by simp
    ultimately show ?thesis using h by (simp add: n skip_ws_head is_ws_def)
  qed
next
  case (9 sf j)
  then obtain m where n: "n = Suc m" "length (dumps sf j) < m" by (cases n) auto
  then show ?case using 9(1) [of m "CHR '']'' # r"] 9(2) by (simp add: skip_ws_head is_ws_def)
next
  case (10 sf j k js)
  then obtain m where n: "n = Suc m" "length (dumps sf j) < m"
    "length (dumps_items sf (k # js)) + 1 < m" by (cases n) auto
  have "skip_ws (dumps_items sf (k # js) @ CHR '']'' # r) = dumps_items sf (k # js) @ CHR '']'' # r"
    using 10(3) skip_dumps [of sf k] by (cases js) auto
  with n show ?case
    using 10(1) [of m "'', '' @ dumps_items sf (k # js) @ CHR '']'' # r"] 10(2) [of m r] 10(3)
    by (simp add: skip_ws_head skip_ws_space is_ws_def)
next
  case (12 sf k j)
  then obtain m where n: "n = Suc m" "length (dumps sf j) < m" by (cases n) auto
  then show ?case
    using 12(1) [of m "CHR ''}'' # r"] 12(2)
    by (simp add: quote_json_def read_string_quote skip_ws_head skip_ws_space is_ws_def skip_dumps)
next
  case (13 sf k j f d)
  then obtain m where n: "n = Suc m" "length (dumps sf j) < m"
    "length (dumps_fields sf (f # d)) + 1 < m" by (cases n) auto
  obtain u where h: "dumps_fields sf (f # d) = CHR 0x22 # u"
    by (cases f; cases d) (simp_all add: quote_json_def)
  from n show ?case
    using 13(1) [of m "'', '' @ dumps_fields sf (f # d) @ CHR ''}'' # r"] 13(2) [of m r] 13(3) h
    by (simp add: quote_json_def read_string_quote skip_ws_head skip_ws_space is_ws_def skip_dumps)
qed simp_all

lemma loads_dumps:
  assumes "printable sf j"
  shows "loads (dumps sf j) = Some j"
proof -
  have "read_value (Suc (2 * length (dumps sf j))) (dumps sf j @ []) = Some (j, [])"
    by (rule read_dumps(1) [OF assms]) simp_all
  then show ?thesis
    using skip_dumps [OF assms, of "[]"] by (simp add: loads_def skip_ws_def)
qed

text \<open>Sorting keys keeps a value printable, so sorted text determines the sorted value.\<close>

lemma printable_sort: "printable sf j \<Longrightarrow> printable sf (sort_json j)"
proof (induction j rule: sort_json.induct)
  case (1 js)
  then show ?case by (auto simp: list_all_iff)
next
  case (2 d)
  have "map fst (map (\<lambda>(k, j). (k, sort_json j)) d) = map fst d"
    by (induction d) auto
  then have "distinct (map fst (sort_key fst (map (\<lambda>(k, j). (k, sort_json j)) d)))"
    using 2(2) distinct_map by (metis (no_types) distinct_sort mset_eq_imp_distinct_iff mset_map mset_sort printable.simps(3))
  with 2 show ?case by (fastforce simp: list_all_iff)
qed simp_all

lemma dumps_sorted_inj:
  assumes "printable sf a" and "printable sf b" and "dumps_sorted sf a = dumps_sorted sf b"
  shows "sort_json a = sort_json b"
  using assms loads_dumps [OF printable_sort] by (metis dumps_sorted_def option.inject)

end
