(* ===== verification/Llm_Schema.thy ===== *)
theory Llm_Schema
  imports Llm_Trace Json_Text
begin

text \<open>
  The wrapper's own check of a model answer, \<open>_parse_and_validate\<close> and
  \<open>_validate_against_schema\<close> in \<open>app/backend/llm/vertex.py\<close>, and the declarative
  reading of the JSON-Schema fragment it supports, with the proof that the two agree.
\<close>

section \<open>The validator\<close>

text \<open>
  A miss is the \<open>VertexSchemaError\<close>; \<open>SchemaCrash\<close> is the Python error a schema of the
  wrong shape provokes (iterating a number, looking up an unhashable key).
\<close>

datatype schema_error = SchemaMiss | SchemaCrash

definition falsy :: "json \<Rightarrow> bool" where
  "falsy j \<longleftrightarrow> j \<in> {JNull, JBool False, JInt 0, JNum 0, JStr '''', JArr [], JObj []}"

text \<open>\<open>schema.get(k) or default\<close>: absent and falsy values read as the default.\<close>

definition get_or :: "(string, json) dict \<Rightarrow> string \<Rightarrow> json \<Rightarrow> json" where
  "get_or d k j = (case dict_get d k of None \<Rightarrow> j | Some v \<Rightarrow> if falsy v then j else v)"

text \<open>The code points of a string, what iterating it yields.\<close>

fun code_points :: "string \<Rightarrow> string list" where
  "code_points [] = []"
| "code_points (c # s) =
     (case code_points s of
        [] \<Rightarrow> [[c]]
      | p # ps \<Rightarrow> if is_continuation (hd p) then (c # p) # ps else [c] # p # ps)"

definition iterate_keys :: "json \<Rightarrow> schema_error + json list" where
  "iterate_keys j = (case j of
     JArr xs \<Rightarrow> Inr xs
   | JObj d \<Rightarrow> Inr (map (\<lambda>p. JStr (fst p)) d)
   | JStr s \<Rightarrow> Inr (map JStr (code_points s))
   | _ \<Rightarrow> Inl SchemaCrash)"

fun check_required :: "(string, json) dict \<Rightarrow> json list \<Rightarrow> schema_error + unit" where
  "check_required payload [] = Inr ()"
| "check_required payload (key # keys) = (case key of
     JStr k \<Rightarrow> if dict_get payload k = None then Inl SchemaMiss else check_required payload keys
   | JArr _ \<Rightarrow> Inl SchemaCrash
   | JObj _ \<Rightarrow> Inl SchemaCrash
   | _ \<Rightarrow> Inl SchemaMiss)"

definition property_table :: "(string, json) dict \<Rightarrow> schema_error + (string, json) dict" where
  "property_table schema = (case get_or schema ''properties'' (JObj []) of
     JObj ps \<Rightarrow> Inr ps | _ \<Rightarrow> Inl SchemaCrash)"

definition no_extras :: "(string, json) dict \<Rightarrow> (string, json) dict \<Rightarrow> (string, json) dict \<Rightarrow> bool" where
  "no_extras schema payload ps \<longleftrightarrow>
     dict_get schema ''additionalProperties'' = Some (JBool False)
     \<longrightarrow> list_all (\<lambda>p. dict_get ps (fst p) \<noteq> None) payload"

definition scalar_ok :: "string \<Rightarrow> json \<Rightarrow> bool" where
  "scalar_ok t payload = (case payload of
     JStr _ \<Rightarrow> t \<notin> {''boolean'', ''integer'', ''number''}
   | JBool _ \<Rightarrow> t \<notin> {''string'', ''integer'', ''number''}
   | JInt _ \<Rightarrow> t \<notin> {''string'', ''boolean''}
   | JNum _ \<Rightarrow> t \<notin> {''string'', ''boolean'', ''integer''}
   | _ \<Rightarrow> t \<notin> {''string'', ''boolean'', ''integer'', ''number''})"

lemma size_dict_get: "dict_get d k = Some j \<Longrightarrow> size j < size (JObj d)"
proof (induction d)
  case (Cons p d)
  then show ?case by (cases p) (auto split: if_splits)
qed simp

lemma size_get_or: "get_or d k (JObj []) = JObj ps \<Longrightarrow> ps = [] \<or> size (JObj ps) < size (JObj d)"
  using size_dict_get [of d k "JObj ps"] by (auto simp: get_or_def split: option.splits if_splits)

lemma size_property_table:
  "property_table schema = Inr ps \<Longrightarrow> size_list (\<lambda>p. size (snd p)) ps < size (JObj schema)"
proof -
  assume "property_table schema = Inr ps"
  then have "get_or schema ''properties'' (JObj []) = JObj ps"
    by (auto simp: property_table_def split: json.splits)
  from size_get_or [OF this] consider "ps = []" | "size (JObj ps) < size (JObj schema)" by blast
  then show ?thesis
  proof cases
    case 2
    have "size_list (\<lambda>p. size (snd p)) ps \<le> size (JObj ps)"
      by (induction ps) auto
    with 2 show ?thesis by simp
  qed simp
qed

text \<open>
  The recursion descends into the schema: \<open>check_properties\<close> walks the declared
  properties that the payload has, \<open>check_elements\<close> the elements of an array.
\<close>

function (sequential) check_schema :: "json \<Rightarrow> json \<Rightarrow> schema_error + unit"
  and check_properties :: "(string \<times> json) list \<Rightarrow> (string, json) dict \<Rightarrow> schema_error + unit"
  and check_elements :: "json \<Rightarrow> json list \<Rightarrow> schema_error + unit" where
  "check_schema (JObj schema) payload =
     (if dict_get schema ''type'' = Some (JStr ''object'') then
        (case payload of
           JObj d \<Rightarrow>
             and_then (iterate_keys (get_or schema ''required'' (JArr []))) (\<lambda>keys.
             and_then (check_required d keys) (\<lambda>_.
             (case property_table schema of
                Inl e \<Rightarrow> Inl e
              | Inr ps \<Rightarrow> if no_extras schema d ps then check_properties ps d else Inl SchemaMiss)))
         | _ \<Rightarrow> Inl SchemaMiss)
      else if dict_get schema ''type'' = Some (JStr ''array'') then
        (case payload of
           JArr xs \<Rightarrow>
             (case dict_get schema ''items'' of
                Some (JObj sub) \<Rightarrow> check_elements (JObj sub) xs
              | _ \<Rightarrow> Inr ())
         | _ \<Rightarrow> Inl SchemaMiss)
      else (case dict_get schema ''type'' of
              Some (JStr t) \<Rightarrow> if scalar_ok t payload then Inr () else Inl SchemaMiss
            | _ \<Rightarrow> Inr ()))"
| "check_schema _ payload = Inr ()"
| "check_properties [] d = Inr ()"
| "check_properties ((key, sub) # ps) d =
     (case dict_get d key of
        None \<Rightarrow> check_properties ps d
      | Some v \<Rightarrow>
          and_then (case sub of JObj _ \<Rightarrow> check_schema sub v | _ \<Rightarrow> Inr ()) (\<lambda>_. check_properties ps d))"
| "check_elements sub [] = Inr ()"
| "check_elements sub (x # xs) = and_then (check_schema sub x) (\<lambda>_. check_elements sub xs)"
  by pat_completeness auto

termination
proof (relation "measures [\<lambda>p. case p of
      Inl (s, _) \<Rightarrow> size s
    | Inr (Inl (ps, _)) \<Rightarrow> size_list (\<lambda>p. size (snd p)) ps
    | Inr (Inr (s, _)) \<Rightarrow> size s,
    \<lambda>p. case p of Inl _ \<Rightarrow> 0 | Inr (Inl (ps, _)) \<Rightarrow> length ps | Inr (Inr (_, xs)) \<Rightarrow> Suc (length xs)]")
qed (auto dest: size_property_table size_dict_get)

text \<open>\<open>_parse_and_validate\<close>: the parsed object, or what went wrong.\<close>

definition parse_and_validate ::
  "string \<Rightarrow> (string, json) dict \<Rightarrow> schema_error + (string, json) dict" where
  "parse_and_validate text schema =
     (case loads text of
        Some (JObj d) \<Rightarrow> and_then (check_schema (JObj schema) (JObj d)) (\<lambda>_. Inr d)
      | _ \<Rightarrow> Inl SchemaMiss)"

section \<open>What the schema says\<close>

text \<open>
  The supported fragment of JSON Schema, read declaratively: an object has its required
  keys, no key outside a closed property list, and every declared property it has conforms;
  an array's elements all conform; a scalar has its type; a schema without a supported
  type accepts everything.
\<close>

inductive conforms :: "json \<Rightarrow> json \<Rightarrow> bool" where
  object: "dict_get schema ''type'' = Some (JStr ''object'') \<Longrightarrow>
    iterate_keys (get_or schema ''required'' (JArr [])) = Inr keys \<Longrightarrow>
    \<forall>key \<in> set keys. \<exists>k. key = JStr k \<and> k \<in> dict_keys d \<Longrightarrow>
    property_table schema = Inr ps \<Longrightarrow>
    dict_get schema ''additionalProperties'' = Some (JBool False) \<longrightarrow> dict_keys d \<subseteq> dict_keys ps \<Longrightarrow>
    \<forall>(key, sub) \<in> set ps. \<forall>v. dict_get d key = Some v \<longrightarrow> (\<exists>t. sub = JObj t) \<longrightarrow> conforms sub v \<Longrightarrow>
    conforms (JObj schema) (JObj d)"
| array: "dict_get schema ''type'' = Some (JStr ''array'') \<Longrightarrow>
    \<forall>t. dict_get schema ''items'' = Some (JObj t) \<longrightarrow> (\<forall>x \<in> set xs. conforms (JObj t) x) \<Longrightarrow>
    conforms (JObj schema) (JArr xs)"
| scalar: "dict_get schema ''type'' = Some (JStr t) \<Longrightarrow> t \<noteq> ''object'' \<Longrightarrow> t \<noteq> ''array'' \<Longrightarrow>
    scalar_ok t j \<Longrightarrow> conforms (JObj schema) j"
| untyped: "\<forall>t. dict_get schema ''type'' \<noteq> Some (JStr t) \<Longrightarrow> conforms (JObj schema) j"
| not_a_schema: "\<forall>schema. s \<noteq> JObj schema \<Longrightarrow> conforms s j"

inductive_cases conforms_elim: "conforms (JObj schema) j"

lemma conforms_object_payload:
  "conforms (JObj schema) j \<Longrightarrow> dict_get schema ''type'' = Some (JStr ''object'') \<Longrightarrow> \<exists>d. j = JObj d"
  by (erule conforms_elim) auto

lemma conforms_array_iff:
  assumes "dict_get schema ''type'' = Some (JStr ''array'')"
  shows "conforms (JObj schema) j \<longleftrightarrow> (\<exists>xs. j = JArr xs
    \<and> (\<forall>t. dict_get schema ''items'' = Some (JObj t) \<longrightarrow> (\<forall>x \<in> set xs. conforms (JObj t) x)))"
  using assms by (auto intro: conforms.array elim: conforms_elim)

lemma conforms_other_iff:
  assumes "dict_get schema ''type'' \<noteq> Some (JStr ''object'')"
    and "dict_get schema ''type'' \<noteq> Some (JStr ''array'')"
  shows "conforms (JObj schema) j \<longleftrightarrow>
    (\<forall>t. dict_get schema ''type'' = Some (JStr t) \<longrightarrow> scalar_ok t j)"
  using assms by (auto intro: conforms.scalar conforms.untyped elim: conforms_elim)

lemma check_required_iff:
  "check_required d keys = Inr () \<longleftrightarrow> (\<forall>key \<in> set keys. \<exists>k. key = JStr k \<and> k \<in> dict_keys d)"
  by (induction d keys rule: check_required.induct)
    (auto simp: py_dict.mem_keys split: json.splits)

lemma no_extras_iff:
  "no_extras schema d ps \<longleftrightarrow>
     (dict_get schema ''additionalProperties'' = Some (JBool False) \<longrightarrow> dict_keys d \<subseteq> dict_keys ps)"
proof -
  have "(\<forall>p \<in> set d. dict_get ps (fst p) \<noteq> None) \<longleftrightarrow> dict_keys d \<subseteq> dict_keys ps"
    unfolding py_dict.mem_keys [symmetric] by (auto simp: dict_keys_def)
  then show ?thesis by (simp add: no_extras_def list_all_iff)
qed

lemma unit_result: "(r :: 'e + unit) = Inr () \<longleftrightarrow> (\<forall>e. r \<noteq> Inl e)"
  by (cases r) auto

lemma check_schema_conforms:
  shows "check_schema s j = Inr () \<longleftrightarrow> conforms s j"
    and "check_properties ps d = Inr () \<longleftrightarrow>
      (\<forall>(key, sub) \<in> set ps. \<forall>v. dict_get d key = Some v \<longrightarrow> (\<exists>t. sub = JObj t) \<longrightarrow> conforms sub v)"
    and "check_elements u xs = Inr () \<longleftrightarrow> (\<forall>x \<in> set xs. conforms u x)"
proof (induction s j and ps d and u xs rule: check_schema_check_properties_check_elements.induct)
  case (1 schema payload)
  consider (obj) "dict_get schema ''type'' = Some (JStr ''object'')"
    | (arr) "dict_get schema ''type'' = Some (JStr ''array'')"
    | (other) "dict_get schema ''type'' \<noteq> Some (JStr ''object'')"
        "dict_get schema ''type'' \<noteq> Some (JStr ''array'')" by blast
  then show ?case
  proof cases
    case obj
    show ?thesis
    proof (cases payload)
      case (JObj d)
      have props: "check_properties ps d = Inr () \<longleftrightarrow>
          (\<forall>(key, sub) \<in> set ps. \<forall>v. dict_get d key = Some v \<longrightarrow> (\<exists>t. sub = JObj t) \<longrightarrow> conforms sub v)"
        if "iterate_keys (get_or schema ''required'' (JArr [])) = Inr keys"
          "check_required d keys = Inr ()" "property_table schema = Inr ps" "no_extras schema d ps"
        for keys ps
        using 1(1) [OF obj JObj that(3,4)] by auto
      have "check_schema (JObj schema) (JObj d) = Inr () \<longleftrightarrow>
          (\<exists>keys ps. iterate_keys (get_or schema ''required'' (JArr [])) = Inr keys
            \<and> check_required d keys = Inr () \<and> property_table schema = Inr ps
            \<and> no_extras schema d ps \<and> check_properties ps d = Inr ())"
        using obj by (auto simp: and_then_eq_Inr split: sum.splits)
      also have "\<dots> \<longleftrightarrow> conforms (JObj schema) (JObj d)"
      proof
        assume "\<exists>keys ps. iterate_keys (get_or schema ''required'' (JArr [])) = Inr keys
            \<and> check_required d keys = Inr () \<and> property_table schema = Inr ps
            \<and> no_extras schema d ps \<and> check_properties ps d = Inr ()"
        then obtain keys ps where *: "iterate_keys (get_or schema ''required'' (JArr [])) = Inr keys"
          "check_required d keys = Inr ()" "property_table schema = Inr ps"
          "no_extras schema d ps" "check_properties ps d = Inr ()" by blast
        show "conforms (JObj schema) (JObj d)"
          by (rule conforms.object [OF obj *(1) _ *(3)])
            (use * props [OF *(1-4)] in \<open>simp_all add: check_required_iff no_extras_iff\<close>)
      next
        assume "conforms (JObj schema) (JObj d)"
        then obtain keys ps where *: "iterate_keys (get_or schema ''required'' (JArr [])) = Inr keys"
          "check_required d keys = Inr ()" "property_table schema = Inr ps" "no_extras schema d ps"
          "\<forall>(key, sub) \<in> set ps. \<forall>v. dict_get d key = Some v \<longrightarrow> (\<exists>t. sub = JObj t) \<longrightarrow> conforms sub v"
          using obj by (cases rule: conforms.cases) (auto simp: check_required_iff no_extras_iff)
        with props [OF *(1-4)] show "\<exists>keys ps. iterate_keys (get_or schema ''required'' (JArr [])) = Inr keys
            \<and> check_required d keys = Inr () \<and> property_table schema = Inr ps
            \<and> no_extras schema d ps \<and> check_properties ps d = Inr ()" by blast
      qed
      finally show ?thesis by (simp only: JObj)
    qed (use obj conforms_object_payload [OF _ obj] in \<open>(subst check_schema.simps, fastforce)+\<close>)
  next
    case arr
    then have "dict_get schema ''type'' \<noteq> Some (JStr ''object'')" by simp
    note IH = 1(2) [OF this arr]
    show ?thesis
      unfolding conforms_array_iff [OF arr] using arr IH
      by (cases payload) (auto split: option.split json.split)
  next
    case other
    then show ?thesis
      unfolding conforms_other_iff [OF other] by (auto split: option.split json.split)
  qed
next
  case (4 key sub ps d)
  then show ?case
    by (cases "dict_get d key"; cases sub) (auto simp: and_then_eq_Inr)
qed (auto simp: and_then_eq_Inr intro: not_a_schema)

end
