(* ===== verification/Llm_Mock.thy ===== *)
theory Llm_Mock
  imports Llm_Schema
begin

text \<open>
  \<open>app/backend/llm/_mock_backend.py\<close>: the canonical prompt text and its SHA-256, and the
  fixture-keyed backend of tests and development. Fixture files are a dictionary from agent
  and digest to the file's text.
\<close>

definition canonical_prompt_value ::
  "string \<Rightarrow> string \<Rightarrow> (string, json) dict option \<Rightarrow> string \<Rightarrow> string \<Rightarrow> json" where
  "canonical_prompt_value system_prompt user_payload json_schema agent model = JObj [
     (''system_prompt'', JStr system_prompt),
     (''user_payload'', JStr user_payload),
     (''json_schema'', (case json_schema of None \<Rightarrow> JNull | Some d \<Rightarrow> JObj d)),
     (''agent'', JStr agent),
     (''model'', JStr model)]"

definition canonical_prompt_payload ::
  "(rat \<Rightarrow> string) \<Rightarrow> string \<Rightarrow> string \<Rightarrow> (string, json) dict option \<Rightarrow> string \<Rightarrow> string \<Rightarrow> string" where
  "canonical_prompt_payload sf system_prompt user_payload json_schema agent model =
     dumps_sorted sf (canonical_prompt_value system_prompt user_payload json_schema agent model)"

definition canonical_prompt_sha ::
  "(rat \<Rightarrow> string) \<Rightarrow> string \<Rightarrow> string \<Rightarrow> (string, json) dict option \<Rightarrow> string \<Rightarrow> string \<Rightarrow> string" where
  "canonical_prompt_sha sf system_prompt user_payload json_schema agent model =
     sha256_hex (canonical_prompt_payload sf system_prompt user_payload json_schema agent model)"

type_synonym fixtures = "(string \<times> string, string) dict"

text \<open>\<open>MockVertexBackend(agent=...)\<close>: only the registered agents.\<close>

definition mock_init :: "string \<Rightarrow> unit + string" where
  "mock_init agent = (if agent \<in> set required_agents then Inr agent else Inl ())"

definition validate_envelope :: "pydantic \<Rightarrow> json \<Rightarrow> raw_backend_result option" where
  "validate_envelope px = as_object (\<lambda>d. do {
     t \<leftarrow> req d ''text'' (px_str px);
     i \<leftarrow> req d ''input_tokens'' (\<lambda>j. checked (\<lambda>n. 0 \<le> n) (px_int px j));
     u \<leftarrow> req d ''output_tokens'' (\<lambda>j. checked (\<lambda>n. 0 \<le> n) (px_int px j));
     m \<leftarrow> req d ''model'' (\<lambda>j. checked (\<lambda>s. 1 \<le> py_len s) (px_str px j));
     v \<leftarrow> req d ''model_version'' (\<lambda>j. checked (\<lambda>s. 1 \<le> py_len s) (px_str px j));
     Some \<lparr>raw_text = t, raw_input_tokens = i, raw_output_tokens = u, raw_model = m,
           raw_model_version = v\<rparr>
   })"

text \<open>
  A lookup: the fixture's envelope, or a \<open>RuntimeError\<close>. On a miss the request is kept
  under its digest in the second component, the \<open>_unrecorded\<close> directory.
\<close>

type_synonym unrecorded = "(string, json) dict"

definition record_unrecorded ::
  "unrecorded \<Rightarrow> string \<Rightarrow> string \<Rightarrow> generate_request \<Rightarrow> unrecorded" where
  "record_unrecorded un sha agent q = dict_set un sha (JObj [
     (''agent'', JStr agent),
     (''model'', JStr (gr_model q)),
     (''system_prompt'', JStr (gr_system_prompt q)),
     (''user_payload'', JStr (gr_user_payload q)),
     (''json_schema'', (case gr_json_schema q of None \<Rightarrow> JNull | Some d \<Rightarrow> JObj d))])"

definition mock_generate ::
  "pydantic \<Rightarrow> (rat \<Rightarrow> string) \<Rightarrow> fixtures \<Rightarrow> string \<Rightarrow> unrecorded
    \<Rightarrow> generate_request \<Rightarrow> (backend_exc + raw_backend_result) \<times> unrecorded" where
  "mock_generate px sf fixtures agent un q =
     (let sha = canonical_prompt_sha sf (gr_system_prompt q) (gr_user_payload q) (gr_json_schema q)
                  agent (gr_model q)
      in case dict_get fixtures (agent, sha) of
           None \<Rightarrow> (Inl OtherException, record_unrecorded un sha agent q)
         | Some file_text \<Rightarrow>
             ((case loads file_text of
                 Some (JObj d) \<Rightarrow>
                   (case validate_envelope px (JObj d) of
                      None \<Rightarrow> Inl OtherException | Some raw \<Rightarrow> Inr raw)
               | _ \<Rightarrow> Inl OtherException), un))"

lemma mock_generate_ok:
  "mock_generate px sf fx agent un q = (Inr raw, un') \<Longrightarrow> raw_ok raw \<and> un' = un"
  by (auto simp: mock_generate_def Let_def validate_envelope_def as_object_Some req_Some
      bind_eq_Some_conv raw_ok_def split: option.splits json.splits)

lemma sort_key_five:
  "sort_json (canonical_prompt_value sp up sch a m) = JObj [
     (''agent'', JStr a),
     (''json_schema'', (case sch of None \<Rightarrow> JNull | Some d \<Rightarrow> sort_json (JObj d))),
     (''model'', JStr m),
     (''system_prompt'', JStr sp),
     (''user_payload'', JStr up)]"
  by (simp add: canonical_prompt_value_def split: option.split)

lemma printable_prompt:
  "printable sf (canonical_prompt_value sp up sch a m) \<longleftrightarrow>
     (case sch of None \<Rightarrow> True | Some d \<Rightarrow> printable sf (JObj d))"
  by (simp add: canonical_prompt_value_def split: option.split)

end
