(* ===== verification/Llm_Wrapper.thy ===== *)
theory Llm_Wrapper
  imports Llm_Mock
begin

text \<open>
  \<open>app/backend/llm/vertex.py\<close>: \<open>call_model\<close>, the one doorway to a model. The sink and
  the ledger are the functions of the two protocols; the configuration, the backend, the
  clock and the generated ids come from the environment record. A backend call takes a
  duration, so the wall-clock cap of \<open>asyncio.wait_for\<close> is part of the model: a call that
  would still be running at the cap is cancelled and its outcome never seen.
\<close>

section \<open>Requests and results\<close>

record model_call_request =
  rq_agent :: string
  rq_system_prompt :: string
  rq_user_payload :: string
  rq_json_schema :: "(string, json) dict option"
  rq_session_id :: uuid
  rq_timeout_s :: int
  rq_max_output_tokens :: int
  rq_model_override :: "string option"

definition request_ok :: "model_call_request \<Rightarrow> bool" where
  "request_ok q \<longleftrightarrow> 1 \<le> py_len (rq_agent q)
     \<and> 1 \<le> py_len (rq_system_prompt q) \<and> py_len (rq_system_prompt q) \<le> 64000
     \<and> 1 \<le> py_len (rq_user_payload q) \<and> py_len (rq_user_payload q) \<le> 200000
     \<and> 1 \<le> rq_timeout_s q \<and> rq_timeout_s q \<le> 30
     \<and> 1 \<le> rq_max_output_tokens q \<and> rq_max_output_tokens q \<le> 4096"

record model_call_result =
  res_text :: string
  res_parsed :: "(string, json) dict option"
  res_input_tokens :: int
  res_output_tokens :: int
  res_cost_usd :: rat
  res_latency_ms :: int
  res_model :: string
  res_model_version :: string
  res_attempts :: int
  res_trace_id :: uuid

text \<open>
  What leaves \<open>call_model\<close> other than a result: a wrapper error, or an exception it does
  not catch (the ledger's, the backend constructor's, or a malformed schema's).
\<close>

datatype call_error =
    Wrapper wrapper_error
  | UncaughtLedger
  | UncaughtBackendInit
  | UncaughtSchema

text \<open>One attempt: how long it takes in seconds and how it ends.\<close>

type_synonym attempt = "rat \<times> (backend_exc + raw_backend_result)"

record call_env =
  ev_models :: "wrapper_error + models_config"
  ev_pricing :: "wrapper_error + pricing_table"
  ev_settings :: settings
  ev_mock :: "string \<Rightarrow> generate_request \<Rightarrow> nat \<Rightarrow> attempt"
  ev_real :: "unit + (generate_request \<Rightarrow> nat \<Rightarrow> attempt)"
  ev_wait :: "nat \<Rightarrow> rat"
  ev_float_text :: "rat \<Rightarrow> string"
  ev_latency_ms :: int
  ev_trace_id :: uuid
  ev_now :: time

record 'w call_outcome =
  co_result :: "call_error + model_call_result"
  co_world :: 'w
  co_backend_calls :: nat

section \<open>Retries\<close>

datatype loop_result =
    LoopDone raw_backend_result int
  | LoopFailed wrapper_error int
  | LoopCrashed backend_exc
  | LoopWallClock

text \<open>
  \<open>_call_with_retries\<close> under \<open>wait_for\<close>: \<open>left\<close> attempts remain after this one,
  \<open>n\<close> is this attempt's number, \<open>now\<close> the seconds already spent. The second component
  counts the backend calls issued. A built-in \<open>TimeoutError\<close> of the backend is caught as if
  the cap had fired.
\<close>

fun retry_loop ::
  "(nat \<Rightarrow> attempt) \<Rightarrow> (nat \<Rightarrow> rat) \<Rightarrow> rat \<Rightarrow> nat \<Rightarrow> nat \<Rightarrow> rat \<Rightarrow> loop_result \<times> nat" where
  "retry_loop backend wait cap left n now =
     (let (duration, outcome) = backend n
      in if now + duration \<ge> cap then (LoopWallClock, n)
         else case outcome of
           Inr raw \<Rightarrow> (LoopDone raw (int n), n)
         | Inl exc \<Rightarrow>
             (case exc of
                BackendDeadlineExceededError \<Rightarrow> (LoopFailed VertexTimeoutError (int n), n)
              | BackendCallerError \<Rightarrow> (LoopFailed ModelCallConfigError (int n), n)
              | RaisedWrapper e \<Rightarrow> (LoopFailed e (int n), n)
              | BuiltinTimeoutError \<Rightarrow> (LoopWallClock, n)
              | OtherException \<Rightarrow> (LoopCrashed OtherException, n)
              | _ \<Rightarrow>
                  if \<not> retryable exc then (LoopFailed (classify_provider_error exc) (int n), n)
                  else (case left of
                      0 \<Rightarrow> (LoopFailed (classify_provider_error exc) (int n), n)
                    | Suc k \<Rightarrow>
                        (let later = now + duration + wait n
                         in if later \<ge> cap then (LoopWallClock, n)
                            else retry_loop backend wait cap k (Suc n) later))))"

declare retry_loop.simps [simp del]

definition max_attempts :: nat where "max_attempts = 3"

definition call_with_retries ::
  "(nat \<Rightarrow> attempt) \<Rightarrow> (nat \<Rightarrow> rat) \<Rightarrow> rat \<Rightarrow> loop_result \<times> nat" where
  "call_with_retries backend wait cap = retry_loop backend wait cap (max_attempts - 1) 1 0"

section \<open>Helpers\<close>

definition select_backend ::
  "call_env \<Rightarrow> string \<Rightarrow> unit + (generate_request \<Rightarrow> nat \<Rightarrow> attempt)" where
  "select_backend env agent =
     (if llm_backend (ev_settings env) = MockBackend
      then (case mock_init agent of Inl _ \<Rightarrow> Inl () | Inr a \<Rightarrow> Inr (ev_mock env a))
      else ev_real env)"

definition prompt_sha :: "call_env \<Rightarrow> model_call_request \<Rightarrow> string \<Rightarrow> string" where
  "prompt_sha env q model =
     canonical_prompt_sha (ev_float_text env) (rq_system_prompt q) (rq_user_payload q)
       (rq_json_schema q) (rq_agent q) model"

definition build_trace_record ::
  "call_env \<Rightarrow> model_call_request \<Rightarrow> string \<Rightarrow> trace_outcome \<Rightarrow> int \<Rightarrow> raw_backend_result option
    \<Rightarrow> rat \<Rightarrow> trace_error option \<Rightarrow> (string, json) dict option \<Rightarrow> trace_record" where
  "build_trace_record env q model outcome attempts raw cost message parsed = \<lparr>
     tr_id = ev_trace_id env, tr_created_at = ev_now env, tr_agent = rq_agent q,
     tr_session_id = rq_session_id q, tr_model = model,
     tr_model_version = map_option raw_model_version raw,
     tr_prompt_sha256 = prompt_sha env q model, tr_outcome = outcome, tr_attempts = attempts,
     tr_latency_ms = ev_latency_ms env,
     tr_input_tokens = (case raw of None \<Rightarrow> 0 | Some r \<Rightarrow> raw_input_tokens r),
     tr_output_tokens = (case raw of None \<Rightarrow> 0 | Some r \<Rightarrow> raw_output_tokens r),
     tr_cost_usd = cost, tr_error_message = message,
     tr_response_text = map_option raw_text raw, tr_parsed = parsed\<rparr>"

definition persist_trace ::
  "('w \<Rightarrow> trace_record \<Rightarrow> wrapper_error + 'w) \<Rightarrow> 'w \<Rightarrow> trace_record \<Rightarrow> wrapper_error + 'w" where
  "persist_trace store w r = (case store w r of Inl _ \<Rightarrow> Inl TraceWriteError | Inr w' \<Rightarrow> Inr w')"

text \<open>
  \<open>_emit_failure_trace\<close> followed by the \<open>raise\<close> of its caller: when the sink fails, its
  \<open>TraceWriteError\<close> is what is raised.
\<close>

definition fail_call ::
  "('w \<Rightarrow> trace_record \<Rightarrow> wrapper_error + 'w) \<Rightarrow> call_env \<Rightarrow> model_call_request \<Rightarrow> string
    \<Rightarrow> trace_outcome \<Rightarrow> int \<Rightarrow> raw_backend_result option \<Rightarrow> rat \<Rightarrow> trace_error \<Rightarrow> wrapper_error
    \<Rightarrow> 'w \<Rightarrow> nat \<Rightarrow> 'w call_outcome" where
  "fail_call store env q model outcome attempts raw cost message err w calls =
     (case persist_trace store w
             (build_trace_record env q model outcome attempts raw cost (Some message) None) of
        Inl e \<Rightarrow> \<lparr>co_result = Inl (Wrapper e), co_world = w, co_backend_calls = calls\<rparr>
      | Inr w' \<Rightarrow> \<lparr>co_result = Inl (Wrapper err), co_world = w', co_backend_calls = calls\<rparr>)"

definition uncaught :: "call_error \<Rightarrow> 'w \<Rightarrow> nat \<Rightarrow> 'w call_outcome" where
  "uncaught e w calls = \<lparr>co_result = Inl e, co_world = w, co_backend_calls = calls\<rparr>"

text \<open>The outcome a wrapper error of the retry loop is traced as.\<close>

definition outcome_of :: "wrapper_error \<Rightarrow> trace_outcome" where
  "outcome_of e = (case e of
     VertexTimeoutError \<Rightarrow> TraceTimeout
   | VertexUpstreamUnavailableError \<Rightarrow> TraceUpstreamUnavailable
   | ModelCallConfigError \<Rightarrow> TraceConfigError
   | _ \<Rightarrow> TraceUpstreamUnavailable)"

section \<open>\<open>call_model\<close>\<close>

text \<open>Steps 7 to 10: charge, record, return.\<close>

definition finish_call ::
  "('w \<Rightarrow> trace_record \<Rightarrow> wrapper_error + 'w) \<Rightarrow> ('w \<Rightarrow> uuid \<Rightarrow> rat \<Rightarrow> ledger_error + 'w)
    \<Rightarrow> call_env \<Rightarrow> model_call_request \<Rightarrow> string \<Rightarrow> pricing_table \<Rightarrow> raw_backend_result \<Rightarrow> int
    \<Rightarrow> (string, json) dict option \<Rightarrow> 'w \<Rightarrow> nat \<Rightarrow> 'w call_outcome" where
  "finish_call store add env q model pricing raw attempts parsed w calls =
     (case cost_for pricing model (raw_input_tokens raw) (raw_output_tokens raw) of
        Inl e \<Rightarrow> uncaught (Wrapper e) w calls
      | Inr cost \<Rightarrow>
          (case add w (rq_session_id q) cost of
             Inl _ \<Rightarrow> uncaught UncaughtLedger w calls
           | Inr charged \<Rightarrow>
               (case persist_trace store charged
                       (build_trace_record env q model TraceOk attempts (Some raw) cost None parsed) of
                  Inl e \<Rightarrow> uncaught (Wrapper e) charged calls
                | Inr w' \<Rightarrow>
                    \<lparr>co_result = Inr \<lparr>res_text = raw_text raw, res_parsed = parsed,
                       res_input_tokens = raw_input_tokens raw,
                       res_output_tokens = raw_output_tokens raw, res_cost_usd = cost,
                       res_latency_ms = ev_latency_ms env, res_model = model,
                       res_model_version = raw_model_version raw, res_attempts = attempts,
                       res_trace_id = ev_trace_id env\<rparr>,
                     co_world = w', co_backend_calls = calls\<rparr>)))"

text \<open>Step 6: the answer against the schema.\<close>

definition check_answer ::
  "('w \<Rightarrow> trace_record \<Rightarrow> wrapper_error + 'w) \<Rightarrow> ('w \<Rightarrow> uuid \<Rightarrow> rat \<Rightarrow> ledger_error + 'w)
    \<Rightarrow> call_env \<Rightarrow> model_call_request \<Rightarrow> string \<Rightarrow> pricing_table \<Rightarrow> raw_backend_result \<Rightarrow> int
    \<Rightarrow> 'w \<Rightarrow> nat \<Rightarrow> 'w call_outcome" where
  "check_answer store add env q model pricing raw attempts w calls =
     (case rq_json_schema q of
        None \<Rightarrow> finish_call store add env q model pricing raw attempts None w calls
      | Some schema \<Rightarrow>
          (case parse_and_validate (raw_text raw) schema of
             Inr d \<Rightarrow> finish_call store add env q model pricing raw attempts (Some d) w calls
           | Inl SchemaCrash \<Rightarrow> uncaught UncaughtSchema w calls
           | Inl SchemaMiss \<Rightarrow>
               (case cost_for pricing model (raw_input_tokens raw) (raw_output_tokens raw) of
                  Inl e \<Rightarrow> uncaught (Wrapper e) w calls
                | Inr cost \<Rightarrow>
                    fail_call store env q model TraceSchemaError attempts (Some raw) cost
                      (TextOfWrapperError (VertexSchemaError (raw_text raw)))
                      (VertexSchemaError (raw_text raw)) w calls)))"

text \<open>Steps 4 and 5: the backend call.\<close>

definition issue_call ::
  "('w \<Rightarrow> trace_record \<Rightarrow> wrapper_error + 'w) \<Rightarrow> ('w \<Rightarrow> uuid \<Rightarrow> rat \<Rightarrow> ledger_error + 'w)
    \<Rightarrow> call_env \<Rightarrow> model_call_request \<Rightarrow> string \<Rightarrow> model_config \<Rightarrow> pricing_table
    \<Rightarrow> 'w \<Rightarrow> 'w call_outcome" where
  "issue_call store add env q model agent_cfg pricing w =
     (case select_backend env (rq_agent q) of
        Inl _ \<Rightarrow> uncaught UncaughtBackendInit w 0
      | Inr generate \<Rightarrow>
          (let gq = \<lparr>gr_system_prompt = rq_system_prompt q, gr_user_payload = rq_user_payload q,
                 gr_json_schema = rq_json_schema q, gr_model = model,
                 gr_temperature = mc_temperature agent_cfg,
                 gr_max_output_tokens = min (rq_max_output_tokens q) (mc_max_output_tokens agent_cfg)\<rparr>;
               (outcome, calls) =
                 call_with_retries (generate gq) (ev_wait env) (of_int (rq_timeout_s q))
           in case outcome of
                LoopDone raw attempts \<Rightarrow>
                  check_answer store add env q model pricing raw attempts w calls
              | LoopWallClock \<Rightarrow>
                  fail_call store env q model TraceTimeout 1 None 0 (TextOfWallClock (rq_timeout_s q))
                    VertexTimeoutError w calls
              | LoopFailed e attempts \<Rightarrow>
                  fail_call store env q model (outcome_of e) (max attempts 1) None 0
                    (TextOfWrapperError e) e w calls
              | LoopCrashed exc \<Rightarrow>
                  fail_call store env q model TraceUpstreamUnavailable 1 None 0
                    (TextOfException exc) VertexUpstreamUnavailableError w calls))"

text \<open>Steps 1 to 3: the agent, the price and the budget, before any backend is touched.\<close>

definition call_model ::
  "('w \<Rightarrow> trace_record \<Rightarrow> wrapper_error + 'w) \<Rightarrow> ('w \<Rightarrow> uuid \<Rightarrow> rat)
    \<Rightarrow> ('w \<Rightarrow> uuid \<Rightarrow> rat \<Rightarrow> ledger_error + 'w)
    \<Rightarrow> call_env \<Rightarrow> model_call_request \<Rightarrow> 'w \<Rightarrow> 'w call_outcome" where
  "call_model store spent add env q w =
     (case and_then (ev_models env) (\<lambda>c. for_agent c (rq_agent q)) of
        Inl e \<Rightarrow>
          if e = ModelCallConfigError
          then fail_call store env q
                 (or_string (rq_model_override q) ''unknown'') TraceConfigError 1 None 0
                 (TextOfWrapperError e) e w 0
          else uncaught (Wrapper e) w 0
      | Inr agent_cfg \<Rightarrow>
          (let model = or_string (rq_model_override q) (mc_model agent_cfg)
           in case and_then (ev_pricing env)
                     (\<lambda>p. and_then (cost_for p model 0 0) (\<lambda>_. Inr p)) of
                Inl e \<Rightarrow>
                  if e = ModelCallConfigError
                  then fail_call store env q model TraceConfigError 1 None 0
                         (TextOfWrapperError e) e w 0
                  else uncaught (Wrapper e) w 0
              | Inr pricing \<Rightarrow>
                  if spent w (rq_session_id q) \<ge> llm_budget_per_session_usd (ev_settings env)
                  then fail_call store env q model TraceBudgetExceeded 1 None 0
                         (TextOfBudget (rq_session_id q) (spent w (rq_session_id q))
                            (llm_budget_per_session_usd (ev_settings env)))
                         SessionBudgetExceeded w 0
                  else issue_call store add env q model agent_cfg pricing w))"

end
