(* ===== verification/Llm_Props.thy ===== *)
theory Llm_Props
  imports Llm_Wrapper
begin

text \<open>
  The correctness properties of the model doorway. The lemmas about \<open>call_model\<close> are
  proved once over the protocols (\<open>llm_world\<close>) and read off for the in-memory and the
  durable world.
\<close>

section \<open>The retry loop\<close>

text \<open>Seconds a loop of \<open>k\<close> attempts from attempt \<open>n\<close> has taken when it ends.\<close>

fun spent_seconds :: "(nat \<Rightarrow> attempt) \<Rightarrow> (nat \<Rightarrow> rat) \<Rightarrow> nat \<Rightarrow> nat \<Rightarrow> rat" where
  "spent_seconds backend wait n 0 = 0"
| "spent_seconds backend wait n (Suc k) =
     fst (backend n) + (case k of 0 \<Rightarrow> 0 | Suc _ \<Rightarrow> wait n) + spent_seconds backend wait (Suc n) k"

definition retried :: "(nat \<Rightarrow> attempt) \<Rightarrow> nat \<Rightarrow> bool" where
  "retried backend n \<longleftrightarrow> (\<exists>e. snd (backend n) = Inl e \<and> retryable e)"

text \<open>What the loop's answer says about the attempts it made, \<open>n\<close> to \<open>fin\<close>.\<close>

definition explains :: "(nat \<Rightarrow> attempt) \<Rightarrow> loop_result \<Rightarrow> nat \<Rightarrow> nat \<Rightarrow> bool" where
  "explains backend res fin limit \<longleftrightarrow> (case res of
     LoopDone raw k \<Rightarrow> k = int fin \<and> snd (backend fin) = Inr raw
   | LoopFailed e k \<Rightarrow> k = int fin
       \<and> (\<exists>exc. snd (backend fin) = Inl exc \<and> (retryable exc \<longrightarrow> fin = limit \<and> e = VertexUpstreamUnavailableError))
   | LoopCrashed exc \<Rightarrow> snd (backend fin) = Inl exc \<and> \<not> retryable exc
   | LoopWallClock \<Rightarrow> True)"

lemma retry_loop_explained:
  assumes "retry_loop backend wait cap left n now = (res, fin)"
  shows "n \<le> fin \<and> fin \<le> n + left \<and> (\<forall>k. n \<le> k \<and> k < fin \<longrightarrow> retried backend k)
    \<and> explains backend res fin (n + left)
    \<and> (res \<noteq> LoopWallClock \<longrightarrow> now + spent_seconds backend wait n (Suc (fin - n)) < cap)"
  using assms
proof (induction left arbitrary: n now)
  case 0
  obtain d out where b: "backend n = (d, out)" by fastforce
  show ?case
    using 0 b
    by (auto simp: retry_loop.simps explains_def classify_provider_error_def
        split: if_splits sum.splits backend_exc.splits)
next
  case (Suc k)
  obtain d out where b: "backend n = (d, out)" by fastforce
  show ?case
  proof (cases "now + d < cap \<and> retried backend n \<and> now + d + wait n < cap")
    case True
    then obtain e where e: "out = Inl e" "retryable e" using b by (auto simp: retried_def)
    then have rec: "retry_loop backend wait cap k (Suc n) (now + d + wait n) = (res, fin)"
      using Suc.prems True b
      by (auto simp: retry_loop.simps [of backend wait cap "Suc k"] Let_def retryable_def)
    from Suc.IH [OF rec] have IH: "Suc n \<le> fin" "fin \<le> n + Suc k"
      "\<forall>j. Suc n \<le> j \<and> j < fin \<longrightarrow> retried backend j" "explains backend res fin (n + Suc k)"
      "res \<noteq> LoopWallClock \<longrightarrow>
         now + d + wait n + spent_seconds backend wait (Suc n) (Suc (fin - Suc n)) < cap"
      by simp_all
    have "\<forall>j. n \<le> j \<and> j < fin \<longrightarrow> retried backend j"
      using IH(3) True by (metis Suc_leI le_neq_implies_less)
    moreover obtain m where "fin - n = Suc m" "fin - Suc n = m"
      using IH(1) by (metis Suc_diff_Suc Suc_le_lessD)
    ultimately show ?thesis using IH b by (simp add: add.assoc)
  next
    case False
    then show ?thesis
      using Suc.prems b
      by (auto simp: retry_loop.simps [of backend wait cap "Suc k"] explains_def retried_def Let_def
          split: if_splits sum.splits backend_exc.splits)
  qed
qed

section \<open>Over the protocols\<close>

text \<open>
  An environment as the program builds it: the loaders raise only configuration errors,
  loaded prices are positive, and a backend's envelope passed its own model.
\<close>

definition env_ok :: "call_env \<Rightarrow> bool" where
  "env_ok env \<longleftrightarrow>
     (\<forall>e. ev_models env = Inl e \<longrightarrow> e = ModelCallConfigError)
     \<and> (\<forall>e. ev_pricing env = Inl e \<longrightarrow> e = ModelCallConfigError)
     \<and> (\<forall>p. ev_pricing env = Inr p \<longrightarrow> prices_ok p)
     \<and> (\<forall>agent q n raw. snd (ev_mock env agent q n) = Inr raw \<longrightarrow> raw_ok raw)
     \<and> (\<forall>g q n raw. ev_real env = Inr g \<longrightarrow> snd (g q n) = Inr raw \<longrightarrow> raw_ok raw)"

text \<open>
  The audit outcome of a call in a world with trail \<open>before\<close>: it left exactly its own
  trace, or it left none and failed in one of the ways that can escape the trail.
\<close>

definition audited :: "uuid list \<Rightarrow> uuid list \<Rightarrow> uuid \<Rightarrow> call_error + model_call_result \<Rightarrow> bool" where
  "audited before after tid res \<longleftrightarrow>
     (after = before @ [tid] \<and> (\<forall>r. res = Inr r \<longrightarrow> res_trace_id r = tid)
        \<and> res \<notin> {Inl UncaughtLedger, Inl UncaughtBackendInit, Inl UncaughtSchema})
     \<or> (after = before
        \<and> res \<in> {Inl (Wrapper TraceWriteError), Inl UncaughtBackendInit, Inl UncaughtSchema})"

lemma select_backend_raw_ok:
  assumes "env_ok env" and "select_backend env agent = Inr g" and "snd (g q n) = Inr raw"
  shows "raw_ok raw"
  using assms
  by (auto simp: env_ok_def select_backend_def split: if_splits sum.splits)

text \<open>The price of the resolved model is known once the probe of step 2 has succeeded.\<close>

definition priced :: "pricing_table \<Rightarrow> string \<Rightarrow> bool" where
  "priced p m \<longleftrightarrow> prices_ok p \<and> (\<exists>c. cost_for p m 0 0 = Inr c)"

lemma priced_cost:
  assumes "priced p m" and "raw_ok raw"
  obtains c where "cost_for p m (raw_input_tokens raw) (raw_output_tokens raw) = Inr c" "0 \<le> c"
  using assms cost_for_known cost_for_nonneg unfolding priced_def raw_ok_def by metis

lemma loop_done_raw_ok:
  assumes "env_ok env" and "select_backend env agent = Inr g"
    and "call_with_retries (g gq) wait cap = (LoopDone raw k, calls)"
  shows "raw_ok raw"
proof -
  have "snd (g gq calls) = Inr raw"
    using retry_loop_explained [OF assms(3) [unfolded call_with_retries_def]]
    by (simp add: explains_def)
  then show ?thesis by (rule select_backend_raw_ok [OF assms(1,2)])
qed

context llm_world
begin

lemma fail_call_audited:
  "audited (ids w) (ids (co_world (fail_call store env q m out k raw c msg e w n)))
     (ev_trace_id env) (co_result (fail_call store env q m out k raw c msg e w n))"
  by (auto simp: fail_call_def persist_trace_def audited_def build_trace_record_def
      dest!: write_appends split: sum.splits)

lemma finish_call_audited:
  assumes "priced p m" and "raw_ok raw"
  shows "audited (ids w) (ids (co_world (finish_call store add env q m p raw k parsed w n)))
     (ev_trace_id env) (co_result (finish_call store add env q m p raw k parsed w n))"
proof -
  obtain c where c: "cost_for p m (raw_input_tokens raw) (raw_output_tokens raw) = Inr c" "0 \<le> c"
    by (rule priced_cost [OF assms])
  then obtain w' where w': "add w (rq_session_id q) c = Inr w'" using add_charges by blast
  with c add_ids [OF w'] show ?thesis
    by (auto simp: finish_call_def persist_trace_def audited_def build_trace_record_def uncaught_def
        dest!: write_appends split: sum.splits)
qed

lemma check_answer_audited:
  assumes "priced p m" and "raw_ok raw"
  shows "audited (ids w) (ids (co_world (check_answer store add env q m p raw k w n)))
     (ev_trace_id env) (co_result (check_answer store add env q m p raw k w n))"
proof -
  obtain c where c: "cost_for p m (raw_input_tokens raw) (raw_output_tokens raw) = Inr c"
    by (rule priced_cost [OF assms])
  show ?thesis
    by (auto simp: check_answer_def c uncaught_def finish_call_audited [OF assms]
        fail_call_audited split: option.split sum.split schema_error.split)
      (simp add: audited_def)
qed

lemma issue_call_audited:
  assumes "env_ok env" and "priced p m"
  shows "audited (ids w) (ids (co_world (issue_call store add env q m cfg p w)))
     (ev_trace_id env) (co_result (issue_call store add env q m cfg p w))"
proof (cases "select_backend env (rq_agent q)")
  case (Inl u)
  then show ?thesis by (simp add: issue_call_def uncaught_def audited_def)
next
  case (Inr g)
  then show ?thesis
    by (auto simp: issue_call_def Let_def fail_call_audited
        split: prod.split loop_result.split
        intro!: check_answer_audited [OF assms(2)] loop_done_raw_ok [OF assms(1) Inr])
qed

lemma call_model_audited:
  assumes "env_ok env"
  shows "audited (ids w) (ids (co_world (call_model store total add env q w)))
     (ev_trace_id env) (co_result (call_model store total add env q w))"
proof (cases "and_then (ev_models env) (\<lambda>c. for_agent c (rq_agent q))")
  case (Inl e)
  then have "e = ModelCallConfigError"
    using assms by (cases "ev_models env") (auto simp: env_ok_def for_agent_def split: if_splits)
  with Inl show ?thesis by (simp add: call_model_def fail_call_audited)
next
  case (Inr cfg)
  let ?m = "or_string (rq_model_override q) (mc_model cfg)"
  show ?thesis
  proof (cases "and_then (ev_pricing env) (\<lambda>p. and_then (cost_for p ?m 0 0) (\<lambda>_. Inr p))")
    case price: (Inl e)
    then have "e = ModelCallConfigError"
      using assms by (cases "ev_pricing env")
        (auto simp: env_ok_def cost_for_def split: if_splits option.splits)
    with Inr price show ?thesis by (simp add: call_model_def Let_def fail_call_audited)
  next
    case price: (Inr p)
    then have "priced p ?m"
      using assms by (auto simp: and_then_eq_Inr env_ok_def priced_def)
    with Inr price show ?thesis
      by (simp add: call_model_def Let_def fail_call_audited issue_call_audited [OF assms])
  qed
qed

lemma fail_call_calls: "co_backend_calls (fail_call store env q m out k raw c msg e w n) = n"
  by (simp add: fail_call_def split: sum.split)

lemma finish_call_calls: "co_backend_calls (finish_call store add env q m p raw k parsed w n) = n"
  by (simp add: finish_call_def uncaught_def split: sum.split)

lemma check_answer_calls: "co_backend_calls (check_answer store add env q m p raw k w n) = n"
  by (simp add: check_answer_def uncaught_def fail_call_calls finish_call_calls
      split: option.split sum.split schema_error.split)

lemma issue_call_calls: "co_backend_calls (issue_call store add env q m cfg p w) \<le> 3"
proof (cases "select_backend env (rq_agent q)")
  case (Inr g)
  have le: "calls \<le> 3" if "call_with_retries (g gq) wait cap = (res, calls)" for gq wait cap res calls
    using retry_loop_explained [of "g gq" wait cap 2 1 0 res calls] that
    by (simp add: call_with_retries_def max_attempts_def)
  from Inr show ?thesis
    by (auto simp: issue_call_def Let_def fail_call_calls check_answer_calls dest: le
        split: prod.split loop_result.split)
qed (simp add: issue_call_def uncaught_def)

text \<open>No backend is called for a session at its ceiling, and never more than three times.\<close>

lemma call_model_calls:
  assumes "0 < co_backend_calls (call_model store total add env q w)"
  shows "total w (rq_session_id q) < llm_budget_per_session_usd (ev_settings env)
    \<and> co_backend_calls (call_model store total add env q w) \<le> 3"
  using assms issue_call_calls
  by (auto simp: call_model_def Let_def fail_call_calls uncaught_def not_le split: sum.splits if_splits)

end

section \<open>What a call does to its world\<close>

text \<open>
  The four things a call can do: nothing; record a failure; charge and record a success;
  charge and then fail to record.
\<close>

definition failure_record :: "model_call_request \<Rightarrow> trace_record \<Rightarrow> bool" where
  "failure_record q rec \<longleftrightarrow> tr_session_id rec = rq_session_id q \<and> tr_outcome rec \<noteq> TraceOk
     \<and> (tr_outcome rec \<noteq> TraceSchemaError \<longrightarrow> tr_cost_usd rec = 0)"

definition call_effect ::
  "('w \<Rightarrow> trace_record \<Rightarrow> wrapper_error + 'w) \<Rightarrow> ('w \<Rightarrow> uuid \<Rightarrow> rat \<Rightarrow> ledger_error + 'w)
    \<Rightarrow> model_call_request \<Rightarrow> 'w \<Rightarrow> 'w call_outcome \<Rightarrow> bool" where
  "call_effect store add q w out \<longleftrightarrow>
     (case co_result out of
        Inr r \<Rightarrow> \<exists>charged rec. add w (rq_session_id q) (res_cost_usd r) = Inr charged
            \<and> store charged rec = Inr (co_world out) \<and> tr_session_id rec = rq_session_id q
            \<and> tr_outcome rec = TraceOk \<and> tr_cost_usd rec = res_cost_usd r
      | Inl e \<Rightarrow> co_world out = w
          \<or> (\<exists>rec. store w rec = Inr (co_world out) \<and> failure_record q rec)
          \<or> (e = Wrapper TraceWriteError \<and> (\<exists>c. add w (rq_session_id q) c = Inr (co_world out))))"

lemma uncaught_effect [simp]: "call_effect store add q w (uncaught e w n)"
  by (simp add: call_effect_def uncaught_def)

lemma fail_call_effect:
  assumes "out \<noteq> TraceOk" and "out \<noteq> TraceSchemaError \<longrightarrow> c = 0"
  shows "call_effect store add q w (fail_call store env q m out k raw c msg e w n)"
proof (cases "store w (build_trace_record env q m out k raw c (Some msg) None)")
  case (Inl x)
  then show ?thesis by (simp add: call_effect_def fail_call_def persist_trace_def)
next
  case (Inr w')
  moreover have "failure_record q (build_trace_record env q m out k raw c (Some msg) None)"
    using assms by (simp add: failure_record_def build_trace_record_def)
  ultimately show ?thesis by (auto simp: call_effect_def fail_call_def persist_trace_def)
qed

lemma finish_call_effect:
  "call_effect store add q w (finish_call store add env q m p raw k parsed w n)"
  by (fastforce simp: finish_call_def persist_trace_def call_effect_def uncaught_def
      build_trace_record_def split: sum.splits)

lemma check_answer_effect:
  "call_effect store add q w (check_answer store add env q m p raw k w n)"
  by (auto simp: check_answer_def finish_call_effect
      intro!: fail_call_effect split: option.split sum.split schema_error.split)

lemma outcome_of_failure [simp]: "outcome_of e \<noteq> TraceOk" "outcome_of e \<noteq> TraceSchemaError"
  by (simp_all add: outcome_of_def split: wrapper_error.split)

lemma issue_call_effect:
  "call_effect store add q w (issue_call store add env q m cfg p w)"
  by (auto simp: issue_call_def Let_def check_answer_effect intro!: fail_call_effect
      split: sum.split prod.split loop_result.split)

lemma call_model_effect:
  "call_effect store add q w (call_model store spent add env q w)"
  by (auto simp: call_model_def Let_def issue_call_effect intro!: fail_call_effect split: sum.split)

section \<open>Rounding in the audit table\<close>

lemma numeric_12_6_close:
  assumes "numeric_12_6 x = Some c"
  shows "\<bar>c - x\<bar> \<le> 1 / 2000000"
proof -
  define h :: "rat \<Rightarrow> int" where "h y = \<lfloor>y + 1 / 2\<rfloor>" for y
  have round: "of_int (h y) - y \<le> 1 / 2" "y - of_int (h y) \<le> 1 / 2" for y :: rat
    unfolding h_def by linarith+
  show ?thesis
  proof (cases "0 \<le> x")
    case True
    then have "c = of_int (h (x * 1000000)) / 1000000"
      using assms by (simp add: numeric_12_6_def h_def Let_def split: if_splits)
    with round [of "x * 1000000"] show ?thesis unfolding abs_le_iff by (simp add: field_simps)
  next
    case False
    then have "c = - (of_int (h (- x * 1000000)) / 1000000)"
      using assms by (simp add: numeric_12_6_def h_def Let_def split: if_splits)
    with round [of "- x * 1000000"] show ?thesis unfolding abs_le_iff by (simp add: field_simps)
  qed
qed

lemma numeric_12_6_zero: "numeric_12_6 0 = Some 0"
proof -
  have "\<lfloor>1 / 2 :: rat\<rfloor> = 0" by (simp add: floor_eq_iff)
  then show ?thesis by (simp add: numeric_12_6_def)
qed

lemma insert_turn_trace_rows:
  assumes "insert_turn_trace db r = Some db'"
  shows "\<exists>c. numeric_12_6 (row_cost_usd r) = Some c
    \<and> db' = db\<lparr>db_turn_trace := db_turn_trace db @ [r\<lparr>row_cost_usd := c\<rparr>]\<rparr>"
  using assms by (auto simp: insert_turn_trace_def Let_def split: option.splits if_splits)

lemma pg_write_rows:
  assumes "pg_write w rec = Inr w'"
  obtains c where "numeric_12_6 (tr_cost_usd rec) = Some c"
    "db_turn_trace (pg_db w') =
       db_turn_trace (pg_db w) @ [(trace_row (pg_context w) rec)\<lparr>row_cost_usd := c\<rparr>]"
  using assms insert_turn_trace_rows
  by (fastforce simp: pg_write_def trace_row_def split: option.splits)

text \<open>Why the wall-clock branch was taken: the call, or the next wait, reached the cap.\<close>

lemma retry_loop_wall_clock:
  assumes "retry_loop backend wait cap left n now = (LoopWallClock, fin)"
  shows "snd (backend fin) = Inl BuiltinTimeoutError
    \<or> cap \<le> now + spent_seconds backend wait n (Suc (fin - n))
    \<or> (retried backend fin \<and> fin < n + left
        \<and> cap \<le> now + spent_seconds backend wait n (Suc (fin - n)) + wait fin)"
  using assms
proof (induction left arbitrary: n now)
  case 0
  obtain d out where b: "backend n = (d, out)" by fastforce
  show ?case
    using 0 b
    by (auto simp: retry_loop.simps split: if_splits sum.splits backend_exc.splits)
next
  case (Suc k)
  obtain d out where b: "backend n = (d, out)" by fastforce
  show ?case
  proof (cases "now + d < cap \<and> retried backend n \<and> now + d + wait n < cap")
    case True
    then obtain e where e: "out = Inl e" "retryable e" using b by (auto simp: retried_def)
    then have rec: "retry_loop backend wait cap k (Suc n) (now + d + wait n) = (LoopWallClock, fin)"
      using Suc.prems True b
      by (auto simp: retry_loop.simps [of backend wait cap "Suc k"] Let_def retryable_def)
    have "Suc n \<le> fin" using retry_loop_explained [OF rec] by simp
    then obtain m where "fin - n = Suc m" "fin - Suc n = m"
      by (metis Suc_diff_Suc Suc_le_lessD)
    with Suc.IH [OF rec] b show ?thesis by (auto simp: add.assoc)
  next
    case False
    then show ?thesis
      using Suc.prems b
      by (auto simp: retry_loop.simps [of backend wait cap "Suc k"] retried_def Let_def
          split: if_splits sum.splits backend_exc.splits)
  qed
qed

section \<open>A call in full\<close>

text \<open>
  The environment the witnesses run in: the mock registry with one price, a session ceiling
  of five dollars, and a backend that fails once and then answers.
\<close>

definition demo_models :: models_config where
  "demo_models = (let c = \<lparr>mc_model = ''m'', mc_prompt_version = ''v1'', mc_temperature = 0,
       mc_max_output_tokens = 512\<rparr>
     in \<lparr>cfg_interviewer = c, cfg_assessor = c, cfg_planner = c\<rparr>)"

definition demo_pricing :: pricing_table where
  "demo_pricing = [(''m'', \<lparr>input_per_1k_tokens = 1, output_per_1k_tokens = 2\<rparr>)]"

definition demo_settings :: settings where
  "demo_settings = \<lparr>llm_backend = MockBackend, app_env = Dev, llm_budget_per_session_usd = 5,
     auth_mode = AuthDisabled, gcp_project = '''', auth_allowed_domain = ''x''\<rparr>"

definition demo_raw :: raw_backend_result where
  "demo_raw = \<lparr>raw_text = ''{}'', raw_input_tokens = 1000, raw_output_tokens = 500,
     raw_model = ''m'', raw_model_version = ''m-1''\<rparr>"

definition demo_attempts :: "nat \<Rightarrow> attempt" where
  "demo_attempts n = (if n = 1 then (1, Inl ConnectionError) else (2, Inr demo_raw))"

definition demo_env :: call_env where
  "demo_env = \<lparr>ev_models = Inr demo_models, ev_pricing = Inr demo_pricing,
     ev_settings = demo_settings, ev_mock = (\<lambda>_ _. demo_attempts), ev_real = Inl (),
     ev_wait = (\<lambda>_. 1 / 2), ev_float_text = (\<lambda>_. ''0.0''), ev_latency_ms = 3500,
     ev_trace_id = 9, ev_now = 0\<rparr>"

definition demo_request :: model_call_request where
  "demo_request = \<lparr>rq_agent = ''assessor'', rq_system_prompt = ''s'', rq_user_payload = ''u'',
     rq_json_schema = None, rq_session_id = 7, rq_timeout_s = 30, rq_max_output_tokens = 2048,
     rq_model_override = None\<rparr>"

definition demo_memory :: memory_world where
  "demo_memory = \<lparr>mw_sink = \<lparr>ms_records = [], ms_capacity = 10\<rparr>, mw_ledger = []\<rparr>"

definition demo_db :: pg_world where
  "demo_db = \<lparr>pg_db = \<lparr>db_sessions = [7], db_turn_trace = []\<rparr>, pg_context = empty_context,
     pg_written = []\<rparr>"

definition demo_row :: turn_trace_row where
  "demo_row = \<lparr>row_id = 1, row_created_at = 0, row_session = 7, row_turn_id = None,
     row_transition = None, row_agent = ''assessor'', row_prompt_version = ''v1'',
     row_model = ''m'', row_model_version = None, row_outcome = TraceOk,
     row_wrapper_outcome = None, row_attempts = 1, row_latency_ms = 0, row_input_tokens = 0,
     row_output_tokens = 0, row_cost_usd = 6, row_prompt_sha = '''', row_error_message = None,
     row_system_prompt = '''', row_user_payload = '''', row_response_text = '''',
     row_parsed = None\<rparr>"

lemma demo_env_ok: "env_ok demo_env"
  by (auto simp: env_ok_def demo_env_def prices_ok_def demo_pricing_def demo_attempts_def raw_ok_def
      demo_raw_def py_len_def is_continuation_def split: if_splits)

lemma demo_retries: "call_with_retries demo_attempts (\<lambda>_. 1 / 2) 30 = (LoopDone demo_raw 2, 2)"
  by (simp add: call_with_retries_def max_attempts_def numeral_2_eq_2 retry_loop.simps
      demo_attempts_def)

lemmas demo_simps = demo_env_def demo_models_def demo_pricing_def demo_settings_def
  demo_request_def demo_memory_def demo_db_def

definition demo_result :: model_call_result where
  "demo_result = \<lparr>res_text = ''{}'', res_parsed = None, res_input_tokens = 1000,
     res_output_tokens = 500, res_cost_usd = 2, res_latency_ms = 3500, res_model = ''m'',
     res_model_version = ''m-1'', res_attempts = 2, res_trace_id = 9\<rparr>"

lemma demo_call_memory:
  "co_result (call_model mem_write mem_total mem_add demo_env demo_request demo_memory)
     = Inr demo_result"
  "co_backend_calls (call_model mem_write mem_total mem_add demo_env demo_request demo_memory) = 2"
  "mem_total (co_world (call_model mem_write mem_total mem_add demo_env demo_request demo_memory)) 7 = 2"
  by (simp_all add: call_model_def issue_call_def check_answer_def finish_call_def persist_trace_def
      demo_simps demo_raw_def [symmetric] demo_retries select_backend_def mock_init_def
      for_agent_def required_agents_def cost_for_def Let_def or_string_def mem_write_def
      memory_write_def mem_add_def memory_add_def mem_total_def memory_total_def demo_result_def
      dict_default_def build_trace_record_def)
   (simp_all add: demo_raw_def)

lemma demo_call_durable:
  "co_result (call_model pg_write pg_total pg_add demo_env demo_request demo_db) = Inr demo_result"
  "pg_total (co_world (call_model pg_write pg_total pg_add demo_env demo_request demo_db)) 7 = 2"
  by (simp_all add: call_model_def issue_call_def check_answer_def finish_call_def persist_trace_def
      demo_simps demo_retries select_backend_def mock_init_def
      for_agent_def required_agents_def cost_for_def Let_def or_string_def pg_write_def
      pg_add_def pg_total_def demo_result_def insert_turn_trace_def trace_row_def numeric_12_6_def
      turn_trace_row_ok_def smallint_def int4_def session_cost_total_def empty_context_def
      build_trace_record_def demo_raw_def)
   (simp add: floor_eq_iff)

section \<open>Totals\<close>

text \<open>A failed call without a cost leaves both ledgers as they were.\<close>

lemma over_budget_rule:
  assumes "llm_budget_per_session_usd (ev_settings env) \<le> spent w (rq_session_id q)"
    and "\<And>m out k msg e. P (fail_call store env q m out k None 0 msg e w 0)"
    and "\<And>e. P (uncaught e w 0)"
  shows "P (call_model store spent add env q w)"
  using assms by (simp add: call_model_def Let_def split: sum.split)

lemma fail_call_result: "\<exists>x. co_result (fail_call store env q m out k raw c msg e w n) = Inl x"
  by (simp add: fail_call_def split: sum.split)

lemma mem_write_total: "mem_write w rec = Inr w' \<Longrightarrow> mem_total w' = mem_total w"
  by (auto simp: mem_write_def and_then_eq_Inr mem_total_def)

lemma fail_call_mem_total:
  "mem_total (co_world (fail_call mem_write env q m out k raw c msg e w n)) = mem_total w"
  by (auto simp: fail_call_def persist_trace_def dest: mem_write_total split: sum.splits)

lemma pg_write_total:
  assumes "pg_write w rec = Inr w'"
  obtains c where "numeric_12_6 (tr_cost_usd rec) = Some c"
    "pg_total w' = (\<lambda>s. pg_total w s + (if s = tr_session_id rec then c else 0))"
proof -
  obtain c where c: "numeric_12_6 (tr_cost_usd rec) = Some c"
    "db_turn_trace (pg_db w') =
       db_turn_trace (pg_db w) @ [(trace_row (pg_context w) rec)\<lparr>row_cost_usd := c\<rparr>]"
    by (rule pg_write_rows [OF assms])
  then show thesis
    by (intro that [OF c(1)]) (auto simp: pg_total_def session_cost_total_def trace_row_def)
qed

lemma fail_call_pg_total:
  "pg_total (co_world (fail_call pg_write env q m out k raw 0 msg e w n)) = pg_total w"
proof (cases "pg_write w (build_trace_record env q m out k raw 0 (Some msg) None)")
  case (Inr w')
  then obtain c where "numeric_12_6 0 = Some c"
    and w': "pg_total w' = (\<lambda>s. pg_total w s + (if s = rq_session_id q then c else 0))"
    by (rule pg_write_total) (simp add: build_trace_record_def)
  then have "c = 0" by (simp add: numeric_12_6_zero)
  with w' have "pg_total w' = pg_total w" by (simp cong: if_cong)
  with Inr show ?thesis by (simp add: fail_call_def persist_trace_def)
qed (simp add: fail_call_def persist_trace_def)

lemma parse_and_validate_iff:
  "parse_and_validate payload schema = Inr d \<longleftrightarrow>
     loads payload = Some (JObj d) \<and> conforms (JObj schema) (JObj d)"
  by (auto simp: parse_and_validate_def and_then_eq_Inr check_schema_conforms(1) [symmetric]
      simp del: check_schema.simps split: option.splits json.splits)

section \<open>Properties\<close>



text \<open>
  C24: the retry policy. A call issues one to three backend calls; every one before the last
  failed with a transient error; a result is the last call's, a classified failure is the
  last call's error, and a transient error is reported only after the third attempt. Unless
  the wall clock cut it off, the whole loop with its waits ended before the deadline; and it
  was cut off only because an attempt or a wait would have reached the deadline, or the
  backend itself timed out.
\<close>

theorem backend_retry_policy:
  assumes "call_with_retries backend wait cap = (res, calls)"
  shows "1 \<le> calls \<and> calls \<le> 3
    \<and> (\<forall>n. 1 \<le> n \<and> n < calls \<longrightarrow> (\<exists>e. snd (backend n) = Inl e \<and> retryable e))
    \<and> (case res of
        LoopDone raw k \<Rightarrow> k = int calls \<and> snd (backend calls) = Inr raw
      | LoopFailed e k \<Rightarrow> k = int calls \<and> (\<exists>exc. snd (backend calls) = Inl exc
          \<and> (retryable exc \<longrightarrow> calls = 3 \<and> e = VertexUpstreamUnavailableError))
      | LoopCrashed exc \<Rightarrow> snd (backend calls) = Inl exc \<and> \<not> retryable exc
      | LoopWallClock \<Rightarrow> snd (backend calls) = Inl BuiltinTimeoutError
          \<or> cap \<le> spent_seconds backend wait 1 calls
          \<or> (calls < 3 \<and> cap \<le> spent_seconds backend wait 1 calls + wait calls))
    \<and> (res \<noteq> LoopWallClock \<longrightarrow> spent_seconds backend wait 1 calls < cap)"
proof -
  have loop: "retry_loop backend wait cap 2 1 0 = (res, calls)"
    using assms by (simp add: call_with_retries_def max_attempts_def)
  have suc: "Suc (calls - 1) = calls" using retry_loop_explained [OF loop] by simp
  note * = retry_loop_explained [OF loop, unfolded suc]
  have "res = LoopWallClock \<Longrightarrow> snd (backend calls) = Inl BuiltinTimeoutError
      \<or> cap \<le> spent_seconds backend wait 1 calls
      \<or> (calls < 3 \<and> cap \<le> spent_seconds backend wait 1 calls + wait calls)"
    using retry_loop_wall_clock [of backend wait cap 2 1 0 calls, unfolded suc] loop by auto
  then show ?thesis
    using * by (auto simp: explains_def retried_def split: loop_result.split)
qed

theorem backend_retry_policy_witness:
  "call_with_retries demo_attempts (\<lambda>_. 1 / 2) 30 = (LoopDone demo_raw 2, 2)
    \<and> (\<exists>e. snd (demo_attempts 1) = Inl e \<and> retryable e)
    \<and> spent_seconds demo_attempts (\<lambda>_. 1 / 2) 1 2 < 30"
  using backend_retry_policy [OF demo_retries] demo_retries by auto

text \<open>
  The budget is checked first. A session at its ceiling causes no backend call, fails,
  and is charged nothing, in the in-memory and in the durable world.
\<close>

theorem budget_guards_backend:
  assumes "llm_budget_per_session_usd (ev_settings env) \<le> mem_total w (rq_session_id q)"
    and "llm_budget_per_session_usd (ev_settings env) \<le> pg_total v (rq_session_id q)"
  shows "co_backend_calls (call_model mem_write mem_total mem_add env q w) = 0
    \<and> co_backend_calls (call_model pg_write pg_total pg_add env q v) = 0
    \<and> (\<exists>e. co_result (call_model mem_write mem_total mem_add env q w) = Inl e)
    \<and> (\<exists>e. co_result (call_model pg_write pg_total pg_add env q v) = Inl e)
    \<and> mem_total (co_world (call_model mem_write mem_total mem_add env q w)) = mem_total w
    \<and> pg_total (co_world (call_model pg_write pg_total pg_add env q v)) = pg_total v"
proof -
  have "co_backend_calls out = 0 \<and> (\<exists>e. co_result out = Inl e) \<and> mem_total (co_world out) = mem_total w"
    if "out = call_model mem_write mem_total mem_add env q w" for out
    unfolding that
    by (rule over_budget_rule [where spent = mem_total, OF assms(1)])
      (simp_all add: mem_world.fail_call_calls fail_call_result fail_call_mem_total uncaught_def)
  moreover have "co_backend_calls out = 0 \<and> (\<exists>e. co_result out = Inl e) \<and> pg_total (co_world out) = pg_total v"
    if "out = call_model pg_write pg_total pg_add env q v" for out
    unfolding that
    by (rule over_budget_rule [where spent = pg_total, OF assms(2)])
      (simp_all add: pg.fail_call_calls fail_call_result fail_call_pg_total uncaught_def)
  ultimately show ?thesis by simp
qed

theorem budget_guards_backend_witness:
  "co_backend_calls (call_model mem_write mem_total mem_add demo_env demo_request
       (demo_memory\<lparr>mw_ledger := [(7, 5)]\<rparr>)) = 0
    \<and> co_backend_calls (call_model pg_write pg_total pg_add demo_env demo_request
       (demo_db\<lparr>pg_db := \<lparr>db_sessions = [7], db_turn_trace = [demo_row]\<rparr>\<rparr>)) = 0"
  using budget_guards_backend [where env = demo_env and q = demo_request
      and w = "demo_memory\<lparr>mw_ledger := [(7, 5)]\<rparr>"
      and v = "demo_db\<lparr>pg_db := \<lparr>db_sessions = [7], db_turn_trace = [demo_row]\<rparr>\<rparr>"]
  by (simp add: demo_simps mem_total_def memory_total_def dict_default_def pg_total_def
      session_cost_total_def demo_row_def)

text \<open>
  The in-memory ledger is exact. A successful call adds precisely the cost it reports to
  its own session; a failed one charges nothing, with one exception: when the trace of an
  answered call cannot be written the charge has already been made. No call ever touches
  another session.
\<close>

theorem memory_ledger_exact:
  "let out = call_model mem_write mem_total mem_add env q w; s = rq_session_id q
   in (case co_result out of
        Inr r \<Rightarrow> mem_total (co_world out) = (mem_total w)(s := mem_total w s + res_cost_usd r)
      | Inl e \<Rightarrow> mem_total (co_world out) = mem_total w
          \<or> (e = Wrapper TraceWriteError \<and> (\<exists>c. mem_total (co_world out)
                = (mem_total w)(s := mem_total w s + c))))"
proof -
  have add: "mem_total v = (mem_total w)(s := mem_total w s + c)"
    if "mem_add w s c = Inr v" for v s c
    using mem.add_exact [OF that] mem.add_other [OF that] by auto
  show ?thesis
    using call_model_effect [of mem_write mem_add q w mem_total env]
    by (fastforce simp: call_effect_def Let_def split: sum.split dest: add mem_write_total)
qed

text \<open>
  C35: the durable ledger follows the trail. A call appends at most one row and changes no
  earlier one. A success raises the session's total by the reported cost, to within half of
  the sixth decimal the column keeps; a failure leaves every total as it was, except that an
  answer that missed its schema is on record with what it cost.
\<close>

theorem durable_ledger_close:
  "let out = call_model pg_write pg_total pg_add env q w; s = rq_session_id q;
       before = db_turn_trace (pg_db w); after = db_turn_trace (pg_db (co_world out))
   in (after = before \<or> (\<exists>row. after = before @ [row]))
    \<and> (case co_result out of
        Inr r \<Rightarrow> \<exists>c. \<bar>c - res_cost_usd r\<bar> \<le> 1 / 2000000
            \<and> pg_total (co_world out) = (pg_total w)(s := pg_total w s + c)
      | Inl e \<Rightarrow> pg_total (co_world out) = pg_total w
          \<or> (\<exists>row. after = before @ [row] \<and> row_outcome row = TraceSchemaError \<and> row_session row = s))"
proof -
  have add: "v = w" if "pg_add w s c = Inr v" for v s c
    using that by (simp add: pg_add_def split: if_splits)
  define out where "out = call_model pg_write pg_total pg_add env q w"
  have *: "call_effect pg_write pg_add q w out"
    unfolding out_def by (rule call_model_effect)
  consider (success) r rec where "co_result out = Inr r" "pg_write w rec = Inr (co_world out)"
      "tr_session_id rec = rq_session_id q" "tr_cost_usd rec = res_cost_usd r"
    | (same) e where "co_result out = Inl e" "co_world out = w"
    | (failed) e rec where "co_result out = Inl e" "pg_write w rec = Inr (co_world out)"
        "failure_record q rec"
    using * by (fastforce simp: call_effect_def split: sum.splits dest: add)
  then show ?thesis
  proof cases
    case success
    from success(2) obtain c where c: "numeric_12_6 (res_cost_usd r) = Some c"
      "pg_total (co_world out) = (\<lambda>s. pg_total w s + (if s = rq_session_id q then c else 0))"
      by (rule pg_write_total) (use success in simp)
    from success(2) obtain row where "db_turn_trace (pg_db (co_world out)) = db_turn_trace (pg_db w) @ [row]"
      by (rule pg_write_rows)
    with c numeric_12_6_close [OF c(1)] success(1) show ?thesis
      by (fastforce simp: Let_def simp flip: out_def)
  next
    case same
    then show ?thesis by (simp add: Let_def flip: out_def)
  next
    case failed
    from failed(2) obtain c where c: "numeric_12_6 (tr_cost_usd rec) = Some c"
      and rows: "db_turn_trace (pg_db (co_world out)) =
        db_turn_trace (pg_db w) @ [(trace_row (pg_context w) rec)\<lparr>row_cost_usd := c\<rparr>]"
      by (rule pg_write_rows)
    show ?thesis
    proof (cases "tr_outcome rec = TraceSchemaError")
      case True
      with rows failed(1,3) show ?thesis
        by (auto simp: Let_def failure_record_def trace_row_def simp flip: out_def)
    next
      case False
      then have "tr_cost_usd rec = 0" using failed(3) by (simp add: failure_record_def)
      with c have "c = 0" by (simp add: numeric_12_6_zero)
      then have "pg_total (co_world out) = pg_total w"
        using rows by (auto simp: pg_total_def session_cost_total_def)
      with rows failed(1) show ?thesis by (simp add: Let_def flip: out_def)
    qed
  qed
qed


lemma check_answer_parsed:
  assumes "co_result (check_answer store add env q m p raw k w n) = Inr r"
    and "rq_json_schema q = Some schema"
  shows "\<exists>d. res_parsed r = Some d \<and> parse_and_validate (res_text r) schema = Inr d"
  using assms
  by (auto simp: check_answer_def finish_call_def fail_call_def uncaught_def
      split: sum.splits schema_error.splits)

lemma call_model_result:
  assumes "co_result (call_model store spent add env q w) = Inr r"
  obtains m p raw k n where
    "co_result (check_answer store add env q m p raw k w n) = Inr r"
  using assms
  by (auto simp: call_model_def issue_call_def Let_def uncaught_def fail_call_def
      split: sum.splits prod.splits loop_result.splits if_splits)

text \<open>
  What a caller receives has been checked. When a request carries a schema, a
  returned result carries the parsed object of its own text, and that object conforms to
  the schema of the request.
\<close>

theorem returned_answer_conforms:
  assumes "co_result (call_model mem_write mem_total mem_add env q w) = Inr r"
    and "rq_json_schema q = Some schema"
  shows "\<exists>d. res_parsed r = Some d \<and> loads (res_text r) = Some (JObj d)
    \<and> conforms (JObj schema) (JObj d)"
  using assms(1)
proof (rule call_model_result)
  fix m p raw k n
  assume "co_result (check_answer mem_write mem_add env q m p raw k w n) = Inr r"
  from check_answer_parsed [OF this assms(2)]
  obtain d where "res_parsed r = Some d" "parse_and_validate (res_text r) schema = Inr d" by blast
  then show ?thesis by (simp add: parse_and_validate_iff)
qed

definition demo_schema :: "(string, json) dict" where
  "demo_schema = [(''type'', JStr ''object''), (''additionalProperties'', JBool False)]"

lemma demo_schema_accepts: "parse_and_validate ''{}'' demo_schema = Inr []"
  by code_simp

theorem returned_answer_conforms_witness:
  "\<exists>d. loads ''{}'' = Some (JObj d) \<and> conforms (JObj demo_schema) (JObj d)"
proof -
  have "co_result (call_model mem_write mem_total mem_add demo_env
      (demo_request\<lparr>rq_json_schema := Some demo_schema\<rparr>) demo_memory)
    = Inr (demo_result\<lparr>res_parsed := Some []\<rparr>)"
    by (simp add: call_model_def issue_call_def check_answer_def finish_call_def persist_trace_def
        demo_simps demo_raw_def [symmetric] demo_retries select_backend_def mock_init_def
        for_agent_def required_agents_def cost_for_def Let_def or_string_def mem_write_def
        memory_write_def mem_add_def memory_add_def mem_total_def memory_total_def demo_result_def
        dict_default_def build_trace_record_def)
      (simp add: demo_raw_def demo_schema_accepts finish_call_def persist_trace_def cost_for_def
        mem_write_def memory_write_def mem_add_def memory_add_def memory_total_def dict_default_def
        build_trace_record_def)
  from returned_answer_conforms [OF this, of demo_schema] show ?thesis
    by (simp add: demo_result_def)
qed

text \<open>
  A fixture key determines the prompt. Two requests with the same canonical text have
  the same prompts, agent and model, and schemas equal up to the order of their keys; so
  distinct prompts share a fixture only if SHA-256 collides.
\<close>

theorem canonical_prompt_determines_request:
  assumes "canonical_prompt_payload sf sp up schema agent m = canonical_prompt_payload sf sp' up' schema' agent' m'"
    and "\<forall>d. schema = Some d \<longrightarrow> printable sf (JObj d)"
    and "\<forall>d. schema' = Some d \<longrightarrow> printable sf (JObj d)"
  shows "sp = sp' \<and> up = up' \<and> agent = agent' \<and> m = m'
    \<and> map_option (\<lambda>d. sort_json (JObj d)) schema = map_option (\<lambda>d. sort_json (JObj d)) schema'"
proof -
  have "printable sf (canonical_prompt_value sp up schema agent m)"
    and "printable sf (canonical_prompt_value sp' up' schema' agent' m')"
    using assms(2,3) by (auto simp del: printable.simps simp: printable_prompt split: option.split)
  from dumps_sorted_inj [OF this] assms(1) show ?thesis
    unfolding sort_key_five canonical_prompt_payload_def
    by (auto split: option.splits)
qed

theorem canonical_prompt_determines_request_witness:
  "let a = [(''type'', JStr ''object''), (''required'', JArr [])];
       b = [(''required'', JArr []), (''type'', JStr ''object'')]
   in canonical_prompt_payload (\<lambda>_. ''0.0'') ''s'' ''u'' (Some a) ''planner'' ''m''
        = canonical_prompt_payload (\<lambda>_. ''0.0'') ''s'' ''u'' (Some b) ''planner'' ''m''
    \<and> sort_json (JObj a) = sort_json (JObj b)"
proof -
  let ?a = "[(''type'', JStr ''object''), (''required'', JArr [])]"
  let ?b = "[(''required'', JArr []), (''type'', JStr ''object'')]"
  have "canonical_prompt_payload (\<lambda>_. ''0.0'') ''s'' ''u'' (Some ?a) ''planner'' ''m''
      = canonical_prompt_payload (\<lambda>_. ''0.0'') ''s'' ''u'' (Some ?b) ''planner'' ''m''"
    by (simp add: canonical_prompt_payload_def dumps_sorted_def sort_key_five)
  from canonical_prompt_determines_request [OF this] this show ?thesis by simp
qed

text \<open>
  Prices add up. With a table loaded from configuration a cost is never negative, a
  single call over the summed token counts costs the sum of the calls, so no amount is lost
  or gained by splitting; and an unpriced model or a negative count is the configuration
  error, never a free call.
\<close>

theorem loaded_prices_add_up:
  assumes "pricing_from_yaml px raw = Inr table"
  shows "(cost_for table m i u = Inr c \<longrightarrow> 0 \<le> c \<and> (c = 0 \<longleftrightarrow> i = 0 \<and> u = 0))
    \<and> (cost_for table m i u = Inr c \<longrightarrow> cost_for table m i' u' = Inr c'
        \<longrightarrow> cost_for table m (i + i') (u + u') = Inr (c + c'))
    \<and> (dict_get table m = None \<or> i < 0 \<or> u < 0 \<longrightarrow> cost_for table m i u = Inl ModelCallConfigError)"
proof -
  have ok: "prices_ok table" using assms by (rule pricing_from_yaml_ok)
  have zero: "c = 0 \<longleftrightarrow> i = 0 \<and> u = 0" if cost: "cost_for table m i u = Inr c"
  proof -
    obtain p where p: "dict_get table m = Some p" "0 \<le> i" "0 \<le> u"
      "c = input_per_1k_tokens p * of_int i / 1000 + output_per_1k_tokens p * of_int u / 1000"
      using cost by (auto simp: cost_for_def split: if_splits option.splits)
    moreover have "0 < input_per_1k_tokens p" "0 < output_per_1k_tokens p"
      using ok p(1) by (simp_all add: prices_ok_def)
    ultimately show ?thesis by (auto simp: add_nonneg_eq_0_iff)
  qed
  have "cost_for table m (i + i') (u + u') = Inr (c + c')"
    if "cost_for table m i u = Inr c" "cost_for table m i' u' = Inr c'"
    using that by (auto simp: cost_for_def field_simps split: if_splits option.splits)
  then show ?thesis
    using zero cost_for_nonneg [OF ok] by (auto simp: cost_for_def)
qed

theorem loaded_prices_add_up_witness:
  "\<exists>table. pricing_from_yaml strict_px (JObj [(''m'', JObj [(''input_per_1k_tokens'', JStr ''0.25''),
       (''output_per_1k_tokens'', JInt 1)])]) = Inr table
     \<and> cost_for table ''m'' 1000 500 = Inr (3 / 4)
     \<and> cost_for table ''m'' 2000 1000 = Inr (3 / 4 + 3 / 4)"
proof -
  let ?raw = "JObj [(''m'', JObj [(''input_per_1k_tokens'', JStr ''0.25''),
       (''output_per_1k_tokens'', JInt 1)])]"
  let ?table = "[(''m'', \<lparr>input_per_1k_tokens = 1 / 4, output_per_1k_tokens = 1\<rparr>)]"
  have load: "pricing_from_yaml strict_px ?raw = Inr ?table"
    by code_simp
  have "cost_for ?table ''m'' 1000 500 = Inr (3 / 4)"
    by (simp add: cost_for_def)
  with loaded_prices_add_up [OF load, of "''m''" 1000 500 "3 / 4" 1000 500 "3 / 4"] load
  show ?thesis by auto
qed

end
