(* ===== verification/Persistence.thy ===== *)
theory Persistence
  imports Orchestrator_Inv Json_Text
begin

text \<open>
  \<open>app/backend/orchestrator/persistence.py\<close>: the JSON document a session is stored as,
  its version check and its load and save. \<open>encode_session_state\<close> writes out what
  pydantic's JSON mode does for every field of the models of \<open>state_machine.py\<close>;
  \<open>decode_session_state\<close> what validation does. How pydantic reads an id and writes and reads
  a time are arguments (\<open>codec\<close>); the column is an optional JSON value per session row.
\<close>

section \<open>Text of ids\<close>

text \<open>\<open>str(uuid)\<close>: thirty-two hex digits, grouped 8-4-4-4-12.\<close>

fun hex_digits :: "nat \<Rightarrow> nat \<Rightarrow> string" where
  "hex_digits 0 n = []"
| "hex_digits (Suc k) n = hex_digits k (n div 16) @ [hex_char (n mod 16)]"

definition uuid_str :: "uuid \<Rightarrow> string" where
  "uuid_str u = (let h = hex_digits 32 (unat u)
     in take 8 h @ ''-'' @ take 4 (drop 8 h) @ ''-'' @ take 4 (drop 12 h) @ ''-''
        @ take 4 (drop 16 h) @ ''-'' @ drop 20 h)"

definition hex_number :: "string \<Rightarrow> nat option" where
  "hex_number s = foldl (\<lambda>m c. case (m, hex_value c) of
     (Some n, Some d) \<Rightarrow> Some (16 * n + d) | _ \<Rightarrow> None) (Some 0) s"

definition uuid_of_str :: "string \<Rightarrow> uuid option" where
  "uuid_of_str s = map_option of_nat (hex_number (filter (\<lambda>c. c \<noteq> CHR ''-'') s))"

section \<open>Codec\<close>

record codec =
  cd_px :: pydantic
  cd_uuid :: "json \<Rightarrow> uuid option"
  cd_time :: "json \<Rightarrow> time option"
  cd_time_text :: "time \<Rightarrow> string"

definition codec_ok :: "codec \<Rightarrow> bool" where
  "codec_ok cd \<longleftrightarrow> pydantic_ok (cd_px cd)
     \<and> (\<forall>u. cd_uuid cd (JStr (uuid_str u)) = Some u)
     \<and> (\<forall>t. cd_time cd (JStr (cd_time_text cd t)) = Some t)"

definition int_of_str :: "string \<Rightarrow> int" where
  "int_of_str s = (case s of
     c # t \<Rightarrow> if c = CHR ''-'' then - int (read_nat t) else int (read_nat s) | [] \<Rightarrow> 0)"

definition strict_codec :: codec where
  "strict_codec = \<lparr>
     cd_px = strict_px,
     cd_uuid = (\<lambda>j. case j of JStr s \<Rightarrow> uuid_of_str s | _ \<Rightarrow> None),
     cd_time = (\<lambda>j. case j of JStr s \<Rightarrow> Some (int_of_str s) | _ \<Rightarrow> None),
     cd_time_text = show_int\<rparr>"

section \<open>Enumerations\<close>

definition enum_of :: "('a \<Rightarrow> string) \<Rightarrow> 'a list \<Rightarrow> json \<Rightarrow> 'a option" where
  "enum_of name vs j = (case j of JStr s \<Rightarrow> find (\<lambda>v. name v = s) vs | _ \<Rightarrow> None)"

definition phase_name :: "phase \<Rightarrow> string" where
  "phase_name p = (case p of Created \<Rightarrow> ''created'' | Intro \<Rightarrow> ''intro'' | Tech \<Rightarrow> ''tech''
     | Qa \<Rightarrow> ''qa'' | Close \<Rightarrow> ''close'' | Completed \<Rightarrow> ''completed'' | Aborted \<Rightarrow> ''aborted'')"

definition awaiting_name :: "awaiting \<Rightarrow> string" where
  "awaiting_name a = (case a of Interviewer \<Rightarrow> ''interviewer'' | Candidate \<Rightarrow> ''candidate'')"

definition abort_name :: "abort_reason \<Rightarrow> string" where
  "abort_name r = (case r of CandidateTimeout \<Rightarrow> ''candidate_timeout''
     | CostCeiling \<Rightarrow> ''cost_ceiling'' | OperatorAborted \<Rightarrow> ''operator_abort''
     | FatalAgentError \<Rightarrow> ''fatal_agent_error'')"

definition phase_json :: "json \<Rightarrow> phase option" where
  "phase_json = enum_of phase_name [Created, Intro, Tech, Qa, Close, Completed, Aborted]"

definition awaiting_json :: "json \<Rightarrow> awaiting option" where
  "awaiting_json = enum_of awaiting_name [Interviewer, Candidate]"

definition abort_json :: "json \<Rightarrow> abort_reason option" where
  "abort_json = enum_of abort_name [CandidateTimeout, CostCeiling, OperatorAborted, FatalAgentError]"

definition move_json :: "json \<Rightarrow> interviewer_move option" where
  "move_json = enum_of move_name
     [AskSeed, DepthProbe, AcknowledgeAndTransition, Redirect, CloseCompetency]"

definition red_flag_json :: "json \<Rightarrow> red_flag_type option" where
  "red_flag_json = enum_of red_flag_name
     [FactuallyWrong, Contradiction, FabricatedTechnology, LikelyCheating, RedFlagOther]"

section \<open>Encoding\<close>

definition maybe :: "('a \<Rightarrow> json) \<Rightarrow> 'a option \<Rightarrow> json" where
  "maybe f m = (case m of None \<Rightarrow> JNull | Some x \<Rightarrow> f x)"

definition uuid_json :: "uuid \<Rightarrow> json" where "uuid_json u = JStr (uuid_str u)"

definition cell_payload :: "coverage_cell \<Rightarrow> json" where
  "cell_payload c = JObj [
     (''best_level'', maybe JInt (best_level c)),
     (''best_confidence'', maybe JNum (best_confidence c)),
     (''latest_level'', maybe JInt (latest_level c)),
     (''latest_confidence'', maybe JNum (latest_confidence c)),
     (''gap_not_assessable'', JBool (gap_not_assessable c)),
     (''assessment_failed'', JBool (assessment_failed c)),
     (''gap_budget_exhausted'', JBool (gap_budget_exhausted c)),
     (''needs_manual_review'', JBool (cell_needs_manual_review c)),
     (''red_flags'', JArr (map (\<lambda>t. JStr (red_flag_name t)) (red_flags c)))]"

definition tech_payload :: "codec \<Rightarrow> tech_state \<Rightarrow> json" where
  "tech_payload cd t = JObj [
     (''competency_index'', JInt (competency_index t)),
     (''seed_index'', JInt (seed_index t)),
     (''probes_used'', JInt (probes_used t)),
     (''drift_count'', JInt (drift_count t)),
     (''competency_started_at'', maybe (\<lambda>x. JStr (cd_time_text cd x)) (competency_started_at t)),
     (''coverage'', JObj (map (\<lambda>(k, c). (k, cell_payload c)) (coverage t))),
     (''pending_assessments'', JArr (map uuid_json (pending_assessments t))),
     (''assessment_focus'', JObj (map (\<lambda>(u, n). (uuid_str u, JStr n)) (assessment_focus t)))]"

definition pending_payload :: "pending_command \<Rightarrow> json" where
  "pending_payload c = (case c of
     RunInterviewer r \<Rightarrow> JObj [
       (''kind'', JStr ''run_interviewer''), (''turn_id'', uuid_json (ri_turn_id r)),
       (''move'', JStr (move_name (ri_move r))),
       (''competency_node_id'', maybe JStr (ri_competency_node_id r)),
       (''move_context'', JObj (ri_move_context r)), (''retry'', JBool (ri_retry r))]
   | DeliverUtterance u s \<Rightarrow> JObj [
       (''kind'', JStr ''deliver_utterance''), (''turn_id'', uuid_json u), (''utterance'', JStr s)]
   | EmitScriptedOpening u s \<Rightarrow> JObj [
       (''kind'', JStr ''emit_scripted_opening''), (''turn_id'', uuid_json u),
       (''script_path'', JStr s)]
   | EmitScriptedClosing u s \<Rightarrow> JObj [
       (''kind'', JStr ''emit_scripted_closing''), (''turn_id'', uuid_json u),
       (''script_path'', JStr s)])"

definition encode_session_state :: "codec \<Rightarrow> session_state \<Rightarrow> json" where
  "encode_session_state cd s = JObj [
     (''state_schema_version'', JInt (state_schema_version s)),
     (''session_id'', uuid_json (session_id s)),
     (''phase'', JStr (phase_name (phase s))),
     (''awaiting'', maybe (\<lambda>a. JStr (awaiting_name a)) (awaiting s)),
     (''last_issued_move'', maybe (\<lambda>m. JStr (move_name m)) (last_issued_move s)),
     (''plan_input'', JObj (plan_input s)),
     (''plan'', maybe plan_payload (plan s)),
     (''tech'', tech_payload cd (tech s)),
     (''abort_reason'', maybe (\<lambda>r. JStr (abort_name r)) (abort_reason s)),
     (''flagged_for_review'', JBool (flagged_for_review s)),
     (''needs_manual_review'', JBool (needs_manual_review s)),
     (''cheat_flag_count'', JInt (cheat_flag_count s)),
     (''interviewer_failure_streak'', JInt (interviewer_failure_streak s)),
     (''turn_seq'', JInt (turn_seq s)),
     (''session_started_at'', maybe (\<lambda>x. JStr (cd_time_text cd x)) (session_started_at s)),
     (''qa_started_at'', maybe (\<lambda>x. JStr (cd_time_text cd x)) (qa_started_at s)),
     (''last_candidate_activity'',
        maybe (\<lambda>x. JStr (cd_time_text cd x)) (last_candidate_activity s)),
     (''pending_command'', maybe pending_payload (pending_command s))]"

section \<open>Decoding\<close>

definition cell_fields :: "string list" where
  "cell_fields = [''best_level'', ''best_confidence'', ''latest_level'', ''latest_confidence'',
     ''gap_not_assessable'', ''assessment_failed'', ''gap_budget_exhausted'',
     ''needs_manual_review'', ''red_flags'']"

definition json_list :: "pydantic \<Rightarrow> (json \<Rightarrow> 'a option) \<Rightarrow> json \<Rightarrow> 'a list option" where
  "json_list px f j = (case px_list px j of None \<Rightarrow> None | Some xs \<Rightarrow> all_of f xs)"

definition validate_cell :: "pydantic \<Rightarrow> json \<Rightarrow> coverage_cell option" where
  "validate_cell px = as_object (\<lambda>d. if \<not> no_extra cell_fields d then None else do {
     bl \<leftarrow> with_default d ''best_level'' None (nullable (px_int px));
     bc \<leftarrow> with_default d ''best_confidence'' None (nullable (px_float px));
     ll \<leftarrow> with_default d ''latest_level'' None (nullable (px_int px));
     lc \<leftarrow> with_default d ''latest_confidence'' None (nullable (px_float px));
     na \<leftarrow> with_default d ''gap_not_assessable'' False (px_bool px);
     af \<leftarrow> with_default d ''assessment_failed'' False (px_bool px);
     be \<leftarrow> with_default d ''gap_budget_exhausted'' False (px_bool px);
     mr \<leftarrow> with_default d ''needs_manual_review'' False (px_bool px);
     rf \<leftarrow> with_default d ''red_flags'' [] (json_list px red_flag_json);
     Some \<lparr>best_level = bl, best_confidence = bc, latest_level = ll, latest_confidence = lc,
       gap_not_assessable = na, assessment_failed = af, gap_budget_exhausted = be,
       cell_needs_manual_review = mr, red_flags = rf\<rparr>
   })"

definition tech_fields :: "string list" where
  "tech_fields = [''competency_index'', ''seed_index'', ''probes_used'', ''drift_count'',
     ''competency_started_at'', ''coverage'', ''pending_assessments'', ''assessment_focus'']"

definition json_entry :: "(json \<Rightarrow> 'k option) \<Rightarrow> (json \<Rightarrow> 'v option) \<Rightarrow> string \<times> json \<Rightarrow> ('k \<times> 'v) option" where
  "json_entry fk fv p = (case fk (JStr (fst p)) of None \<Rightarrow> None
     | Some k \<Rightarrow> (case fv (snd p) of None \<Rightarrow> None | Some v \<Rightarrow> Some (k, v)))"

definition json_dict :: "(json \<Rightarrow> 'k option) \<Rightarrow> (json \<Rightarrow> 'v option) \<Rightarrow> json \<Rightarrow> ('k, 'v) dict option" where
  "json_dict fk fv = as_object (\<lambda>d.
     (case all_of (json_entry fk fv) d of
        None \<Rightarrow> None | Some es \<Rightarrow> Some (foldl (\<lambda>m (k, v). dict_set m k v) [] es)))"

definition validate_tech :: "codec \<Rightarrow> json \<Rightarrow> tech_state option" where
  "validate_tech cd = as_object (\<lambda>d. if \<not> no_extra tech_fields d then None else do {
     ci \<leftarrow> with_default d ''competency_index'' 0 (px_int (cd_px cd));
     si \<leftarrow> with_default d ''seed_index'' 0 (px_int (cd_px cd));
     pu \<leftarrow> with_default d ''probes_used'' 0 (px_int (cd_px cd));
     dc \<leftarrow> with_default d ''drift_count'' 0 (px_int (cd_px cd));
     st \<leftarrow> with_default d ''competency_started_at'' None (nullable (cd_time cd));
     cv \<leftarrow> with_default d ''coverage'' [] (json_dict (px_str (cd_px cd)) (validate_cell (cd_px cd)));
     pa \<leftarrow> with_default d ''pending_assessments'' [] (json_list (cd_px cd) (cd_uuid cd));
     fo \<leftarrow> with_default d ''assessment_focus'' [] (json_dict (cd_uuid cd) (px_str (cd_px cd)));
     Some \<lparr>competency_index = ci, seed_index = si, probes_used = pu, drift_count = dc,
       competency_started_at = st, coverage = cv, pending_assessments = pa,
       assessment_focus = fo\<rparr>
   })"

definition json_object :: "json \<Rightarrow> (string, json) dict option" where
  "json_object = as_object Some"

text \<open>The union is discriminated by \<open>kind\<close>, which must be present.\<close>

definition scripted :: "codec \<Rightarrow> string \<Rightarrow> (uuid \<Rightarrow> string \<Rightarrow> pending_command) \<Rightarrow> json \<Rightarrow> pending_command option" where
  "scripted cd path mk = as_object (\<lambda>d.
     if \<not> no_extra [''kind'', ''turn_id'', ''script_path''] d then None else do {
       u \<leftarrow> req d ''turn_id'' (cd_uuid cd);
       s \<leftarrow> with_default d ''script_path'' path (px_str (cd_px cd));
       Some (mk u s) })"

definition validate_run_interviewer :: "codec \<Rightarrow> json \<Rightarrow> pending_command option" where
  "validate_run_interviewer cd = as_object (\<lambda>d.
     if \<not> no_extra [''kind'', ''turn_id'', ''move'', ''competency_node_id'', ''move_context'', ''retry''] d
     then None else do {
       u \<leftarrow> req d ''turn_id'' (cd_uuid cd);
       mv \<leftarrow> req d ''move'' move_json;
       n \<leftarrow> with_default d ''competency_node_id'' None (nullable (px_str (cd_px cd)));
       c \<leftarrow> with_default d ''move_context'' [] json_object;
       r \<leftarrow> with_default d ''retry'' False (px_bool (cd_px cd));
       Some (RunInterviewer \<lparr>ri_turn_id = u, ri_move = mv, ri_competency_node_id = n,
         ri_move_context = c, ri_retry = r\<rparr>) })"

definition validate_deliver :: "codec \<Rightarrow> json \<Rightarrow> pending_command option" where
  "validate_deliver cd = as_object (\<lambda>d.
     if \<not> no_extra [''kind'', ''turn_id'', ''utterance''] d then None else do {
       u \<leftarrow> req d ''turn_id'' (cd_uuid cd);
       s \<leftarrow> req d ''utterance'' (px_str (cd_px cd));
       Some (DeliverUtterance u s) })"

definition validate_pending :: "codec \<Rightarrow> json \<Rightarrow> pending_command option" where
  "validate_pending cd j =
     (case json_field j ''kind'' of
        Some (JStr k) \<Rightarrow>
          if k = ''run_interviewer'' then validate_run_interviewer cd j
          else if k = ''deliver_utterance'' then validate_deliver cd j
          else if k = ''emit_scripted_opening''
          then scripted cd opening_script_path EmitScriptedOpening j
          else if k = ''emit_scripted_closing''
          then scripted cd closing_script_path EmitScriptedClosing j
          else None
      | _ \<Rightarrow> None)"

definition session_fields :: "string list" where
  "session_fields = [''state_schema_version'', ''session_id'', ''phase'', ''awaiting'',
     ''last_issued_move'', ''plan_input'', ''plan'', ''tech'', ''abort_reason'',
     ''flagged_for_review'', ''needs_manual_review'', ''cheat_flag_count'',
     ''interviewer_failure_streak'', ''turn_seq'', ''session_started_at'', ''qa_started_at'',
     ''last_candidate_activity'', ''pending_command'']"

definition validate_session :: "codec \<Rightarrow> json \<Rightarrow> session_state option" where
  "validate_session cd = as_object (\<lambda>d. if \<not> no_extra session_fields d then None else do {
     v \<leftarrow> req d ''state_schema_version'' (px_int (cd_px cd));
     sid \<leftarrow> req d ''session_id'' (cd_uuid cd);
     ph \<leftarrow> with_default d ''phase'' Created phase_json;
     aw \<leftarrow> with_default d ''awaiting'' None (nullable awaiting_json);
     mv \<leftarrow> with_default d ''last_issued_move'' None (nullable move_json);
     pi \<leftarrow> with_default d ''plan_input'' [] json_object;
     pl \<leftarrow> with_default d ''plan'' None (nullable (model_validate_plan (cd_px cd)));
     te \<leftarrow> with_default d ''tech'' initial_tech (validate_tech cd);
     ab \<leftarrow> with_default d ''abort_reason'' None (nullable abort_json);
     fl \<leftarrow> with_default d ''flagged_for_review'' False (px_bool (cd_px cd));
     mr \<leftarrow> with_default d ''needs_manual_review'' False (px_bool (cd_px cd));
     ch \<leftarrow> with_default d ''cheat_flag_count'' 0 (px_int (cd_px cd));
     st \<leftarrow> with_default d ''interviewer_failure_streak'' 0 (px_int (cd_px cd));
     sq \<leftarrow> with_default d ''turn_seq'' 0 (px_int (cd_px cd));
     t1 \<leftarrow> with_default d ''session_started_at'' None (nullable (cd_time cd));
     t2 \<leftarrow> with_default d ''qa_started_at'' None (nullable (cd_time cd));
     t3 \<leftarrow> with_default d ''last_candidate_activity'' None (nullable (cd_time cd));
     pc \<leftarrow> with_default d ''pending_command'' None (nullable (validate_pending cd));
     Some \<lparr>state_schema_version = v, session_id = sid, phase = ph, awaiting = aw,
       last_issued_move = mv, plan_input = pi, plan = pl, tech = te, abort_reason = ab,
       flagged_for_review = fl, needs_manual_review = mr, cheat_flag_count = ch,
       interviewer_failure_streak = st, turn_seq = sq, session_started_at = t1,
       qa_started_at = t2, last_candidate_activity = t3, pending_command = pc\<rparr>
   })"

datatype persistence_error =
    StateSchemaVersionError
  | SessionStateDecodeError
  | InterviewSessionNotFound

definition decode_session_state ::
  "codec \<Rightarrow> json \<Rightarrow> int \<Rightarrow> persistence_error + session_state" where
  "decode_session_state cd raw expected_version =
     (case raw of
        JObj d \<Rightarrow>
          (case dict_get d ''state_schema_version'' of
             Some (JInt v) \<Rightarrow>
               if v \<noteq> expected_version then Inl StateSchemaVersionError
               else (case validate_session cd raw of
                       None \<Rightarrow> Inl SessionStateDecodeError | Some s \<Rightarrow> Inr s)
           | _ \<Rightarrow> Inl StateSchemaVersionError)
      | _ \<Rightarrow> Inl SessionStateDecodeError)"

section \<open>The column\<close>

text \<open>
  \<open>interview_session.session_state\<close> by session id; \<open>None\<close> is SQL \<open>NULL\<close>, which the
  driver does not tell from a stored JSON \<open>null\<close>.
\<close>

type_synonym state_column = "(uuid, json option) dict"

definition load_session_state ::
  "codec \<Rightarrow> state_column \<Rightarrow> uuid \<Rightarrow> int \<Rightarrow> persistence_error + session_state option" where
  "load_session_state cd rows sid expected_version =
     (case dict_get rows sid of
        None \<Rightarrow> Inl InterviewSessionNotFound
      | Some None \<Rightarrow> Inr None
      | Some (Some JNull) \<Rightarrow> Inr None
      | Some (Some stored) \<Rightarrow>
          and_then (decode_session_state cd stored expected_version) (\<lambda>s. Inr (Some s)))"

definition save_session_state ::
  "codec \<Rightarrow> state_column \<Rightarrow> uuid \<Rightarrow> session_state \<Rightarrow> persistence_error + state_column" where
  "save_session_state cd rows sid s =
     (if dict_get rows sid = None then Inl InterviewSessionNotFound
      else Inr (dict_set rows sid (Some (encode_session_state cd s))))"

section \<open>Ids survive their text\<close>

lemma length_hex_digits [simp]: "length (hex_digits k n) = k"
  by (induction k arbitrary: n) simp_all

lemma hex_char_no_dash: "d < 16 \<Longrightarrow> hex_char d \<noteq> CHR ''-''"
  using hex_value_char [of d] by (auto simp: hex_value_def)

lemma hex_digits_no_dash: "filter (\<lambda>c. c \<noteq> CHR ''-'') (hex_digits k n) = hex_digits k n"
  by (induction k arbitrary: n) (simp_all add: hex_char_no_dash)

lemma hex_number_digits: "n < 16 ^ k \<Longrightarrow> hex_number (hex_digits k n) = Some n"
proof (induction k arbitrary: n)
  case (Suc k)
  then have "n div 16 < 16 ^ k" by (simp add: less_mult_imp_div_less mult.commute)
  from Suc.IH [OF this] show ?case
    by (simp add: hex_number_def hex_value_char)
qed (simp add: hex_number_def)

lemma grouped: "take 8 h @ take 4 (drop 8 h) @ take 4 (drop 12 h) @ take 4 (drop 16 h) @ drop 20 h = h"
proof -
  have "drop 12 h = drop 4 (drop 8 h)" "drop 16 h = drop 4 (drop 12 h)" "drop 20 h = drop 4 (drop 16 h)"
    by simp_all
  then show ?thesis by (metis append_take_drop_id)
qed

lemma uuid_of_str_inverse: "uuid_of_str (uuid_str u) = Some u"
proof -
  have no_dash: "filter (\<lambda>c. c \<noteq> CHR ''-'') xs = xs" if "set xs \<subseteq> set (hex_digits 32 (unat u))" for xs
    using that hex_digits_no_dash [of 32 "unat u"] by (auto simp: filter_id_conv)
  have "filter (\<lambda>c. c \<noteq> CHR ''-'') (uuid_str u) = hex_digits 32 (unat u)"
    using grouped [of "hex_digits 32 (unat u)"]
    by (simp add: uuid_str_def Let_def no_dash set_take_subset set_drop_subset
        subset_trans [OF set_take_subset set_drop_subset])
  moreover have "unat u < 16 ^ 32"
    using unsigned_less [of u] by simp
  ultimately show ?thesis
    by (simp add: uuid_of_str_def hex_number_digits)
qed

lemma uuid_str_inj: "uuid_str u = uuid_str v \<longleftrightarrow> u = v"
  by (metis uuid_of_str_inverse option.inject)

lemma int_of_str_inverse: "int_of_str (show_int i) = i"
proof (cases "i < 0")
  case False
  obtain c t where ct: "show_nat (nat i) = c # t"
    by (cases "show_nat (nat i)") (auto simp: show_nat.simps split: if_splits)
  have "c \<noteq> CHR ''-''" using show_nat_no_minus ct by metis
  with False ct read_show_nat [of "nat i"] show ?thesis
    by (simp add: show_int_def int_of_str_def del: read_nat.simps)
qed (simp add: show_int_def int_of_str_def read_show_nat del: read_nat.simps)

lemma strict_codec_ok: "codec_ok strict_codec"
  by (simp add: codec_ok_def strict_codec_def strict_px_ok uuid_of_str_inverse int_of_str_inverse)

section \<open>Round trips\<close>

lemma enum_json_inverse [simp]:
  "phase_json (JStr (phase_name p)) = Some p"
  "awaiting_json (JStr (awaiting_name a)) = Some a"
  "abort_json (JStr (abort_name r)) = Some r"
  "move_json (JStr (move_name m)) = Some m"
  "red_flag_json (JStr (red_flag_name t)) = Some t"
  subgoal by (cases p) (simp_all add: phase_json_def enum_of_def phase_name_def)
  subgoal by (cases a) (simp_all add: awaiting_json_def enum_of_def awaiting_name_def)
  subgoal by (cases r) (simp_all add: abort_json_def enum_of_def abort_name_def)
  subgoal by (cases m) (simp_all add: move_json_def enum_of_def move_name_def)
  subgoal by (cases t) (simp_all add: red_flag_json_def enum_of_def red_flag_name_def)
  done

lemma codec_okD [simp]:
  assumes "codec_ok cd"
  shows "pydantic_ok (cd_px cd)" "cd_uuid cd (JStr (uuid_str u)) = Some u"
    "cd_uuid cd (uuid_json u) = Some u" "cd_time cd (JStr (cd_time_text cd t)) = Some t"
  using assms by (simp_all add: codec_ok_def uuid_json_def)

lemma nullable_maybe:
  assumes "\<And>x. m = Some x \<Longrightarrow> f (g x) = Some x \<and> g x \<noteq> JNull"
  shows "nullable f (maybe g m) = Some m"
  using assms by (cases m) (auto simp: maybe_def nullable_def split: json.split)

lemma with_default_here: "dict_get d k = Some j \<Longrightarrow> with_default d k x f = f j"
  by (simp add: with_default_def)

lemma req_here: "dict_get d k = Some j \<Longrightarrow> req d k f = f j"
  by (simp add: req_def)

lemma json_list_map:
  assumes "pydantic_ok px" and "\<And>x. x \<in> set xs \<Longrightarrow> f (g x) = Some x"
  shows "json_list px f (JArr (map g xs)) = Some xs"
  using assms by (simp add: json_list_def all_of_map)

lemma json_dict_map:
  assumes "\<And>k v. (k, v) \<in> set d \<Longrightarrow> fk (JStr (gk k)) = Some k \<and> fv (gv v) = Some v"
    and "distinct (map fst d)"
  shows "json_dict fk fv (JObj (map (\<lambda>(k, v). (gk k, gv v)) d)) = Some d"
proof -
  have "all_of (json_entry fk fv) (map (\<lambda>(k, v). (gk k, gv v)) d) = Some d"
    using assms(1) by (intro all_of_map) (auto simp: json_entry_def)
  then show ?thesis
    using foldl_dict_set [of "[]" d] assms(2) by (simp add: json_dict_def as_object_def)
qed

lemma cell_payload_validates:
  "pydantic_ok px \<Longrightarrow> validate_cell px (cell_payload c) = Some c"
  by (simp add: validate_cell_def cell_payload_def as_object_def no_extra_def cell_fields_def
      with_default_def nullable_maybe json_list_map)

definition tech_storable :: "tech_state \<Rightarrow> bool" where
  "tech_storable t \<longleftrightarrow> distinct (map fst (coverage t)) \<and> distinct (map fst (assessment_focus t))"

lemma tech_payload_validates:
  assumes "codec_ok cd" and "tech_storable t"
  shows "validate_tech cd (tech_payload cd t) = Some t"
  using assms
  by (simp add: validate_tech_def tech_payload_def as_object_def no_extra_def tech_fields_def
      with_default_def nullable_maybe json_list_map json_dict_map [where gk = "\<lambda>k. k"]
      json_dict_map cell_payload_validates tech_storable_def)

lemma pending_payload_validates:
  assumes "codec_ok cd"
  shows "validate_pending cd (pending_payload c) = Some c"
  using assms
  by (cases c) (simp_all add: validate_pending_def pending_payload_def json_field_def
      validate_run_interviewer_def validate_deliver_def scripted_def as_object_def no_extra_def
      req_def with_default_def nullable_maybe json_object_def)

text \<open>A state the column can hold without loss.\<close>

definition storable :: "session_state \<Rightarrow> bool" where
  "storable s \<longleftrightarrow> tech_storable (tech s) \<and> (\<forall>p. plan s = Some p \<longrightarrow> plan_ok p)"

lemma plan_payload_model_validates:
  assumes "pydantic_ok px" and "plan_ok p"
  shows "model_validate_plan px (plan_payload p) = Some p"
  using plan_payload_validates [OF assms]
  by (auto simp: validate_plan_def split: json.splits option.splits)

lemma maybe_object [simp]: "plan_payload p \<noteq> JNull" "pending_payload c \<noteq> JNull" "tech_payload cd t \<noteq> JNull"
  by (simp_all add: plan_payload_def pending_payload_def tech_payload_def split: pending_command.split)

lemma encode_validates:
  assumes "codec_ok cd" and "storable s"
  shows "validate_session cd (encode_session_state cd s) = Some s"
  using assms
  by (simp add: validate_session_def encode_session_state_def as_object_def no_extra_def
      session_fields_def req_def with_default_def nullable_maybe json_object_def
      tech_payload_validates pending_payload_validates plan_payload_model_validates storable_def)

lemma decode_encode:
  assumes "codec_ok cd" and "storable s"
  shows "decode_session_state cd (encode_session_state cd s) v =
    (if v = state_schema_version s then Inr s else Inl StateSchemaVersionError)"
  using encode_validates [OF assms]
  by (simp add: decode_session_state_def encode_session_state_def)

end
