(* ===== verification/Agents.thy ===== *)
theory Agents
  imports Llm_Props Persistence
begin

text \<open>
  The two agent wrappers, \<open>app/backend/agents/interviewer.py\<close> and
  \<open>app/backend/agents/assessor.py\<close>: prompt assembly, the user payloads, strict validation
  of the answer and the retry-once policy. \<open>call_model\<close> is an argument of each run, one per
  attempt, because its environment (clock, trace id, backend) differs between attempts;
  the properties instantiate it with the wrapper's own definition. Prompt files are the
  texts read from the pinned version directory.
\<close>

section \<open>Prompts\<close>

record prompt_files =
  pf_system :: string
  pf_level_guide :: string
  pf_anchors :: string
  pf_schema :: string

definition newline :: string where "newline = [CHR 0x0A]"

definition assessor_system_prompt :: "prompt_files \<Rightarrow> string" where
  "assessor_system_prompt pf = pf_system pf @ newline @ newline @ pf_level_guide pf"

definition interviewer_system_prompt :: "prompt_files \<Rightarrow> string" where
  "interviewer_system_prompt pf =
     strip (pf_system pf) @ newline @ newline @ strip (pf_level_guide pf) @ newline @ newline
       @ strip (pf_anchors pf) @ newline"

text \<open>
  What a run can raise: the agent's own \<open>...OutputInvalid\<close>, an exception of the call, or
  the failure to build a request at all (a broken schema file, an oversized prompt).
\<close>

datatype agent_error = OutputInvalid | CallFailed call_error | RequestInvalid

text \<open>\<open>json_schema\<close> as the request takes it; the file may hold any JSON value.\<close>

definition assessor_schema :: "prompt_files \<Rightarrow> (string, json) dict option option" where
  "assessor_schema pf = (case loads (pf_schema pf) of
     Some (JObj d) \<Rightarrow> Some (Some d) | Some JNull \<Rightarrow> Some None | _ \<Rightarrow> None)"

definition interviewer_schema :: "prompt_files \<Rightarrow> (string, json) dict option option" where
  "interviewer_schema pf = (case loads (pf_schema pf) of
     Some (JObj d) \<Rightarrow> Some (Some d) | _ \<Rightarrow> None)"

definition agent_request ::
  "string \<Rightarrow> string \<Rightarrow> string \<Rightarrow> (string, json) dict option option \<Rightarrow> uuid \<Rightarrow> model_call_request option" where
  "agent_request agent prompt payload schema sid =
     (case schema of None \<Rightarrow> None | Some sch \<Rightarrow>
       (let q = \<lparr>rq_agent = agent, rq_system_prompt = prompt, rq_user_payload = payload,
              rq_json_schema = sch, rq_session_id = sid, rq_timeout_s = 30,
              rq_max_output_tokens = 4096, rq_model_override = None\<rparr>
        in if request_ok q then Some q else None))"

section \<open>One attempt and its retry\<close>

type_synonym 'w caller = "model_call_request \<Rightarrow> 'w \<Rightarrow> 'w call_outcome"

text \<open>An attempt: the typed output, a contract miss, or an exception that propagates.\<close>

datatype 'o attempt_end = Got 'o | Missed | Raised call_error

definition attempt_once ::
  "((string, json) dict option \<Rightarrow> 'o option) \<Rightarrow> 'w caller \<Rightarrow> model_call_request \<Rightarrow> 'w \<Rightarrow> 'o attempt_end \<times> 'w" where
  "attempt_once validate call q w =
     (let out = call q w in
      ((case co_result out of
          Inl (Wrapper (VertexSchemaError _)) \<Rightarrow> Missed
        | Inl e \<Rightarrow> Raised e
        | Inr r \<Rightarrow> (case validate (res_parsed r) of None \<Rightarrow> Missed | Some x \<Rightarrow> Got x)), co_world out))"

definition settle :: "'o attempt_end \<Rightarrow> agent_error + 'o" where
  "settle a = (case a of Got x \<Rightarrow> Inr x | Missed \<Rightarrow> Inl OutputInvalid | Raised e \<Rightarrow> Inl (CallFailed e))"

definition retry_once ::
  "((string, json) dict option \<Rightarrow> 'o option) \<Rightarrow> (nat \<Rightarrow> 'w caller) \<Rightarrow> model_call_request \<Rightarrow> 'w
    \<Rightarrow> (agent_error + 'o) \<times> 'w" where
  "retry_once validate call q w =
     (case attempt_once validate (call 0) q w of
        (Missed, w1) \<Rightarrow>
          (let (second, w2) = attempt_once validate (call 1) q w1 in (settle second, w2))
      | (first, w1) \<Rightarrow> (settle first, w1))"

section \<open>The interviewer\<close>

datatype turn_role = InterviewerRole | CandidateRole

definition role_name :: "turn_role \<Rightarrow> string" where
  "role_name r = (case r of InterviewerRole \<Rightarrow> ''interviewer'' | CandidateRole \<Rightarrow> ''candidate'')"

record recent_turn =
  rt_role :: turn_role
  rt_text :: string

record interviewer_turn_inputs =
  it_session_id :: uuid
  it_plan_snapshot :: "(string, json) dict"
  it_current_competency :: "(string, json) dict"
  it_recent_turns :: "recent_turn list"
  it_next_planned_move :: interviewer_move
  it_move_context :: "(string, json) dict"
  it_candidate_first_name :: "string option"

definition interviewer_inputs_ok :: "interviewer_turn_inputs \<Rightarrow> bool" where
  "interviewer_inputs_ok i \<longleftrightarrow> length (it_recent_turns i) \<le> 8
     \<and> list_all (\<lambda>t. 1 \<le> py_len (rt_text t)) (it_recent_turns i)"

definition interviewer_payload_value :: "interviewer_turn_inputs \<Rightarrow> json" where
  "interviewer_payload_value i = JObj [
     (''interview_plan_snapshot'', JObj (it_plan_snapshot i)),
     (''current_competency'', JObj (it_current_competency i)),
     (''recent_turns'', JArr (map (\<lambda>t. JObj [(''role'', JStr (role_name (rt_role t))),
        (''text'', JStr (rt_text t))]) (it_recent_turns i))),
     (''next_planned_move'', JStr (move_name (it_next_planned_move i))),
     (''move_context'', JObj (it_move_context i)),
     (''candidate_first_name'', maybe JStr (it_candidate_first_name i))]"

definition serialize_user_payload :: "(rat \<Rightarrow> string) \<Rightarrow> interviewer_turn_inputs \<Rightarrow> string" where
  "serialize_user_payload sf i = dumps_sorted sf (interviewer_payload_value i)"

definition validate_interviewer_output ::
  "pydantic \<Rightarrow> (string, json) dict option \<Rightarrow> interviewer_output option" where
  "validate_interviewer_output px parsed = (case parsed of None \<Rightarrow> None | Some d \<Rightarrow>
     if \<not> no_extra [''utterance'', ''internal_move_executed''] d then None else do {
       u \<leftarrow> req d ''utterance'' (\<lambda>j. checked (\<lambda>s. 1 \<le> py_len s \<and> py_len s \<le> 1200) (px_str px j));
       mv \<leftarrow> req d ''internal_move_executed'' move_json;
       Some \<lparr>utterance = u, internal_move_executed = mv\<rparr> })"

definition run_interviewer_turn ::
  "pydantic \<Rightarrow> (rat \<Rightarrow> string) \<Rightarrow> prompt_files \<Rightarrow> (nat \<Rightarrow> 'w caller) \<Rightarrow> interviewer_turn_inputs \<Rightarrow> 'w
    \<Rightarrow> (agent_error + interviewer_output) \<times> 'w" where
  "run_interviewer_turn px sf pf call i w =
     (case agent_request ''interviewer'' (interviewer_system_prompt pf) (serialize_user_payload sf i)
             (interviewer_schema pf) (it_session_id i) of
        None \<Rightarrow> (Inl RequestInvalid, w)
      | Some q \<Rightarrow> retry_once (validate_interviewer_output px) call q w)"

section \<open>The assessor\<close>

record assessor_turn_input =
  at_session_id :: uuid
  at_turn_id :: uuid
  at_competency_focus :: string
  at_rubric_subset :: "(string, json) dict list"
  at_turn :: "(string, json) dict"
  at_prior_turns :: "(string, json) dict list"
  at_turn_metadata :: "(string, json) dict"

definition assessor_metadata :: "assessor_turn_input \<Rightarrow> (string, json) dict" where
  "assessor_metadata i =
     dict_set (dict_set (at_turn_metadata i) ''turn_id'' (uuid_json (at_turn_id i)))
       ''session_id'' (uuid_json (at_session_id i))"

definition assessor_payload_value :: "assessor_turn_input \<Rightarrow> json" where
  "assessor_payload_value i = JObj [
     (''rubric_snapshot_subset'', JArr (map JObj (at_rubric_subset i))),
     (''turn'', JObj (at_turn i)),
     (''prior_turns'', JArr (map JObj (at_prior_turns i))),
     (''competency_focus'', JStr (at_competency_focus i)),
     (''turn_metadata'', JObj (assessor_metadata i))]"

definition to_user_payload :: "(rat \<Rightarrow> string) \<Rightarrow> assessor_turn_input \<Rightarrow> string" where
  "to_user_payload sf i = dumps sf (assessor_payload_value i)"

text \<open>\<open>Literal[0, ..., 5]\<close> admits exactly these integers.\<close>

definition level_json :: "json \<Rightarrow> int option" where
  "level_json j = (case j of JInt n \<Rightarrow> if 0 \<le> n \<and> n \<le> 5 then Some n else None | _ \<Rightarrow> None)"

definition validate_assessment_item :: "pydantic \<Rightarrow> json \<Rightarrow> assessment_item option" where
  "validate_assessment_item px = as_object (\<lambda>d.
     if \<not> no_extra [''rubric_node_id'', ''level'', ''confidence'', ''rationale_en'', ''evidence_spans''] d
     then None else do {
       n \<leftarrow> req d ''rubric_node_id'' (px_str px);
       l \<leftarrow> req d ''level'' level_json;
       c \<leftarrow> req d ''confidence'' (\<lambda>j. checked (\<lambda>q. 0 \<le> q \<and> q \<le> 99 / 100) (px_float px j));
       r \<leftarrow> req d ''rationale_en'' (\<lambda>j. checked (\<lambda>s. 1 \<le> py_len s \<and> py_len s \<le> 600) (px_str px j));
       e \<leftarrow> req d ''evidence_spans'' (\<lambda>j. checked (\<lambda>xs. xs \<noteq> [])
              (json_list px (\<lambda>j. checked (\<lambda>s. 1 \<le> py_len s) (px_str px j)) j));
       Some \<lparr>rubric_node_id = n, level = l, confidence = c, rationale_en = r, evidence_spans = e\<rparr> })"

definition validate_red_flag :: "pydantic \<Rightarrow> json \<Rightarrow> red_flag_item option" where
  "validate_red_flag px = as_object (\<lambda>d.
     if \<not> no_extra [''type'', ''rubric_node_id'', ''description_en'', ''evidence_span''] d
     then None else do {
       t \<leftarrow> req d ''type'' red_flag_json;
       n \<leftarrow> with_default d ''rubric_node_id'' None (nullable (px_str px));
       s \<leftarrow> req d ''description_en'' (\<lambda>j. checked (\<lambda>s. 1 \<le> py_len s \<and> py_len s \<le> 400) (px_str px j));
       e \<leftarrow> with_default d ''evidence_span'' None (nullable (px_str px));
       Some \<lparr>flag_type = t, flag_rubric_node_id = n, description_en = s, evidence_span = e\<rparr> })"

definition validate_assessor_output ::
  "codec \<Rightarrow> (string, json) dict option \<Rightarrow> assessor_output option" where
  "validate_assessor_output cd parsed = (case parsed of None \<Rightarrow> None | Some d \<Rightarrow>
     if \<not> no_extra [''turn_id'', ''session_id'', ''competency_focus'', ''assessments'', ''red_flags'',
          ''needs_manual_review'', ''manual_review_reason_en''] d
     then None else do {
       t \<leftarrow> req d ''turn_id'' (cd_uuid cd);
       s \<leftarrow> req d ''session_id'' (cd_uuid cd);
       c \<leftarrow> req d ''competency_focus'' (px_str (cd_px cd));
       a \<leftarrow> req d ''assessments'' (json_list (cd_px cd) (validate_assessment_item (cd_px cd)));
       r \<leftarrow> req d ''red_flags'' (json_list (cd_px cd) (validate_red_flag (cd_px cd)));
       n \<leftarrow> req d ''needs_manual_review'' (px_bool (cd_px cd));
       w \<leftarrow> with_default d ''manual_review_reason_en'' None
             (nullable (\<lambda>j. checked (\<lambda>s. py_len s \<le> 400) (px_str (cd_px cd) j)));
       Some \<lparr>out_turn_id = t, out_session_id = s, competency_focus = c, assessments = a,
         red_flag_items = r, out_needs_manual_review = n, manual_review_reason_en = w\<rparr> })"

text \<open>\<open>_score_once\<close>: the echoed ids must equal the request's.\<close>

definition echo_checked ::
  "codec \<Rightarrow> assessor_turn_input \<Rightarrow> (string, json) dict option \<Rightarrow> assessor_output option" where
  "echo_checked cd i parsed =
     checked (\<lambda>out. out_turn_id out = at_turn_id i \<and> out_session_id out = at_session_id i
       \<and> competency_focus out = at_competency_focus i) (validate_assessor_output cd parsed)"

definition run_assessor_turn ::
  "codec \<Rightarrow> (rat \<Rightarrow> string) \<Rightarrow> prompt_files \<Rightarrow> (nat \<Rightarrow> 'w caller) \<Rightarrow> assessor_turn_input \<Rightarrow> 'w
    \<Rightarrow> (agent_error + assessor_output) \<times> 'w" where
  "run_assessor_turn cd sf pf call i w =
     (case agent_request ''assessor'' (assessor_system_prompt pf) (to_user_payload sf i)
             (assessor_schema pf) (at_session_id i) of
        None \<Rightarrow> (Inl RequestInvalid, w)
      | Some q \<Rightarrow> retry_once (echo_checked cd i) call q w)"

section \<open>What a validated answer satisfies\<close>

lemma validate_interviewer_output_ok:
  "validate_interviewer_output px parsed = Some out \<Longrightarrow> interviewer_output_ok out"
  by (auto simp: validate_interviewer_output_def req_Some bind_eq_Some_conv interviewer_output_ok_def
      split: option.splits if_splits)

lemma json_list_range:
  assumes "json_list px f j = Some ys" and "\<And>x y. f x = Some y \<Longrightarrow> P y"
  shows "list_all P ys"
  using assms all_of_range [of f _ ys P] by (auto simp: json_list_def list_all_iff split: option.splits)

lemma level_json_Some: "level_json j = Some n \<longleftrightarrow> j = JInt n \<and> 0 \<le> n \<and> n \<le> 5"
  by (cases j) (auto simp: level_json_def)

lemma validate_assessment_item_ok:
  "validate_assessment_item px j = Some i \<Longrightarrow> assessment_item_ok i"
  by (auto simp: validate_assessment_item_def as_object_Some req_Some bind_eq_Some_conv
      assessment_item_ok_def level_json_Some split: if_splits
      elim!: json_list_range)

lemma validate_red_flag_ok: "validate_red_flag px j = Some r \<Longrightarrow> red_flag_item_ok r"
  by (auto simp: validate_red_flag_def as_object_Some req_Some bind_eq_Some_conv
      red_flag_item_ok_def split: if_splits)

lemma nullable_range:
  "nullable f j = Some m \<Longrightarrow> (\<And>x y. f x = Some y \<Longrightarrow> P y) \<Longrightarrow> (case m of None \<Rightarrow> True | Some y \<Rightarrow> P y)"
  by (cases j) (auto simp: nullable_def split: option.splits)

lemma validate_assessor_output_ok:
  assumes "validate_assessor_output cd parsed = Some out"
  shows "assessor_output_ok out"
proof -
  from assms obtain ja jr d where
    a: "json_list (cd_px cd) (validate_assessment_item (cd_px cd)) ja = Some (assessments out)" and
    r: "json_list (cd_px cd) (validate_red_flag (cd_px cd)) jr = Some (red_flag_items out)" and
    w: "with_default d ''manual_review_reason_en'' None
          (nullable (\<lambda>j. checked (\<lambda>s. py_len s \<le> 400) (px_str (cd_px cd) j)))
          = Some (manual_review_reason_en out)"
    by (auto simp: validate_assessor_output_def req_Some bind_eq_Some_conv
        split: option.splits if_splits)
  have "case manual_review_reason_en out of None \<Rightarrow> True | Some s \<Rightarrow> py_len s \<le> 400"
    using w by (auto simp: with_default_def dest: nullable_range [where P = "\<lambda>s. py_len s \<le> 400"]
        split: option.splits)
  with json_list_range [OF a validate_assessment_item_ok] json_list_range [OF r validate_red_flag_ok]
  show ?thesis by (simp add: assessor_output_ok_def)
qed

section \<open>The retry\<close>

lemma attempt_once_Got:
  "attempt_once v call q w = (Got x, w') \<Longrightarrow>
     \<exists>r. co_result (call q w) = Inr r \<and> v (res_parsed r) = Some x"
  by (auto simp: attempt_once_def Let_def
      split: sum.splits option.splits call_error.splits wrapper_error.splits)

lemma retry_once_result:
  assumes "retry_once v call q w = (Inr x, w')"
  obtains k w0 r where "k \<in> {0, 1}" "co_result (call k q w0) = Inr r" "v (res_parsed r) = Some x"
  using assms
  by (auto simp: retry_once_def settle_def split: prod.splits attempt_end.splits
      dest!: attempt_once_Got)

text \<open>
  The trail of one attempt: its own trace when it missed or succeeded; at most that when it
  raised.
\<close>

definition traced :: "uuid list \<Rightarrow> uuid list \<Rightarrow> uuid \<Rightarrow> 'o attempt_end \<Rightarrow> bool" where
  "traced before after tid a \<longleftrightarrow>
     (case a of Raised _ \<Rightarrow> after = before \<or> after = before @ [tid] | _ \<Rightarrow> after = before @ [tid])"

context llm_world
begin

lemma attempt_once_traced:
  assumes "env_ok env" and "attempt_once v (call_model store total add env) q w = (a, w')"
  shows "traced (ids w) (ids w') (ev_trace_id env) a"
  using assms(2) call_model_audited [OF assms(1), of w q]
  by (auto simp: attempt_once_def Let_def audited_def traced_def
      split: sum.splits option.splits call_error.splits wrapper_error.splits)

lemma retry_once_traced:
  assumes "env_ok (env 0)" and "env_ok (env 1)"
    and "retry_once v (\<lambda>k. call_model store total add (env k)) q w = (res, w')"
  shows "(\<exists>n \<le> 2. ids w' = ids w @ take n [ev_trace_id (env 0), ev_trace_id (env 1)]
      \<and> ((\<exists>x. res = Inr x) \<longrightarrow> 1 \<le> n) \<and> (res = Inl OutputInvalid \<longrightarrow> n = 2))
    \<and> res \<noteq> Inl RequestInvalid"
proof -
  obtain a w1 where a: "attempt_once v (call_model store total add (env 0)) q w = (a, w1)"
    by fastforce
  note t1 = attempt_once_traced [OF assms(1) a]
  show ?thesis
  proof (cases a)
    case (Got x)
    with a t1 assms(3) show ?thesis
      by (auto simp: retry_once_def traced_def settle_def intro!: exI [of _ 1])
  next
    case (Raised e)
    with a t1 assms(3) show ?thesis
      by (auto simp: retry_once_def traced_def settle_def intro: exI [of _ 0] exI [of _ 1])
  next
    case Missed
    obtain b w2 where b: "attempt_once v (call_model store total add (env 1)) q w1 = (b, w2)"
      by fastforce
    note t2 = attempt_once_traced [OF assms(2) b]
    have "ids w1 = ids w @ [ev_trace_id (env 0)]" using Missed t1 by (simp add: traced_def)
    moreover have "w' = w2" "res = settle b"
      using a b Missed assms(3) by (simp_all add: retry_once_def)
    ultimately show ?thesis
      using t2 by (cases b) (auto simp: traced_def settle_def intro: exI [of _ 2] exI [of _ 1])
  qed
qed

end

end
