(* ===== verification/Dev_Session.thy ===== *)
theory Dev_Session
  imports Agents
begin

text \<open>
  \<open>app/backend/services/dev_session.py\<close>: the imperative shell around the pure core. It
  loads a session, applies an event, persists, executes the commands and folds the
  resulting events back in. The world is the database (session rows, transcripts,
  decisions, the \<open>turn_trace\<close> rows), the scheduler's queue and a counter of the calls
  made to the outside; the environment answers the \<open>n\<close>th such call (the clock, the
  ceiling flag, one \<open>call_model\<close> environment per model call). An exception keeps every
  effect committed before it, so an operation returns its result and the world.
\<close>

section \<open>The world\<close>

datatype transcript_role = ByInterviewer | ByCandidate | BySystem

record transcript_entry =
  te_role :: transcript_role
  te_text :: string
  te_turn_id :: "uuid option"

record assessor_task =
  ta_session_id :: uuid
  ta_turn_id :: uuid
  ta_inputs :: assessor_turn_input
  ta_phase :: string
  ta_before_sha :: string
  ta_after_sha :: string

record world =
  wd_states :: state_column
  wd_transcripts :: "(uuid, json) dict"
  wd_decisions :: "(uuid \<times> string) list"
  wd_pg :: pg_world
  wd_tasks :: "assessor_task list"
  wd_tick :: nat

record shell_env =
  sh_codec :: codec
  sh_config :: orchestrator_config
  sh_float_text :: "rat \<Rightarrow> string"
  sh_interviewer_files :: prompt_files
  sh_assessor_files :: prompt_files
  sh_read_file :: "string \<Rightarrow> string option"
  sh_ceiling_usd :: rat
  sh_now :: "nat \<Rightarrow> time"
  sh_enforced :: "nat \<Rightarrow> bool"
  sh_call :: "nat \<Rightarrow> call_env"

record working =
  wk_session_id :: uuid
  wk_state :: session_state
  wk_transcript :: "transcript_entry list"

datatype shell_error =
    DevSessionError
  | DevSessionNotFound
  | DevSessionPlanInvalid
  | DevSessionNotAwaitingCandidate
  | DevSessionRunawayError
  | PersistenceFailed persistence_error
  | MachineError orchestrator_error
  | AgentEscaped agent_error
  | TranscriptInvalid
  | DatabaseError

text \<open>The rest of a computation, unless an exception was raised.\<close>

definition and_run ::
  "(shell_error + 'a) \<times> 'w \<Rightarrow> ('a \<Rightarrow> 'w \<Rightarrow> (shell_error + 'b) \<times> 'w) \<Rightarrow> (shell_error + 'b) \<times> 'w" where
  "and_run m f = (case m of (Inl e, w) \<Rightarrow> (Inl e, w) | (Inr x, w) \<Rightarrow> f x w)"

definition tick :: "world \<Rightarrow> world" where
  "tick w = w\<lparr>wd_tick := wd_tick w + 1\<rparr>"

definition clock_now :: "shell_env \<Rightarrow> world \<Rightarrow> time" where
  "clock_now env w = sh_now env (wd_tick w)"

section \<open>Scripts\<close>

definition join_lines :: "string list \<Rightarrow> string" where
  "join_lines ls = concat (map (\<lambda>(i, l). if i = 0 then l else newline @ l) (enumerate 0 ls))"

text \<open>The blockquote under the \<open>## String\<close> heading, line by line.\<close>

fun script_lines :: "bool \<Rightarrow> string list \<Rightarrow> string list \<Rightarrow> string list" where
  "script_lines collecting acc [] = acc"
| "script_lines collecting acc (raw # rest) =
     (let s = strip raw in
      if starts_with ''## string'' (lower s) then script_lines True acc rest
      else if \<not> collecting then script_lines False acc rest
      else if starts_with ''## '' s \<or> (starts_with ''---'' s \<and> acc \<noteq> []) then acc
      else if starts_with ''>'' s
      then script_lines True (acc @ [strip (dropWhile (\<lambda>c. c = CHR ''>'') s)]) rest
      else script_lines True acc rest)"

text \<open>\<open>re.sub\<close> of three or more newlines by two.\<close>

fun collapse :: "nat \<Rightarrow> string \<Rightarrow> string" where
  "collapse n [] = []"
| "collapse n (c # s) =
     (if c = CHR 0x0A then (if n < 2 then c # collapse (Suc n) s else collapse (Suc n) s)
      else c # collapse 0 s)"

definition extract_script :: "string \<Rightarrow> shell_error + string" where
  "extract_script markdown =
     (let out = strip (join_lines (script_lines False [] (splitlines markdown)))
      in if out = '''' then Inl DevSessionError else Inr (collapse 0 out))"

fun replace_all :: "string \<Rightarrow> string \<Rightarrow> nat \<Rightarrow> string \<Rightarrow> string" where
  "replace_all p r skip [] = []"
| "replace_all p r (Suc k) (c # s) = replace_all p r k s"
| "replace_all p r 0 (c # s) =
     (if starts_with p (c # s) then r @ replace_all p r (length p - 1) s
      else c # replace_all p r 0 s)"

definition placeholder :: "string \<Rightarrow> string" where
  "placeholder name = ''{'' @ name @ ''}''"

definition render_script ::
  "shell_env \<Rightarrow> string \<Rightarrow> (string, string) dict \<Rightarrow> shell_error + string" where
  "render_script env path vars =
     (case sh_read_file env path of
        None \<Rightarrow> Inl DevSessionError
      | Some markdown \<Rightarrow>
          and_then (extract_script markdown) (\<lambda>s.
            Inr (foldl (\<lambda>t (name, v). replace_all (placeholder name) v 0 t) s vars)))"

text \<open>The fallbacks are UTF-8 Ukrainian.\<close>

definition fallback_first_name :: string where
  "fallback_first_name = [CHR 0xD0, CHR 0xBA, CHR 0xD0, CHR 0xBE, CHR 0xD0, CHR 0xBB, CHR 0xD0,
     CHR 0xB5, CHR 0xD0, CHR 0xB3, CHR 0xD0, CHR 0xBE]"

definition fallback_area :: string where
  "fallback_area = [CHR 0xD1, CHR 0x82, CHR 0xD0, CHR 0xB5, CHR 0xD1, CHR 0x85, CHR 0xD0, CHR 0xBD,
     CHR 0xD1, CHR 0x96, CHR 0xD1, CHR 0x87, CHR 0xD0, CHR 0xBD, CHR 0xD0, CHR 0xB5, CHR 0x20,
     CHR 0xD1, CHR 0x96, CHR 0xD0, CHR 0xBD, CHR 0xD1, CHR 0x82, CHR 0xD0, CHR 0xB5, CHR 0xD1,
     CHR 0x80, CHR 0xD0, CHR 0xB2, CHR 0x27, CHR 0xD1, CHR 0x8E]"

definition script_variables :: "working \<Rightarrow> shell_error + (string, string) dict" where
  "script_variables wk = (case plan (wk_state wk) of
     None \<Rightarrow> Inr [(''FirstName'', fallback_first_name), (''Area'', fallback_area),
                  (''ExpectedMinutes'', ''30'')]
   | Some p \<Rightarrow> (case competencies p of
       [] \<Rightarrow> Inl (MachineError IndexError)
     | c # _ \<Rightarrow> Inr [(''FirstName'', fallback_first_name), (''Area'', label_uk c),
                     (''ExpectedMinutes'', show_int (session_max_minutes p))]))"

section \<open>Agent inputs\<close>

definition state_sha :: "shell_env \<Rightarrow> session_state \<Rightarrow> string" where
  "state_sha env s =
     sha256_hex (dumps_sorted (sh_float_text env) (encode_session_state (sh_codec env) s))"

definition candidate_turn_id :: "uuid \<Rightarrow> int \<Rightarrow> uuid" where
  "candidate_turn_id sid ordinal = uuid5 sid (''candidate-turn/'' @ show_int ordinal)"

definition find_competency :: "session_state \<Rightarrow> string option \<Rightarrow> planned_competency option" where
  "find_competency s node = (case (node, plan s) of
     (Some n, Some p) \<Rightarrow> find (\<lambda>c. node_id c = n) (competencies p) | _ \<Rightarrow> None)"

definition spoken :: "transcript_entry list \<Rightarrow> transcript_entry list" where
  "spoken = filter (\<lambda>t. te_text t \<noteq> '''')"

definition recent_turns :: "working \<Rightarrow> recent_turn list" where
  "recent_turns wk = map (\<lambda>t. \<lparr>
       rt_role = (if te_role t = ByCandidate then CandidateRole else InterviewerRole),
       rt_text = te_text t\<rparr>) (last_n 8 (spoken (wk_transcript wk)))"

definition object_of :: "json \<Rightarrow> (string, json) dict" where
  "object_of j = (case j of JObj d \<Rightarrow> d | _ \<Rightarrow> [])"

definition interviewer_inputs :: "working \<Rightarrow> run_interviewer \<Rightarrow> interviewer_turn_inputs" where
  "interviewer_inputs wk r = \<lparr>
     it_session_id = wk_session_id wk,
     it_plan_snapshot = (case plan (wk_state wk) of None \<Rightarrow> [] | Some p \<Rightarrow> object_of (plan_payload p)),
     it_current_competency =
       (case find_competency (wk_state wk) (ri_competency_node_id r) of
          None \<Rightarrow> [] | Some c \<Rightarrow> object_of (competency_payload c)),
     it_recent_turns = recent_turns wk,
     it_next_planned_move = ri_move r,
     it_move_context = ri_move_context r,
     it_candidate_first_name = None\<rparr>"

definition role_text :: "transcript_role \<Rightarrow> string" where
  "role_text r = (case r of ByInterviewer \<Rightarrow> ''interviewer'' | ByCandidate \<Rightarrow> ''candidate''
     | BySystem \<Rightarrow> ''system'')"

definition assessor_inputs :: "working \<Rightarrow> uuid \<Rightarrow> string \<Rightarrow> assessor_turn_input" where
  "assessor_inputs wk turn focus =
     (let exchanges = spoken (wk_transcript wk);
          answer = (case find (\<lambda>t. te_role t = ByCandidate) (rev exchanges) of
                      None \<Rightarrow> '''' | Some t \<Rightarrow> te_text t);
          question = (case find (\<lambda>t. te_role t \<noteq> ByCandidate) (rev (butlast exchanges)) of
                        None \<Rightarrow> '''' | Some t \<Rightarrow> te_text t)
      in \<lparr>at_session_id = wk_session_id wk, at_turn_id = turn, at_competency_focus = focus,
          at_rubric_subset = [],
          at_turn = [(''question'', JStr question), (''answer'', JStr answer)],
          at_prior_turns = map (\<lambda>t. [(''role'', JStr (role_text (te_role t))), (''text'', JStr (te_text t))])
            (last_n 4 (butlast (butlast exchanges))),
          at_turn_metadata = []\<rparr>)"

section \<open>Persistence\<close>

definition entry_payload :: "transcript_entry \<Rightarrow> json" where
  "entry_payload t = JObj [(''role'', JStr (role_text (te_role t))), (''text'', JStr (te_text t)),
     (''turn_id'', maybe uuid_json (te_turn_id t))]"

definition role_json :: "json \<Rightarrow> transcript_role option" where
  "role_json = enum_of role_text [ByInterviewer, ByCandidate, BySystem]"

definition validate_entry :: "codec \<Rightarrow> json \<Rightarrow> transcript_entry option" where
  "validate_entry cd = as_object (\<lambda>d.
     if \<not> no_extra [''role'', ''text'', ''turn_id''] d then None else do {
       r \<leftarrow> req d ''role'' role_json;
       s \<leftarrow> req d ''text'' (px_str (cd_px cd));
       u \<leftarrow> with_default d ''turn_id'' None (nullable (cd_uuid cd));
       Some \<lparr>te_role = r, te_text = s, te_turn_id = u\<rparr> })"

definition decode_transcript ::
  "codec \<Rightarrow> json option \<Rightarrow> shell_error + transcript_entry list" where
  "decode_transcript cd raw = (case raw of
     None \<Rightarrow> Inr []
   | Some JNull \<Rightarrow> Inr []
   | Some (JArr xs) \<Rightarrow> (case all_of (validate_entry cd) xs of
        None \<Rightarrow> Inl TranscriptInvalid | Some ts \<Rightarrow> Inr ts)
   | Some _ \<Rightarrow> Inl DevSessionError)"

text \<open>One transaction: the state and the transcript, or neither.\<close>

definition persist :: "shell_env \<Rightarrow> working \<Rightarrow> world \<Rightarrow> (shell_error + unit) \<times> world" where
  "persist env wk w =
     (case save_session_state (sh_codec env) (wd_states w) (wk_session_id wk) (wk_state wk) of
        Inl e \<Rightarrow> (Inl (PersistenceFailed e), w)
      | Inr states \<Rightarrow>
          (Inr (), w\<lparr>wd_states := states,
             wd_transcripts := dict_set (wd_transcripts w) (wk_session_id wk)
               (JArr (map entry_payload (wk_transcript wk)))\<rparr>))"

definition load :: "shell_env \<Rightarrow> uuid \<Rightarrow> world \<Rightarrow> shell_error + working" where
  "load env sid w =
     (case load_session_state (sh_codec env) (wd_states w) sid
             (config_schema_version (sh_config env)) of
        Inl InterviewSessionNotFound \<Rightarrow> Inl DevSessionNotFound
      | Inl e \<Rightarrow> Inl (PersistenceFailed e)
      | Inr None \<Rightarrow> Inl DevSessionNotFound
      | Inr (Some s) \<Rightarrow>
          and_then (decode_transcript (sh_codec env) (dict_get (wd_transcripts w) sid)) (\<lambda>ts.
            Inr \<lparr>wk_session_id = sid, wk_state = s, wk_transcript = ts\<rparr>))"

definition insert_session :: "uuid \<Rightarrow> world \<Rightarrow> (shell_error + unit) \<times> world" where
  "insert_session sid w =
     (if dict_get (wd_states w) sid \<noteq> None then (Inl DatabaseError, w)
      else (Inr (), w\<lparr>wd_states := dict_set (wd_states w) sid None,
              wd_pg := (wd_pg w)\<lparr>pg_db := (pg_db (wd_pg w))\<lparr>
                db_sessions := db_sessions (pg_db (wd_pg w)) @ [sid]\<rparr>\<rparr>\<rparr>))"

definition decision_name :: "decision_reason \<Rightarrow> string" where
  "decision_name r = (case r of PlanInvalidDecision \<Rightarrow> ''plan_invalid''
     | AgentFailure \<Rightarrow> ''agent_failure'' | Timeout \<Rightarrow> ''timeout''
     | OperatorDecision \<Rightarrow> ''operator'' | CompletedDecision \<Rightarrow> ''completed'')"

definition record_decision :: "working \<Rightarrow> decision_reason \<Rightarrow> world \<Rightarrow> world" where
  "record_decision wk r w =
     (let reason = (case (r, abort_reason (wk_state wk)) of
            (OperatorDecision, Some a) \<Rightarrow> abort_name a | _ \<Rightarrow> decision_name r)
      in w\<lparr>wd_decisions := wd_decisions w @ [(wk_session_id wk, reason)]\<rparr>)"

section \<open>Agent calls\<close>

text \<open>\<open>type(exc).__name__\<close> of a wrapper error.\<close>

definition wrapper_error_name :: "wrapper_error \<Rightarrow> string" where
  "wrapper_error_name e = (case e of
     WrapperErrorBase \<Rightarrow> ''WrapperError''
   | ModelCallConfigError \<Rightarrow> ''ModelCallConfigError''
   | VertexTimeoutError \<Rightarrow> ''VertexTimeoutError''
   | VertexUpstreamUnavailableError \<Rightarrow> ''VertexUpstreamUnavailableError''
   | VertexSchemaError _ \<Rightarrow> ''VertexSchemaError''
   | SessionBudgetExceeded \<Rightarrow> ''SessionBudgetExceeded''
   | TraceWriteError \<Rightarrow> ''TraceWriteError'')"

definition model_caller :: "shell_env \<Rightarrow> world \<Rightarrow> nat \<Rightarrow> pg_world caller" where
  "model_caller env w k = call_model pg_write pg_total pg_add (sh_call env (wd_tick w + k))"

definition over_ceiling :: "shell_env \<Rightarrow> uuid \<Rightarrow> world \<Rightarrow> bool" where
  "over_ceiling env sid w =
     (fst (guard_session_budget (sh_ceiling_usd env) (Some (sh_enforced env (wd_tick w))) (wd_pg w) sid)
        = Inl SessionBudgetExceeded)"

definition turn_context ::
  "string \<Rightarrow> uuid \<Rightarrow> string \<Rightarrow> string \<Rightarrow> string \<Rightarrow> string option \<Rightarrow> string \<Rightarrow> string \<Rightarrow> turn_trace_context" where
  "turn_context version turn prompt payload ph move before after = \<lparr>
     cx_prompt_version = version, cx_turn_id = Some turn, cx_system_prompt = prompt,
     cx_user_payload = payload, cx_wrapper_outcome = None,
     cx_transition = Some \<lparr>tc_phase = ph, tc_issued_move = move, tc_state_before_sha = before,
       tc_state_after_sha = after\<rparr>\<rparr>"

text \<open>A run under \<open>sink.bind\<close>; its two model calls have two environments.\<close>

definition bound_run ::
  "turn_trace_context \<Rightarrow> (pg_world \<Rightarrow> 'r \<times> pg_world) \<Rightarrow> world \<Rightarrow> 'r \<times> world" where
  "bound_run cx body w =
     (let (r, pg) = pg_bind cx body (wd_pg w) in (r, w\<lparr>wd_pg := pg, wd_tick := wd_tick w + 2\<rparr>))"

definition shell_run_interviewer ::
  "shell_env \<Rightarrow> working \<Rightarrow> run_interviewer \<Rightarrow> string \<Rightarrow> string \<Rightarrow> world
    \<Rightarrow> (shell_error + event list) \<times> world" where
  "shell_run_interviewer env wk r before after w =
     (if over_ceiling env (wk_session_id wk) w
      then (Inr [OperatorAbort CostCeiling (clock_now env (tick w))], tick (tick w))
      else
        let w1 = tick w; i = interviewer_inputs wk r;
            cx = turn_context ''v0001'' (ri_turn_id r)
                   (interviewer_system_prompt (sh_interviewer_files env))
                   (serialize_user_payload (sh_float_text env) i)
                   (phase_name (phase (wk_state wk))) (Some (move_name (ri_move r))) before after
        in if \<not> interviewer_inputs_ok i then (Inl (AgentEscaped RequestInvalid), w1)
           else (case bound_run cx (run_interviewer_turn (cd_px (sh_codec env)) (sh_float_text env)
                        (sh_interviewer_files env) (model_caller env w1) i) w1 of
             (Inr out, w2) \<Rightarrow> (Inr [InterviewerReplyReady (ri_turn_id r) out (clock_now env w2)], tick w2)
           | (Inl OutputInvalid, w2) \<Rightarrow>
               (Inr [InterviewerFailed (ri_turn_id r) ''interviewer_output_invalid'' (clock_now env w2)], tick w2)
           | (Inl (CallFailed (Wrapper e)), w2) \<Rightarrow>
               (Inr [InterviewerFailed (ri_turn_id r) (wrapper_error_name e) (clock_now env w2)], tick w2)
           | (Inl e, w2) \<Rightarrow> (Inl (AgentEscaped e), w2)))"

definition schedule_task ::
  "working \<Rightarrow> uuid \<Rightarrow> string \<Rightarrow> string \<Rightarrow> string \<Rightarrow> world \<Rightarrow> (shell_error + unit) \<times> world" where
  "schedule_task wk turn focus before after w =
     (if py_len focus < 1 then (Inl (AgentEscaped RequestInvalid), w)
      else (Inr (), w\<lparr>wd_tasks := wd_tasks w @ [\<lparr>ta_session_id = wk_session_id wk,
          ta_turn_id = turn, ta_inputs = assessor_inputs wk turn focus,
          ta_phase = phase_name (phase (wk_state wk)), ta_before_sha = before,
          ta_after_sha = after\<rparr>]\<rparr>))"

definition shell_run_assessor ::
  "shell_env \<Rightarrow> assessor_task \<Rightarrow> world \<Rightarrow> (shell_error + event) \<times> world" where
  "shell_run_assessor env t w =
     (if over_ceiling env (ta_session_id t) w
      then (Inr (OperatorAbort CostCeiling (clock_now env (tick w))), tick (tick w))
      else
        let w1 = tick w;
            cx = turn_context ''v0003'' (ta_turn_id t)
                   (assessor_system_prompt (sh_assessor_files env))
                   (to_user_payload (sh_float_text env) (ta_inputs t))
                   (ta_phase t) None (ta_before_sha t) (ta_after_sha t)
        in (case bound_run cx (run_assessor_turn (sh_codec env) (sh_float_text env)
                     (sh_assessor_files env) (model_caller env w1) (ta_inputs t)) w1 of
             (Inr out, w2) \<Rightarrow> (Inr (AssessmentCompleted (ta_turn_id t) out (clock_now env w2)), tick w2)
           | (Inl OutputInvalid, w2) \<Rightarrow>
               (Inr (AssessmentFailed (ta_turn_id t) ''assessor_output_invalid'' (clock_now env w2)), tick w2)
           | (Inl (CallFailed (Wrapper e)), w2) \<Rightarrow>
               (Inr (AssessmentFailed (ta_turn_id t) (wrapper_error_name e) (clock_now env w2)), tick w2)
           | (Inl e, w2) \<Rightarrow> (Inl (AgentEscaped e), w2)))"

section \<open>Commands\<close>

text \<open>A command's effect: the transcript may grow, the world changes, events follow.\<close>

definition append_entry :: "working \<Rightarrow> transcript_role \<Rightarrow> string \<Rightarrow> uuid \<Rightarrow> working" where
  "append_entry wk role said turn =
     wk\<lparr>wk_transcript := wk_transcript wk @ [\<lparr>te_role = role, te_text = said, te_turn_id = Some turn\<rparr>]\<rparr>"

definition emit_script ::
  "shell_env \<Rightarrow> working \<Rightarrow> uuid \<Rightarrow> string \<Rightarrow> shell_error + working" where
  "emit_script env wk turn path =
     and_then (script_variables wk) (\<lambda>vars.
     and_then (render_script env path vars) (\<lambda>s. Inr (append_entry wk BySystem s turn)))"

definition execute_pending ::
  "shell_env \<Rightarrow> string \<Rightarrow> string \<Rightarrow> working \<Rightarrow> pending_command \<Rightarrow> world
    \<Rightarrow> (shell_error + working \<times> event list) \<times> world" where
  "execute_pending env before after wk c w = (case c of
     EmitScriptedOpening turn path \<Rightarrow>
       (case emit_script env wk turn path of Inl e \<Rightarrow> (Inl e, w) | Inr wk' \<Rightarrow> (Inr (wk', []), w))
   | EmitScriptedClosing turn path \<Rightarrow>
       (case emit_script env wk turn path of
          Inl e \<Rightarrow> (Inl e, w) | Inr wk' \<Rightarrow> (Inr (wk', [TimerTick (clock_now env w)]), tick w))
   | DeliverUtterance turn said \<Rightarrow> (Inr (append_entry wk ByInterviewer said turn, []), w)
   | RunInterviewer r \<Rightarrow>
       and_run (shell_run_interviewer env wk r before after w) (\<lambda>es w'. (Inr (wk, es), w')))"

definition execute_one ::
  "shell_env \<Rightarrow> string \<Rightarrow> string \<Rightarrow> working \<Rightarrow> command \<Rightarrow> world
    \<Rightarrow> (shell_error + working \<times> event list) \<times> world" where
  "execute_one env before after wk c w = (case c of
     PersistState \<Rightarrow> (Inr (wk, []), w)
   | Outbound p \<Rightarrow> execute_pending env before after wk p w
   | RunAssessor turn focus \<Rightarrow>
       and_run (schedule_task wk turn focus before after w) (\<lambda>_ w'. (Inr (wk, []), w'))
   | ReissuePendingCommand p \<Rightarrow> execute_pending env before after wk p w
   | RecordDecision r \<Rightarrow> (Inr (wk, []), record_decision wk r w)
   | RecordGap _ _ \<Rightarrow> (Inr (wk, []), w)
   | FlagTurnDegraded _ _ \<Rightarrow> (Inr (wk, []), w)
   | EndSession \<Rightarrow> (Inr (wk, []), w))"

fun execute ::
  "shell_env \<Rightarrow> string \<Rightarrow> string \<Rightarrow> working \<Rightarrow> command list \<Rightarrow> world
    \<Rightarrow> (shell_error + working \<times> event list) \<times> world" where
  "execute env before after wk [] w = (Inr (wk, []), w)"
| "execute env before after wk (c # cs) w =
     and_run (execute_one env before after wk c w) (\<lambda>(wk1, es) w1.
     and_run (execute env before after wk1 cs w1) (\<lambda>(wk2, fs) w2. (Inr (wk2, es @ fs), w2)))"

section \<open>The drive loop\<close>

definition drive_step ::
  "shell_env \<Rightarrow> working \<Rightarrow> event \<Rightarrow> world \<Rightarrow> (shell_error + working \<times> event list) \<times> world" where
  "drive_step env wk e w =
     (case transition (cd_px (sh_codec env)) (wk_state wk) e (sh_config env) of
        Inl err \<Rightarrow> (Inl (MachineError err), w)
      | Inr r \<Rightarrow>
          (let before = state_sha env (wk_state wk); wk1 = wk\<lparr>wk_state := new_state r\<rparr>;
               after = state_sha env (new_state r)
           in and_run (persist env wk1 w) (\<lambda>_ w1.
              and_run (execute env before after wk1 (commands r) w1) (\<lambda>(wk2, follow_ups) w2.
                if length (wk_transcript wk2) \<noteq> length (wk_transcript wk1)
                then and_run (persist env wk2 w2) (\<lambda>_ w3. (Inr (wk2, follow_ups), w3))
                else (Inr (wk2, follow_ups), w2)))))"

definition max_drive_steps :: nat where "max_drive_steps = 64"

fun drive_loop ::
  "shell_env \<Rightarrow> nat \<Rightarrow> working \<Rightarrow> event list \<Rightarrow> world \<Rightarrow> (shell_error + working) \<times> world" where
  "drive_loop env steps wk [] w = (Inr wk, w)"
| "drive_loop env 0 wk (e # queue) w = (Inl DevSessionRunawayError, w)"
| "drive_loop env (Suc n) wk (e # queue) w =
     and_run (drive_step env wk e w) (\<lambda>(wk1, follow_ups) w1.
       drive_loop env n wk1 (queue @ follow_ups) w1)"

definition drive ::
  "shell_env \<Rightarrow> working \<Rightarrow> event \<Rightarrow> world \<Rightarrow> (shell_error + working) \<times> world" where
  "drive env wk e w = drive_loop env max_drive_steps wk [e] w"

section \<open>Views\<close>

datatype view_phase = ViewIntro | ViewTech | ViewQa | ViewClose | ViewCompleted | ViewAborted

definition view_phases :: "phase \<Rightarrow> view_phase option" where
  "view_phases p = (case p of Created \<Rightarrow> None | Intro \<Rightarrow> Some ViewIntro | Tech \<Rightarrow> Some ViewTech
     | Qa \<Rightarrow> Some ViewQa | Close \<Rightarrow> Some ViewClose | Completed \<Rightarrow> Some ViewCompleted
     | Aborted \<Rightarrow> Some ViewAborted)"

record session_view =
  vw_session_id :: uuid
  vw_phase :: view_phase
  vw_abort_reason :: "abort_reason option"
  vw_awaiting :: "awaiting option"
  vw_competency_index :: "int option"
  vw_coverage :: "(string, json) dict"
  vw_flagged_for_review :: bool
  vw_cost_usd_total :: rat
  vw_transcript :: "transcript_entry list"

definition view :: "working \<Rightarrow> world \<Rightarrow> shell_error + session_view" where
  "view wk w =
     (let s = wk_state wk in case view_phases (phase s) of
        None \<Rightarrow> Inl DevSessionError
      | Some p \<Rightarrow> Inr \<lparr>vw_session_id = wk_session_id wk, vw_phase = p,
          vw_abort_reason = abort_reason s, vw_awaiting = awaiting s,
          vw_competency_index = (if phase s = Tech then Some (competency_index (tech s)) else None),
          vw_coverage = map (\<lambda>(k, c). (k, cell_payload c)) (coverage (tech s)),
          vw_flagged_for_review = flagged_for_review s,
          vw_cost_usd_total = pg_total (wd_pg w) (wk_session_id wk),
          vw_transcript = wk_transcript wk\<rparr>)"

section \<open>Operations\<close>

text \<open>\<open>create_session\<close>; the id is the one given, or the one the database generates.\<close>

definition create_session ::
  "shell_env \<Rightarrow> (string, json) dict \<Rightarrow> uuid \<Rightarrow> world \<Rightarrow> (shell_error + session_view) \<times> world" where
  "create_session env plan_doc sid w =
     and_run (insert_session sid w) (\<lambda>_ w1.
       let wk = \<lparr>wk_session_id = sid, wk_state = initial_state sid plan_doc (sh_config env),
                 wk_transcript = []\<rparr>
       in and_run (persist env wk w1) (\<lambda>_ w2.
          and_run (drive env wk (SessionStarted (clock_now env w2)) (tick w2)) (\<lambda>wk' w3.
            if phase (wk_state wk') = Aborted \<and> plan (wk_state wk') = None
            then (Inl DevSessionPlanInvalid, w3) else (view wk' w3, w3))))"

definition get_session :: "shell_env \<Rightarrow> uuid \<Rightarrow> world \<Rightarrow> shell_error + session_view" where
  "get_session env sid w = and_then (load env sid w) (\<lambda>wk. view wk w)"

record turn_answer =
  tr_utterance :: "string option"
  tr_session :: session_view

definition accepts_turn :: "session_state \<Rightarrow> bool" where
  "accepts_turn s \<longleftrightarrow> phase s \<noteq> Completed \<and> phase s \<noteq> Aborted
     \<and> (phase s = Intro \<or> awaiting s = Some Candidate)"

definition turn_ordinal :: "transcript_entry list \<Rightarrow> int" where
  "turn_ordinal ts = int (length (filter (\<lambda>t. te_role t = ByCandidate) ts))"

definition post_turn ::
  "shell_env \<Rightarrow> uuid \<Rightarrow> string \<Rightarrow> world \<Rightarrow> (shell_error + turn_answer) \<times> world" where
  "post_turn env sid said w =
     (case load env sid w of
        Inl e \<Rightarrow> (Inl e, w)
      | Inr wk \<Rightarrow>
          if \<not> accepts_turn (wk_state wk) then (Inl DevSessionNotAwaitingCandidate, w)
          else
            (let turn = candidate_turn_id sid (turn_ordinal (wk_transcript wk));
                 wk1 = append_entry wk ByCandidate said turn;
                 before = length (wk_transcript wk1)
             in and_run (drive env wk1 (CandidateTurnReceived turn said (clock_now env w)) (tick w)) (\<lambda>wk2 w2.
                  (and_then (view wk2 w2) (\<lambda>v. Inr \<lparr>
                     tr_utterance = map_option te_text (find (\<lambda>t. te_role t = ByInterviewer)
                        (rev (drop before (wk_transcript wk2)))),
                     tr_session = v\<rparr>), w2))))"

definition list_traces :: "shell_env \<Rightarrow> uuid \<Rightarrow> world \<Rightarrow> shell_error + turn_trace_row list" where
  "list_traces env sid w =
     and_then (load env sid w) (\<lambda>_.
       Inr (sort_key row_created_at (sort_key (\<lambda>r. unat (row_id r))
              (filter (\<lambda>r. row_session r = sid) (db_turn_trace (pg_db (wd_pg w)))))))"

text \<open>A scheduled task, and the drain of the queue: a failed task stops it.\<close>

definition run_task :: "shell_env \<Rightarrow> assessor_task \<Rightarrow> world \<Rightarrow> (shell_error + unit) \<times> world" where
  "run_task env t w =
     and_run (shell_run_assessor env t w) (\<lambda>e w1.
       case load env (ta_session_id t) w1 of
         Inl err \<Rightarrow> (Inl err, w1)
       | Inr wk \<Rightarrow> and_run (drive env wk e w1) (\<lambda>_ w2. (Inr (), w2)))"

fun drain :: "shell_env \<Rightarrow> nat \<Rightarrow> world \<Rightarrow> ((shell_error + unit) \<times> world) option" where
  "drain env 0 w = (if wd_tasks w = [] then Some (Inr (), w) else None)"
| "drain env (Suc n) w = (case wd_tasks w of
     [] \<Rightarrow> Some (Inr (), w)
   | t # ts \<Rightarrow>
       (case run_task env t (w\<lparr>wd_tasks := ts\<rparr>) of
          (Inl e, w1) \<Rightarrow> Some (Inl e, w1)
        | (Inr _, w1) \<Rightarrow> drain env n w1))"

end
