(* ===== verification/Dev_Session_Inv.thy ===== *)
theory Dev_Session_Inv
  imports Dev_Session Orchestrator_Props
begin

text \<open>
  What the shell keeps of a session: the column always holds a state of the machine and
  the transcript that goes with it, whatever a command raises; how far one event can
  cascade; and what the commands do to the rest of the world.
\<close>

section \<open>Sessions as stored\<close>

lemma role_json_inverse [simp]: "role_json (JStr (role_text r)) = Some r"
  by (cases r) (simp_all add: role_json_def enum_of_def role_text_def)

lemma entry_payload_validates:
  "codec_ok cd \<Longrightarrow> validate_entry cd (entry_payload t) = Some t"
  by (simp add: validate_entry_def entry_payload_def as_object_def no_extra_def req_def
      with_default_def nullable_maybe uuid_json_def)

lemma decode_entries:
  "codec_ok cd \<Longrightarrow> decode_transcript cd (Some (JArr (map entry_payload ts))) = Inr ts"
  by (simp add: decode_transcript_def all_of_map entry_payload_validates)

text \<open>A session in flight that the machine can be in, stamped with the current version.\<close>

definition session_ok :: "shell_env \<Rightarrow> working \<Rightarrow> bool" where
  "session_ok env wk \<longleftrightarrow>
     machine_inv (cd_px (sh_codec env)) (sh_config env) (wk_state wk)
     \<and> session_id (wk_state wk) = wk_session_id wk
     \<and> state_schema_version (wk_state wk) = config_schema_version (sh_config env)"

definition env_sound :: "shell_env \<Rightarrow> bool" where
  "env_sound env \<longleftrightarrow> codec_ok (sh_codec env) \<and> config_ok (sh_config env)"

definition has_row :: "uuid \<Rightarrow> world \<Rightarrow> bool" where
  "has_row sid w \<longleftrightarrow> dict_get (wd_states w) sid \<noteq> None"

text \<open>Other sessions read as before.\<close>

definition others_same :: "shell_env \<Rightarrow> uuid \<Rightarrow> world \<Rightarrow> world \<Rightarrow> bool" where
  "others_same env sid w w' \<longleftrightarrow> (\<forall>sid'. sid' \<noteq> sid \<longrightarrow> load env sid' w' = load env sid' w)"

lemma others_same_trans:
  "others_same env sid u v \<Longrightarrow> others_same env sid v w \<Longrightarrow> others_same env sid u w"
  by (simp add: others_same_def)

lemma machine_inv_storable: "machine_inv px config s \<Longrightarrow> storable s"
  by (auto simp: machine_inv_def core_inv_def plan_inv_def bookkeeping_inv_def coverage_inv_def
      storable_def tech_storable_def)

lemma session_ok_append [simp]:
  "session_ok env (append_entry wk role said turn) = session_ok env wk"
  by (simp add: session_ok_def append_entry_def)

lemma append_entry_simps [simp]:
  "wk_session_id (append_entry wk role said turn) = wk_session_id wk"
  "wk_state (append_entry wk role said turn) = wk_state wk"
  "wk_transcript (append_entry wk role said turn) =
     wk_transcript wk @ [\<lparr>te_role = role, te_text = said, te_turn_id = Some turn\<rparr>]"
  by (simp_all add: append_entry_def)

lemma load_row_cong:
  assumes "dict_get (wd_states w') sid = dict_get (wd_states w) sid"
    and "dict_get (wd_transcripts w') sid = dict_get (wd_transcripts w) sid"
  shows "load env sid w' = load env sid w"
  unfolding load_def load_session_state_def assms ..

lemma persist_total:
  assumes "has_row (wk_session_id wk) w"
  obtains w' where "persist env wk w = (Inr (), w')" "has_row (wk_session_id wk) w'"
    "wd_pg w' = wd_pg w" "wd_tasks w' = wd_tasks w" "wd_decisions w' = wd_decisions w"
    "others_same env (wk_session_id wk) w w'"
proof (rule that)
  let ?w = "w\<lparr>wd_states := dict_set (wd_states w) (wk_session_id wk)
        (Some (encode_session_state (sh_codec env) (wk_state wk))),
      wd_transcripts := dict_set (wd_transcripts w) (wk_session_id wk)
        (JArr (map entry_payload (wk_transcript wk)))\<rparr>"
  show "persist env wk w = (Inr (), ?w)" "has_row (wk_session_id wk) ?w"
    using assms by (simp_all add: persist_def save_session_state_def has_row_def dict_simps)
  show "others_same env (wk_session_id wk) w ?w"
    unfolding others_same_def by (auto intro: load_row_cong simp: dict_simps)
qed simp_all

lemma persist_load:
  assumes "env_sound env" and "session_ok env wk" and "persist env wk w = (Inr (), w')"
  shows "load env (wk_session_id wk) w' = Inr wk"
proof -
  have w': "dict_get (wd_states w') (wk_session_id wk) =
        Some (Some (encode_session_state (sh_codec env) (wk_state wk)))"
      "dict_get (wd_transcripts w') (wk_session_id wk) =
        Some (JArr (map entry_payload (wk_transcript wk)))"
    using assms(3) by (auto simp: persist_def save_session_state_def dict_simps split: if_splits)
  obtain d where d: "encode_session_state (sh_codec env) (wk_state wk) = JObj d"
    by (simp add: encode_session_state_def)
  have "storable (wk_state wk)"
    using assms(2) machine_inv_storable unfolding session_ok_def by blast
  then have "decode_session_state (sh_codec env) (JObj d) (config_schema_version (sh_config env))
      = Inr (wk_state wk)"
    using assms(1,2) decode_encode [of "sh_codec env" "wk_state wk"] d
    by (simp add: env_sound_def session_ok_def)
  with w' d assms(1) show ?thesis
    by (simp add: load_def load_session_state_def env_sound_def decode_entries)
qed

lemma load_frame:
  assumes "wd_states w' = wd_states w" and "wd_transcripts w' = wd_transcripts w"
  shows "load env sid w' = load env sid w"
  unfolding load_def assms ..

section \<open>What commands leave alone\<close>

text \<open>Commands never touch the stored sessions; only the scheduler's queue can grow.\<close>

definition same_store :: "world \<Rightarrow> world \<Rightarrow> bool" where
  "same_store w w' \<longleftrightarrow> wd_states w' = wd_states w \<and> wd_transcripts w' = wd_transcripts w"

lemma same_store_refl [simp]: "same_store w w"
  by (simp add: same_store_def)

lemma same_store_trans: "same_store u v \<Longrightarrow> same_store v w \<Longrightarrow> same_store u w"
  by (simp add: same_store_def)

lemma same_store_updates [simp]:
  "same_store w (tick w)"
  "same_store w (record_decision wk r w)"
  "same_store w (w\<lparr>wd_decisions := ds\<rparr>)"
  "same_store w (w\<lparr>wd_pg := pg, wd_tick := n\<rparr>)"
  "same_store w (w\<lparr>wd_tasks := ts\<rparr>)"
  by (simp_all add: same_store_def tick_def record_decision_def Let_def)

lemma bound_run_store: "bound_run cx body w = (r, w') \<Longrightarrow> same_store w w'"
  by (auto simp: bound_run_def split: prod.splits)

text \<open>The events a move can answer with, and that the wrapped output is a validated one.\<close>

definition move_answers :: "run_interviewer \<Rightarrow> event list \<Rightarrow> bool" where
  "move_answers r es \<longleftrightarrow> (\<exists>t. es = [OperatorAbort CostCeiling t])
     \<or> (\<exists>out t. es = [InterviewerReplyReady (ri_turn_id r) out t] \<and> interviewer_output_ok out)
     \<or> (\<exists>kind t. es = [InterviewerFailed (ri_turn_id r) kind t])"

lemma run_interviewer_turn_ok:
  assumes "run_interviewer_turn px sf pf call i w = (Inr out, w')"
  shows "interviewer_output_ok out"
  using assms
  by (auto simp: run_interviewer_turn_def split: option.splits elim!: retry_once_result
      intro: validate_interviewer_output_ok)

lemma run_assessor_turn_ok:
  assumes "run_assessor_turn cd sf pf call i w = (Inr out, w')"
  shows "assessor_output_ok out \<and> out_turn_id out = at_turn_id i
    \<and> out_session_id out = at_session_id i \<and> competency_focus out = at_competency_focus i"
  using assms
  by (auto simp: run_assessor_turn_def echo_checked_def split: option.splits elim!: retry_once_result
      intro: validate_assessor_output_ok)

lemma bound_run_result: "bound_run cx body w = (r, w') \<Longrightarrow> \<exists>pg pg'. body pg = (r, pg')"
  by (auto simp: bound_run_def pg_bind_def Let_def split: prod.splits)

lemma bound_run_frame:
  "bound_run cx body w = (r, w') \<Longrightarrow>
     same_store w w' \<and> wd_tasks w' = wd_tasks w \<and> wd_decisions w' = wd_decisions w"
  by (auto simp: bound_run_def split: prod.splits)

lemma same_store_tick [simp]:
  "same_store w (tick w') = same_store w w'" "same_store (tick w) w' = same_store w w'"
  "wd_tasks (tick w) = wd_tasks w" "wd_decisions (tick w) = wd_decisions w"
  by (simp_all add: same_store_def tick_def)

lemma shell_run_interviewer_cases:
  assumes "shell_run_interviewer env wk r before after w = (res, w')"
  shows "same_store w w' \<and> wd_tasks w' = wd_tasks w \<and> wd_decisions w' = wd_decisions w
    \<and> (case res of Inr es \<Rightarrow> move_answers r es | Inl e \<Rightarrow> \<exists>x. e = AgentEscaped x)"
proof (cases "over_ceiling env (wk_session_id wk) w \<or> \<not> interviewer_inputs_ok (interviewer_inputs wk r)")
  case True
  with assms show ?thesis
    by (auto simp: shell_run_interviewer_def Let_def move_answers_def split: if_splits)
next
  case False
  define cx where "cx = turn_context ''v0001'' (ri_turn_id r)
      (interviewer_system_prompt (sh_interviewer_files env))
      (serialize_user_payload (sh_float_text env) (interviewer_inputs wk r))
      (phase_name (phase (wk_state wk))) (Some (move_name (ri_move r))) before after"
  define body where "body = run_interviewer_turn (cd_px (sh_codec env)) (sh_float_text env)
      (sh_interviewer_files env) (model_caller env (tick w)) (interviewer_inputs wk r)"
  obtain out w2 where run: "bound_run cx body (tick w) = (out, w2)" by fastforce
  obtain pg pg' where "body pg = (out, pg')" using bound_run_result [OF run] by blast
  then have ok: "interviewer_output_ok x" if "out = Inr x" for x
    using that unfolding body_def by (auto dest: run_interviewer_turn_ok)
  from False run assms have "(res, w') = (case (out, w2) of
      (Inr x, w2) \<Rightarrow> (Inr [InterviewerReplyReady (ri_turn_id r) x (clock_now env w2)], tick w2)
    | (Inl OutputInvalid, w2) \<Rightarrow>
        (Inr [InterviewerFailed (ri_turn_id r) ''interviewer_output_invalid'' (clock_now env w2)], tick w2)
    | (Inl (CallFailed (Wrapper e)), w2) \<Rightarrow>
        (Inr [InterviewerFailed (ri_turn_id r) (wrapper_error_name e) (clock_now env w2)], tick w2)
    | (Inl e, w2) \<Rightarrow> (Inl (AgentEscaped e), w2))"
    by (simp add: shell_run_interviewer_def Let_def cx_def body_def)
  then show ?thesis
    using bound_run_frame [OF run] ok
    by (auto simp: move_answers_def split: sum.splits agent_error.splits call_error.splits)
qed

section \<open>Executing commands\<close>

definition pending_answers :: "pending_command \<Rightarrow> event list \<Rightarrow> bool" where
  "pending_answers p es = (case p of
     RunInterviewer r \<Rightarrow> move_answers r es
   | EmitScriptedClosing _ _ \<Rightarrow> (\<exists>t. es = [TimerTick t])
   | _ \<Rightarrow> es = [])"

definition answers_command :: "command \<Rightarrow> event list \<Rightarrow> bool" where
  "answers_command c es = (case c of
     Outbound p \<Rightarrow> pending_answers p es
   | ReissuePendingCommand p \<Rightarrow> pending_answers p es
   | _ \<Rightarrow> es = [])"

definition schedules :: "command \<Rightarrow> bool" where
  "schedules c = (case c of RunAssessor _ _ \<Rightarrow> True | _ \<Rightarrow> False)"

text \<open>
  How commands may change things: the machine state and the stored sessions stay, the
  transcript and the decisions only grow, and only a scheduled assessment enters the queue.
\<close>

definition grows :: "'a list \<Rightarrow> 'a list \<Rightarrow> bool" where
  "grows xs ys \<longleftrightarrow> (\<exists>zs. ys = xs @ zs)"

lemma grows_refl [simp]: "grows xs xs"
  by (simp add: grows_def)

lemma grows_append [simp]: "grows xs (xs @ ys)"
  by (simp add: grows_def)

lemma grows_trans: "grows xs ys \<Longrightarrow> grows ys zs \<Longrightarrow> grows xs zs"
  by (auto simp: grows_def)

definition same_session :: "working \<Rightarrow> working \<Rightarrow> bool" where
  "same_session wk wk' \<longleftrightarrow> wk_session_id wk' = wk_session_id wk \<and> wk_state wk' = wk_state wk
     \<and> grows (wk_transcript wk) (wk_transcript wk')"

lemma same_session_refl [simp]: "same_session wk wk"
  by (simp add: same_session_def)

lemma same_session_append [simp]: "same_session wk (append_entry wk role said turn)"
  by (simp add: same_session_def)

lemma same_session_trans: "same_session a b \<Longrightarrow> same_session b c \<Longrightarrow> same_session a c"
  by (auto simp: same_session_def intro: grows_trans)

lemma same_session_ok: "same_session wk wk' \<Longrightarrow> session_ok env wk' = session_ok env wk"
  by (simp add: same_session_def session_ok_def)

definition expected_error :: "shell_error \<Rightarrow> bool" where
  "expected_error e \<longleftrightarrow> e = DevSessionError \<or> (\<exists>x. e = AgentEscaped x)"

lemma emit_script_cases:
  assumes "session_ok env wk"
  shows "case emit_script env wk turn path of
      Inl e \<Rightarrow> e = DevSessionError | Inr wk' \<Rightarrow> same_session wk wk'"
proof -
  have "\<exists>vars. script_variables wk = Inr vars"
    using assms by (auto simp: script_variables_def session_ok_def machine_inv_def core_inv_def
        plan_inv_def plan_ok_def split: option.split list.split)
  then show ?thesis
    by (auto simp: emit_script_def render_script_def extract_script_def Let_def split: option.split)
qed

lemma execute_pending_cases:
  assumes "execute_pending env before after wk p w = (res, w')" and "session_ok env wk"
  shows "same_store w w' \<and> wd_tasks w' = wd_tasks w \<and> wd_decisions w' = wd_decisions w
    \<and> (case res of Inr (wk', es) \<Rightarrow> same_session wk wk' \<and> pending_answers p es
       | Inl e \<Rightarrow> expected_error e)"
proof (cases p)
  case (RunInterviewer r)
  obtain out w1 where run: "shell_run_interviewer env wk r before after w = (out, w1)" by fastforce
  with RunInterviewer assms(1) shell_run_interviewer_cases [OF run] show ?thesis
    by (auto simp: execute_pending_def and_run_def pending_answers_def expected_error_def
        split: sum.splits)
next
  case (DeliverUtterance turn said)
  with assms show ?thesis by (auto simp: execute_pending_def pending_answers_def)
next
  case (EmitScriptedOpening turn path)
  with assms(1) emit_script_cases [OF assms(2), of turn path] show ?thesis
    by (auto simp: execute_pending_def pending_answers_def expected_error_def split: sum.splits)
next
  case (EmitScriptedClosing turn path)
  with assms(1) emit_script_cases [OF assms(2), of turn path] show ?thesis
    by (auto simp: execute_pending_def pending_answers_def expected_error_def split: sum.splits)
qed

lemma execute_one_cases:
  assumes "execute_one env before after wk c w = (res, w')" and "session_ok env wk"
  shows "same_store w w' \<and> grows (wd_decisions w) (wd_decisions w')
    \<and> (\<not> schedules c \<longrightarrow> wd_tasks w' = wd_tasks w)
    \<and> (case res of Inr (wk', es) \<Rightarrow> same_session wk wk' \<and> answers_command c es
       | Inl e \<Rightarrow> expected_error e)"
proof (cases "\<exists>p. c = Outbound p \<or> c = ReissuePendingCommand p")
  case True
  then obtain p where "c = Outbound p \<or> c = ReissuePendingCommand p" by blast
  with assms execute_pending_cases [of env before after wk p w] show ?thesis
    by (auto simp: execute_one_def answers_command_def split: sum.split)
next
  case False
  with assms(1) show ?thesis
    by (cases c)
      (auto simp: execute_one_def answers_command_def schedules_def schedule_task_def and_run_def
        expected_error_def record_decision_def Let_def split: if_splits)
qed

lemma execute_cases:
  assumes "execute env before after wk cs w = (res, w')" and "session_ok env wk"
  shows "same_store w w' \<and> grows (wd_decisions w) (wd_decisions w')
    \<and> (\<not> list_ex schedules cs \<longrightarrow> wd_tasks w' = wd_tasks w)
    \<and> (case res of Inr (wk', es) \<Rightarrow> same_session wk wk'
           \<and> (\<exists>ess. es = concat ess \<and> list_all2 answers_command cs ess)
       | Inl e \<Rightarrow> expected_error e)"
  using assms
proof (induction cs arbitrary: wk w res w')
  case Nil
  then show ?case by auto
next
  case (Cons c cs)
  obtain r1 w1 where one: "execute_one env before after wk c w = (r1, w1)" by fastforce
  note c1 = execute_one_cases [OF one Cons.prems(2)]
  show ?case
  proof (cases r1)
    case (Inl e)
    with Cons.prems(1) one c1 show ?thesis by (auto simp: and_run_def)
  next
    case (Inr p)
    then obtain wk1 es where p: "r1 = Inr (wk1, es)" by (cases p) auto
    obtain r2 w2 where rest: "execute env before after wk1 cs w1 = (r2, w2)" by fastforce
    have "session_ok env wk1" using c1 p Cons.prems(2) same_session_ok by auto
    note c2 = Cons.IH [OF rest this]
    have res: "w' = w2" "res = (case r2 of Inl e \<Rightarrow> Inl e | Inr (wk2, fs) \<Rightarrow> Inr (wk2, es @ fs))"
      using Cons.prems(1) one rest p by (auto simp: and_run_def split: sum.splits)
    show ?thesis
    proof (cases r2)
      case (Inl e)
      with c1 c2 p res show ?thesis by (auto intro: same_store_trans grows_trans)
    next
      case (Inr q)
      then obtain wk2 fs fss where q: "r2 = Inr (wk2, fs)" "fs = concat fss"
        "list_all2 answers_command cs fss" "same_session wk1 wk2"
        using c2 by (cases q) auto
      have all: "list_all2 answers_command (c # cs) (es # fss)" "es @ fs = concat (es # fss)"
        "same_session wk wk2"
        using c1 p q by (auto intro: same_session_trans)
      have frame: "same_store w w'" "grows (wd_decisions w) (wd_decisions w')"
        "\<not> list_ex schedules (c # cs) \<longrightarrow> wd_tasks w' = wd_tasks w"
        using c1 c2 p q(1) res(1) by (auto intro: same_store_trans grows_trans)
      have "res = Inr (wk2, es @ fs)" using res(2) q(1) by simp
      with all frame show ?thesis by (simp del: concat.simps list_all2_Cons) blast
    qed
  qed
qed

section \<open>One step\<close>

lemma has_row_store: "same_store w w' \<Longrightarrow> has_row sid w' = has_row sid w"
  by (simp add: has_row_def same_store_def)

lemma load_store: "same_store w w' \<Longrightarrow> load env sid w' = load env sid w"
  unfolding same_store_def by (intro load_frame) simp_all

lemma transition_keeps_session:
  assumes "env_sound env" and "session_ok env wk" and "event_ok e"
  obtains r where "transition (cd_px (sh_codec env)) (wk_state wk) e (sh_config env) = Inr r"
    "session_ok env (wk\<lparr>wk_state := new_state r\<rparr>)"
proof -
  have inv: "machine_inv (cd_px (sh_codec env)) (sh_config env) (wk_state wk)"
    and cfg: "config_ok (sh_config env)"
    using assms by (simp_all add: session_ok_def env_sound_def)
  from transition_inv [OF inv cfg assms(3)] obtain r where
    r: "transition (cd_px (sh_codec env)) (wk_state wk) e (sh_config env) = Inr r"
      "machine_inv (cd_px (sh_codec env)) (sh_config env) (new_state r)"
    by (cases "transition (cd_px (sh_codec env)) (wk_state wk) e (sh_config env)")
      (auto simp: good_outcome_def)
  with transition_effect [OF r(1) inv] assms(2) show thesis
    by (intro that [OF r(1)]) (simp add: session_ok_def effect_def)
qed

lemma others_store: "same_store w w' \<Longrightarrow> others_same env sid w w'"
  by (simp add: others_same_def load_store)

text \<open>What a step's result says, whether it ended normally or an exception escaped.\<close>

definition step_outcome ::
  "shell_env \<Rightarrow> working \<Rightarrow> transition_result \<Rightarrow> world
    \<Rightarrow> shell_error + working \<times> event list \<Rightarrow> world \<Rightarrow> bool" where
  "step_outcome env wk r w res w' \<longleftrightarrow>
     has_row (wk_session_id wk) w' \<and> grows (wd_decisions w) (wd_decisions w')
     \<and> others_same env (wk_session_id wk) w w'
     \<and> (\<not> list_ex schedules (commands r) \<longrightarrow> wd_tasks w' = wd_tasks w)
     \<and> (case res of
         Inr (wk', es) \<Rightarrow> load env (wk_session_id wk) w' = Inr wk'
           \<and> same_session (wk\<lparr>wk_state := new_state r\<rparr>) wk'
           \<and> (\<exists>ess. es = concat ess \<and> list_all2 answers_command (commands r) ess)
       | Inl e \<Rightarrow> expected_error e
           \<and> load env (wk_session_id wk) w' = Inr (wk\<lparr>wk_state := new_state r\<rparr>))"

lemma drive_step_cases:
  assumes sound: "env_sound env" and ok: "session_ok env wk" and ev: "event_ok e"
    and row: "has_row (wk_session_id wk) w"
    and step: "drive_step env wk e w = (res, w')"
  obtains r where "transition (cd_px (sh_codec env)) (wk_state wk) e (sh_config env) = Inr r"
    "session_ok env (wk\<lparr>wk_state := new_state r\<rparr>)" "step_outcome env wk r w res w'"
proof -
  obtain r where r: "transition (cd_px (sh_codec env)) (wk_state wk) e (sh_config env) = Inr r"
    and ok1: "session_ok env (wk\<lparr>wk_state := new_state r\<rparr>)"
    by (rule transition_keeps_session [OF sound ok ev])
  let ?wk1 = "wk\<lparr>wk_state := new_state r\<rparr>"
  let ?sid = "wk_session_id wk"
  obtain w1 where w1: "persist env ?wk1 w = (Inr (), w1)" "has_row ?sid w1"
    "wd_tasks w1 = wd_tasks w" "wd_decisions w1 = wd_decisions w" "others_same env ?sid w w1"
    by (rule persist_total [of ?wk1 w env]) (use row in simp_all)
  have load1: "load env ?sid w1 = Inr ?wk1"
    using persist_load [OF sound ok1 w1(1)] by simp
  obtain out w2 where ex: "execute env (state_sha env (wk_state wk))
      (state_sha env (new_state r)) ?wk1 (commands r) w1 = (out, w2)"
    by fastforce
  note c = execute_cases [OF ex ok1]
  have row2: "has_row ?sid w2" and load2: "load env ?sid w2 = Inr ?wk1"
    using c w1(2) load1 has_row_store load_store by metis+
  have oth2: "others_same env ?sid w w2"
    using w1(5) others_store others_same_trans c by blast
  have "step_outcome env wk r w res w'"
  proof (cases out)
    case (Inl e)
    with step r w1 ex have "res = Inl e" "w' = w2"
      by (simp_all add: drive_step_def Let_def and_run_def)
    with Inl c row2 load2 oth2 w1 show ?thesis by (simp add: step_outcome_def)
  next
    case (Inr p)
    then obtain wk2 es ess where out: "out = Inr (wk2, es)" and same: "same_session ?wk1 wk2"
      and es: "es = concat ess" "list_all2 answers_command (commands r) ess"
      using c by (cases p) auto
    show ?thesis
    proof (cases "length (wk_transcript wk2) = length (wk_transcript ?wk1)")
      case True
      then have "wk2 = ?wk1" using same by (auto simp: same_session_def grows_def)
      moreover have "res = Inr (wk2, es)" "w' = w2"
        using step r w1 ex out True by (simp_all add: drive_step_def Let_def and_run_def)
      ultimately show ?thesis using c row2 load2 oth2 w1 es same by (auto simp: step_outcome_def)
    next
      case False
      have id2: "wk_session_id wk2 = ?sid" using same by (simp add: same_session_def)
      obtain w3 where w3: "persist env wk2 w2 = (Inr (), w3)" "has_row ?sid w3"
        "wd_tasks w3 = wd_tasks w2" "wd_decisions w3 = wd_decisions w2" "others_same env ?sid w2 w3"
        by (rule persist_total [of wk2 w2 env]) (use row2 id2 in simp_all)
      have "res = Inr (wk2, es)" "w' = w3"
        using step r w1 ex out False w3 by (simp_all add: drive_step_def Let_def and_run_def)
      moreover have "load env ?sid w3 = Inr wk2"
        using persist_load [OF sound _ w3(1)] same_session_ok [OF same] ok1 id2 by simp
      ultimately show ?thesis
        using c w1 w3 es same others_same_trans [OF oth2 w3(5)] by (auto simp: step_outcome_def)
    qed
  qed
  with r ok1 show thesis by (rule that)
qed

section \<open>How far an event cascades\<close>

text \<open>
  Events still to be handled, this one included: an answer or an abort is the last; a tick
  after the closing script is the last; a first failure leads to one retry; a candidate
  turn or a tick leads to at most one move; a reconnection replays one command.
\<close>

definition cascade :: "session_state \<Rightarrow> event \<Rightarrow> nat" where
  "cascade s e = (case e of
     InterviewerReplyReady _ _ _ \<Rightarrow> 1
   | OperatorAbort _ _ \<Rightarrow> 1
   | TimerTick _ \<Rightarrow> if phase s = Close then 1 else 3
   | InterviewerFailed _ _ _ \<Rightarrow> if 1 \<le> interviewer_failure_streak s then 1 else 2
   | Reconnected _ \<Rightarrow> 4
   | _ \<Rightarrow> 3)"

lemma cascade_bounds: "1 \<le> cascade s e" "cascade s e \<le> 4"
  by (simp_all add: cascade_def split: event.split)

lemma failed_streak:
  assumes "transition px s (InterviewerFailed t kind now) config = Inr r" and "link_inv s"
    and "Outbound p \<in> set (commands r)"
  shows "interviewer_failure_streak s < 1 \<and> 1 \<le> interviewer_failure_streak (new_state r)"
  using assms
  by (auto simp: transition_def on_interviewer_failed_def abort_def ignore_def Let_def link_inv_def
      split: if_splits option.splits pending_command.splits)

text \<open>What can follow: at most one event, and the cascade shrinks.\<close>

definition follows :: "session_state \<Rightarrow> nat \<Rightarrow> event list \<Rightarrow> bool" where
  "follows s n es \<longleftrightarrow> es = [] \<or> (\<exists>f. es = [f] \<and> event_ok f \<and> cascade s f < n)"

lemma follows_move:
  "move_answers r es \<Longrightarrow> 2 < n \<or> (1 < n \<and> 1 \<le> interviewer_failure_streak s) \<Longrightarrow> follows s n es"
  by (auto simp: move_answers_def follows_def cascade_def event_ok_def)

lemma follows_tick: "phase s = Close \<and> 1 < n \<or> 3 < n \<Longrightarrow> follows s n [TimerTick t]"
  by (auto simp: follows_def cascade_def event_ok_def)

lemma follows_nil [simp]: "follows s n []"
  by (simp add: follows_def)

lemma follows_replayed: "pending_answers c es \<Longrightarrow> follows s 4 es"
  by (auto simp: pending_answers_def intro: follows_move follows_tick split: pending_command.splits)

lemmas answer_simps = answers_command_def pending_answers_def list_all2_Cons1

lemma cascade_shrinks:
  assumes tr: "transition px s e config = Inr r" and link: "link_inv s"
    and ans: "list_all2 answers_command (commands r) ess"
  shows "follows (new_state r) (cascade s e) (concat ess)"
  using transition_row [OF tr] ans
proof (cases rule: table_row.cases)
  case (row5 q t kind now)
  have "interviewer_failure_streak s < 1 \<and> 1 \<le> interviewer_failure_streak (new_state r)"
    using failed_streak [OF tr [unfolded row5(1)] link, of "RunInterviewer q"] row5 by simp
  with row5 ans show ?thesis
    by (auto simp: answer_simps cascade_def intro!: follows_move)
next
  case (row21 reissue now)
  then show ?thesis
    using ans by (auto simp: answers_command_def list_all2_Cons1 cascade_def follows_replayed)
qed (auto simp: answer_simps cascade_def follows_move follows_tick)

section \<open>The loop\<close>

text \<open>
  Where a drive leaves the session: the column holds \<open>wk'\<close>, a session of the machine
  reached by a run that starts with the event and is at most \<open>n\<close> events long.
\<close>

definition machine_run :: "shell_env \<Rightarrow> session_state \<Rightarrow> event list \<Rightarrow> session_state \<Rightarrow> bool" where
  "machine_run env s es s' \<longleftrightarrow> (\<forall>e \<in> set es. event_ok e)
     \<and> (\<exists>cs. run_events (machine_step (cd_px (sh_codec env)) (sh_config env)) s es = Inr (s', cs))"

definition left_stored ::
  "shell_env \<Rightarrow> working \<Rightarrow> event \<Rightarrow> nat \<Rightarrow> world \<Rightarrow> world \<Rightarrow> working \<Rightarrow> bool" where
  "left_stored env wk e n w w' wk' \<longleftrightarrow>
     load env (wk_session_id wk) w' = Inr wk' \<and> session_ok env wk'
     \<and> has_row (wk_session_id wk) w' \<and> wk_session_id wk' = wk_session_id wk
     \<and> others_same env (wk_session_id wk) w w'
     \<and> grows (wk_transcript wk) (wk_transcript wk') \<and> grows (wd_decisions w) (wd_decisions w')
     \<and> (\<exists>fs. length fs < n \<and> machine_run env (wk_state wk) (e # fs) (wk_state wk'))"

lemma machine_run_one:
  "transition (cd_px (sh_codec env)) s e (sh_config env) = Inr r \<Longrightarrow> event_ok e \<Longrightarrow>
     machine_run env s [e] (new_state r)"
  by (simp add: machine_run_def machine_step_def)

lemma machine_run_step:
  "transition (cd_px (sh_codec env)) s e (sh_config env) = Inr r \<Longrightarrow> event_ok e \<Longrightarrow>
     machine_run env (new_state r) es s' \<Longrightarrow> machine_run env s (e # es) s'"
  by (auto simp: machine_run_def machine_step_def)

lemma drive_loop_cases:
  assumes "env_sound env" and "session_ok env wk" and "event_ok e"
    and "has_row (wk_session_id wk) w" and "cascade (wk_state wk) e \<le> n"
    and "drive_loop env n wk [e] w = (res, w')"
  shows "\<exists>wk'. left_stored env wk e (cascade (wk_state wk) e) w w' wk'
    \<and> (case res of Inr out \<Rightarrow> out = wk' | Inl err \<Rightarrow> expected_error err)"
  using assms
proof (induction n arbitrary: wk e w)
  case 0
  then show ?case using cascade_bounds(1) [of "wk_state wk" e] by simp
next
  case (Suc n)
  obtain out w1 where step: "drive_step env wk e w = (out, w1)" by fastforce
  obtain r where tr: "transition (cd_px (sh_codec env)) (wk_state wk) e (sh_config env) = Inr r"
    and ok1: "session_ok env (wk\<lparr>wk_state := new_state r\<rparr>)"
    and st: "step_outcome env wk r w out w1"
    by (rule drive_step_cases [OF Suc.prems(1-4) step])
  have link: "link_inv (wk_state wk)"
    using Suc.prems(2) by (simp add: session_ok_def machine_inv_def)
  have one: "machine_run env (wk_state wk) [e] (new_state r)"
    by (rule machine_run_one [OF tr Suc.prems(3)])
  show ?case
  proof (cases out)
    case (Inl err)
    with Suc.prems(6) step have "res = Inl err" "w' = w1" by (simp_all add: and_run_def)
    then show ?thesis
      using Inl st ok1 one cascade_bounds(1) [of "wk_state wk" e]
      by (intro exI [of _ "wk\<lparr>wk_state := new_state r\<rparr>"])
        (auto simp: left_stored_def step_outcome_def intro: exI [of _ "[]"])
  next
    case (Inr p)
    then obtain wk1 es ess where out: "out = Inr (wk1, es)"
      and same: "same_session (wk\<lparr>wk_state := new_state r\<rparr>) wk1"
      and es: "es = concat ess" "list_all2 answers_command (commands r) ess"
      and st1: "load env (wk_session_id wk) w1 = Inr wk1"
      using st by (cases p) (auto simp: step_outcome_def)
    have wk1: "wk_session_id wk1 = wk_session_id wk" "wk_state wk1 = new_state r"
      "grows (wk_transcript wk) (wk_transcript wk1)"
      using same by (simp_all add: same_session_def)
    have row1: "has_row (wk_session_id wk) w1" and dec1: "grows (wd_decisions w) (wd_decisions w1)"
      and oth1: "others_same env (wk_session_id wk) w w1"
      using st by (simp_all add: step_outcome_def)
    have ok: "session_ok env wk1" using same_session_ok [OF same] ok1 by simp
    have loop: "drive_loop env n wk1 es w1 = (res, w')"
      using Suc.prems(6) step out by (simp add: and_run_def)
    have "follows (new_state r) (cascade (wk_state wk) e) es"
      using cascade_shrinks [OF tr link es(2)] es(1) by simp
    then consider "es = []" | f where "es = [f]" "event_ok f"
        "cascade (new_state r) f < cascade (wk_state wk) e"
      by (auto simp: follows_def)
    then show ?thesis
    proof cases
      case 1
      with loop have "res = Inr wk1" "w' = w1" by simp_all
      then show ?thesis
        using wk1 row1 dec1 oth1 ok st1 one cascade_bounds(1) [of "wk_state wk" e]
        by (auto simp: left_stored_def intro: exI [of _ "[]"])
    next
      case (2 f)
      have "cascade (wk_state wk1) f \<le> n" using 2 Suc.prems(5) wk1 by simp
      with Suc.IH [of wk1 f w1] Suc.prems(1) ok 2 row1 loop wk1
      obtain wk' where l: "left_stored env wk1 f (cascade (new_state r) f) w1 w' wk'"
        and res: "case res of Inr x \<Rightarrow> x = wk' | Inl err \<Rightarrow> expected_error err"
        by auto
      from l obtain fs where fs: "length fs < cascade (new_state r) f"
        "machine_run env (new_state r) (f # fs) (wk_state wk')"
        using wk1 by (auto simp: left_stored_def)
      have "length (f # fs) < cascade (wk_state wk) e" using fs(1) 2(3) by simp
      moreover have "machine_run env (wk_state wk) (e # f # fs) (wk_state wk')"
        by (rule machine_run_step [OF tr Suc.prems(3) fs(2)])
      ultimately have "left_stored env wk e (cascade (wk_state wk) e) w w' wk'"
        using l wk1 dec1 oth1 unfolding left_stored_def by (metis grows_trans others_same_trans)
      with res show ?thesis by blast
    qed
  qed
qed

lemma drive_cases:
  assumes "env_sound env" and "session_ok env wk" and "event_ok e"
    and "has_row (wk_session_id wk) w" and "drive env wk e w = (res, w')"
  obtains wk' where "left_stored env wk e 4 w w' wk'"
    "case res of Inr out \<Rightarrow> out = wk' | Inl err \<Rightarrow> expected_error err"
proof -
  have "cascade (wk_state wk) e \<le> max_drive_steps"
    using cascade_bounds(2) [of "wk_state wk" e] by (simp add: max_drive_steps_def)
  from drive_loop_cases [OF assms(1-4) this assms(5) [unfolded drive_def]]
  obtain wk' where wk': "left_stored env wk e (cascade (wk_state wk) e) w w' wk'"
    "case res of Inr out \<Rightarrow> out = wk' | Inl err \<Rightarrow> expected_error err" by blast
  moreover have "left_stored env wk e 4 w w' wk'"
    using wk'(1) cascade_bounds(2) [of "wk_state wk" e] unfolding left_stored_def
    by (meson order_less_le_trans)
  ultimately show thesis using that by blast
qed

section \<open>All stored sessions\<close>

definition world_ok :: "shell_env \<Rightarrow> world \<Rightarrow> bool" where
  "world_ok env w \<longleftrightarrow> (\<forall>sid wk. load env sid w = Inr wk \<longrightarrow> session_ok env wk)"

lemma load_Inr: "load env sid w = Inr wk \<Longrightarrow> wk_session_id wk = sid \<and> has_row sid w"
  by (auto simp: load_def load_session_state_def has_row_def and_then_eq_Inr
      split: option.splits json.splits sum.splits persistence_error.splits)

lemma world_ok_store: "same_store w w' \<Longrightarrow> world_ok env w' = world_ok env w"
  by (simp add: world_ok_def load_store)

lemma left_stored_world_ok:
  assumes "world_ok env w" and "left_stored env wk e n w w' wk'"
  shows "world_ok env w'"
  unfolding world_ok_def
proof (intro allI impI)
  fix sid v
  assume "load env sid w' = Inr v"
  with assms show "session_ok env v"
    by (cases "sid = wk_session_id wk") (auto simp: left_stored_def others_same_def world_ok_def)
qed

lemma initial_session_ok:
  "session_ok env \<lparr>wk_session_id = sid, wk_state = initial_state sid d (sh_config env), wk_transcript = ts\<rparr>"
  using initial_state_inv by (simp add: session_ok_def initial_state_def)

section \<open>Assessments\<close>

text \<open>The three events an assessor task can raise neither cascade nor schedule.\<close>

definition quiet_event :: "event \<Rightarrow> bool" where
  "quiet_event e = (case e of AssessmentCompleted _ _ _ \<Rightarrow> True | AssessmentFailed _ _ _ \<Rightarrow> True
     | OperatorAbort _ _ \<Rightarrow> True | _ \<Rightarrow> False)"

lemma quiet_commands:
  assumes "transition px s e config = Inr r" and "quiet_event e"
  shows "\<not> list_ex schedules (commands r)
    \<and> (\<forall>ess. list_all2 answers_command (commands r) ess \<longrightarrow> concat ess = [])"
  using transition_row [OF assms(1)] assms(2)
  by (cases rule: table_row.cases)
    (auto simp: quiet_event_def schedules_def answers_command_def list_all2_Cons1)

lemma drive_quiet:
  assumes "env_sound env" and "session_ok env wk" and "event_ok e" and "has_row (wk_session_id wk) w"
    and "quiet_event e" and "drive env wk e w = (res, w')"
  shows "wd_tasks w' = wd_tasks w"
proof -
  obtain out w1 where step: "drive_step env wk e w = (out, w1)" by fastforce
  obtain r where tr: "transition (cd_px (sh_codec env)) (wk_state wk) e (sh_config env) = Inr r"
    and st: "step_outcome env wk r w out w1"
    by (rule drive_step_cases [OF assms(1-4) step])
  note quiet = quiet_commands [OF tr assms(5)]
  have "drive env wk e w = and_run (drive_step env wk e w) (\<lambda>(wk1, fs) w1. drive_loop env 63 wk1 ([] @ fs) w1)"
    unfolding drive_def max_drive_steps_def using drive_loop.simps(3) [of env 63 wk e "[]" w] by simp
  moreover have "es = []" if "out = Inr (v, es)" for v es
    using st quiet that by (simp add: step_outcome_def del: concat_eq_Nil_conv) blast
  ultimately have "w' = w1"
    using assms(6) step by (cases out) (auto simp: and_run_def)
  with st quiet show ?thesis by (simp add: step_outcome_def)
qed

lemma shell_run_assessor_cases:
  assumes "shell_run_assessor env t w = (res, w')"
  shows "same_store w w' \<and> wd_tasks w' = wd_tasks w \<and> wd_decisions w' = wd_decisions w
    \<and> (case res of Inr e \<Rightarrow> event_ok e \<and> quiet_event e | Inl e \<Rightarrow> \<exists>x. e = AgentEscaped x)"
proof (cases "over_ceiling env (ta_session_id t) w")
  case True
  with assms show ?thesis
    by (auto simp: shell_run_assessor_def event_ok_def quiet_event_def)
next
  case False
  define cx where "cx = turn_context ''v0003'' (ta_turn_id t)
      (assessor_system_prompt (sh_assessor_files env))
      (to_user_payload (sh_float_text env) (ta_inputs t)) (ta_phase t) None (ta_before_sha t)
      (ta_after_sha t)"
  define body where "body = run_assessor_turn (sh_codec env) (sh_float_text env)
      (sh_assessor_files env) (model_caller env (tick w)) (ta_inputs t)"
  obtain out w2 where run: "bound_run cx body (tick w) = (out, w2)" by fastforce
  obtain pg pg' where "body pg = (out, pg')" using bound_run_result [OF run] by blast
  then have ok: "assessor_output_ok x" if "out = Inr x" for x
    using that unfolding body_def by (auto dest: run_assessor_turn_ok)
  from False run assms have "(res, w') = (case (out, w2) of
      (Inr x, w2) \<Rightarrow> (Inr (AssessmentCompleted (ta_turn_id t) x (clock_now env w2)), tick w2)
    | (Inl OutputInvalid, w2) \<Rightarrow>
        (Inr (AssessmentFailed (ta_turn_id t) ''assessor_output_invalid'' (clock_now env w2)), tick w2)
    | (Inl (CallFailed (Wrapper e)), w2) \<Rightarrow>
        (Inr (AssessmentFailed (ta_turn_id t) (wrapper_error_name e) (clock_now env w2)), tick w2)
    | (Inl e, w2) \<Rightarrow> (Inl (AgentEscaped e), w2))"
    by (simp add: shell_run_assessor_def Let_def cx_def body_def)
  then show ?thesis
    using bound_run_frame [OF run] ok
    by (auto simp: event_ok_def quiet_event_def split: sum.splits agent_error.splits call_error.splits)
qed

definition task_error :: "shell_error \<Rightarrow> bool" where
  "task_error e \<longleftrightarrow> expected_error e \<or> e = DevSessionNotFound \<or> (\<exists>p. e = PersistenceFailed p)
     \<or> e = TranscriptInvalid"

lemma load_error:
  "load env sid w = Inl e \<Longrightarrow> task_error e"
  by (auto simp: load_def task_error_def expected_error_def decode_transcript_def
      split: option.splits json.splits sum.splits persistence_error.splits)

text \<open>No stored session is lost, and no transcript entry of one.\<close>

definition sessions_kept :: "shell_env \<Rightarrow> world \<Rightarrow> world \<Rightarrow> bool" where
  "sessions_kept env w w' \<longleftrightarrow> (\<forall>sid wk. load env sid w = Inr wk \<longrightarrow>
     (\<exists>wk'. load env sid w' = Inr wk' \<and> grows (wk_transcript wk) (wk_transcript wk')))"

lemma sessions_kept_trans:
  "sessions_kept env u v \<Longrightarrow> sessions_kept env v w \<Longrightarrow> sessions_kept env u w"
  unfolding sessions_kept_def by (meson grows_trans)

lemma sessions_kept_store: "same_store w w' \<Longrightarrow> sessions_kept env w w'"
  by (simp add: sessions_kept_def load_store)

lemma left_stored_kept:
  assumes "left_stored env wk e n w w' wk'" and "load env (wk_session_id wk) w = Inr wk0"
    and "grows (wk_transcript wk0) (wk_transcript wk)"
  shows "sessions_kept env w w'"
  unfolding sessions_kept_def
proof (intro allI impI)
  fix sid v
  assume "load env sid w = Inr v"
  with assms show "\<exists>v'. load env sid w' = Inr v' \<and> grows (wk_transcript v) (wk_transcript v')"
    by (cases "sid = wk_session_id wk")
      (auto simp: left_stored_def others_same_def intro: grows_trans)
qed

lemma run_task_cases:
  assumes "env_sound env" and "world_ok env w" and "run_task env t w = (res, w')"
  shows "wd_tasks w' = wd_tasks w \<and> world_ok env w' \<and> grows (wd_decisions w) (wd_decisions w')
    \<and> sessions_kept env w w'
    \<and> others_same env (ta_session_id t) w w'
    \<and> (case res of Inl e \<Rightarrow> task_error e | Inr _ \<Rightarrow> True)"
proof -
  obtain out w1 where a: "shell_run_assessor env t w = (out, w1)" by fastforce
  note run = shell_run_assessor_cases [OF a]
  have ok1: "world_ok env w1" "others_same env (ta_session_id t) w w1"
    "sessions_kept env w w1"
    using run assms(2) world_ok_store others_store sessions_kept_store by blast+
  show ?thesis
  proof (cases out)
    case (Inl e)
    with a assms(3) have "res = Inl e" "w' = w1" by (simp_all add: run_task_def and_run_def)
    with Inl run ok1 show ?thesis by (auto simp: task_error_def expected_error_def)
  next
    case (Inr e)
    with run have e: "event_ok e" "quiet_event e" by simp_all
    show ?thesis
    proof (cases "load env (ta_session_id t) w1")
      case (Inl err)
      with Inr a assms(3) have "res = Inl err" "w' = w1" by (simp_all add: run_task_def and_run_def)
      with run ok1 load_error [OF Inl] show ?thesis by simp
    next
      case wk: (Inr wk)
      then have ok: "session_ok env wk" and row: "has_row (wk_session_id wk) w1"
        and sid: "wk_session_id wk = ta_session_id t"
        using ok1 load_Inr [OF wk] by (auto simp: world_ok_def)
      obtain out2 w2 where d: "drive env wk e w1 = (out2, w2)" by fastforce
      obtain wk' where left: "left_stored env wk e 4 w1 w2 wk'"
        and out2: "case out2 of Inr x \<Rightarrow> x = wk' | Inl err \<Rightarrow> expected_error err"
        by (rule drive_cases [OF assms(1) ok e(1) row d])
      have "w' = w2" "case res of Inl e \<Rightarrow> expected_error e | Inr _ \<Rightarrow> True"
        using Inr a wk d out2 assms(3) by (auto simp: run_task_def and_run_def split: sum.splits)
      moreover have "wd_tasks w2 = wd_tasks w1"
        by (rule drive_quiet [OF assms(1) ok e(1) row e(2) d])
      ultimately show ?thesis
        using run ok1 left_stored_world_ok [OF ok1(1) left] left sid
          left_stored_kept [OF left wk [folded sid] grows_refl]
        by (auto simp: task_error_def left_stored_def intro: grows_trans others_same_trans
            sessions_kept_trans split: sum.splits)
    qed
  qed
qed

text \<open>Draining the queue of assessments, task after task.\<close>

lemma drain_left:
  assumes "env_sound env" and "world_ok env w"
  shows "\<exists>res w'. drain env (length (wd_tasks w)) w = Some (res, w') \<and> world_ok env w'
    \<and> sessions_kept env w w'
    \<and> (case res of Inr _ \<Rightarrow> wd_tasks w' = []
         | Inl e \<Rightarrow> task_error e \<and> (\<exists>finished t. wd_tasks w = finished @ t # wd_tasks w'))
    \<and> (\<exists>ds. wd_decisions w' = wd_decisions w @ ds)
    \<and> (\<forall>sid. sid \<notin> ta_session_id ` set (wd_tasks w) \<longrightarrow> load env sid w' = load env sid w)"
  using assms(2)
proof (induction "wd_tasks w" arbitrary: w)
  case Nil
  then show ?case by (auto simp: sessions_kept_store simp flip: Nil(1))
next
  case (Cons t ts)
  let ?u = "w\<lparr>wd_tasks := ts\<rparr>"
  have u: "world_ok env ?u" "load env sid ?u = load env sid w" for sid
    using Cons.prems world_ok_store [of w ?u] load_store [of w ?u] by simp_all
  have kept_u: "sessions_kept env w ?u" by (simp add: sessions_kept_store)
  obtain res w1 where run: "run_task env t ?u = (res, w1)" by fastforce
  note c = run_task_cases [OF assms(1) u(1) run]
  have other: "load env sid w1 = load env sid w" if "sid \<noteq> ta_session_id t" for sid
    using c that u(2) by (simp add: others_same_def)
  show ?case
  proof (cases res)
    case (Inl e)
    with run Cons(2) have "drain env (length (wd_tasks w)) w = Some (Inl e, w1)"
      by (simp flip: Cons(2))
    moreover have "\<exists>finished t'. wd_tasks w = finished @ t' # wd_tasks w1"
      using c Cons(2) by (intro exI [of _ "[]"] exI [of _ t]) simp
    ultimately show ?thesis using c Inl other sessions_kept_trans [OF kept_u] by (simp flip: Cons(2)) (auto simp: grows_def)
  next
    case (Inr x)
    have ts: "ts = wd_tasks w1" using c by simp
    from Cons(1) [OF ts] c obtain res' w' where
      d: "drain env (length (wd_tasks w1)) w1 = Some (res', w')" "world_ok env w'"
        "sessions_kept env w1 w'"
        "case res' of Inr _ \<Rightarrow> wd_tasks w' = []
          | Inl e \<Rightarrow> task_error e \<and> (\<exists>finished t. wd_tasks w1 = finished @ t # wd_tasks w')"
        "\<exists>ds. wd_decisions w' = wd_decisions w1 @ ds"
        "\<forall>sid. sid \<notin> ta_session_id ` set (wd_tasks w1) \<longrightarrow> load env sid w' = load env sid w1"
      by blast
    have "drain env (length (wd_tasks w)) w = Some (res', w')"
      using run Inr d(1) ts by (simp flip: Cons(2))
    moreover have "\<exists>ds. wd_decisions w' = wd_decisions w @ ds"
      using c d(5) by (auto simp: grows_def)
    moreover have "case res' of Inr _ \<Rightarrow> wd_tasks w' = []
        | Inl e \<Rightarrow> task_error e \<and> (\<exists>finished t. wd_tasks w = finished @ t # wd_tasks w')"
      using d(4) ts Cons(2) by (auto split: sum.splits) (metis append_Cons)
    moreover have "\<forall>sid. sid \<notin> ta_session_id ` set (wd_tasks w) \<longrightarrow> load env sid w' = load env sid w"
      using d(6) other ts by (simp flip: Cons(2))
    ultimately show ?thesis using d(2) sessions_kept_trans [OF kept_u sessions_kept_trans [OF _ d(3)]] c by blast
  qed
qed

end
