(* ===== verification/Dev_Session_Props.thy ===== *)
theory Dev_Session_Props
  imports Dev_Session_Inv
begin

text \<open>
  The properties of persistence, of the agents and of the shell, with a demonstration
  session for their witnesses.
\<close>

section \<open>A demonstration session\<close>

definition demo_files :: prompt_files where
  "demo_files = \<lparr>pf_system = ''sys'', pf_level_guide = ''guide'', pf_anchors = ''anchors'',
     pf_schema = ''{}''\<rparr>"

definition demo_shell :: shell_env where
  "demo_shell = \<lparr>sh_codec = strict_codec, sh_config = committed_config,
     sh_float_text = (\<lambda>_. ''0.0''), sh_interviewer_files = demo_files,
     sh_assessor_files = demo_files, sh_read_file =
       (\<lambda>_. Some (''## String'' @ newline @ ''> hello {FirstName}'')), sh_ceiling_usd = 5,
     sh_now = int, sh_enforced = (\<lambda>_. True), sh_call = (\<lambda>_. demo_env)\<rparr>"

definition demo_working :: "session_state \<Rightarrow> working" where
  "demo_working s = \<lparr>wk_session_id = 7, wk_state = s, wk_transcript =
     [\<lparr>te_role = BySystem, te_text = ''hi'', te_turn_id = None\<rparr>]\<rparr>"

definition demo_world :: "session_state \<Rightarrow> world" where
  "demo_world s = \<lparr>
     wd_states = [(7, Some (encode_session_state strict_codec s))],
     wd_transcripts = [(7, JArr (map entry_payload (wk_transcript (demo_working s))))],
     wd_decisions = [], wd_pg = demo_db, wd_tasks = [], wd_tick = 0\<rparr>"

lemma demo_shell_simps [simp]:
  "sh_codec demo_shell = strict_codec" "sh_config demo_shell = committed_config"
  by (simp_all add: demo_shell_def)

lemma demo_shell_sound: "env_sound demo_shell"
  by (simp add: env_sound_def strict_codec_ok committed_config_ok)

lemma demo_session_ok:
  assumes "reachable strict_px committed_config s" and "session_id s = 7"
    and "state_schema_version s = config_schema_version committed_config"
  shows "session_ok demo_shell (demo_working s)"
  using assms reachable_inv [OF assms(1) committed_config_ok]
  by (simp add: session_ok_def demo_working_def strict_codec_def)

lemma demo_load:
  assumes "session_ok demo_shell (demo_working s)"
  shows "load demo_shell 7 (demo_world s) = Inr (demo_working s)"
proof -
  let ?w = "(demo_world s)\<lparr>wd_states := [(7, None)], wd_transcripts := []\<rparr>"
  have "persist demo_shell (demo_working s) ?w = (Inr (), demo_world s)"
    by (simp add: persist_def save_session_state_def demo_world_def demo_working_def)
  from persist_load [OF demo_shell_sound assms this] show ?thesis by (simp add: demo_working_def)
qed

lemma demo_sessions:
  "session_ok demo_shell (demo_working demo_intro)"
  "session_ok demo_shell (demo_working demo_asking)"
  "session_ok demo_shell (demo_working demo_tech)"
  using demo_reachable by (simp_all add: demo_session_ok demo_states)

lemma demo_world_ok: "session_ok demo_shell (demo_working s) \<Longrightarrow> world_ok demo_shell (demo_world s)"
proof -
  assume ok: "session_ok demo_shell (demo_working s)"
  have "sid = 7" if "load demo_shell sid (demo_world s) = Inr v" for sid v
    using load_Inr [OF that] by (auto simp: has_row_def demo_world_def split: if_splits)
  then show ?thesis using demo_load [OF ok] ok by (auto simp: world_ok_def)
qed

section \<open>Persistence\<close>

text \<open>
  C29: a saved session resumes as it was. Whatever state the machine can reach, saving it and
  loading it with the version it was written with gives back that very state, every field
  included; loading it with any other version is refused, never migrated; and no other row
  changes.
\<close>

theorem saved_session_resumes:
  assumes "codec_ok cd" and "config_ok config" and "reachable (cd_px cd) config s"
    and "dict_get rows sid \<noteq> None"
  shows "\<exists>rows'. save_session_state cd rows sid s = Inr rows'
    \<and> load_session_state cd rows' sid (state_schema_version s) = Inr (Some s)
    \<and> (\<forall>v. v \<noteq> state_schema_version s \<longrightarrow>
          load_session_state cd rows' sid v = Inl StateSchemaVersionError)
    \<and> (\<forall>other. other \<noteq> sid \<longrightarrow> dict_get rows' other = dict_get rows other)"
proof -
  obtain d where d: "encode_session_state cd s = JObj d"
    by (simp add: encode_session_state_def)
  have "storable s" using reachable_inv [OF assms(3,2)] by (rule machine_inv_storable)
  from decode_encode [OF assms(1) this] show ?thesis
    using assms(4) d by (auto simp: save_session_state_def load_session_state_def dict_simps)
qed

theorem saved_session_resumes_witness:
  "\<exists>rows'. save_session_state strict_codec [(7, None)] 7 demo_tech = Inr rows'
    \<and> load_session_state strict_codec rows' 7 (state_schema_version demo_tech) = Inr (Some demo_tech)"
  using saved_session_resumes [OF strict_codec_ok committed_config_ok, of demo_tech "[(7, None)]" 7]
    demo_reachable(4) by (auto simp: strict_codec_def)

section \<open>The agents\<close>

text \<open>
  C37: only contract answers reach the machine. An utterance or a score an agent returns
  satisfies every bound of its output model, a score echoes the request's own turn, session
  and focus, and both are events the machine's safety theorems accept, whatever the model
  calls return.
\<close>

theorem agent_answers_are_contract:
  "(case fst (run_interviewer_turn px sf pf call i w) of
      Inl _ \<Rightarrow> True
    | Inr out \<Rightarrow> 1 \<le> py_len (utterance out) \<and> py_len (utterance out) \<le> 1200
        \<and> event_ok (InterviewerReplyReady t out now))
   \<and> (case fst (run_assessor_turn cd sf pfa call2 a v) of
      Inl _ \<Rightarrow> True
    | Inr out \<Rightarrow> out_turn_id out = at_turn_id a \<and> out_session_id out = at_session_id a
        \<and> competency_focus out = at_competency_focus a
        \<and> list_all (\<lambda>x. 0 \<le> level x \<and> level x \<le> 5 \<and> confidence x \<le> 99 / 100
             \<and> evidence_spans x \<noteq> []) (assessments out)
        \<and> event_ok (AssessmentCompleted t out now))"
proof -
  have "interviewer_output_ok out" if "fst (run_interviewer_turn px sf pf call i w) = Inr out" for out
    using that run_interviewer_turn_ok by (metis prod.collapse)
  moreover have "assessor_output_ok out \<and> out_turn_id out = at_turn_id a
      \<and> out_session_id out = at_session_id a \<and> competency_focus out = at_competency_focus a"
    if "fst (run_assessor_turn cd sf pfa call2 a v) = Inr out" for out
    using that run_assessor_turn_ok by (metis prod.collapse)
  ultimately show ?thesis
    by (auto simp: interviewer_output_ok_def assessor_output_ok_def assessment_item_ok_def
        event_ok_def list_all_iff split: sum.split)
qed

text \<open>
  One retry, all of it on record. An agent's turn leaves the traces of its model calls
  and nothing else: none or one when a call raised or the answer was good, two when the
  first answer missed the contract; an output is returned with at least one trace and
  \<open>...OutputInvalid\<close> is raised only with the traces of two misses.
\<close>

theorem agent_turn_traces:
  assumes "env_ok (env 0)" and "env_ok (env 1)"
    and "run_interviewer_turn px sf pf (\<lambda>k. call_model mem_write mem_total mem_add (env k)) i w = (res, w')"
    and "run_assessor_turn cd sfa pfa (\<lambda>k. call_model pg_write pg_total pg_add (env k)) a v = (res2, v')"
  shows "(\<exists>n \<le> 2. mem_ids w' = mem_ids w @ take n [ev_trace_id (env 0), ev_trace_id (env 1)]
        \<and> ((\<exists>out. res = Inr out) \<longrightarrow> 1 \<le> n) \<and> (res = Inl OutputInvalid \<longrightarrow> n = 2))
    \<and> (\<exists>n \<le> 2. pg_ids v' = pg_ids v @ take n [ev_trace_id (env 0), ev_trace_id (env 1)]
        \<and> ((\<exists>out. res2 = Inr out) \<longrightarrow> 1 \<le> n) \<and> (res2 = Inl OutputInvalid \<longrightarrow> n = 2))"
proof -
  have none: "\<exists>n \<le> (2::nat). xs = xs @ take n ys \<and> (False \<longrightarrow> 1 \<le> n) \<and> (False \<longrightarrow> n = 2)"
    for xs ys :: "uuid list" by (intro exI [of _ 0]) simp
  show ?thesis
    using assms(3,4) none mem_world.retry_once_traced [OF assms(1,2)]
      pg.retry_once_traced [OF assms(1,2)]
    by (auto simp: run_interviewer_turn_def run_assessor_turn_def split: option.splits) blast+
qed

definition demo_interviewer_inputs :: interviewer_turn_inputs where
  "demo_interviewer_inputs = \<lparr>it_session_id = 7, it_plan_snapshot = demo_input,
     it_current_competency = [], it_recent_turns = [], it_next_planned_move = AskSeed,
     it_move_context = [], it_candidate_first_name = None\<rparr>"

definition demo_assessor_input :: assessor_turn_input where
  "demo_assessor_input = \<lparr>at_session_id = 7, at_turn_id = 100, at_competency_focus = ''n1'',
     at_rubric_subset = [], at_turn = [(''answer'', JStr ''a'')], at_prior_turns = [],
     at_turn_metadata = [(''turn_id'', JStr ''spoofed'')]\<rparr>"

definition demo_calls :: "nat \<Rightarrow> call_env" where
  "demo_calls k = demo_env\<lparr>ev_trace_id := 9 + of_nat k\<rparr>"

lemma demo_calls_ok: "env_ok (demo_calls k)"
  using demo_env_ok by (simp add: env_ok_def demo_calls_def)

theorem agent_turn_traces_witness:
  "(\<exists>n \<le> 2. mem_ids (snd (run_interviewer_turn strict_px (\<lambda>_. ''0.0'') demo_files
        (\<lambda>k. call_model mem_write mem_total mem_add (demo_calls k)) demo_interviewer_inputs demo_memory))
      = take n [9, 10])
   \<and> (\<exists>n \<le> 2. pg_ids (snd (run_assessor_turn strict_codec (\<lambda>_. ''0.0'') demo_files
        (\<lambda>k. call_model pg_write pg_total pg_add (demo_calls k)) demo_assessor_input demo_db))
      = take n [9, 10])"
proof -
  have ids: "ev_trace_id (demo_calls 0) = 9" "ev_trace_id (demo_calls 1) = 10"
    "mem_ids demo_memory = []" "pg_ids demo_db = []"
    by (simp_all add: demo_calls_def mem_ids_def pg_ids_def demo_memory_def demo_db_def)
  show ?thesis
    using agent_turn_traces [where env = demo_calls, OF demo_calls_ok demo_calls_ok,
        OF surjective_pairing surjective_pairing, where px = strict_px and sf = "\<lambda>_. ''0.0''"
        and pf = demo_files and i = demo_interviewer_inputs and w = demo_memory
        and cd = strict_codec and sfa = "\<lambda>_. ''0.0''" and pfa = demo_files
        and a = demo_assessor_input and v = demo_db]
    unfolding ids by auto
qed

text \<open>
  What the assessor reads. Reading the payload text back gives the five inputs of the
  prompt contract, and the ids in it are the typed ones, whatever ids the caller's own
  metadata carries.
\<close>

theorem assessor_payload_is_faithful:
  assumes "list_all (\<lambda>d. printable sf (JObj d)) (at_rubric_subset i)"
    and "printable sf (JObj (at_turn i))"
    and "list_all (\<lambda>d. printable sf (JObj d)) (at_prior_turns i)"
    and "printable sf (JObj (at_turn_metadata i))"
  shows "\<exists>d md. loads (to_user_payload sf i) = Some (JObj d)
    \<and> dict_get d ''turn'' = Some (JObj (at_turn i))
    \<and> dict_get d ''rubric_snapshot_subset'' = Some (JArr (map JObj (at_rubric_subset i)))
    \<and> dict_get d ''prior_turns'' = Some (JArr (map JObj (at_prior_turns i)))
    \<and> dict_get d ''competency_focus'' = Some (JStr (at_competency_focus i))
    \<and> dict_get d ''turn_metadata'' = Some (JObj md)
    \<and> dict_get md ''turn_id'' = Some (JStr (uuid_str (at_turn_id i)))
    \<and> dict_get md ''session_id'' = Some (JStr (uuid_str (at_session_id i)))
    \<and> (\<forall>k. k \<noteq> ''turn_id'' \<and> k \<noteq> ''session_id'' \<longrightarrow> dict_get md k = dict_get (at_turn_metadata i) k)"
proof -
  have sub: "set (dict_set d k v) \<subseteq> insert (k, v) (set d)" for d :: "(string, json) dict" and k v
    by (induction d) (auto split: if_splits)
  have "printable sf (JObj (dict_set d k (JStr s)))" if "printable sf (JObj d)" for d k s
    using that sub [of d k "JStr s"] by (fastforce simp: list_all_iff)
  then have "printable sf (JObj (assessor_metadata i))"
    using assms(4) by (simp only: assessor_metadata_def uuid_json_def)
  then have "printable sf (assessor_payload_value i)"
    using assms by (simp del: printable.simps(3) add: assessor_payload_value_def printable.simps(3)
        [of sf "_ # _"] list_all_iff)
  from loads_dumps [OF this] show ?thesis
    by (simp add: to_user_payload_def assessor_payload_value_def assessor_metadata_def uuid_json_def
        dict_simps)
qed

theorem assessor_payload_is_faithful_witness:
  "\<exists>d md. loads (to_user_payload (\<lambda>_. ''0.0'') demo_assessor_input) = Some (JObj d)
    \<and> dict_get d ''turn_metadata'' = Some (JObj md)
    \<and> dict_get md ''turn_id'' = Some (JStr (uuid_str 100))"
  using assessor_payload_is_faithful [of "\<lambda>_. ''0.0''" demo_assessor_input]
  by (fastforce simp: demo_assessor_input_def)

section \<open>The shell\<close>

lemma post_turn_cases:
  assumes "env_sound env" and "world_ok env w" and "post_turn env sid said w = (res, w')"
  obtains (unloaded) e where "load env sid w = Inl e" "res = Inl e" "w' = w"
  | (refused) wk where "load env sid w = Inr wk" "\<not> accepts_turn (wk_state wk)"
      "res = Inl DevSessionNotAwaitingCandidate" "w' = w"
  | (driven) wk wk1 t wk' where "load env sid w = Inr wk" "accepts_turn (wk_state wk)"
      "wk1 = append_entry wk ByCandidate said
         (candidate_turn_id sid (turn_ordinal (wk_transcript wk)))"
      "left_stored env wk1 (CandidateTurnReceived
         (candidate_turn_id sid (turn_ordinal (wk_transcript wk))) said t) 4 (tick w) w' wk'"
      "case res of Inl e \<Rightarrow> expected_error e | Inr a \<Rightarrow> view wk' w' = Inr (tr_session a)
         \<and> tr_utterance a = map_option te_text (find (\<lambda>t. te_role t = ByInterviewer)
             (rev (drop (length (wk_transcript wk1)) (wk_transcript wk'))))"
proof (cases "load env sid w")
  case (Inl e)
  with assms(3) show thesis by (intro unloaded [OF Inl]) (simp_all add: post_turn_def)
next
  case (Inr wk)
  show thesis
  proof (cases "accepts_turn (wk_state wk)")
    case False
    with Inr assms(3) show thesis by (intro refused [OF Inr]) (simp_all add: post_turn_def)
  next
    case True
    define turn where "turn = candidate_turn_id sid (turn_ordinal (wk_transcript wk))"
    define wk1 where "wk1 = append_entry wk ByCandidate said turn"
    define e where "e = CandidateTurnReceived turn said (clock_now env w)"
    have ok: "session_ok env wk1" and row: "has_row (wk_session_id wk1) (tick w)"
      using assms(2) Inr load_Inr [OF Inr]
      by (simp_all add: wk1_def world_ok_def has_row_def tick_def)
    have ev: "event_ok e" by (simp add: e_def event_ok_def)
    obtain out w2 where d: "drive env wk1 e (tick w) = (out, w2)" by fastforce
    obtain wk' where left: "left_stored env wk1 e 4 (tick w) w2 wk'"
      and out: "case out of Inr x \<Rightarrow> x = wk' | Inl err \<Rightarrow> expected_error err"
      by (rule drive_cases [OF assms(1) ok ev row d])
    have "w' = w2" and "case res of Inl e \<Rightarrow> expected_error e | Inr a \<Rightarrow>
        view wk' w' = Inr (tr_session a) \<and> tr_utterance a = map_option te_text
          (find (\<lambda>t. te_role t = ByInterviewer) (rev (drop (length (wk_transcript wk1)) (wk_transcript wk'))))"
      using assms(3) Inr True d out
      by (auto simp: post_turn_def and_run_def and_then_def view_def Let_def expected_error_def
          split: sum.splits option.splits simp flip: turn_def wk1_def e_def)
    with left show thesis
      unfolding e_def turn_def by (intro driven [OF Inr True wk1_def [unfolded turn_def]]) simp_all
  qed
qed

lemma post_turn_world_ok:
  assumes "env_sound env" and "world_ok env w" and "post_turn env sid said w = (res, w')"
  shows "world_ok env w'"
  using assms
proof (cases rule: post_turn_cases)
  case (driven wk wk1 t wk')
  have "world_ok env (tick w)" using assms(2) world_ok_store [of w "tick w"] by simp
  then show ?thesis by (rule left_stored_world_ok [OF _ driven(4)])
qed (use assms(2) in auto)

text \<open>
  C3: what a posted turn does. A request whose session cannot be read, or that is not
  accepting a turn, changes nothing. Otherwise, whatever the agents do and whatever
  exception escapes, the stored session afterwards is the one the machine reaches by
  handling the candidate's turn and at most three further events; its transcript is the
  old one followed by the candidate's words verbatim; other sessions read as before; and
  the only exceptions are the documented shell error and an escaped agent error.
\<close>

theorem posted_turn_contract:
  assumes "env_sound env" and "world_ok env w" and "post_turn env sid said w = (res, w')"
  shows "world_ok env w' \<and> (\<forall>other. other \<noteq> sid \<longrightarrow> load env other w' = load env other w)
    \<and> (case load env sid w of
         Inl e \<Rightarrow> res = Inl e \<and> w' = w
       | Inr wk \<Rightarrow>
           if \<not> accepts_turn (wk_state wk)
           then res = Inl DevSessionNotAwaitingCandidate \<and> w' = w
           else let turn = candidate_turn_id sid (turn_ordinal (wk_transcript wk)) in
             \<exists>wk' rest now fs. load env sid w' = Inr wk'
               \<and> wk_transcript wk' = wk_transcript wk
                   @ [\<lparr>te_role = ByCandidate, te_text = said, te_turn_id = Some turn\<rparr>] @ rest
               \<and> length fs < 4
               \<and> machine_run env (wk_state wk) (CandidateTurnReceived turn said now # fs) (wk_state wk')
               \<and> (case res of
                    Inl e \<Rightarrow> e = DevSessionError \<or> (\<exists>x. e = AgentEscaped x)
                  | Inr a \<Rightarrow> view wk' w' = Inr (tr_session a)))"
  using assms
proof (cases rule: post_turn_cases)
  case (driven wk wk1 t wk')
  have sid: "wk_session_id wk1 = sid" using driven load_Inr by auto
  have same: "load env other (tick w) = load env other w" for other by (rule load_store) simp
  have "world_ok env w'" by (rule post_turn_world_ok [OF assms])
  moreover have "\<forall>other. other \<noteq> sid \<longrightarrow> load env other w' = load env other w"
    using driven(4) same unfolding left_stored_def others_same_def sid by simp
  moreover obtain rest where "wk_transcript wk' = wk_transcript wk1 @ rest"
    using driven(4) unfolding left_stored_def grows_def by blast
  moreover obtain fs where "length fs < 4" "machine_run env (wk_state wk1) (CandidateTurnReceived
      (candidate_turn_id sid (turn_ordinal (wk_transcript wk))) said t # fs) (wk_state wk')"
    using driven(4) unfolding left_stored_def by blast
  moreover have "load env sid w' = Inr wk'" using driven(4) sid unfolding left_stored_def by simp
  moreover have "case res of Inl e \<Rightarrow> e = DevSessionError \<or> (\<exists>x. e = AgentEscaped x)
      | Inr a \<Rightarrow> view wk' w' = Inr (tr_session a)"
    using driven(5) by (simp add: expected_error_def split: sum.splits)
  ultimately show ?thesis
    using driven(1,2,3) by (simp add: Let_def) blast
qed (use assms(2) in auto)

theorem posted_turn_contract_witness:
  "\<exists>wk' rest. load demo_shell 7 (snd (post_turn demo_shell 7 ''answer'' (demo_world demo_tech))) = Inr wk'
    \<and> wk_transcript wk' = wk_transcript (demo_working demo_tech) @ [\<lparr>te_role = ByCandidate,
        te_text = ''answer'', te_turn_id = Some (candidate_turn_id 7 0)\<rparr>] @ rest"
proof -
  have acc: "accepts_turn (wk_state (demo_working demo_tech))"
    by (simp add: accepts_turn_def demo_working_def demo_states)
  have ord: "turn_ordinal (wk_transcript (demo_working demo_tech)) = 0"
    by (simp add: turn_ordinal_def demo_working_def)
  show ?thesis
    using posted_turn_contract [OF demo_shell_sound demo_world_ok [OF demo_sessions(3)]
        surjective_pairing, of 7 "''answer''"] acc ord demo_load [OF demo_sessions(3)]
    by (auto simp: Let_def)
qed

text \<open>
  An event never runs away. From any stored session, driving any event the machine
  accepts leaves the session stored, a machine state reached by a run of at most four
  events; the sixty-four step guard is never the reason it stops, the machine never raises,
  and no persistence error escapes.
\<close>

theorem drive_is_bounded:
  assumes "env_sound env" and "world_ok env w" and "load env sid w = Inr wk" and "event_ok e"
    and "drive env wk e w = (res, w')"
  shows "(case res of Inl err \<Rightarrow> err = DevSessionError \<or> (\<exists>x. err = AgentEscaped x)
            | Inr wk' \<Rightarrow> load env sid w' = Inr wk')
    \<and> (\<exists>wk' fs. load env sid w' = Inr wk' \<and> length fs < 4
         \<and> machine_run env (wk_state wk) (e # fs) (wk_state wk'))"
proof -
  have ok: "session_ok env wk" and row: "has_row (wk_session_id wk) w" and sid: "wk_session_id wk = sid"
    using assms(2,3) load_Inr [OF assms(3)] by (auto simp: world_ok_def)
  obtain wk' where "left_stored env wk e 4 w w' wk'"
    "case res of Inr out \<Rightarrow> out = wk' | Inl err \<Rightarrow> expected_error err"
    by (rule drive_cases [OF assms(1) ok assms(4) row assms(5)])
  then show ?thesis
    by (auto simp: left_stored_def expected_error_def sid split: sum.splits)
qed

theorem drive_is_bounded_witness:
  "fst (drive demo_shell (demo_working demo_tech) (Reconnected 5) (demo_world demo_tech))
     \<noteq> Inl DevSessionRunawayError"
  using drive_is_bounded [OF demo_shell_sound demo_world_ok [OF demo_sessions(3)]
      demo_load [OF demo_sessions(3)] _ surjective_pairing, of "Reconnected 5"]
  by (auto simp: event_ok_def split: sum.splits)

lemma insert_session_cases:
  assumes "insert_session sid w = (res, w')"
  obtains "has_row sid w" "res = Inl DatabaseError" "w' = w"
  | "\<not> has_row sid w" "res = Inr ()" "has_row sid w'" "others_same env sid w w'"
      "wd_decisions w' = wd_decisions w" "wd_tasks w' = wd_tasks w"
proof (cases "has_row sid w")
  case True
  with assms show thesis by (intro that(1)) (auto simp: insert_session_def has_row_def)
next
  case False
  then have w': "res = Inr ()" "wd_states w' = dict_set (wd_states w) sid None"
    "wd_transcripts w' = wd_transcripts w" "wd_decisions w' = wd_decisions w" "wd_tasks w' = wd_tasks w"
    using assms by (auto simp: insert_session_def has_row_def)
  show thesis
    by (rule that(2) [OF False w'(1) _ _ w'(4,5)])
      (auto simp: has_row_def others_same_def w'(2,3) dict_simps intro!: load_row_cong)
qed

lemma others_same_world_ok:
  assumes "world_ok env w" and "others_same env sid w w'"
    and "\<And>v. load env sid w' = Inr v \<Longrightarrow> session_ok env v"
  shows "world_ok env w'"
  unfolding world_ok_def
proof (intro allI impI)
  fix other v
  assume "load env other w' = Inr v"
  with assms show "session_ok env v"
    by (cases "other = sid") (auto simp: others_same_def world_ok_def)
qed

lemma rejected_plan_drive:
  fixes d :: "(string, json) dict" and env sid
  defines "s \<equiv> initial_state sid d (sh_config env)"
  assumes "validate_plan (cd_px (sh_codec env)) (JObj d) = Inl e"
    and "has_row sid w"
    and "drive env \<lparr>wk_session_id = sid, wk_state = s, wk_transcript = []\<rparr> (SessionStarted t) w = (res, w')"
  shows "\<exists>s'. res = Inr \<lparr>wk_session_id = sid, wk_state = s', wk_transcript = []\<rparr>
    \<and> phase s' = Aborted \<and> plan s' = None \<and> wd_decisions w' = wd_decisions w @ [(sid, ''plan_invalid'')]"
proof -
  let ?wk = "\<lparr>wk_session_id = sid, wk_state = s, wk_transcript = []\<rparr>"
  let ?r = "abort s OperatorAborted PlanInvalidDecision False"
  have "e = PlanInvalid" by (cases e)
  then have tr: "transition (cd_px (sh_codec env)) s (SessionStarted t) (sh_config env) = Inr ?r"
    using assms(2) by (simp add: transition_def on_session_started_def s_def initial_state_def terminal_phases_def)
  obtain w1 where w1: "persist env (?wk\<lparr>wk_state := new_state ?r\<rparr>) w = (Inr (), w1)"
    "wd_decisions w1 = wd_decisions w"
    by (rule persist_total [of "?wk\<lparr>wk_state := new_state ?r\<rparr>" w env]) (use assms(3) in simp_all)
  have "drive_step env ?wk (SessionStarted t) w = (Inr (?wk\<lparr>wk_state := new_state ?r\<rparr>, []),
      record_decision (?wk\<lparr>wk_state := new_state ?r\<rparr>) PlanInvalidDecision w1)"
    using tr w1(1) by (simp add: drive_step_def Let_def and_run_def execute_one_def abort_def)
  moreover have "drive env ?wk (SessionStarted t) w =
      and_run (drive_step env ?wk (SessionStarted t) w) (\<lambda>(v, fs) u. drive_loop env 63 v ([] @ fs) u)"
    unfolding drive_def max_drive_steps_def
    using drive_loop.simps(3) [of env 63 ?wk "SessionStarted t" "[]" w] by simp
  ultimately show ?thesis
    using assms(4) w1(2)
    by (auto simp: and_run_def record_decision_def decision_name_def abort_def s_def initial_state_def)
qed

lemma create_session_cases:
  assumes "env_sound env" and "create_session env d sid w = (res, w')"
  obtains (taken) "has_row sid w" "res = Inl DatabaseError" "w' = w"
  | (started) wk' now fs where "\<not> has_row sid w" "load env sid w' = Inr wk'" "session_ok env wk'"
      "others_same env sid w w'" "length fs < 4"
      "machine_run env (initial_state sid d (sh_config env)) (SessionStarted now # fs) (wk_state wk')"
      "\<And>e. validate_plan (cd_px (sh_codec env)) (JObj d) = Inl e \<Longrightarrow> res = Inl DevSessionPlanInvalid
        \<and> phase (wk_state wk') = Aborted \<and> wd_decisions w' = wd_decisions w @ [(sid, ''plan_invalid'')]"
proof -
  define wk where "wk = \<lparr>wk_session_id = sid, wk_state = initial_state sid d (sh_config env),
      wk_transcript = []\<rparr>"
  have wk: "wk_session_id wk = sid" "wk_state wk = initial_state sid d (sh_config env)" "session_ok env wk"
    using initial_session_ok by (simp_all add: wk_def)
  obtain ins w1 where ins: "insert_session sid w = (ins, w1)" by fastforce
  then show thesis
  proof (cases rule: insert_session_cases [where env = env])
    case 1
    with ins assms(2) show thesis by (intro taken) (simp_all add: create_session_def and_run_def)
  next
    case 2
    have row1: "has_row (wk_session_id wk) w1" using 2 wk by simp
    obtain w2 where w2: "persist env wk w1 = (Inr (), w2)" "has_row sid w2"
      "wd_decisions w2 = wd_decisions w1" "others_same env sid w1 w2"
      using persist_total [OF row1, of env] wk(1) by metis
    define now where "now = clock_now env w2"
    have row: "has_row (wk_session_id wk) (tick w2)" using w2(2) wk by (simp add: has_row_def tick_def)
    obtain out w3 where d: "drive env wk (SessionStarted now) (tick w2) = (out, w3)" by fastforce
    obtain wk' where left: "left_stored env wk (SessionStarted now) 4 (tick w2) w3 wk'"
      and out: "case out of Inr x \<Rightarrow> x = wk' | Inl err \<Rightarrow> expected_error err"
      by (rule drive_cases [OF assms(1) wk(3) _ row d]) (simp add: event_ok_def)
    have w': "w' = w3" and res: "res = (case out of Inl e \<Rightarrow> Inl e | Inr v \<Rightarrow>
        if phase (wk_state v) = Aborted \<and> plan (wk_state v) = None then Inl DevSessionPlanInvalid
        else view v w3)"
      using assms(2) ins 2(2) w2(1) d
      by (auto simp: create_session_def and_run_def Let_def now_def wk_def split: sum.splits if_splits)
    have "others_same env sid w2 (tick w2)" by (rule others_store) simp
    then have oth: "others_same env sid w w'"
      using 2(4) w2(4) left wk(1) w' unfolding left_stored_def by (metis others_same_trans)
    have stored: "load env sid w' = Inr wk'" "session_ok env wk'"
      using left w' wk(1) by (simp_all add: left_stored_def)
    have refused: "res = Inl DevSessionPlanInvalid \<and> phase (wk_state wk') = Aborted
        \<and> wd_decisions w' = wd_decisions w @ [(sid, ''plan_invalid'')]"
      if "validate_plan (cd_px (sh_codec env)) (JObj d) = Inl e" for e
    proof -
      have "has_row sid (tick w2)" using row wk(1) by simp
      from rejected_plan_drive [OF that this d [unfolded wk_def]] out res
      show ?thesis by (auto simp: w' 2(5) w2(3))
    qed
    obtain fs where "length fs < 4"
      "machine_run env (initial_state sid d (sh_config env)) (SessionStarted now # fs) (wk_state wk')"
      using left wk(2) unfolding left_stored_def by auto
    with 2(1) stored oth refused show thesis by (intro started) auto
  qed
qed

lemma create_session_world_ok:
  assumes "env_sound env" and "world_ok env w" and "create_session env d sid w = (res, w')"
  shows "world_ok env w'"
  using assms(1,3)
proof (cases rule: create_session_cases)
  case (started wk' now fs)
  show ?thesis by (rule others_same_world_ok [OF assms(2) started(4)]) (use started in auto)
qed (use assms(2) in simp)

text \<open>
  C33: what creating a session does. An id that is taken changes nothing. Otherwise the row
  holds a machine state reached from the initial one by the start event and at most three
  more, other sessions read as before, and every stored session stays valid; a plan the
  contract refuses raises \<open>DevSessionPlanInvalid\<close>, leaves the session stored as aborted and
  appends exactly one decision, \<open>plan_invalid\<close>.
\<close>

theorem created_session_contract:
  assumes "env_sound env" and "world_ok env w" and "create_session env d sid w = (res, w')"
  shows "world_ok env w' \<and> (\<forall>other. other \<noteq> sid \<longrightarrow> load env other w' = load env other w)
    \<and> (if has_row sid w then res = Inl DatabaseError \<and> w' = w
       else \<exists>wk' now fs. load env sid w' = Inr wk' \<and> length fs < 4
         \<and> machine_run env (initial_state sid d (sh_config env)) (SessionStarted now # fs) (wk_state wk')
         \<and> (case validate_plan (cd_px (sh_codec env)) (JObj d) of
              Inl _ \<Rightarrow> res = Inl DevSessionPlanInvalid \<and> phase (wk_state wk') = Aborted
                \<and> wd_decisions w' = wd_decisions w @ [(sid, ''plan_invalid'')]
            | Inr _ \<Rightarrow> True))"
  using assms(1,3)
proof (cases rule: create_session_cases)
  case (started wk' now fs)
  then show ?thesis
    using create_session_world_ok [OF assms] unfolding others_same_def by (auto split: sum.split)
qed (use assms(2) in simp)

definition demo_empty_world :: world where
  "demo_empty_world = \<lparr>wd_states = [], wd_transcripts = [], wd_decisions = [], wd_pg = demo_db,
     wd_tasks = [], wd_tick = 0\<rparr>"

theorem created_session_contract_witness:
  "let (res, w') = create_session demo_shell [] 7 demo_empty_world
   in res = Inl DevSessionPlanInvalid \<and> wd_decisions w' = [(7, ''plan_invalid'')]
     \<and> world_ok demo_shell w'"
proof -
  have "world_ok demo_shell demo_empty_world"
    using load_Inr by (fastforce simp: world_ok_def has_row_def demo_empty_world_def)
  moreover have "validate_plan strict_px (JObj []) = Inl PlanInvalid"
    by (simp add: validate_plan_def model_validate_plan_def as_object_def req_def)
  moreover have "cd_px (sh_codec demo_shell) = strict_px" by (simp add: strict_codec_def)
  ultimately show ?thesis
    using created_session_contract [OF demo_shell_sound _ surjective_pairing, of demo_empty_world "[]" 7]
    by (auto simp: has_row_def demo_empty_world_def case_prod_unfold Let_def)
qed

end
