(* ===== verification/Dev_Session_Audit.thy ===== *)
theory Dev_Session_Audit
  imports Dev_Session_Props
begin

text \<open>
  The audit trail and the spending of a session as the shell keeps them: what a drive does
  to the \<open>turn_trace\<close> table, whatever it raises, the session cost ceiling, and the queue of
  scheduled assessments.
\<close>

section \<open>What a drive does to the database of traces\<close>

text \<open>
  Of all commands only a move touches the trail, so a relation that every move keeps is
  kept by a whole drive.
\<close>

locale trail_relation =
  fixes env :: shell_env and sid :: uuid and R :: "pg_world \<Rightarrow> pg_world \<Rightarrow> bool"
  assumes R_refl: "R p p" and R_trans: "R p p1 \<Longrightarrow> R p1 p2 \<Longrightarrow> R p p2"
    and R_move: "wk_session_id wk = sid \<Longrightarrow>
      shell_run_interviewer env wk move before after w = (res, w') \<Longrightarrow> R (wd_pg w) (wd_pg w')"
begin

lemma persist_pg: "persist env wk w = (res, w') \<Longrightarrow> wd_pg w' = wd_pg w"
  by (auto simp: persist_def split: sum.splits)

lemma emit_script_id: "emit_script env wk turn path = Inr wk' \<Longrightarrow> wk_session_id wk' = wk_session_id wk"
  by (auto simp: emit_script_def and_then_eq_Inr)

lemma pending_kept:
  assumes "execute_pending env before after wk p w = (res, w')" and "wk_session_id wk = sid"
  shows "R (wd_pg w) (wd_pg w') \<and> (\<forall>wk' es. res = Inr (wk', es) \<longrightarrow> wk_session_id wk' = sid)"
proof (cases p)
  case (RunInterviewer r)
  obtain out w1 where run: "shell_run_interviewer env wk r before after w = (out, w1)" by fastforce
  with RunInterviewer assms R_move [OF assms(2) run] show ?thesis
    by (auto simp: execute_pending_def and_run_def split: sum.splits)
qed (use assms R_refl emit_script_id in
    \<open>auto simp: execute_pending_def tick_def split: sum.splits\<close>)

lemma one_kept:
  assumes "execute_one env before after wk c w = (res, w')" and "wk_session_id wk = sid"
  shows "R (wd_pg w) (wd_pg w') \<and> (\<forall>wk' es. res = Inr (wk', es) \<longrightarrow> wk_session_id wk' = sid)"
proof (cases "\<exists>p. c = Outbound p \<or> c = ReissuePendingCommand p")
  case True
  then obtain p where "execute_one env before after wk c w = execute_pending env before after wk p w"
    by (auto simp: execute_one_def)
  with pending_kept [OF _ assms(2)] assms(1) show ?thesis by metis
next
  case False
  with assms R_refl show ?thesis
    by (cases c) (auto simp: execute_one_def schedule_task_def and_run_def record_decision_def Let_def
        split: if_splits)
qed

lemma execute_kept:
  assumes "execute env before after wk cs w = (res, w')" and "wk_session_id wk = sid"
  shows "R (wd_pg w) (wd_pg w') \<and> (\<forall>wk' es. res = Inr (wk', es) \<longrightarrow> wk_session_id wk' = sid)"
  using assms
proof (induction cs arbitrary: wk w res w')
  case (Cons c cs)
  obtain r1 w1 where one: "execute_one env before after wk c w = (r1, w1)" by fastforce
  note c1 = one_kept [OF one Cons.prems(2)]
  show ?case
  proof (cases r1)
    case (Inr p)
    then obtain wk1 es where p: "r1 = Inr (wk1, es)" by (cases p) auto
    obtain r2 w2 where rest: "execute env before after wk1 cs w1 = (r2, w2)" by fastforce
    have "R (wd_pg w) (wd_pg w2)" and w': "w' = w2"
      and res: "res = (case r2 of Inl e \<Rightarrow> Inl e | Inr (wk2, fs) \<Rightarrow> Inr (wk2, es @ fs))"
      using Cons.IH [OF rest] c1 p Cons.prems(1) one rest R_trans [of "wd_pg w" "wd_pg w1" "wd_pg w2"]
      by (auto simp: and_run_def split: sum.splits)
    with Cons.IH [OF rest] c1 p show ?thesis by (auto split: sum.splits)
  qed (use Cons.prems(1) one c1 in \<open>auto simp: and_run_def\<close>)
qed (simp add: R_refl)

lemma step_kept:
  assumes "drive_step env wk e w = (res, w')" and "wk_session_id wk = sid"
  shows "R (wd_pg w) (wd_pg w') \<and> (\<forall>wk' es. res = Inr (wk', es) \<longrightarrow> wk_session_id wk' = sid)"
proof (cases "transition (cd_px (sh_codec env)) (wk_state wk) e (sh_config env)")
  case (Inr r)
  let ?wk = "wk\<lparr>wk_state := new_state r\<rparr>"
  obtain p w1 where p: "persist env ?wk w = (p, w1)" by fastforce
  obtain out w2 where ex: "execute env (state_sha env (wk_state wk))
      (state_sha env (new_state r)) ?wk (commands r) w1 = (out, w2)" by fastforce
  have "wk_session_id ?wk = sid" using assms(2) by simp
  note kept = execute_kept [OF ex this]
  show ?thesis
    using assms Inr p ex kept R_refl persist_pg [OF p]
    by (auto simp: drive_step_def Let_def and_run_def dest!: persist_pg split: sum.splits if_splits prod.splits)
qed (use assms R_refl in \<open>auto simp: drive_step_def\<close>)

lemma drive_loop_kept:
  "drive_loop env n wk q w = (res, w') \<Longrightarrow> wk_session_id wk = sid \<Longrightarrow> R (wd_pg w) (wd_pg w')"
proof (induction n arbitrary: wk q w)
  case (Suc n)
  show ?case
  proof (cases q)
    case (Cons e q1)
    obtain out w1 where step: "drive_step env wk e w = (out, w1)" by fastforce
    note kept = step_kept [OF step Suc.prems(2)]
    show ?thesis
    proof (cases out)
      case (Inl err)
      with kept Suc.prems(1) step Cons show ?thesis by (simp add: and_run_def)
    next
      case (Inr p)
      then obtain wk1 es where "out = Inr (wk1, es)" by (cases p) auto
      with kept step Cons Suc.prems(1) Suc.IH [of wk1 "q1 @ es" w1] show ?thesis
        using R_trans [of "wd_pg w" "wd_pg w1" "wd_pg w'"] by (simp add: and_run_def)
    qed
  qed (use Suc.prems in \<open>simp add: R_refl\<close>)
qed (case_tac q, simp_all add: R_refl)

lemma drive_kept:
  "drive env wk e w = (res, w') \<Longrightarrow> wk_session_id wk = sid \<Longrightarrow> R (wd_pg w) (wd_pg w')"
  by (auto simp: drive_def intro: drive_loop_kept)

end

section \<open>At the ceiling\<close>

definition at_ceiling :: "shell_env \<Rightarrow> uuid \<Rightarrow> pg_world \<Rightarrow> bool" where
  "at_ceiling env sid p \<longleftrightarrow> (\<forall>n. sh_enforced env n) \<and> sh_ceiling_usd env \<le> pg_total p sid"

lemma at_ceiling_over: "at_ceiling env sid (wd_pg w) \<Longrightarrow> over_ceiling env sid w"
  by (simp add: at_ceiling_def over_ceiling_def guard_session_budget_def Let_def)

lemma ceiling_move:
  assumes "at_ceiling env (wk_session_id wk) (wd_pg w)"
  shows "\<exists>t. shell_run_interviewer env wk r before after w
    = (Inr [OperatorAbort CostCeiling t], tick (tick w))"
  using at_ceiling_over [OF assms] by (simp add: shell_run_interviewer_def)

interpretation ceiling: trail_relation env sid "\<lambda>p q. at_ceiling env sid p \<longrightarrow> q = p" for env sid
proof
  fix wk move before after w res w'
  assume "wk_session_id wk = sid" "shell_run_interviewer env wk move before after w = (res, w')"
  then show "at_ceiling env sid (wd_pg w) \<longrightarrow> wd_pg w' = wd_pg w"
    using ceiling_move [of env wk w move before after] by (auto simp: tick_def)
qed simp_all

text \<open>An abort by the operator, as the machine and the shell carry it out.\<close>

lemma operator_abort_step:
  assumes "env_sound env" and "session_ok env wk" and "has_row (wk_session_id wk) w"
    and "phase (wk_state wk) \<notin> terminal_phases"
  obtains w' where "drive_step env wk (OperatorAbort reason t) w =
      (Inr (wk\<lparr>wk_state := new_state (abort (wk_state wk) reason OperatorDecision True)\<rparr>, []), w')"
    "wd_decisions w' = wd_decisions w @ [(wk_session_id wk, abort_name reason)]"
proof -
  let ?r = "abort (wk_state wk) reason OperatorDecision True"
  let ?wk = "wk\<lparr>wk_state := new_state ?r\<rparr>"
  have tr: "transition (cd_px (sh_codec env)) (wk_state wk) (OperatorAbort reason t) (sh_config env) = Inr ?r"
    using assms(4) by (simp add: transition_def)
  obtain w1 where w1: "persist env ?wk w = (Inr (), w1)" "wd_decisions w1 = wd_decisions w"
    by (rule persist_total [of ?wk w env]) (use assms(3) in simp_all)
  have "drive_step env wk (OperatorAbort reason t) w =
      (Inr (?wk, []), record_decision ?wk OperatorDecision w1)"
    using tr w1(1) by (simp add: drive_step_def Let_def and_run_def execute_one_def abort_def)
  moreover have "wd_decisions (record_decision ?wk OperatorDecision w1) =
      wd_decisions w @ [(wk_session_id wk, abort_name reason)]"
    using w1(2) by (simp add: record_decision_def Let_def abort_def)
  ultimately show thesis by (rule that)
qed

text \<open>The moves among the answers of commands at the ceiling are aborts.\<close>

lemma ceiling_answers:
  assumes "execute env before after wk cs w = (Inr (wk', es), w')" and "session_ok env wk"
    and "at_ceiling env (wk_session_id wk) (wd_pg w)" and "Outbound (RunInterviewer q) \<in> set cs"
  shows "\<exists>t. OperatorAbort CostCeiling t \<in> set es"
  using assms
proof (induction cs arbitrary: wk w es)
  case (Cons c cs)
  obtain r1 w1 where one: "execute_one env before after wk c w = (r1, w1)" by fastforce
  then obtain wk1 es1 where r1: "r1 = Inr (wk1, es1)"
    using Cons.prems(1) by (cases r1) (auto simp: and_run_def)
  obtain fs where rest: "execute env before after wk1 cs w1 = (Inr (wk', fs), w')" and es: "es = es1 @ fs"
    using Cons.prems(1) one r1 by (auto simp: and_run_def split: prod.splits sum.splits)
  have same: "same_session wk wk1"
    using execute_one_cases [OF one Cons.prems(2)] r1 by simp
  have pg: "wd_pg w1 = wd_pg w"
    using ceiling.one_kept [OF one refl] Cons.prems(3) by blast
  show ?case
  proof (cases "c = Outbound (RunInterviewer q)")
    case True
    obtain t where "shell_run_interviewer env wk q before after w
        = (Inr [OperatorAbort CostCeiling t], tick (tick w))"
      using ceiling_move [OF Cons.prems(3)] by blast
    with True one r1 have "es1 = [OperatorAbort CostCeiling t]"
      by (auto simp: execute_one_def execute_pending_def and_run_def)
    with es show ?thesis by auto
  next
    case False
    have "session_ok env wk1" "wk_session_id wk1 = wk_session_id wk"
      using same_session_ok [OF same] Cons.prems(2) same by (simp_all add: same_session_def)
    with Cons.IH [OF rest] pg Cons.prems(3,4) False es show ?thesis by auto
  qed
qed simp

lemma drive_left:
  assumes "env_sound env" and "world_ok env w" and "load env sid w = Inr wk" and "event_ok e"
    and "drive env wk e w = (res, w')"
  shows "case res of Inl err \<Rightarrow> expected_error err | Inr out \<Rightarrow> load env sid w' = Inr out"
proof -
  have ok: "session_ok env wk" and row: "has_row (wk_session_id wk) w" and sid: "wk_session_id wk = sid"
    using assms(2,3) load_Inr [OF assms(3)] by (auto simp: world_ok_def)
  obtain wk' where "left_stored env wk e 4 w w' wk'"
    "case res of Inr out \<Rightarrow> out = wk' | Inl err \<Rightarrow> expected_error err"
    by (rule drive_cases [OF assms(1) ok assms(4) row assms(5)])
  then show ?thesis by (auto simp: left_stored_def sid split: sum.splits)
qed

lemma ceiling_step:
  assumes "env_sound env" and "session_ok env wk" and "event_ok e" and "has_row (wk_session_id wk) w"
    and "at_ceiling env (wk_session_id wk) (wd_pg w)"
    and "transition (cd_px (sh_codec env)) (wk_state wk) e (sh_config env) = Inr r"
    and "Outbound (RunInterviewer q) \<in> set (commands r)"
    and "drive_step env wk e w = (Inr (wk1, es), w1)"
  shows "\<exists>t. es = [OperatorAbort CostCeiling t]"
proof -
  let ?wk = "wk\<lparr>wk_state := new_state r\<rparr>"
  obtain r' where r': "transition (cd_px (sh_codec env)) (wk_state wk) e (sh_config env) = Inr r'"
    and ok: "session_ok env (wk\<lparr>wk_state := new_state r'\<rparr>)"
    and st: "step_outcome env wk r' w (Inr (wk1, es)) w1"
    by (rule drive_step_cases [OF assms(1-4,8)])
  have "r' = r" using assms(6) r' by simp
  then obtain ess where ess: "es = concat ess" "list_all2 answers_command (commands r) ess"
    using st by (auto simp: step_outcome_def)
  obtain w0 where w0: "persist env ?wk w = (Inr (), w0)" "wd_pg w0 = wd_pg w"
    by (rule persist_total [of ?wk w env]) (use assms(4) in simp_all)
  obtain v w2 where "execute env (state_sha env (wk_state wk)) (state_sha env (new_state r)) ?wk
      (commands r) w0 = (Inr (v, es), w2)"
    using assms(6,8) w0(1)
    by (auto simp: drive_step_def Let_def and_run_def split: sum.splits prod.splits if_splits)
  from ceiling_answers [OF this _ _ assms(7)] ok \<open>r' = r\<close> assms(5) w0(2)
  obtain t where t: "OperatorAbort CostCeiling t \<in> set es" by auto
  have "link_inv (wk_state wk)" using assms(2) by (simp add: session_ok_def machine_inv_def)
  from cascade_shrinks [OF assms(6) this ess(2)]
  have "follows (new_state r) (cascade (wk_state wk) e) es" unfolding ess(1) .
  with t show ?thesis by (auto simp: follows_def)
qed

lemma move_keeps_live:
  assumes "transition px s e config = Inr r" and "Outbound (RunInterviewer q) \<in> set (commands r)"
  shows "phase (new_state r) \<notin> terminal_phases"
  using transition_row [OF assms(1)] assms(2)
  by (cases rule: table_row.cases) (auto simp: terminal_phases_def)

text \<open>
  C8: the session cost ceiling. While it is enforced and the session's recorded spend is at
  or above it, no event makes a model call: the audit tables stay as they are. If the
  machine wanted the interviewer to speak, the session is aborted for \<open>cost_ceiling\<close>
  instead and that decision is recorded.
\<close>

theorem cost_ceiling_aborts:
  assumes "env_sound env" and "world_ok env w" and "load env sid w = Inr wk" and "event_ok e"
    and "\<forall>n. sh_enforced env n" and "sh_ceiling_usd env \<le> pg_total (wd_pg w) sid"
    and "transition (cd_px (sh_codec env)) (wk_state wk) e (sh_config env) = Inr r"
    and "drive env wk e w = (res, w')"
  shows "wd_pg w' = wd_pg w
    \<and> (\<forall>q out. Outbound (RunInterviewer q) \<in> set (commands r) \<and> res = Inr out \<longrightarrow>
         phase (wk_state out) = Aborted \<and> abort_reason (wk_state out) = Some CostCeiling
         \<and> load env sid w' = Inr out
         \<and> (\<exists>ds. wd_decisions w' = wd_decisions w @ ds @ [(sid, ''cost_ceiling'')]))"
proof -
  have ok: "session_ok env wk" and row: "has_row (wk_session_id wk) w" and sid: "wk_session_id wk = sid"
    using assms(2,3) load_Inr [OF assms(3)] by (auto simp: world_ok_def)
  have full: "at_ceiling env sid (wd_pg w)" using assms(5,6) by (simp add: at_ceiling_def)
  show ?thesis
  proof (intro conjI allI impI)
    show "wd_pg w' = wd_pg w" using ceiling.drive_kept [OF assms(8) sid] full by blast
  next
    fix q out
    assume "Outbound (RunInterviewer q) \<in> set (commands r) \<and> res = Inr out"
    then have q: "Outbound (RunInterviewer q) \<in> set (commands r)" and out: "res = Inr out" by simp_all
    obtain st w1 where step: "drive_step env wk e w = (st, w1)" by fastforce
    have loop: "drive env wk e w = and_run (drive_step env wk e w)
        (\<lambda>(v, fs) u. drive_loop env 63 v ([] @ fs) u)"
      unfolding drive_def max_drive_steps_def using drive_loop.simps(3) [of env 63 wk e "[]" w] by simp
    obtain wk1 es where st: "st = Inr (wk1, es)"
      using loop step out assms(8) by (cases st) (auto simp: and_run_def)
    obtain t where es: "es = [OperatorAbort CostCeiling t]"
      using ceiling_step [OF assms(1) ok assms(4) row _ assms(7) q] step st full sid by blast
    obtain r' where r': "transition (cd_px (sh_codec env)) (wk_state wk) e (sh_config env) = Inr r'"
      and ok1: "session_ok env (wk\<lparr>wk_state := new_state r'\<rparr>)"
      and so: "step_outcome env wk r' w st w1"
      by (rule drive_step_cases [OF assms(1) ok assms(4) row step])
    have wk1: "same_session (wk\<lparr>wk_state := new_state r\<rparr>) wk1" "has_row sid w1"
      "grows (wd_decisions w) (wd_decisions w1)"
      using so r' assms(7) sid st by (simp_all add: step_outcome_def)
    have next_ok: "session_ok env wk1" "has_row (wk_session_id wk1) w1" "wk_session_id wk1 = sid"
      "phase (wk_state wk1) \<notin> terminal_phases"
      using same_session_ok [OF wk1(1)] ok1 r' wk1 assms(7) sid move_keeps_live [OF assms(7) q]
      by (simp_all add: same_session_def)
    let ?wk2 = "wk1\<lparr>wk_state := new_state (abort (wk_state wk1) CostCeiling OperatorDecision True)\<rparr>"
    obtain w2 where w2: "drive_step env wk1 (OperatorAbort CostCeiling t) w1 = (Inr (?wk2, []), w2)"
      "wd_decisions w2 = wd_decisions w1 @ [(wk_session_id wk1, abort_name CostCeiling)]"
      by (rule operator_abort_step [OF assms(1) next_ok(1,2,4)])
    have "drive_loop env 63 wk1 [OperatorAbort CostCeiling t] w1 =
        and_run (drive_step env wk1 (OperatorAbort CostCeiling t) w1)
          (\<lambda>(v, fs) u. drive_loop env 62 v ([] @ fs) u)"
      using drive_loop.simps(3) [of env 62 wk1 "OperatorAbort CostCeiling t" "[]" w1] by simp
    then have fin: "out = ?wk2" "w' = w2"
      using loop step st es assms(8) out w2(1) by (auto simp: and_run_def)
    show "phase (wk_state out) = Aborted" "abort_reason (wk_state out) = Some CostCeiling"
      by (simp_all add: fin abort_def)
    show "\<exists>ds. wd_decisions w' = wd_decisions w @ ds @ [(sid, ''cost_ceiling'')]"
      using wk1(3) w2(2) next_ok(3) fin by (auto simp: grows_def abort_name_def)
    show "load env sid w' = Inr out"
      using drive_left [OF assms(1-4,8)] out by simp
  qed
qed

theorem cost_ceiling_aborts_witness:
  "let env = demo_shell\<lparr>sh_ceiling_usd := 0\<rparr>;
       e = CandidateTurnReceived 100 ''ready'' 1;
       (res, w') = drive env (demo_working demo_intro) e (demo_world demo_intro)
   in wd_pg w' = demo_db \<and> (\<forall>out. res = Inr out \<longrightarrow> abort_reason (wk_state out) = Some CostCeiling)"
proof -
  let ?env = "demo_shell\<lparr>sh_ceiling_usd := 0\<rparr>"
  have parts: "sh_codec ?env = sh_codec demo_shell" "sh_config ?env = sh_config demo_shell"
    by (simp_all add: demo_shell_def)
  have same: "load ?env = load demo_shell" "session_ok ?env = session_ok demo_shell"
    by (intro ext, simp only: load_def session_ok_def parts)+
  have env: "env_sound ?env" "world_ok ?env (demo_world demo_intro)"
    "load ?env 7 (demo_world demo_intro) = Inr (demo_working demo_intro)"
    "event_ok (CandidateTurnReceived 100 ''ready'' 1)"
    using demo_shell_sound demo_world_ok [OF demo_sessions(1)] demo_load [OF demo_sessions(1)]
    by (simp_all add: env_sound_def world_ok_def same event_ok_def)
  have full: "\<forall>n. sh_enforced ?env n" "sh_ceiling_usd ?env \<le> pg_total (wd_pg (demo_world demo_intro)) 7"
    by (simp_all add: demo_shell_def demo_world_def demo_db_def pg_total_def session_cost_total_def)
  have tr: "transition (cd_px (sh_codec ?env)) (wk_state (demo_working demo_intro))
      (CandidateTurnReceived 100 ''ready'' 1) (sh_config ?env) = Inr \<lparr>new_state = demo_asking,
        commands = [Outbound (the (pending_command demo_asking)), PersistState]\<rparr>"
    using demo_asks by (simp add: demo_working_def strict_codec_def)
  obtain q where q: "the (pending_command demo_asking) = RunInterviewer q" by (simp add: demo_states)
  show ?thesis
    using cost_ceiling_aborts [OF env full tr surjective_pairing] q
    by (auto simp: Let_def case_prod_unfold demo_world_def)
qed

section \<open>Whose traces\<close>

text \<open>The rows a call adds are its own session's, under the context bound at the time.\<close>

definition rows_added :: "(turn_trace_row \<Rightarrow> bool) \<Rightarrow> pg_world \<Rightarrow> pg_world \<Rightarrow> bool" where
  "rows_added P w w' \<longleftrightarrow> pg_context w' = pg_context w
     \<and> (\<exists>rows. db_turn_trace (pg_db w') = db_turn_trace (pg_db w) @ rows \<and> list_all P rows)"

lemma rows_added_refl [simp]: "rows_added P w w"
  by (simp add: rows_added_def)

lemma rows_added_trans: "rows_added P u v \<Longrightarrow> rows_added P v w \<Longrightarrow> rows_added P u w"
  by (fastforce simp: rows_added_def)

definition call_rows ::
  "(rat \<Rightarrow> string) \<Rightarrow> model_call_request \<Rightarrow> turn_trace_context \<Rightarrow> turn_trace_row \<Rightarrow> bool" where
  "call_rows sf q cx r \<longleftrightarrow> row_session r = rq_session_id q \<and> row_agent r = rq_agent q
     \<and> row_turn_id r = cx_turn_id cx \<and> row_transition r = cx_transition cx
     \<and> row_system_prompt r = cx_system_prompt cx \<and> row_user_payload r = cx_user_payload cx
     \<and> row_prompt_sha r = canonical_prompt_sha sf (rq_system_prompt q) (rq_user_payload q)
         (rq_json_schema q) (rq_agent q) (row_model r)
     \<and> (\<exists>x. numeric_12_6 x = Some (row_cost_usd r))"

lemma persist_trace_rows:
  assumes "persist_trace pg_write w (build_trace_record env q m out k raw c msg parsed) = Inr w'"
  shows "rows_added (call_rows (ev_float_text env) q (pg_context w)) w w'"
proof -
  have "pg_write w (build_trace_record env q m out k raw c msg parsed) = Inr w'"
    using assms by (auto simp: persist_trace_def split: sum.splits)
  then show ?thesis
    by (auto simp: pg_write_def rows_added_def call_rows_def trace_row_def build_trace_record_def
        prompt_sha_def dest!: insert_turn_trace_rows split: option.splits)
qed

lemma pg_add_same: "pg_add w s c = Inr w' \<Longrightarrow> w' = w"
  by (simp add: pg_add_def split: if_splits)

lemma fail_call_rows:
  "rows_added (call_rows (ev_float_text env) q (pg_context w)) w
     (co_world (fail_call pg_write env q m out k raw c msg e w n))"
  by (auto simp: fail_call_def dest: persist_trace_rows split: sum.split)

lemma finish_call_rows:
  "rows_added (call_rows (ev_float_text env) q (pg_context w)) w
     (co_world (finish_call pg_write pg_add env q m p raw k parsed w n))"
  by (auto simp: finish_call_def uncaught_def dest!: pg_add_same dest: persist_trace_rows split: sum.split)

lemma call_model_rows:
  "rows_added (call_rows (ev_float_text env) q (pg_context w)) w
     (co_world (call_model pg_write pg_total pg_add env q w))"
  by (auto simp: call_model_def issue_call_def check_answer_def uncaught_def Let_def
      fail_call_rows finish_call_rows
      split: sum.split option.split prod.split loop_result.split schema_error.split)

lemma attempt_once_rows:
  assumes "\<And>w. rows_added (call_rows sf q (pg_context w)) w (co_world (call q w))"
    and "attempt_once v call q w = (a, w')"
  shows "rows_added (call_rows sf q (pg_context w)) w w'"
  using assms(1) [of w] assms(2) by (auto simp: attempt_once_def Let_def)

lemma retry_once_rows:
  assumes "\<And>k w. rows_added (call_rows sf q (pg_context w)) w (co_world (call k q w))"
    and "retry_once v call q w = (res, w')"
  shows "rows_added (call_rows sf q (pg_context w)) w w'"
proof -
  obtain a w1 where a: "attempt_once v (call 0) q w = (a, w1)" by fastforce
  obtain b w2 where b: "attempt_once v (call 1) q w1 = (b, w2)" by fastforce
  note rows = attempt_once_rows [OF assms(1) a] attempt_once_rows [OF assms(1) b]
  have "w' = w1 \<or> w' = w2"
    using assms(2) a b by (cases a) (auto simp: retry_once_def)
  moreover have "pg_context w1 = pg_context w" using rows(1) by (simp add: rows_added_def)
  ultimately show ?thesis using rows rows_added_trans by metis
qed

text \<open>
  A row an auditor can replay: it names its session, its turn and the transition it belongs
  to, its hash is the canonical hash of the very prompt texts the row stores, and its cost is
  one the column can hold.
\<close>

definition replayable :: "shell_env \<Rightarrow> uuid \<Rightarrow> turn_trace_row \<Rightarrow> bool" where
  "replayable env sid r \<longleftrightarrow> row_session r = sid \<and> row_turn_id r \<noteq> None \<and> row_transition r \<noteq> None
     \<and> (\<exists>schema. Some schema \<in> {interviewer_schema (sh_interviewer_files env),
                                assessor_schema (sh_assessor_files env)}
         \<and> row_prompt_sha r = canonical_prompt_sha (sh_float_text env) (row_system_prompt r)
              (row_user_payload r) schema (row_agent r) (row_model r))
     \<and> (\<exists>x. numeric_12_6 x = Some (row_cost_usd r))"

definition same_float_text :: "shell_env \<Rightarrow> bool" where
  "same_float_text env \<longleftrightarrow> (\<forall>n. ev_float_text (sh_call env n) = sh_float_text env)"

lemma caller_rows:
  assumes "same_float_text env"
  shows "rows_added (call_rows (sh_float_text env) q (pg_context p)) p (co_world (model_caller env w k q p))"
  using call_model_rows [of "sh_call env (wd_tick w + k)" q p] assms
  by (simp add: model_caller_def same_float_text_def)

lemma bound_run_rows:
  assumes "bound_run cx body w = (res, w')"
    and "\<And>p res p'. body p = (res, p') \<Longrightarrow> rows_added (P (pg_context p)) p p'"
  shows "rows_added (P cx) (wd_pg w) (wd_pg w')"
proof -
  obtain x pg where b: "body ((wd_pg w)\<lparr>pg_context := cx\<rparr>) = (x, pg)" by fastforce
  then have "wd_pg w' = pg\<lparr>pg_context := pg_context (wd_pg w)\<rparr>"
    using assms(1) by (auto simp: bound_run_def pg_bind_def Let_def)
  with assms(2) [OF b] show ?thesis by (simp add: rows_added_def)
qed

lemma rows_added_mono: "rows_added P w w' \<Longrightarrow> (\<And>r. P r \<Longrightarrow> Q r) \<Longrightarrow> rows_added Q w w'"
  by (auto simp: rows_added_def list_all_iff)

lemma agent_request_fields:
  "agent_request agent prompt payload schema sid = Some q \<Longrightarrow>
     rq_agent q = agent \<and> rq_system_prompt q = prompt \<and> rq_user_payload q = payload
     \<and> schema = Some (rq_json_schema q) \<and> rq_session_id q = sid"
  by (auto simp: agent_request_def Let_def split: option.splits if_splits)

lemma interviewer_run_rows:
  assumes "same_float_text env"
    and "cx_system_prompt cx = interviewer_system_prompt (sh_interviewer_files env)"
    and "cx_user_payload cx = serialize_user_payload (sh_float_text env) i"
    and "cx_turn_id cx \<noteq> None" and "cx_transition cx \<noteq> None"
    and "bound_run cx (run_interviewer_turn px (sh_float_text env) (sh_interviewer_files env)
           (model_caller env v) i) w = (res, w')"
  shows "rows_added (replayable env (it_session_id i)) (wd_pg w) (wd_pg w')"
proof (cases "agent_request ''interviewer'' (interviewer_system_prompt (sh_interviewer_files env))
    (serialize_user_payload (sh_float_text env) i) (interviewer_schema (sh_interviewer_files env))
    (it_session_id i)")
  case None
  then show ?thesis
    using assms(6) by (auto simp: bound_run_def pg_bind_def Let_def run_interviewer_turn_def rows_added_def)
next
  case (Some q)
  note fields = agent_request_fields [OF Some]
  have "rows_added (call_rows (sh_float_text env) q cx) (wd_pg w) (wd_pg w')"
    by (rule bound_run_rows [OF assms(6)])
      (auto simp: run_interviewer_turn_def Some intro: retry_once_rows [OF caller_rows [OF assms(1)]])
  then show ?thesis
    by (rule rows_added_mono) (use fields assms(2-5) in \<open>auto simp: call_rows_def replayable_def\<close>)
qed

lemma assessor_run_rows:
  assumes "same_float_text env"
    and "cx_system_prompt cx = assessor_system_prompt (sh_assessor_files env)"
    and "cx_user_payload cx = to_user_payload (sh_float_text env) i"
    and "cx_turn_id cx \<noteq> None" and "cx_transition cx \<noteq> None"
    and "bound_run cx (run_assessor_turn cd (sh_float_text env) (sh_assessor_files env)
           (model_caller env v) i) w = (res, w')"
  shows "rows_added (replayable env (at_session_id i)) (wd_pg w) (wd_pg w')"
proof (cases "agent_request ''assessor'' (assessor_system_prompt (sh_assessor_files env))
    (to_user_payload (sh_float_text env) i) (assessor_schema (sh_assessor_files env))
    (at_session_id i)")
  case None
  then show ?thesis
    using assms(6) by (auto simp: bound_run_def pg_bind_def Let_def run_assessor_turn_def rows_added_def)
next
  case (Some q)
  note fields = agent_request_fields [OF Some]
  have "rows_added (call_rows (sh_float_text env) q cx) (wd_pg w) (wd_pg w')"
    by (rule bound_run_rows [OF assms(6)])
      (auto simp: run_assessor_turn_def Some intro: retry_once_rows [OF caller_rows [OF assms(1)]])
  then show ?thesis
    by (rule rows_added_mono) (use fields assms(2-5) in \<open>auto simp: call_rows_def replayable_def\<close>)
qed

definition trail_rel :: "shell_env \<Rightarrow> uuid \<Rightarrow> pg_world \<Rightarrow> pg_world \<Rightarrow> bool" where
  "trail_rel env sid p q \<longleftrightarrow> (same_float_text env \<longrightarrow> rows_added (replayable env sid) p q)"

lemma move_rows:
  assumes "same_float_text env"
    and "shell_run_interviewer env wk move before after w = (res, w')"
  shows "rows_added (replayable env (wk_session_id wk)) (wd_pg w) (wd_pg w')"
proof (cases "over_ceiling env (wk_session_id wk) w \<or> \<not> interviewer_inputs_ok (interviewer_inputs wk move)")
  case True
  with assms(2) show ?thesis
    by (auto simp: shell_run_interviewer_def Let_def tick_def split: if_splits)
next
  case False
  define cx where "cx = turn_context ''v0001'' (ri_turn_id move)
      (interviewer_system_prompt (sh_interviewer_files env))
      (serialize_user_payload (sh_float_text env) (interviewer_inputs wk move))
      (phase_name (phase (wk_state wk))) (Some (move_name (ri_move move))) before after"
  obtain out w2 where run: "bound_run cx (run_interviewer_turn (cd_px (sh_codec env))
      (sh_float_text env) (sh_interviewer_files env) (model_caller env (tick w))
      (interviewer_inputs wk move)) (tick w) = (out, w2)" by fastforce
  have "rows_added (replayable env (it_session_id (interviewer_inputs wk move))) (wd_pg (tick w)) (wd_pg w2)"
    by (rule interviewer_run_rows [OF assms(1) _ _ _ _ run]) (simp_all add: cx_def turn_context_def)
  moreover have "wd_pg w' = wd_pg w2"
    using assms(2) False run
    by (auto simp: shell_run_interviewer_def Let_def cx_def tick_def
        split: sum.splits agent_error.splits call_error.splits)
  ultimately show ?thesis by (simp add: interviewer_inputs_def tick_def)
qed

interpretation trail: trail_relation env sid "trail_rel env sid" for env sid
proof
  show "trail_rel env sid p p" for p by (simp add: trail_rel_def)
  show "trail_rel env sid p p2" if "trail_rel env sid p p1" "trail_rel env sid p1 p2" for p p1 p2
    using that by (auto simp: trail_rel_def intro: rows_added_trans)
  show "trail_rel env sid (wd_pg w) (wd_pg w')"
    if "wk_session_id wk = sid" "shell_run_interviewer env wk move before after w = (res, w')"
    for wk move before after w res w'
    using that move_rows unfolding trail_rel_def by blast
qed

lemma rows_added_total:
  assumes "rows_added (replayable env sid) p q" and "other \<noteq> sid"
  shows "pg_total q other = pg_total p other"
proof -
  obtain rows where "db_turn_trace (pg_db q) = db_turn_trace (pg_db p) @ rows"
    "list_all (replayable env sid) rows"
    using assms(1) by (auto simp: rows_added_def)
  moreover have "filter (\<lambda>r. row_session r = other) rows = []"
    using calculation(2) assms(2) by (auto simp: list_all_iff replayable_def filter_empty_conv)
  ultimately show ?thesis by (simp add: pg_total_def session_cost_total_def)
qed

definition task_consistent :: "assessor_task \<Rightarrow> bool" where
  "task_consistent t \<longleftrightarrow> at_session_id (ta_inputs t) = ta_session_id t
     \<and> at_turn_id (ta_inputs t) = ta_turn_id t"

lemma scheduled_consistent:
  "schedule_task wk turn focus before after w = (Inr u, w') \<Longrightarrow>
     \<exists>t. wd_tasks w' = wd_tasks w @ [t] \<and> task_consistent t \<and> ta_session_id t = wk_session_id wk"
  by (auto simp: schedule_task_def task_consistent_def assessor_inputs_def Let_def split: if_splits)

lemma assessor_rows:
  assumes "same_float_text env" and "task_consistent t"
    and "shell_run_assessor env t w = (res, w')"
  shows "rows_added (replayable env (ta_session_id t)) (wd_pg w) (wd_pg w')"
proof (cases "over_ceiling env (ta_session_id t) w")
  case True
  with assms(3) show ?thesis by (auto simp: shell_run_assessor_def tick_def)
next
  case False
  define cx where "cx = turn_context ''v0003'' (ta_turn_id t)
      (assessor_system_prompt (sh_assessor_files env))
      (to_user_payload (sh_float_text env) (ta_inputs t)) (ta_phase t) None (ta_before_sha t)
      (ta_after_sha t)"
  obtain out w2 where run: "bound_run cx (run_assessor_turn (sh_codec env) (sh_float_text env)
      (sh_assessor_files env) (model_caller env (tick w)) (ta_inputs t)) (tick w) = (out, w2)"
    by fastforce
  have "rows_added (replayable env (at_session_id (ta_inputs t))) (wd_pg (tick w)) (wd_pg w2)"
    by (rule assessor_run_rows [OF assms(1) _ _ _ _ run]) (simp_all add: cx_def turn_context_def)
  moreover have "wd_pg w' = wd_pg w2"
    using assms(3) False run
    by (auto simp: shell_run_assessor_def Let_def cx_def tick_def
        split: sum.splits agent_error.splits call_error.splits)
  ultimately show ?thesis using assms(2) by (simp add: task_consistent_def tick_def)
qed

lemma task_rows:
  assumes "same_float_text env" and "task_consistent t" and "run_task env t w = (res, w')"
  shows "rows_added (replayable env (ta_session_id t)) (wd_pg w) (wd_pg w')"
proof -
  obtain out w1 where a: "shell_run_assessor env t w = (out, w1)" by fastforce
  note rows = assessor_rows [OF assms(1,2) a]
  have "w' = w1 \<or> (\<exists>e wk r. load env (ta_session_id t) w1 = Inr wk \<and> drive env wk e w1 = (r, w'))"
    using a assms(3) by (auto simp: run_task_def and_run_def split: sum.splits prod.splits)
  then show ?thesis
  proof
    assume "\<exists>e wk r. load env (ta_session_id t) w1 = Inr wk \<and> drive env wk e w1 = (r, w')"
    then obtain e wk r where d: "load env (ta_session_id t) w1 = Inr wk" "drive env wk e w1 = (r, w')"
      by blast
    with trail.drive_kept [OF d(2)] load_Inr [OF d(1)] assms(1) rows show ?thesis
      by (auto simp: trail_rel_def intro: rows_added_trans)
  qed (use rows in simp)
qed

lemma turn_rows:
  assumes "same_float_text env" and "post_turn env sid said w = (res, w')"
  shows "rows_added (replayable env sid) (wd_pg w) (wd_pg w')"
proof (cases "load env sid w")
  case (Inr wk)
  have "w' = w \<or> (\<exists>e wk1 r. wk_session_id wk1 = sid \<and> drive env wk1 e (tick w) = (r, w'))"
    using assms(2) Inr load_Inr [OF Inr]
    by (fastforce simp: post_turn_def and_run_def Let_def split: sum.splits prod.splits if_splits)
  then show ?thesis
  proof
    assume "\<exists>e wk1 r. wk_session_id wk1 = sid \<and> drive env wk1 e (tick w) = (r, w')"
    then obtain e wk1 r where "wk_session_id wk1 = sid" "drive env wk1 e (tick w) = (r, w')" by blast
    with trail.drive_kept [OF this(2,1)] assms(1) show ?thesis by (simp add: trail_rel_def tick_def)
  qed simp
qed (use assms(2) in \<open>simp add: post_turn_def\<close>)

text \<open>
  C7: the audit trail. Whatever a posted turn or a background assessment does or raises, it
  only appends to \<open>turn_trace\<close>: every row added belongs to that session, names its turn and
  its transition, and can be replayed, its prompt hash being the canonical hash of the
  prompts stored beside it; so no other session's spending changes.
\<close>

theorem traces_replay:
  assumes "same_float_text env" and "post_turn env sid said w = (res, w')"
    and "task_consistent t" and "run_task env t v = (res2, v')"
  shows "rows_added (replayable env sid) (wd_pg w) (wd_pg w')
    \<and> rows_added (replayable env (ta_session_id t)) (wd_pg v) (wd_pg v')
    \<and> (\<forall>other. (other \<noteq> sid \<longrightarrow> pg_total (wd_pg w') other = pg_total (wd_pg w) other)
         \<and> (other \<noteq> ta_session_id t \<longrightarrow> pg_total (wd_pg v') other = pg_total (wd_pg v) other))"
  using turn_rows [OF assms(1,2)] task_rows [OF assms(1,3,4)] rows_added_total by blast

definition demo_task :: assessor_task where
  "demo_task = \<lparr>ta_session_id = 7, ta_turn_id = 100, ta_inputs = demo_assessor_input,
     ta_phase = ''TECH'', ta_before_sha = ''a'', ta_after_sha = ''b''\<rparr>"

theorem traces_replay_witness:
  "rows_added (replayable demo_shell 7) demo_db
     (wd_pg (snd (post_turn demo_shell 7 ''answer'' (demo_world demo_tech))))
   \<and> rows_added (replayable demo_shell 7) demo_db
       (wd_pg (snd (run_task demo_shell demo_task (demo_world demo_tech))))"
  using traces_replay [OF _ surjective_pairing _ surjective_pairing, where env = demo_shell and t = demo_task
      and sid = 7 and said = "''answer''" and w = "demo_world demo_tech" and v = "demo_world demo_tech"]
  by (simp add: same_float_text_def demo_shell_def demo_env_def task_consistent_def demo_task_def
      demo_assessor_input_def demo_world_def)

section \<open>The queue of assessments\<close>

text \<open>
  Draining ends. The loop runs at most once per scheduled assessment, because a finished
  assessment never schedules another; it stops with an empty queue, or at the first task
  that raised, the tasks after it still queued. Stored sessions stay valid, decisions are
  only appended, and sessions with no task in the queue read as before.
\<close>

theorem drain_ends:
  assumes "env_sound env" and "world_ok env w"
  shows "\<exists>res w'. drain env (length (wd_tasks w)) w = Some (res, w') \<and> world_ok env w'
    \<and> (case res of Inr _ \<Rightarrow> wd_tasks w' = []
         | Inl e \<Rightarrow> task_error e \<and> (\<exists>finished t. wd_tasks w = finished @ t # wd_tasks w'))
    \<and> (\<exists>ds. wd_decisions w' = wd_decisions w @ ds)
    \<and> (\<forall>sid. sid \<notin> ta_session_id ` set (wd_tasks w) \<longrightarrow> load env sid w' = load env sid w)"
  using drain_left [OF assms] by blast

theorem drain_ends_witness:
  "\<exists>res w'. drain demo_shell 1 ((demo_world demo_tech)\<lparr>wd_tasks := [demo_task]\<rparr>) = Some (res, w')"
proof -
  have "world_ok demo_shell ((demo_world demo_tech)\<lparr>wd_tasks := [demo_task]\<rparr>)"
    by (rule iffD2 [OF world_ok_store demo_world_ok [OF demo_sessions(3)]]) (rule same_store_updates(5))
  from drain_ends [OF demo_shell_sound this]
  have "\<exists>res w'. drain demo_shell (length [demo_task]) ((demo_world demo_tech)\<lparr>wd_tasks := [demo_task]\<rparr>)
      = Some (res, w')" by (simp del: drain.simps) blast
  then show ?thesis by (simp del: drain.simps)
qed

end
