(* ===== verification/Dev_Session_Races.thy ===== *)
theory Dev_Session_Races
  imports Dev_Session_Props
begin

text \<open>
  Requests and assessments that run at the same time. \<open>app/backend/services/dev_session.py\<close>
  loads a session once, works on that copy across its awaits and writes it back, with no lock
  and no version check. Here an activity is what one request or one scheduled assessment has
  left to do, \<open>advance\<close> takes it to its next await, and a race interleaves any number of
  them. Left alone, an activity does what the sequential model says.
\<close>

section \<open>Activities\<close>

text \<open>
  A pass of \<open>_drive\<close> with the events still queued; the execution of one event's commands,
  with the commands left, the events they have raised, the rest of the queue and the length
  of the transcript last persisted; an assessment before and after its model call; and an
  activity that has returned or raised. The step guard of the loop never fires
  (\<open>drive_cases\<close>) and is left out.
\<close>

datatype activity =
    Driving working "event list"
  | Executing working string string "command list" "event list" "event list" nat
  | Assessing assessor_task
  | Assessed uuid event
  | Finished "shell_error + working"

fun advance :: "shell_env \<Rightarrow> activity \<Rightarrow> world \<Rightarrow> activity \<times> world" where
  "advance env (Driving wk []) w = (Finished (Inr wk), w)"
| "advance env (Driving wk (e # queue)) w =
     (case transition (cd_px (sh_codec env)) (wk_state wk) e (sh_config env) of
        Inl err \<Rightarrow> (Finished (Inl (MachineError err)), w)
      | Inr r \<Rightarrow>
          (let wk1 = wk\<lparr>wk_state := new_state r\<rparr>
           in case persist env wk1 w of
                (Inl err, w1) \<Rightarrow> (Finished (Inl err), w1)
              | (Inr _, w1) \<Rightarrow>
                  (Executing wk1 (state_sha env (wk_state wk)) (state_sha env (new_state r))
                     (commands r) [] queue (length (wk_transcript wk1)), w1)))"
| "advance env (Executing wk before after (c # cs) raised queue n) w =
     (case execute_one env before after wk c w of
        (Inl err, w1) \<Rightarrow> (Finished (Inl err), w1)
      | (Inr (wk1, es), w1) \<Rightarrow> (Executing wk1 before after cs (raised @ es) queue n, w1))"
| "advance env (Executing wk before after [] raised queue n) w =
     (if length (wk_transcript wk) \<noteq> n
      then (case persist env wk w of
              (Inl err, w1) \<Rightarrow> (Finished (Inl err), w1)
            | (Inr _, w1) \<Rightarrow> (Driving wk (queue @ raised), w1))
      else (Driving wk (queue @ raised), w))"
| "advance env (Assessing t) w =
     (case shell_run_assessor env t w of
        (Inl err, w1) \<Rightarrow> (Finished (Inl err), w1)
      | (Inr e, w1) \<Rightarrow> (Assessed (ta_session_id t) e, w1))"
| "advance env (Assessed sid e) w =
     (case load env sid w of Inl err \<Rightarrow> (Finished (Inl err), w) | Inr wk \<Rightarrow> (Driving wk [e], w))"
| "advance env (Finished res) w = (Finished res, w)"

text \<open>What a request to post a turn has to do once it has loaded the session.\<close>

definition posted :: "working \<Rightarrow> string \<Rightarrow> int \<Rightarrow> activity" where
  "posted wk said now =
     (let turn = candidate_turn_id (wk_session_id wk) (turn_ordinal (wk_transcript wk))
      in Driving (append_entry wk ByCandidate said turn) [CandidateTurnReceived turn said now])"

section \<open>Races\<close>

text \<open>
  A model call reads the audit rows and the clock at several moments; other activities may
  write them in between. The rule \<open>elsewhere\<close> lets everything outside the stored sessions
  change at any time.
\<close>

inductive race_step :: "shell_env \<Rightarrow> world \<times> activity list \<Rightarrow> world \<times> activity list \<Rightarrow> bool"
  for env :: shell_env where
  created: "insert_session sid w = (Inr (), w1) \<Longrightarrow>
    wk = \<lparr>wk_session_id = sid, wk_state = initial_state sid plan_doc (sh_config env), wk_transcript = []\<rparr> \<Longrightarrow>
    persist env wk w1 = (Inr (), w2) \<Longrightarrow>
    race_step env (w, acts) (w2, acts @ [Driving wk [SessionStarted now]])"
| posts: "load env sid w = Inr wk \<Longrightarrow> accepts_turn (wk_state wk) \<Longrightarrow>
    race_step env (w, acts) (w, acts @ [posted wk said now])"
| assesses: "t \<in> set (wd_tasks w) \<Longrightarrow>
    race_step env (w, acts) (w\<lparr>wd_tasks := remove1 t (wd_tasks w)\<rparr>, acts @ [Assessing t])"
| advances: "i < length acts \<Longrightarrow> advance env (acts ! i) w = (a, w1) \<Longrightarrow>
    race_step env (w, acts) (w1, acts[i := a])"
| elsewhere: "same_store w w1 \<Longrightarrow> race_step env (w, acts) (w1, acts)"

section \<open>An activity alone\<close>

definition runs_to :: "shell_env \<Rightarrow> activity \<times> world \<Rightarrow> activity \<times> world \<Rightarrow> bool" where
  "runs_to env x y \<longleftrightarrow> (\<exists>n. ((\<lambda>(a, w). advance env a w) ^^ n) x = y)"

lemma runs_to_refl [simp]: "runs_to env x x"
  unfolding runs_to_def by (rule exI [of _ 0]) simp

lemma runs_to_step: "runs_to env (advance env a w) y \<Longrightarrow> runs_to env (a, w) y"
  unfolding runs_to_def
proof (elim exE)
  fix n
  assume "((\<lambda>(a, w). advance env a w) ^^ n) (advance env a w) = y"
  then show "\<exists>n. ((\<lambda>(a, w). advance env a w) ^^ n) (a, w) = y"
    by (intro exI [of _ "Suc n"]) (simp add: funpow_swap1 del: funpow.simps(2) add: funpow_Suc_right)
qed

lemma runs_to_trans: "runs_to env x y \<Longrightarrow> runs_to env y z \<Longrightarrow> runs_to env x z"
  unfolding runs_to_def
proof (elim exE)
  fix m n
  let ?f = "\<lambda>(a, w). advance env a w"
  assume "(?f ^^ m) x = y" "(?f ^^ n) y = z"
  then show "\<exists>n. (?f ^^ n) x = z"
    by (intro exI [of _ "n + m"]) (simp add: funpow_add)
qed

lemma execute_runs:
  assumes "execute env before after wk cs w = (res, w')"
  shows "runs_to env (Executing wk before after cs raised queue n, w)
    (case res of Inl err \<Rightarrow> Finished (Inl err)
     | Inr (wk', es) \<Rightarrow> Executing wk' before after [] (raised @ es) queue n, w')"
  using assms
proof (induction cs arbitrary: wk raised w res)
  case (Cons c cs)
  obtain out w1 where one: "execute_one env before after wk c w = (out, w1)" by fastforce
  show ?case
  proof (cases out)
    case (Inl err)
    with Cons.prems one have "res = Inl err" "w' = w1" by (simp_all add: and_run_def)
    then show ?thesis using one Inl by (intro runs_to_step) simp
  next
    case (Inr p)
    obtain wk1 es where p: "p = (wk1, es)" by fastforce
    obtain out2 w2 where rest: "execute env before after wk1 cs w1 = (out2, w2)" by fastforce
    have res: "res = (case out2 of Inl err \<Rightarrow> Inl err | Inr (wk', fs) \<Rightarrow> Inr (wk', es @ fs))" "w2 = w'"
      using Cons.prems one rest by (auto simp: Inr p and_run_def split: sum.splits prod.splits)
    show ?thesis
      using Cons.IH [OF rest [unfolded res(2)], of "raised @ es"] one
      by (intro runs_to_step) (simp add: Inr p res(1) split: sum.splits prod.splits)
  qed
qed simp


lemma drive_step_runs:
  assumes "drive_step env wk e w = (res, w')"
  shows "runs_to env (Driving wk (e # queue), w)
    (case res of Inl err \<Rightarrow> Finished (Inl err) | Inr (wk', fs) \<Rightarrow> Driving wk' (queue @ fs), w')"
proof (cases "transition (cd_px (sh_codec env)) (wk_state wk) e (sh_config env)")
  case (Inl err)
  with assms show ?thesis by (intro runs_to_step) (auto simp: drive_step_def)
next
  case (Inr r)
  let ?wk1 = "wk\<lparr>wk_state := new_state r\<rparr>"
  let ?before = "state_sha env (wk_state wk)" and ?after = "state_sha env (new_state r)"
  obtain out1 w1 where p1: "persist env ?wk1 w = (out1, w1)" by fastforce
  obtain out2 w2 where x: "execute env ?before ?after ?wk1 (commands r) w1 = (out2, w2)" by fastforce
  note run = execute_runs [OF x, of "[]" queue "length (wk_transcript ?wk1)"]
  show ?thesis
  proof (cases out1)
    case (Inl err)
    with assms p1 Inr have "res = Inl err" "w' = w1" by (simp_all add: drive_step_def Let_def and_run_def)
    with Inl p1 Inr show ?thesis by (intro runs_to_step) (simp add: Let_def)
  next
    case one: (Inr u)
    have start: "runs_to env (Driving wk (e # queue), w)
        (Executing ?wk1 ?before ?after (commands r) [] queue (length (wk_transcript ?wk1)), w1)"
      using p1 Inr one by (intro runs_to_step) (simp add: Let_def)
    show ?thesis
    proof (cases out2)
      case (Inl err)
      with assms p1 Inr one x have "res = Inl err" "w' = w2" by (simp_all add: drive_step_def Let_def and_run_def)
      with run Inl runs_to_trans [OF start] show ?thesis by simp
    next
      case two: (Inr p)
      obtain wk2 fs where p: "p = (wk2, fs)" by fastforce
      obtain out3 w3 where p3: "persist env wk2 w2 = (out3, w3)" by fastforce
      have "runs_to env (Executing wk2 ?before ?after [] fs queue (length (wk_transcript ?wk1)), w2)
          (case res of Inl err \<Rightarrow> Finished (Inl err) | Inr (wk', fs) \<Rightarrow> Driving wk' (queue @ fs), w')"
        using assms p1 Inr one x two p p3
        by (intro runs_to_step) (auto simp: drive_step_def Let_def and_run_def split: sum.splits if_splits)
      moreover have "runs_to env (Executing ?wk1 ?before ?after (commands r) [] queue
          (length (wk_transcript ?wk1)), w1)
          (Executing wk2 ?before ?after [] fs queue (length (wk_transcript ?wk1)), w2)"
        using run by (simp add: two p)
      ultimately show ?thesis using start runs_to_trans by blast
    qed
  qed
qed

lemma drive_loop_runs:
  assumes "drive_loop env k wk queue w = (res, w')" and "res \<noteq> Inl DevSessionRunawayError"
  shows "runs_to env (Driving wk queue, w) (Finished res, w')"
  using assms
proof (induction env k wk queue w rule: drive_loop.induct)
  case (1 env steps wk w)
  then show ?case by (intro runs_to_step) simp
next
  case (3 env n wk e queue w)
  obtain out w1 where step: "drive_step env wk e w = (out, w1)" by fastforce
  note run = drive_step_runs [OF step, of queue]
  show ?case
  proof (cases out)
    case (Inl err)
    with "3.prems" step run show ?thesis by (auto simp: and_run_def)
  next
    case (Inr p)
    obtain wk1 fs where p: "p = (wk1, fs)" by fastforce
    have "drive_loop env n wk1 (queue @ fs) w1 = (res, w')"
      using "3.prems"(1) step by (simp add: Inr p and_run_def)
    from "3.IH" [OF this "3.prems"(2)] run show ?thesis
      by (auto simp: Inr p intro: runs_to_trans)
  qed
qed simp


lemma drive_alone:
  assumes "env_sound env" and "session_ok env wk" and "event_ok e" and "has_row (wk_session_id wk) w"
    and "drive env wk e w = (res, w')"
  shows "runs_to env (Driving wk [e], w) (Finished res, w')"
proof (rule drive_loop_runs)
  show "drive_loop env max_drive_steps wk [e] w = (res, w')" using assms(5) by (simp add: drive_def)
  obtain wk' where "case res of Inr out \<Rightarrow> out = wk' | Inl err \<Rightarrow> expected_error err"
    by (rule drive_cases [OF assms])
  then show "res \<noteq> Inl DevSessionRunawayError" by (auto simp: expected_error_def)
qed

section \<open>What a race keeps\<close>

definition race_kept :: "shell_env \<Rightarrow> world \<Rightarrow> world \<Rightarrow> bool" where
  "race_kept env w w' \<longleftrightarrow> (\<forall>sid. has_row sid w \<longrightarrow> has_row sid w')
     \<and> (\<forall>sid wk. load env sid w = Inr wk \<longrightarrow> (\<exists>wk'. load env sid w' = Inr wk'))"

lemma race_kept_refl [simp]: "race_kept env w w"
  by (simp add: race_kept_def)

lemma race_kept_trans: "race_kept env u v \<Longrightarrow> race_kept env v w \<Longrightarrow> race_kept env u w"
  unfolding race_kept_def by meson

lemma race_kept_store: "same_store w w' \<Longrightarrow> race_kept env w w'"
  by (simp add: race_kept_def has_row_store load_store)

text \<open>An activity works on a state the machine can be in, of a session that has a row.\<close>

definition activity_ok :: "shell_env \<Rightarrow> world \<Rightarrow> activity \<Rightarrow> bool" where
  "activity_ok env w a = (case a of
     Driving wk queue \<Rightarrow> session_ok env wk \<and> has_row (wk_session_id wk) w \<and> list_all event_ok queue
   | Executing wk _ _ _ raised queue _ \<Rightarrow> session_ok env wk \<and> has_row (wk_session_id wk) w
       \<and> list_all event_ok (queue @ raised)
   | Assessing _ \<Rightarrow> True
   | Assessed _ e \<Rightarrow> event_ok e
   | Finished (Inl e) \<Rightarrow> task_error e
   | Finished (Inr wk) \<Rightarrow> session_ok env wk)"

lemma activity_ok_kept: "activity_ok env w a \<Longrightarrow> race_kept env w w' \<Longrightarrow> activity_ok env w' a"
  by (auto simp: activity_ok_def race_kept_def split: activity.splits sum.splits)

lemma persist_kept:
  assumes "env_sound env" and "world_ok env w" and "session_ok env wk" and "has_row (wk_session_id wk) w"
  obtains w' where "persist env wk w = (Inr (), w')" "world_ok env w'" "race_kept env w w'"
    "has_row (wk_session_id wk) w'" "load env (wk_session_id wk) w' = Inr wk"
proof -
  obtain w' where w': "persist env wk w = (Inr (), w')" "has_row (wk_session_id wk) w'"
    "others_same env (wk_session_id wk) w w'"
    by (rule persist_total [OF assms(4)])
  note stored = persist_load [OF assms(1,3) w'(1)]
  have loads: "load env sid w' = (if sid = wk_session_id wk then Inr wk else load env sid w)" for sid
    using stored w'(3) by (simp add: others_same_def)
  have "world_ok env w'" using assms(2,3) by (auto simp: world_ok_def loads)
  moreover have "race_kept env w w'"
    using w'(1) by (auto simp: race_kept_def loads has_row_def persist_def save_session_state_def
        dict_simps split: if_splits)
  ultimately show thesis using that w' stored by blast
qed

lemma answers_ok: "answers_command c es \<Longrightarrow> list_all event_ok es"
  by (auto simp: answers_command_def pending_answers_def move_answers_def event_ok_def
      split: command.splits pending_command.splits)

lemma advance_ok:
  assumes "env_sound env" and "world_ok env w" and "activity_ok env w a" and "advance env a w = (a', w')"
  shows "world_ok env w' \<and> race_kept env w w' \<and> activity_ok env w' a'"
proof (cases "(env, a, w)" rule: advance.cases)
  case (1 env wk w)
  with assms show ?thesis by (auto simp: activity_ok_def)
next
  case (2 env' wk e queue v)
  then have eqs: "env' = env" "v = w" "a = Driving wk (e # queue)" by simp_all
  then have ok: "session_ok env wk" "event_ok e" "has_row (wk_session_id wk) w" "list_all event_ok queue"
    using assms(3) by (simp_all add: activity_ok_def)
  obtain r where r: "transition (cd_px (sh_codec env)) (wk_state wk) e (sh_config env) = Inr r"
    "session_ok env (wk\<lparr>wk_state := new_state r\<rparr>)"
    by (rule transition_keeps_session [OF assms(1) ok(1,2)])
  obtain w1 where w1: "persist env (wk\<lparr>wk_state := new_state r\<rparr>) w = (Inr (), w1)" "world_ok env w1"
    "race_kept env w w1" "has_row (wk_session_id (wk\<lparr>wk_state := new_state r\<rparr>)) w1"
    by (rule persist_kept [OF assms(1,2) r(2)]) (simp add: ok(3))
  with assms(4) eqs r ok(4) show ?thesis by (auto simp: Let_def activity_ok_def)
next
  case (3 env' wk before after c cs raised queue n v)
  then have eqs: "env' = env" "v = w" "a = Executing wk before after (c # cs) raised queue n" by simp_all
  then have ok: "session_ok env wk" "has_row (wk_session_id wk) w" "list_all event_ok (queue @ raised)"
    using assms(3) by (simp_all add: activity_ok_def)
  obtain out w1 where one: "execute_one env before after wk c w = (out, w1)" by fastforce
  note c = execute_one_cases [OF one ok(1)]
  have w1: "world_ok env w1" "race_kept env w w1" "has_row (wk_session_id wk) w1"
    using c assms(2) ok(2) world_ok_store race_kept_store has_row_store by blast+
  show ?thesis
  proof (cases out)
    case (Inl err)
    with assms(4) eqs one c w1 show ?thesis by (auto simp: activity_ok_def task_error_def)
  next
    case (Inr p)
    obtain wk1 es where p: "p = (wk1, es)" by fastforce
    with c Inr have same: "same_session wk wk1" and es: "answers_command c es" by simp_all
    have "session_ok env wk1" "wk_session_id wk1 = wk_session_id wk"
      using same_session_ok [OF same] ok(1) same by (simp_all add: same_session_def)
    with assms(4) eqs one w1 ok(3) answers_ok [OF es] show ?thesis
      by (auto simp: Inr p activity_ok_def)
  qed
next
  case (4 env' wk before after raised queue n v)
  then have eqs: "env' = env" "v = w" "a = Executing wk before after [] raised queue n" by simp_all
  then have ok: "session_ok env wk" "has_row (wk_session_id wk) w" "list_all event_ok (queue @ raised)"
    using assms(3) by (simp_all add: activity_ok_def)
  obtain w1 where w1: "persist env wk w = (Inr (), w1)" "world_ok env w1" "race_kept env w w1"
    "has_row (wk_session_id wk) w1"
    by (rule persist_kept [OF assms(1,2) ok(1,2)])
  show ?thesis using assms(2,4) eqs ok w1
    by (cases "length (wk_transcript wk) = n") (auto simp: activity_ok_def)
next
  case (5 env' t v)
  then have eqs: "env' = env" "v = w" "a = Assessing t" by simp_all
  obtain out w1 where run: "shell_run_assessor env t w = (out, w1)" by fastforce
  note c = shell_run_assessor_cases [OF run]
  have "world_ok env w1" "race_kept env w w1" using c assms(2) world_ok_store race_kept_store by blast+
  with assms(4) eqs run c show ?thesis
    by (cases out) (auto simp: activity_ok_def task_error_def expected_error_def)
next
  case (6 env' sid e v)
  then have eqs: "env' = env" "v = w" "a = Assessed sid e" by simp_all
  show ?thesis
  proof (cases "load env sid w")
    case (Inl err)
    with assms(2,4) eqs load_error [OF Inl] show ?thesis by (auto simp: activity_ok_def)
  next
    case (Inr wk)
    with assms(2,3,4) eqs load_Inr [OF Inr] show ?thesis by (auto simp: activity_ok_def world_ok_def)
  qed
next
  case (7 env' res v)
  with assms show ?thesis by auto
qed

lemma insert_session_kept:
  assumes "insert_session sid w = (Inr (), w1)" and "world_ok env w"
  shows "world_ok env w1 \<and> race_kept env w w1 \<and> has_row sid w1"
proof -
  have row: "\<not> has_row sid w" "wd_states w1 = dict_set (wd_states w) sid None"
    "wd_transcripts w1 = wd_transcripts w"
    using assms(1) by (auto simp: insert_session_def has_row_def split: if_splits)
  have none: "load env sid w1 = Inl DevSessionNotFound"
    by (simp add: load_def load_session_state_def row(2) dict_simps)
  have loads: "load env u w1 = load env u w" if "u \<noteq> sid" for u
    by (rule load_row_cong) (use that in \<open>simp_all add: row(2,3) dict_simps\<close>)
  have "load env sid w \<noteq> Inr wk" for wk using load_Inr [of env sid w wk] row(1) by blast
  with none loads assms(2) have "world_ok env w1 \<and> race_kept env w w1"
    unfolding world_ok_def race_kept_def has_row_def row(2)
    by (metis dict_laws(1) sum.simps(4) option.discI)
  then show ?thesis by (simp add: has_row_def row(2) dict_simps)
qed

definition race_ok :: "shell_env \<Rightarrow> world \<times> activity list \<Rightarrow> bool" where
  "race_ok env x \<longleftrightarrow> world_ok env (fst x) \<and> list_all (activity_ok env (fst x)) (snd x)"

lemma activities_kept:
  "list_all (activity_ok env w) acts \<Longrightarrow> race_kept env w w' \<Longrightarrow> list_all (activity_ok env w') acts"
  by (auto simp: list_all_iff intro: activity_ok_kept)

lemma race_step_ok:
  assumes "race_step env x y" and "env_sound env" and "race_ok env x"
  shows "race_ok env y \<and> race_kept env (fst x) (fst y)"
  using assms(1)
proof (cases rule: race_step.cases)
  case (created sid w w1 wk plan_doc w2 acts now)
  have ok: "world_ok env w" "list_all (activity_ok env w) acts"
    using assms(3) created(1) by (simp_all add: race_ok_def)
  have wk: "wk_session_id wk = sid" "session_ok env wk"
    using created(4) initial_session_ok by simp_all
  note w1 = insert_session_kept [OF created(3) ok(1)]
  obtain w' where w': "persist env wk w1 = (Inr (), w')" "world_ok env w'" "race_kept env w1 w'"
    "has_row (wk_session_id wk) w'"
    by (rule persist_kept [OF assms(2) _ wk(2)]) (use w1 wk(1) in auto)
  have "race_kept env w w2" using w1 w' created(5) race_kept_trans by auto
  with activities_kept [OF ok(2)] w' created wk show ?thesis
    by (auto simp: race_ok_def activity_ok_def event_ok_def)
next
  case (posts sid w wk acts said now)
  then have "world_ok env w" and wk: "session_ok env wk" "has_row (wk_session_id wk) w"
    using assms(3) load_Inr [OF posts(3)] by (auto simp: race_ok_def world_ok_def)
  then show ?thesis
    using assms(3) posts by (auto simp: race_ok_def posted_def activity_ok_def event_ok_def Let_def)
next
  case (assesses t w acts)
  let ?w = "w\<lparr>wd_tasks := remove1 t (wd_tasks w)\<rparr>"
  have "race_kept env w ?w" "world_ok env ?w = world_ok env w"
    by (simp_all add: race_kept_store world_ok_store [of w ?w])
  with activities_kept assesses assms(3) show ?thesis by (auto simp: race_ok_def activity_ok_def)
next
  case (advances i acts w a w1)
  then have ok: "world_ok env w" "list_all (activity_ok env w) acts" using assms(3) by (simp_all add: race_ok_def)
  then have "activity_ok env w (acts ! i)" using advances(3) by (simp add: list_all_length)
  note step = advance_ok [OF assms(2) ok(1) this advances(4)]
  have "list_all (activity_ok env w1) (acts[i := a])"
    using activities_kept [OF ok(2)] step set_update_subset_insert [of acts i a] by (auto simp: list_all_iff)
  with step advances show ?thesis by (simp add: race_ok_def)
next
  case (elsewhere w w1 acts)
  then show ?thesis
    using assms(3) activities_kept race_kept_store world_ok_store by (auto simp: race_ok_def)
qed

lemma race_ok_run:
  assumes "(race_step env)\<^sup>*\<^sup>* x y" and "env_sound env" and "race_ok env x"
  shows "race_ok env y \<and> race_kept env (fst x) (fst y)"
  using assms(1)
proof (induction rule: rtranclp_induct)
  case (step y z)
  with race_step_ok [OF step(2) assms(2)] show ?case using race_kept_trans by blast
qed (simp add: assms(3))

end
