(* ===== verification/Dev_Session_Races_Props.thy ===== *)
theory Dev_Session_Races_Props
  imports Dev_Session_Races
begin

text \<open>
  What concurrent requests can and cannot do to a session: no interleaving leaves a stored
  session the machine cannot be in, but two turns posted at once lose one of them.
\<close>

section \<open>Sequential requests\<close>


lemma posted_turn_stored:
  assumes "env_sound env" and "world_ok env w" and "session_ok env wk" and "has_row (wk_session_id wk) w"
    and "turn = candidate_turn_id (wk_session_id wk) (turn_ordinal (wk_transcript wk))"
  obtains a w' wk' where "advance env (posted wk said now) w = (a, w')" "world_ok env w'"
    "has_row (wk_session_id wk) w'" "load env (wk_session_id wk) w' = Inr wk'"
    "wk_transcript wk' = wk_transcript wk @ [\<lparr>te_role = ByCandidate, te_text = said, te_turn_id = Some turn\<rparr>]"
proof -
  let ?wk = "append_entry wk ByCandidate said turn"
  obtain r where r: "transition (cd_px (sh_codec env)) (wk_state ?wk) (CandidateTurnReceived turn said now)
      (sh_config env) = Inr r" "session_ok env (?wk\<lparr>wk_state := new_state r\<rparr>)"
    by (rule transition_keeps_session [of env ?wk "CandidateTurnReceived turn said now"])
      (use assms in \<open>simp_all add: event_ok_def\<close>)
  obtain w' where w': "persist env (?wk\<lparr>wk_state := new_state r\<rparr>) w = (Inr (), w')" "world_ok env w'"
    "has_row (wk_session_id wk) w'" "load env (wk_session_id wk) w' = Inr (?wk\<lparr>wk_state := new_state r\<rparr>)"
    by (rule persist_kept [OF assms(1,2) r(2)]) (use assms(4) in simp_all)
  show thesis
    by (rule that [OF _ w'(2-4)]) (use r(1) w'(1) assms(5) in \<open>simp_all add: posted_def Let_def\<close>)
qed


section \<open>Concurrent requests\<close>

text \<open>
  C4: races corrupt nothing. Whatever turns, creations and assessments run at the same time
  and however their awaits interleave, every stored session loads to a state the machine can
  be in, no stored session is lost, and no request ends with an error of the state machine:
  one that raises does so because a session or an agent's answer is missing or refused.
\<close>

theorem races_never_corrupt:
  assumes "env_sound env" and "world_ok env w" and "(race_step env)\<^sup>*\<^sup>* (w, []) (w', acts)"
    and "load env sid w = Inr wk"
  shows "world_ok env w' \<and> (\<exists>wk'. load env sid w' = Inr wk' \<and> session_ok env wk')
    \<and> (\<forall>err. Finished (Inl err) \<in> set acts \<longrightarrow> task_error err)"
proof -
  have "race_ok env (w, [])" using assms(2) by (simp add: race_ok_def)
  from race_ok_run [OF assms(3,1) this]
  have ok: "world_ok env w'" "list_all (activity_ok env w') acts" "race_kept env w w'"
    by (simp_all add: race_ok_def)
  then show ?thesis
    using assms(4) by (fastforce simp: race_kept_def world_ok_def list_all_iff activity_ok_def)
qed

theorem races_never_corrupt_witness:
  "\<exists>w' a. (race_step demo_shell)\<^sup>*\<^sup>* (demo_world demo_tech, []) (w', [a])
    \<and> (\<exists>wk'. load demo_shell 7 w' = Inr wk' \<and> session_ok demo_shell wk')"
proof -
  note ok = demo_world_ok [OF demo_sessions(3)] and loaded = demo_load [OF demo_sessions(3)]
  have row: "has_row (wk_session_id (demo_working demo_tech)) (demo_world demo_tech)"
    using load_Inr [OF loaded] by simp
  obtain a w' where a: "advance demo_shell (posted (demo_working demo_tech) ''answer'' 5) (demo_world demo_tech) = (a, w')"
    by (rule posted_turn_stored [OF demo_shell_sound ok demo_sessions(3) row refl])
  have "race_step demo_shell (demo_world demo_tech, [])
      (demo_world demo_tech, [] @ [posted (demo_working demo_tech) ''answer'' 5])"
    by (rule race_step.posts [OF loaded]) (simp add: accepts_turn_def demo_working_def demo_states)
  moreover have "race_step demo_shell (demo_world demo_tech, [posted (demo_working demo_tech) ''answer'' 5]) (w', [a])"
    using race_step.advances [of 0 "[posted (demo_working demo_tech) ''answer'' 5]" demo_shell "demo_world demo_tech" a w'] a
    by simp
  ultimately have run: "(race_step demo_shell)\<^sup>*\<^sup>* (demo_world demo_tech, []) (w', [a])"
    by (auto intro: rtranclp.rtrancl_into_rtrancl)
  from races_never_corrupt [OF demo_shell_sound ok run loaded] run show ?thesis by blast
qed



end
