(* ===== verification/Auth.thy ===== *)
theory Auth
  imports Py_Text
begin

text \<open>
  Staff sign-in: \<open>app/backend/services/auth.py\<close> (offline verification of Identity Platform
  ID tokens over a cached set of signing certificates) and the authorization seam of
  \<open>app/backend/api/deps.py\<close>. The JWT library is not part of the repository: reading a
  header and checking signature, audience and lifetime are the fields of \<open>jwt_lib\<close>. The
  certificate download, the monotonic clock and Unicode lower-casing belong to the
  environment; the cache counts the readings and downloads it has used.
\<close>

section \<open>Claims\<close>

datatype auth_error =
    TokenVerificationError
  | MissingRoleClaimError
  | CertsUnavailable
  | VerifierValueError

record verified_identity =
  vi_sub :: string
  vi_email :: string
  vi_role :: string

definition staff_roles :: "string list" where
  "staff_roles = [''admin'', ''recruiter'', ''reviewer'']"

type_synonym certs = "(string, string) dict"

record jwt_lib =
  jl_header :: "string \<Rightarrow> (string, json) dict option"
  jl_decode :: "string \<Rightarrow> certs \<Rightarrow> string \<Rightarrow> nat \<Rightarrow> (string, json) dict option"

record verifier =
  vr_project_id :: string
  vr_issuer :: string
  vr_allowed_domain :: string
  vr_certs_ttl :: rat
  vr_forced_cooldown :: rat
  vr_jwt :: jwt_lib
  vr_fetch :: "nat \<Rightarrow> certs option"
  vr_clock :: "nat \<Rightarrow> rat"
  vr_lower :: "string \<Rightarrow> string"

definition issuer_prefix :: string where
  "issuer_prefix = ''https://securetoken.google.com/''"

text \<open>The constructor; the environment's parts are passed on.\<close>

definition make_verifier ::
  "string \<Rightarrow> string \<Rightarrow> rat \<Rightarrow> rat \<Rightarrow> jwt_lib \<Rightarrow> (nat \<Rightarrow> certs option) \<Rightarrow> (nat \<Rightarrow> rat)
    \<Rightarrow> (string \<Rightarrow> string) \<Rightarrow> auth_error + verifier" where
  "make_verifier project domain ttl cooldown jwt fetch clock low =
     (if project = '''' then Inl VerifierValueError
      else if domain = '''' then Inl VerifierValueError
      else Inr \<lparr>vr_project_id = project, vr_issuer = issuer_prefix @ project,
             vr_allowed_domain = low domain, vr_certs_ttl = ttl, vr_forced_cooldown = cooldown,
             vr_jwt = jwt, vr_fetch = fetch, vr_clock = clock, vr_lower = low\<rparr>)"

definition text_claim :: "(string, json) dict \<Rightarrow> string \<Rightarrow> string option" where
  "text_claim claims k = (case dict_get claims k of Some (JStr s) \<Rightarrow> Some s | _ \<Rightarrow> None)"

definition check_claims ::
  "verifier \<Rightarrow> (string, json) dict \<Rightarrow> auth_error + verified_identity" where
  "check_claims v claims =
     (if dict_get claims ''iss'' \<noteq> Some (JStr (vr_issuer v)) then Inl TokenVerificationError
      else case text_claim claims ''sub'' of
        None \<Rightarrow> Inl TokenVerificationError
      | Some sub \<Rightarrow>
          if sub = '''' then Inl TokenVerificationError
          else case text_claim claims ''email'' of
            None \<Rightarrow> Inl TokenVerificationError
          | Some email \<Rightarrow>
              if CHR ''@'' \<notin> set email then Inl TokenVerificationError
              else if dict_get claims ''email_verified'' \<noteq> Some (JBool True)
              then Inl TokenVerificationError
              else if dict_get claims ''hd'' \<noteq> Some (JStr (vr_allowed_domain v))
              then Inl TokenVerificationError
              else if \<not> ends_with (CHR ''@'' # vr_allowed_domain v) (vr_lower v email)
              then Inl TokenVerificationError
              else (case dict_get claims ''role'' of
                 None \<Rightarrow> Inl MissingRoleClaimError
               | Some (JStr role) \<Rightarrow>
                   if role \<in> set staff_roles
                   then Inr \<lparr>vi_sub = sub, vi_email = email, vi_role = role\<rparr>
                   else Inl MissingRoleClaimError
               | Some _ \<Rightarrow> Inl MissingRoleClaimError))"

section \<open>The certificate cache\<close>

record cert_cache =
  cc_certs :: "certs option"
  cc_deadline :: rat
  cc_forced_ok_after :: rat
  cc_reads :: nat
  cc_fetches :: nat

definition empty_cache :: cert_cache where
  "empty_cache = \<lparr>cc_certs = None, cc_deadline = 0, cc_forced_ok_after = 0, cc_reads = 0,
     cc_fetches = 0\<rparr>"

definition get_certs :: "verifier \<Rightarrow> bool \<Rightarrow> cert_cache \<Rightarrow> (auth_error + certs) \<times> cert_cache" where
  "get_certs v force c =
     (let now = vr_clock v (cc_reads c); c1 = c\<lparr>cc_reads := cc_reads c + 1\<rparr>;
          forced = (force \<and> \<not> now < cc_forced_ok_after c)
      in if forced \<or> cc_certs c = None \<or> now \<ge> cc_deadline c then
           (case vr_fetch v (cc_fetches c) of
              None \<Rightarrow> (Inl CertsUnavailable, c1\<lparr>cc_fetches := cc_fetches c + 1\<rparr>)
            | Some fresh \<Rightarrow>
                (let c2 = c1\<lparr>cc_fetches := cc_fetches c + 1, cc_certs := Some fresh,
                       cc_deadline := vr_clock v (cc_reads c1) + vr_certs_ttl v,
                       cc_reads := cc_reads c1 + 1\<rparr>
                 in if forced
                    then (Inr fresh, c2\<lparr>cc_forced_ok_after :=
                            vr_clock v (cc_reads c2) + vr_forced_cooldown v,
                            cc_reads := cc_reads c2 + 1\<rparr>)
                    else (Inr fresh, c2)))
         else (Inr (the (cc_certs c)), c1))"

text \<open>\<open>_peek_kid\<close>: a malformed header is an error, a \<open>kid\<close> that is no string is none.\<close>

definition peek_kid :: "verifier \<Rightarrow> string \<Rightarrow> auth_error + string option" where
  "peek_kid v token = (case jl_header (vr_jwt v) token of
     None \<Rightarrow> Inl TokenVerificationError | Some h \<Rightarrow> Inr (text_claim h ''kid''))"

definition clock_skew_s :: nat where "clock_skew_s = 10"

definition decode_and_check ::
  "verifier \<Rightarrow> string \<Rightarrow> certs \<Rightarrow> auth_error + verified_identity" where
  "decode_and_check v token certs =
     (case jl_decode (vr_jwt v) token certs (vr_project_id v) clock_skew_s of
        None \<Rightarrow> Inl TokenVerificationError
      | Some claims \<Rightarrow> check_claims v claims)"

definition verify ::
  "verifier \<Rightarrow> string \<Rightarrow> cert_cache \<Rightarrow> (auth_error + verified_identity) \<times> cert_cache" where
  "verify v token c =
     (case get_certs v False c of
        (Inl e, c1) \<Rightarrow> (Inl e, c1)
      | (Inr certs, c1) \<Rightarrow>
          (case peek_kid v token of
             Inl e \<Rightarrow> (Inl e, c1)
           | Inr kid \<Rightarrow>
               if kid \<noteq> None \<and> the kid \<notin> dict_keys certs then
                 (case get_certs v True c1 of
                    (Inl e, c2) \<Rightarrow> (Inl e, c2)
                  | (Inr certs', c2) \<Rightarrow> (decode_and_check v token certs', c2))
               else (decode_and_check v token certs, c1)))"

section \<open>The authorization seam\<close>

text \<open>
  What a dependency answers with: an HTTP error status, or the value it resolves to. An
  exception no handler knows is a 500.
\<close>

record principal =
  pr_role :: string
  pr_sub :: "string option"
  pr_email :: "string option"

text \<open>The process-wide verifier, \<open>None\<close> when \<open>AUTH_MODE=disabled\<close>.\<close>

definition get_current_user ::
  "verifier option \<Rightarrow> string option \<Rightarrow> cert_cache \<Rightarrow> (nat + principal) \<times> cert_cache" where
  "get_current_user installed credentials c =
     (case installed of
        None \<Rightarrow> (Inl 401, c)
      | Some v \<Rightarrow>
          (case credentials of
             None \<Rightarrow> (Inl 401, c)
           | Some token \<Rightarrow>
               (case verify v token c of
                  (Inl MissingRoleClaimError, c') \<Rightarrow> (Inl 403, c')
                | (Inl TokenVerificationError, c') \<Rightarrow> (Inl 401, c')
                | (Inl _, c') \<Rightarrow> (Inl 500, c')
                | (Inr i, c') \<Rightarrow>
                    (Inr \<lparr>pr_role = vi_role i, pr_sub = Some (vi_sub i), pr_email = Some (vi_email i)\<rparr>,
                     c'))))"

definition get_optional_current_user ::
  "verifier option \<Rightarrow> string option \<Rightarrow> cert_cache \<Rightarrow> (nat + principal option) \<times> cert_cache" where
  "get_optional_current_user installed credentials c =
     (if installed = None then (Inr None, c)
      else (case get_current_user installed credentials c of
              (Inl status, c') \<Rightarrow> (Inl status, c')
            | (Inr p, c') \<Rightarrow> (Inr (Some p), c')))"

definition require_roles :: "string list \<Rightarrow> principal \<Rightarrow> nat + principal" where
  "require_roles roles p = (if pr_role p \<in> set roles then Inr p else Inl 403)"

definition manager_roles :: "string list" where
  "manager_roles = [''recruiter'', ''admin'']"

section \<open>What a verified identity is\<close>

text \<open>The claims contract, stated at once.\<close>

definition admissible :: "verifier \<Rightarrow> (string, json) dict \<Rightarrow> bool" where
  "admissible v claims \<longleftrightarrow>
     dict_get claims ''iss'' = Some (JStr (vr_issuer v))
     \<and> (\<exists>sub. dict_get claims ''sub'' = Some (JStr sub) \<and> sub \<noteq> '''')
     \<and> (\<exists>email user. dict_get claims ''email'' = Some (JStr email)
          \<and> vr_lower v email = user @ CHR ''@'' # vr_allowed_domain v \<and> CHR ''@'' \<in> set email)
     \<and> dict_get claims ''email_verified'' = Some (JBool True)
     \<and> dict_get claims ''hd'' = Some (JStr (vr_allowed_domain v))"

lemma text_claim_Some [simp]: "text_claim claims k = Some s \<longleftrightarrow> dict_get claims k = Some (JStr s)"
  by (auto simp: text_claim_def split: option.split json.split)

lemma check_claims_rejects: "\<not> admissible v claims \<Longrightarrow> check_claims v claims = Inl TokenVerificationError"
  by (auto simp: check_claims_def admissible_def ends_with_iff split: option.splits json.splits)

lemma check_claims_accepts:
  assumes "admissible v claims"
  shows "check_claims v claims =
    (case dict_get claims ''role'' of
       Some (JStr role) \<Rightarrow>
         if role \<in> set staff_roles
         then Inr \<lparr>vi_sub = the (text_claim claims ''sub''),
                vi_email = the (text_claim claims ''email''), vi_role = role\<rparr>
         else Inl MissingRoleClaimError
     | _ \<Rightarrow> Inl MissingRoleClaimError)"
proof -
  obtain sub email user where c: "dict_get claims ''iss'' = Some (JStr (vr_issuer v))"
    "text_claim claims ''sub'' = Some sub" "sub \<noteq> ''''" "text_claim claims ''email'' = Some email"
    "vr_lower v email = user @ CHR ''@'' # vr_allowed_domain v" "CHR ''@'' \<in> set email"
    "dict_get claims ''email_verified'' = Some (JBool True)"
    "dict_get claims ''hd'' = Some (JStr (vr_allowed_domain v))"
    using assms by (auto simp: admissible_def)
  have "ends_with (CHR ''@'' # vr_allowed_domain v) (vr_lower v email)"
    using c(5) by (auto simp: ends_with_iff)
  with c show ?thesis
    by (simp del: text_claim_Some add: check_claims_def split: option.split json.split)
qed

section \<open>The cache over time\<close>

text \<open>A clock that does not run backwards.\<close>

definition clock_ok :: "verifier \<Rightarrow> bool" where
  "clock_ok v \<longleftrightarrow> mono (vr_clock v)"

text \<open>Within a quiet window the cache answers and nothing is fetched.\<close>

definition quiet_until :: "rat \<Rightarrow> cert_cache \<Rightarrow> bool" where
  "quiet_until t c \<longleftrightarrow> cc_certs c \<noteq> None \<and> t \<le> cc_deadline c \<and> t \<le> cc_forced_ok_after c"

lemma get_certs_quiet:
  assumes "quiet_until t c" and "vr_clock v (cc_reads c) < t"
  shows "get_certs v force c = (Inr (the (cc_certs c)), c\<lparr>cc_reads := cc_reads c + 1\<rparr>)"
  using assms by (auto simp: get_certs_def quiet_until_def Let_def)

lemma verify_quiet:
  assumes "quiet_until t c" and "vr_clock v (cc_reads c + 1) < t" and "clock_ok v"
  shows "\<exists>n. snd (verify v token c) = c\<lparr>cc_reads := n\<rparr> \<and> n \<le> cc_reads c + 2 \<and> cc_reads c \<le> n"
proof -
  have now: "vr_clock v (cc_reads c) < t"
    using assms(2,3) monoD [of "vr_clock v" "cc_reads c" "cc_reads c + 1"] by (simp add: clock_ok_def)
  let ?c1 = "c\<lparr>cc_reads := cc_reads c + 1\<rparr>"
  have second: "get_certs v True ?c1 = (Inr (the (cc_certs c)), c\<lparr>cc_reads := cc_reads c + 2\<rparr>)"
    using get_certs_quiet [of t ?c1 v True] assms(1,2) by (simp add: quiet_until_def)
  show ?thesis
    using get_certs_quiet [OF assms(1) now] second
    by (auto simp: verify_def split: sum.split)
qed

lemma forced_fetch_quiets:
  assumes "get_certs v True c = (Inr certs, c')" and "cc_certs c' \<noteq> cc_certs c \<or> cc_fetches c' \<noteq> cc_fetches c"
    and "\<not> vr_clock v (cc_reads c) < cc_forced_ok_after c" and "clock_ok v"
    and "t \<le> vr_clock v (cc_reads c) + vr_certs_ttl v"
    and "t \<le> vr_clock v (cc_reads c) + vr_forced_cooldown v"
  shows "quiet_until t c'"
proof -
  have "vr_clock v (cc_reads c) \<le> vr_clock v (Suc (cc_reads c))"
    "vr_clock v (cc_reads c) \<le> vr_clock v (Suc (Suc (cc_reads c)))"
    using assms(4) by (simp_all add: clock_ok_def mono_def)
  then show ?thesis
    using assms by (auto simp: get_certs_def Let_def quiet_until_def split: option.splits if_splits)
qed

text \<open>A sequence of verifications.\<close>

fun verify_all :: "verifier \<Rightarrow> string list \<Rightarrow> cert_cache \<Rightarrow> cert_cache" where
  "verify_all v [] c = c"
| "verify_all v (token # ts) c = verify_all v ts (snd (verify v token c))"

lemma verify_all_quiet:
  assumes "quiet_until t c" and "clock_ok v"
    and "vr_clock v (cc_reads c + 2 * length tokens) < t"
  shows "cc_fetches (verify_all v tokens c) = cc_fetches c
    \<and> cc_certs (verify_all v tokens c) = cc_certs c"
  using assms
proof (induction tokens arbitrary: c)
  case (Cons token ts)
  have mono: "vr_clock v m \<le> vr_clock v n" if "m \<le> n" for m n
    using that Cons.prems(2) by (simp add: clock_ok_def mono_def)
  have "vr_clock v (cc_reads c + 1) < t"
    using mono [of "cc_reads c + 1" "cc_reads c + 2 * length (token # ts)"] Cons.prems(3) by simp
  then obtain n where n: "snd (verify v token c) = c\<lparr>cc_reads := n\<rparr>" "n \<le> cc_reads c + 2"
    using verify_quiet [OF Cons.prems(1) _ Cons.prems(2)] by blast
  have "vr_clock v (n + 2 * length ts) < t"
    using mono [of "n + 2 * length ts" "cc_reads c + 2 * length (token # ts)"] n(2) Cons.prems(3) by simp
  with Cons.IH [of "c\<lparr>cc_reads := n\<rparr>"] Cons.prems(1,2) n(1) show ?case
    by (simp add: quiet_until_def)
qed simp

end
