(* ===== verification/Auth_Props.thy ===== *)
theory Auth_Props
  imports Auth
begin

text \<open>
  What the sign-in path promises: who is let in and with which answer the others leave, and
  how often the signing certificates can be downloaded.
\<close>

lemma get_certs_cached: "get_certs v force c = (Inr certs, c') \<Longrightarrow> cc_certs c' = Some certs"
  by (auto simp: get_certs_def Let_def split: option.splits if_splits)

text \<open>What \<open>verify\<close> answers, it has decided on claims decoded under the certificates it leaves cached.\<close>

lemma verify_cases:
  assumes "verify v token c = (answer, c')"
  obtains (failed) e where "answer = Inl e" "e = CertsUnavailable \<or> e = TokenVerificationError"
  | (checked) certs claims where "cc_certs c' = Some certs" "answer = check_claims v claims"
      "jl_decode (vr_jwt v) token certs (vr_project_id v) clock_skew_s = Some claims"
proof -
  have cert_error: "e = CertsUnavailable" if "get_certs v f d = (Inl e, d')" for f d d' e
    using that by (auto simp: get_certs_def Let_def split: option.splits if_splits)
  have peek_error: "e = TokenVerificationError" if "peek_kid v token = Inl e" for e
    using that by (auto simp: peek_kid_def split: option.splits)
  have decide: thesis if "cc_certs c' = Some certs" "answer = decode_and_check v token certs" for certs
    using that failed checked by (auto simp: decode_and_check_def split: option.splits)
  show thesis
    using assms decide failed
    by (auto simp: verify_def dest: cert_error peek_error get_certs_cached
        split: prod.splits sum.splits if_splits)
qed

lemma checked_identity:
  "check_claims v claims = Inr i \<Longrightarrow> admissible v claims \<and> vi_role i \<in> set staff_roles
    \<and> dict_get claims ''role'' = Some (JStr (vi_role i))
    \<and> dict_get claims ''sub'' = Some (JStr (vi_sub i)) \<and> dict_get claims ''email'' = Some (JStr (vi_email i))"
  using check_claims_rejects [of v claims] check_claims_accepts [of v claims]
  by (cases "admissible v claims")
    (auto simp: admissible_def text_claim_def split: option.splits json.splits if_splits)

lemma checked_missing_role:
  "check_claims v claims = Inl MissingRoleClaimError \<Longrightarrow> admissible v claims
    \<and> (\<forall>role \<in> set staff_roles. dict_get claims ''role'' \<noteq> Some (JStr role))"
  using check_claims_rejects [of v claims] check_claims_accepts [of v claims]
  by (cases "admissible v claims") (auto split: option.splits json.splits if_splits)

section \<open>Properties\<close>

text \<open>
  C20: sign-in lets in staff only. With sign-in disabled every request is a 401 and the
  certificate cache is untouched. Otherwise a principal comes from a token that decodes,
  under certificates now cached and for the project as audience, to claims that satisfy the
  whole contract (issuer, subject, verified e-mail of the allowed domain, hosted domain) and
  carry one of the staff roles; a 403 comes from claims that satisfy it without such a role;
  every other request is a 401 or a 500.
\<close>

theorem sign_in_is_sound:
  "case get_current_user installed credentials c of
     (Inr p, c') \<Rightarrow> (\<exists>v token certs claims. installed = Some v \<and> credentials = Some token
       \<and> cc_certs c' = Some certs
       \<and> jl_decode (vr_jwt v) token certs (vr_project_id v) clock_skew_s = Some claims
       \<and> admissible v claims \<and> pr_role p \<in> set staff_roles
       \<and> dict_get claims ''role'' = Some (JStr (pr_role p))
       \<and> map_option JStr (pr_sub p) = dict_get claims ''sub''
       \<and> map_option JStr (pr_email p) = dict_get claims ''email'')
   | (Inl status, c') \<Rightarrow>
       if status = 403 then (\<exists>v token certs claims. installed = Some v \<and> credentials = Some token
         \<and> cc_certs c' = Some certs
         \<and> jl_decode (vr_jwt v) token certs (vr_project_id v) clock_skew_s = Some claims
         \<and> admissible v claims
         \<and> dict_get claims ''role'' \<notin> (\<lambda>role. Some (JStr role)) ` set staff_roles)
       else if installed = None then status = 401 \<and> c' = c
       else status \<in> {401, 500}"
proof (cases "\<exists>v token. installed = Some v \<and> credentials = Some token")
  case True
  then obtain v token where u: "installed = Some v" "credentials = Some token" by blast
  obtain answer c' where ver: "verify v token c = (answer, c')" by fastforce
  from ver show ?thesis
  proof (cases rule: verify_cases)
    case (failed e)
    then show ?thesis using u ver by (auto simp: get_current_user_def)
  next
    case (checked certs claims)
    show ?thesis
    proof (cases answer)
      case (Inl e)
      then show ?thesis
        using u ver checked checked_missing_role [of v claims]
        by (cases e) (auto simp: get_current_user_def)
    next
      case (Inr i)
      then show ?thesis using u ver checked checked_identity [of v claims i]
        by (auto simp: get_current_user_def)
    qed
  qed
qed (auto simp: get_current_user_def split: option.splits)

text \<open>
  A spray of tokens with unknown key ids cannot make the service download certificates
  over and over. After a forced refresh that succeeded, no verification causes a download
  until the shorter of the lifetime and the cool-down has passed, whatever the tokens are.
\<close>

theorem forced_refresh_is_rate_limited:
  assumes "clock_ok v" and "get_certs v True c = (Inr certs, c')"
    and "cc_forced_ok_after c \<le> vr_clock v (cc_reads c)"
    and "vr_clock v (cc_reads c' + 2 * length tokens)
      < vr_clock v (cc_reads c) + min (vr_certs_ttl v) (vr_forced_cooldown v)"
  shows "cc_fetches (verify_all v tokens c') = cc_fetches c'
    \<and> cc_certs (verify_all v tokens c') = Some certs"
proof -
  have "cc_fetches c' \<noteq> cc_fetches c"
    using assms(2,3) by (auto simp: get_certs_def Let_def split: option.splits if_splits)
  then have "quiet_until (vr_clock v (cc_reads c) + min (vr_certs_ttl v) (vr_forced_cooldown v)) c'"
    using forced_fetch_quiets [OF assms(2) _ _ assms(1)] assms(3) by simp
  from verify_all_quiet [OF this assms(1,4)] get_certs_cached [OF assms(2)] show ?thesis by simp
qed

definition demo_verifier :: verifier where
  "demo_verifier = \<lparr>vr_project_id = ''p'', vr_issuer = issuer_prefix @ ''p'', vr_allowed_domain = ''n-ix.com'',
     vr_certs_ttl = 3600, vr_forced_cooldown = 60,
     vr_jwt = \<lparr>jl_header = \<lambda>t. Some [(''kid'', JStr t)], jl_decode = \<lambda>_ _ _ _. None\<rparr>,
     vr_fetch = \<lambda>_. Some [(''k1'', ''pem'')], vr_clock = of_nat, vr_lower = lower\<rparr>"

theorem forced_refresh_is_rate_limited_witness:
  "case get_certs demo_verifier True empty_cache of
     (Inr certs, c') \<Rightarrow> cc_fetches c' = 1
       \<and> cc_fetches (verify_all demo_verifier [''k7'', ''k8'', ''k9''] c') = 1
   | _ \<Rightarrow> False"
proof -
  have g: "get_certs demo_verifier True empty_cache = (Inr [(''k1'', ''pem'')],
      \<lparr>cc_certs = Some [(''k1'', ''pem'')], cc_deadline = 3601, cc_forced_ok_after = 62, cc_reads = 3,
       cc_fetches = 1\<rparr>)"
    by (simp add: get_certs_def demo_verifier_def empty_cache_def Let_def)
  have "clock_ok demo_verifier" by (simp add: clock_ok_def demo_verifier_def mono_def)
  from forced_refresh_is_rate_limited [OF this g, of "[''k7'', ''k8'', ''k9'']"] g show ?thesis
    by (simp add: empty_cache_def demo_verifier_def)
qed

end
