(* ===== verification/Feature_Flags.thy ===== *)
theory Feature_Flags
  imports Py_Text
begin

text \<open>
  \<open>app/backend/services/feature_flags.py\<close>, the query surface of the dark-launch flags, and
  \<open>scripts/sync_feature_flags_to_db.py\<close>, which writes the table it reads, with the table
  and its \<open>NOTIFY\<close> trigger as migration \<open>0002\<close> declares them. JSON-Schema
  validation of the YAML document is the argument \<open>valid\<close> of the loader.
\<close>

section \<open>The registry\<close>

record flag_decl =
  fd_name :: string
  fd_owner :: string
  fd_default :: bool
  fd_state :: string

datatype flag_error =
    UnknownFeatureFlag
  | FlagKeyError
  | FlagValueError
  | FlagSchemaViolation
  | FlagDatabaseError

text \<open>Python's truth value of a JSON value.\<close>

definition truthy :: "json \<Rightarrow> bool" where
  "truthy j = (case j of JNull \<Rightarrow> False | JBool b \<Rightarrow> b | JInt n \<Rightarrow> n \<noteq> 0 | JNum q \<Rightarrow> q \<noteq> 0
     | JStr s \<Rightarrow> s \<noteq> '''' | JArr xs \<Rightarrow> xs \<noteq> [] | JObj d \<Rightarrow> d \<noteq> [])"

text \<open>
  An entry's fields; a missing key is a \<open>KeyError\<close>. The schema makes the names strings, so
  an entry that is not of that shape is also an error here.
\<close>

definition flag_entry :: "json \<Rightarrow> flag_error + flag_decl" where
  "flag_entry j = (case j of
     JObj d \<Rightarrow>
       (case (dict_get d ''name'', dict_get d ''owner'', dict_get d ''default'', dict_get d ''state'') of
          (Some (JStr n), Some (JStr ow), Some df, Some (JStr st)) \<Rightarrow>
            Inr \<lparr>fd_name = n, fd_owner = ow, fd_default = truthy df, fd_state = st\<rparr>
        | _ \<Rightarrow> Inl FlagKeyError)
   | _ \<Rightarrow> Inl FlagKeyError)"

definition flag_list :: "(string, json) dict \<Rightarrow> json list" where
  "flag_list doc = (case dict_get doc ''flags'' of Some (JArr xs) \<Rightarrow> xs | _ \<Rightarrow> [])"

text \<open>The dict comprehension: a later entry of the same name replaces the earlier one.\<close>

fun registry_from ::
  "json list \<Rightarrow> (string, flag_decl) dict \<Rightarrow> flag_error + (string, flag_decl) dict" where
  "registry_from [] acc = Inr acc"
| "registry_from (j # js) acc =
     and_then (flag_entry j) (\<lambda>f. registry_from js (dict_set acc (fd_name f) f))"

definition build_registry :: "(string, json) dict \<Rightarrow> flag_error + (string, flag_decl) dict" where
  "build_registry doc = registry_from (flag_list doc) []"

record flag_service =
  fs_registry :: "(string, flag_decl) dict"
  fs_cache :: "(string, bool \<times> rat) dict"

text \<open>\<open>from_yaml\<close> on the parsed document; an empty file reads as an empty mapping.\<close>

definition flags_from_yaml :: "(json \<Rightarrow> bool) \<Rightarrow> json \<Rightarrow> flag_error + flag_service" where
  "flags_from_yaml valid loaded =
     (case (if truthy loaded then loaded else JObj []) of
        JObj doc \<Rightarrow>
          if valid (JObj doc)
          then and_then (build_registry doc) (\<lambda>r. Inr \<lparr>fs_registry = r, fs_cache = []\<rparr>)
          else Inl FlagSchemaViolation
      | _ \<Rightarrow> Inl FlagValueError)"

section \<open>Queries\<close>

definition cache_ttl_seconds :: rat where "cache_ttl_seconds = 60"

type_synonym flag_table = "(string, bool) dict"

text \<open>
  \<open>is_enabled\<close> up to the database: an undeclared name raises, a live cache entry is the
  answer, otherwise the value has to be read.
\<close>

definition cached_answer :: "flag_service \<Rightarrow> string \<Rightarrow> rat \<Rightarrow> flag_error + bool option" where
  "cached_answer s name now =
     (if name \<notin> dict_keys (fs_registry s) then Inl UnknownFeatureFlag
      else Inr (case dict_get (fs_cache s) name of
             Some (v, expires) \<Rightarrow> if expires > now then Some v else None
           | None \<Rightarrow> None))"

text \<open>\<open>_read_from_db\<close>: the row, or the declared default when there is none yet.\<close>

definition read_from_db :: "flag_service \<Rightarrow> flag_table \<Rightarrow> string \<Rightarrow> bool" where
  "read_from_db s table name = (case dict_get table name of
     Some v \<Rightarrow> v
   | None \<Rightarrow> (case dict_get (fs_registry s) name of Some f \<Rightarrow> fd_default f | None \<Rightarrow> False))"

definition cache_value :: "flag_service \<Rightarrow> string \<Rightarrow> bool \<Rightarrow> rat \<Rightarrow> flag_service" where
  "cache_value s name v now =
     s\<lparr>fs_cache := dict_set (fs_cache s) name (v, now + cache_ttl_seconds)\<rparr>"

text \<open>The whole query, uninterrupted; \<open>None\<close> for the table is a database that is down.\<close>

definition is_enabled ::
  "flag_service \<Rightarrow> flag_table option \<Rightarrow> string \<Rightarrow> rat \<Rightarrow> (flag_error + bool) \<times> flag_service" where
  "is_enabled s db name now =
     (case cached_answer s name now of
        Inl e \<Rightarrow> (Inl e, s)
      | Inr (Some v) \<Rightarrow> (Inr v, s)
      | Inr None \<Rightarrow>
          (case db of
             None \<Rightarrow> (Inl FlagDatabaseError, s)
           | Some table \<Rightarrow>
               let v = read_from_db s table name in (Inr v, cache_value s name v now)))"

definition invalidate :: "flag_service \<Rightarrow> string \<Rightarrow> flag_service" where
  "invalidate s name = s\<lparr>fs_cache := dict_pop (fs_cache s) name\<rparr>"

definition on_notify :: "flag_service \<Rightarrow> string \<Rightarrow> flag_service" where
  "on_notify s payload = (if payload \<noteq> '''' then invalidate s payload else s)"

section \<open>The listener\<close>

definition backoff_initial_s :: rat where "backoff_initial_s = 1"
definition backoff_cap_s :: rat where "backoff_cap_s = 30"

text \<open>
  \<open>_listen_forever\<close>: each attempt either connects (and is later lost) or fails; the
  delays slept between attempts.
\<close>

fun listen_delays :: "bool list \<Rightarrow> rat \<Rightarrow> rat list" where
  "listen_delays [] backoff = []"
| "listen_delays (up # attempts) backoff =
     (let b = (if up then backoff_initial_s else backoff)
      in b # listen_delays attempts (min (b * 2) backoff_cap_s))"

lemma listen_delays_bounds:
  assumes "1 \<le> backoff" and "backoff \<le> 30"
  shows "list_all (\<lambda>d. 1 \<le> d \<and> d \<le> 30) (listen_delays attempts backoff)"
  using assms
proof (induction attempts backoff rule: listen_delays.induct)
  case (2 up attempts backoff)
  then show ?case
    by (cases up) (simp_all add: Let_def backoff_initial_s_def backoff_cap_s_def min_def)
qed simp

section \<open>The sync script\<close>

text \<open>
  A row of \<open>feature_flag\<close>. The upsert leaves \<open>enabled\<close> alone when the row exists and
  never deletes. Each written row notifies.
\<close>

record flag_row =
  fr_enabled :: bool
  fr_owner :: string
  fr_default_value :: "json option"

definition upsert_flag ::
  "(string, flag_row) dict \<Rightarrow> string \<Rightarrow> string \<Rightarrow> json option \<Rightarrow> bool \<Rightarrow> (string, flag_row) dict" where
  "upsert_flag rows name owner dv initial =
     dict_set rows name
       (case dict_get rows name of
          None \<Rightarrow> \<lparr>fr_enabled = initial, fr_owner = owner, fr_default_value = dv\<rparr>
        | Some r \<Rightarrow> r\<lparr>fr_owner := owner, fr_default_value := dv\<rparr>)"

definition default_value_of :: "(string, json) dict \<Rightarrow> json option" where
  "default_value_of d = (case dict_get d ''default_value'' of
     None \<Rightarrow> None | Some JNull \<Rightarrow> None | Some j \<Rightarrow> Some j)"

text \<open>\<open>_upsert_all\<close>: the rows and the names notified; statements commit one by one.\<close>

fun upsert_all ::
  "json list \<Rightarrow> (string, flag_row) dict \<Rightarrow> string list
    \<Rightarrow> (flag_error + unit) \<times> (string, flag_row) dict \<times> string list" where
  "upsert_all [] rows ns = (Inr (), rows, ns)"
| "upsert_all (j # js) rows ns =
     (case j of
        JObj d \<Rightarrow>
          (case (dict_get d ''name'', dict_get d ''owner'', dict_get d ''default'') of
             (Some (JStr n), Some (JStr ow), Some df) \<Rightarrow>
               upsert_all js (upsert_flag rows n ow (default_value_of d) (truthy df)) (ns @ [n])
           | _ \<Rightarrow> (Inl FlagKeyError, rows, ns))
      | _ \<Rightarrow> (Inl FlagKeyError, rows, ns))"

text \<open>\<open>_warn_on_orphans\<close>: rows with no YAML entry, reported and kept.\<close>

definition orphans :: "(string, flag_row) dict \<Rightarrow> string list \<Rightarrow> string list" where
  "orphans rows yaml_names = filter (\<lambda>n. n \<notin> set yaml_names) (map fst rows)"

definition table_of :: "(string, flag_row) dict \<Rightarrow> flag_table" where
  "table_of rows = map (\<lambda>(n, r). (n, fr_enabled r)) rows"

lemma table_of_get: "dict_get (table_of rows) n = map_option fr_enabled (dict_get rows n)"
  by (induction rows) (auto simp: table_of_def)

lemma upsert_all_keeps:
  assumes "upsert_all js rows ns = (res, rows', ns')" and "dict_get rows n = Some r"
  shows "\<exists>r'. dict_get rows' n = Some r' \<and> fr_enabled r' = fr_enabled r"
  using assms
proof (induction js arbitrary: rows ns r)
  case (Cons j js)
  show ?case
  proof (cases "\<exists>d m ow df. j = JObj d \<and> dict_get d ''name'' = Some (JStr m)
      \<and> dict_get d ''owner'' = Some (JStr ow) \<and> dict_get d ''default'' = Some df")
    case True
    then obtain d m ow df where j: "j = JObj d" "dict_get d ''name'' = Some (JStr m)"
      "dict_get d ''owner'' = Some (JStr ow)" "dict_get d ''default'' = Some df" by blast
    let ?rows = "upsert_flag rows m ow (default_value_of d) (truthy df)"
    have "\<exists>r1. dict_get ?rows n = Some r1 \<and> fr_enabled r1 = fr_enabled r"
      using Cons.prems(2) by (auto simp: upsert_flag_def dict_simps)
    then obtain r1 where r1: "dict_get ?rows n = Some r1" "fr_enabled r1 = fr_enabled r" by blast
    have "upsert_all js ?rows (ns @ [m]) = (res, rows', ns')" using Cons.prems(1) j by simp
    from Cons.IH [OF this r1(1)] r1(2) show ?thesis by auto
  next
    case False
    then have "rows' = rows"
      using Cons.prems(1) by (auto split: json.splits option.splits)
    with Cons.prems(2) show ?thesis by blast
  qed
qed simp

end
