(* ===== verification/Feature_Flags_Cache.thy ===== *)
theory Feature_Flags_Cache
  imports Feature_Flags
begin

text \<open>
  The flag service under concurrency. \<open>is_enabled\<close> releases the event loop between the
  cache lookup, the database read and the store, so other queries, \<open>NOTIFY\<close> callbacks and
  writers of the table come in between; the steps are those of the code, one await at a
  time. The last component records, for each read, the value the database answered and when.
\<close>

record flag_world =
  fw_now :: rat
  fw_table :: flag_table
  fw_service :: flag_service
  fw_missed :: "(string \<times> rat) list"
  fw_fetched :: "(string \<times> rat \<times> bool) list"
  fw_answers :: "(string \<times> bool \<times> rat) list"

inductive flag_step :: "flag_world \<Rightarrow> flag_world \<Rightarrow> bool" where
  passes: "0 \<le> d \<Longrightarrow> flag_step w (w\<lparr>fw_now := fw_now w + d\<rparr>)"
| written: "flag_step w (w\<lparr>fw_table := table\<rparr>)"
| notified: "flag_step w (w\<lparr>fw_service := on_notify (fw_service w) payload\<rparr>)"
| missed: "cached_answer (fw_service w) name (fw_now w) = Inr None \<Longrightarrow>
    flag_step w (w\<lparr>fw_missed := (name, fw_now w) # fw_missed w\<rparr>)"
| fetched: "(name, t) \<in> set (fw_missed w) \<Longrightarrow>
    v = read_from_db (fw_service w) (fw_table w) name \<Longrightarrow>
    flag_step w (w\<lparr>fw_missed := remove1 (name, t) (fw_missed w),
      fw_fetched := (name, t, v) # fw_fetched w,
      fw_answers := (name, v, fw_now w) # fw_answers w\<rparr>)"
| failed: "(name, t) \<in> set (fw_missed w) \<Longrightarrow>
    flag_step w (w\<lparr>fw_missed := remove1 (name, t) (fw_missed w)\<rparr>)"
| stored: "(name, t, v) \<in> set (fw_fetched w) \<Longrightarrow>
    flag_step w (w\<lparr>fw_service := cache_value (fw_service w) name v t,
      fw_fetched := remove1 (name, t, v) (fw_fetched w)\<rparr>)"

definition fresh_world :: "flag_service \<Rightarrow> flag_table \<Rightarrow> rat \<Rightarrow> flag_world" where
  "fresh_world s table now = \<lparr>fw_now = now, fw_table = table, fw_service = s\<lparr>fs_cache := []\<rparr>,
     fw_missed = [], fw_fetched = [], fw_answers = []\<rparr>"

text \<open>The database answered \<open>v\<close> for the name no earlier than \<open>t\<close>.\<close>

definition answered_since :: "flag_world \<Rightarrow> string \<Rightarrow> bool \<Rightarrow> rat \<Rightarrow> bool" where
  "answered_since w name v t \<longleftrightarrow>
     (\<exists>u. t \<le> u \<and> u \<le> fw_now w \<and> (name, v, u) \<in> set (fw_answers w))"

definition flag_inv :: "flag_world \<Rightarrow> bool" where
  "flag_inv w \<longleftrightarrow>
     (\<forall>(name, t) \<in> set (fw_missed w). t \<le> fw_now w)
     \<and> (\<forall>(name, t, v) \<in> set (fw_fetched w). answered_since w name v t)
     \<and> (\<forall>name v e. dict_get (fs_cache (fw_service w)) name = Some (v, e) \<longrightarrow>
          answered_since w name v (e - cache_ttl_seconds))"

lemma answered_since_mono:
  assumes "answered_since w name v t" and "fw_now w \<le> fw_now w'"
    and "set (fw_answers w) \<subseteq> set (fw_answers w')"
  shows "answered_since w' name v t"
  using assms by (fastforce simp: answered_since_def)

lemma cache_simps [simp]:
  "fs_cache (on_notify s payload) = (if payload = '''' then fs_cache s else dict_pop (fs_cache s) payload)"
  "fs_cache (cache_value s name v t) = dict_set (fs_cache s) name (v, t + cache_ttl_seconds)"
  "fs_registry (on_notify s payload) = fs_registry s"
  "fs_registry (cache_value s name v t) = fs_registry s"
  by (simp_all add: on_notify_def invalidate_def cache_value_def)

lemma flag_inv_keep:
  assumes "flag_inv w" and "fw_now w \<le> fw_now w'" and "set (fw_answers w) \<subseteq> set (fw_answers w')"
    and "\<And>name t. (name, t) \<in> set (fw_missed w') \<Longrightarrow> (name, t) \<in> set (fw_missed w) \<or> t \<le> fw_now w'"
    and "\<And>name t v. (name, t, v) \<in> set (fw_fetched w') \<Longrightarrow>
      (name, t, v) \<in> set (fw_fetched w) \<or> answered_since w' name v t"
    and "\<And>name v e. dict_get (fs_cache (fw_service w')) name = Some (v, e) \<Longrightarrow>
      dict_get (fs_cache (fw_service w)) name = Some (v, e) \<or> answered_since w' name v (e - cache_ttl_seconds)"
  shows "flag_inv w'"
proof -
  note mono = answered_since_mono [OF _ assms(2,3)]
  have "t \<le> fw_now w'" if "(name, t) \<in> set (fw_missed w')" for name t
    using assms(4) [OF that] assms(1,2) by (fastforce simp: flag_inv_def)
  moreover have "answered_since w' name v t" if "(name, t, v) \<in> set (fw_fetched w')" for name t v
    using assms(5) [OF that] assms(1) mono by (fastforce simp: flag_inv_def)
  moreover have "answered_since w' name v (e - cache_ttl_seconds)"
    if "dict_get (fs_cache (fw_service w')) name = Some (v, e)" for name v e
    using assms(6) [OF that] assms(1) mono by (fastforce simp: flag_inv_def)
  ultimately show ?thesis unfolding flag_inv_def by auto
qed

lemma in_remove1: "x \<in> set (remove1 y xs) \<Longrightarrow> x \<in> set xs"
  using notin_set_remove1 by metis

lemma flag_step_inv:
  assumes "flag_step w w'" and "flag_inv w"
  shows "flag_inv w'"
  using assms(1)
proof (cases rule: flag_step.cases)
  case (fetched name t v)
  have "t \<le> fw_now w" using assms(2) fetched(2) by (auto simp: flag_inv_def)
  then have "answered_since w' name v t" using fetched(1) by (auto simp: answered_since_def)
  then show ?thesis
    by (intro flag_inv_keep [OF assms(2)]) (use fetched(1) in \<open>auto dest: in_remove1\<close>)
next
  case (stored name t v)
  have "answered_since w name v t" using assms(2) stored(2) by (auto simp: flag_inv_def)
  then have "answered_since w' name v t" using stored(1) by (simp add: answered_since_def)
  then show ?thesis
    by (intro flag_inv_keep [OF assms(2)])
      (use stored(1) in \<open>auto simp: dict_simps dest: in_remove1 split: if_splits\<close>)
qed (intro flag_inv_keep [OF assms(2)];
     auto simp: dict_simps dest: in_remove1 split: if_splits)+

lemma reachable_flag_inv: "flag_step\<^sup>*\<^sup>* (fresh_world s table now) w \<Longrightarrow> flag_inv w"
proof (induction rule: rtranclp_induct)
  case base
  show ?case by (simp add: flag_inv_def fresh_world_def)
next
  case (step v w)
  then show ?case by (blast intro: flag_step_inv)
qed

lemma flag_step_registry:
  "flag_step w w' \<Longrightarrow> fs_registry (fw_service w') = fs_registry (fw_service w)"
  by (cases rule: flag_step.cases) auto

lemma reachable_registry:
  "flag_step\<^sup>*\<^sup>* (fresh_world s table now) w \<Longrightarrow> fs_registry (fw_service w) = fs_registry s"
proof (induction rule: rtranclp_induct)
  case base
  show ?case by (simp add: fresh_world_def)
next
  case (step v w)
  then show ?case by (simp add: flag_step_registry)
qed

text \<open>
  C30: flag answers. In every interleaving of queries, notifications and writes, an undeclared
  flag raises; an answer taken from the cache is a value the database gave for that flag less
  than sixty seconds ago, however notifications and stores raced; and once a change has been
  notified the next query goes to the database.
\<close>

theorem flag_answers_are_recent:
  assumes "flag_step\<^sup>*\<^sup>* (fresh_world s table start) w"
  shows "(name \<notin> dict_keys (fs_registry s) \<longrightarrow>
            cached_answer (fw_service w) name (fw_now w) = Inl UnknownFeatureFlag)
    \<and> (\<forall>v. cached_answer (fw_service w) name (fw_now w) = Inr (Some v) \<longrightarrow>
          (\<exists>u. fw_now w - cache_ttl_seconds < u \<and> u \<le> fw_now w \<and> (name, v, u) \<in> set (fw_answers w)))
    \<and> (name \<in> dict_keys (fs_registry s) \<and> name \<noteq> '''' \<longrightarrow>
          cached_answer (on_notify (fw_service w) name) name (fw_now w) = Inr None)"
proof (intro conjI allI impI)
  fix v
  assume "cached_answer (fw_service w) name (fw_now w) = Inr (Some v)"
  then obtain e where e: "dict_get (fs_cache (fw_service w)) name = Some (v, e)" "fw_now w < e"
    by (auto simp: cached_answer_def split: if_splits option.splits)
  then obtain u where u: "e - cache_ttl_seconds \<le> u" "u \<le> fw_now w" "(name, v, u) \<in> set (fw_answers w)"
    using reachable_flag_inv [OF assms] unfolding flag_inv_def answered_since_def by blast
  with e(2) show "\<exists>u. fw_now w - cache_ttl_seconds < u \<and> u \<le> fw_now w
      \<and> (name, v, u) \<in> set (fw_answers w)"
    by (intro exI [of _ u]) simp
qed (use reachable_registry [OF assms] in \<open>simp_all add: cached_answer_def dict_simps\<close>)

definition demo_flags :: flag_service where
  "demo_flags = \<lparr>fs_registry = [(''enable_live_orchestrator'', \<lparr>fd_name = ''enable_live_orchestrator'',
     fd_owner = ''@andrii'', fd_default = False, fd_state = ''active''\<rparr>)], fs_cache = []\<rparr>"

theorem flag_answers_are_recent_witness:
  "cached_answer (on_notify demo_flags ''enable_live_orchestrator'') ''enable_live_orchestrator'' 5
     = Inr None
   \<and> cached_answer demo_flags ''no_such_flag'' 5 = Inl UnknownFeatureFlag"
proof -
  have start: "flag_step\<^sup>*\<^sup>* (fresh_world demo_flags [] 5) (fresh_world demo_flags [] 5)" by simp
  show ?thesis
    using flag_answers_are_recent [OF start, of "''enable_live_orchestrator''"]
      flag_answers_are_recent [OF start, of "''no_such_flag''"]
    by (simp add: fresh_world_def demo_flags_def dict_keys_def)
qed

text \<open>
  C31: a notified change can be missed. The notification drops the cached entry, but a query
  that read the old value before the write stores it afterwards: for any declared flag and
  any change of it there is a run in which, after the write and its notification have both
  arrived, queries are answered with the old value until the sixty seconds are over.
\<close>

theorem notified_change_can_be_missed:
  assumes "name \<in> dict_keys (fs_registry s)" and "dict_get table name = Some old"
    and "0 \<le> d" and "d < cache_ttl_seconds"
  shows "\<exists>w1 w2. flag_step\<^sup>*\<^sup>* (fresh_world s table start) w1
    \<and> dict_get (fw_table w1) name = Some new
    \<and> flag_step w1 (w1\<lparr>fw_service := on_notify (fw_service w1) name\<rparr>)
    \<and> flag_step\<^sup>*\<^sup>* (w1\<lparr>fw_service := on_notify (fw_service w1) name\<rparr>) w2
    \<and> fw_table w2 = fw_table w1 \<and> fw_now w2 = fw_now w1 + d
    \<and> cached_answer (fw_service w2) name (fw_now w2) = Inr (Some old)"
proof -
  define w0 where "w0 = fresh_world s table start"
  define wm where "wm = w0\<lparr>fw_missed := [(name, start)]\<rparr>"
  define wf where "wf = w0\<lparr>fw_fetched := [(name, start, old)], fw_answers := [(name, old, start)]\<rparr>"
  define w1 where "w1 = wf\<lparr>fw_table := dict_set table name new\<rparr>"
  define wn where "wn = w1\<lparr>fw_service := on_notify (fw_service w1) name\<rparr>"
  define ws where "ws = wn\<lparr>fw_service := cache_value (fw_service wn) name old start, fw_fetched := []\<rparr>"
  define w2 where "w2 = ws\<lparr>fw_now := fw_now ws + d\<rparr>"
  note worlds = w0_def wm_def wf_def w1_def wn_def ws_def w2_def fresh_world_def
  have miss: "flag_step w0 wm"
    using flag_step.missed [of w0 name] assms(1) by (simp add: worlds cached_answer_def)
  have fetch: "flag_step wm wf"
    using flag_step.fetched [of name start wm old] assms(2) by (simp add: worlds read_from_db_def)
  have wrote: "flag_step wf w1" unfolding w1_def by (rule flag_step.written)
  have notify: "flag_step w1 wn" unfolding wn_def by (rule flag_step.notified)
  have store: "flag_step wn ws"
    using flag_step.stored [of name start old wn] by (simp add: worlds)
  have pass: "flag_step ws w2" unfolding w2_def by (rule flag_step.passes [OF assms(3)])
  have before: "flag_step\<^sup>*\<^sup>* w0 w1"
    by (rule r_into_rtranclp [of flag_step, OF miss, THEN rtranclp.rtrancl_into_rtrancl, OF fetch,
          THEN rtranclp.rtrancl_into_rtrancl, OF wrote])
  have after: "flag_step\<^sup>*\<^sup>* wn w2"
    by (rule r_into_rtranclp [of flag_step, OF store, THEN rtranclp.rtrancl_into_rtrancl, OF pass])
  have "cached_answer (fw_service w2) name (fw_now w2) = Inr (Some old)"
    using assms(1,4) by (simp add: worlds cached_answer_def dict_simps)
  then show ?thesis
    using before notify after
    by (intro exI [of _ w1] exI [of _ w2]) (simp add: worlds dict_simps)
qed

theorem notified_change_can_be_missed_witness:
  "\<exists>w. flag_step\<^sup>*\<^sup>* (fresh_world demo_flags [(''enable_live_orchestrator'', True)] 100) w
    \<and> dict_get (fw_table w) ''enable_live_orchestrator'' = Some False
    \<and> (\<exists>w'. flag_step\<^sup>*\<^sup>* (w\<lparr>fw_service := on_notify (fw_service w) ''enable_live_orchestrator''\<rparr>) w'
        \<and> fw_table w' = fw_table w \<and> fw_now w' = fw_now w + 59
        \<and> cached_answer (fw_service w') ''enable_live_orchestrator'' (fw_now w') = Inr (Some True))"
  using notified_change_can_be_missed [of "''enable_live_orchestrator''" demo_flags
      "[(''enable_live_orchestrator'', True)]" True 59 100 False]
  by (auto simp: demo_flags_def dict_keys_def dict_simps cache_ttl_seconds_def)

end
