(* ===== verification/Rubric_Tables.thy ===== *)
theory Rubric_Tables
  imports Uuid5
begin

text \<open>
  The rubric tables of migrations \<open>0001\<close> and \<open>0003\<close>, as the services read and write
  them: a version, and its tree of stacks, blocks, competencies, topics and levels. A table
  is the list of its rows in insertion order; every id is generated by the database.
\<close>

record version_row =
  vn_id :: uuid
  vn_created_at :: time
  vn_label :: string
  vn_is_active :: bool
  vn_payload_hash :: string

record stack_row =
  sk_id :: uuid
  sk_version :: uuid
  sk_name :: string

record block_row =
  bk_id :: uuid
  bk_version :: uuid
  bk_stack :: uuid
  bk_name :: string
  bk_position :: int

record competency_row =
  cr_id :: uuid
  cr_version :: uuid
  cr_block :: uuid
  cr_name :: string

record topic_row =
  tp_id :: uuid
  tp_version :: uuid
  tp_competency :: uuid
  tp_name :: string

record level_row =
  lv_id :: uuid
  lv_version :: uuid
  lv_competency :: uuid
  lv_rank :: int
  lv_descriptor :: string

record rubric_db =
  rb_versions :: "version_row list"
  rb_stacks :: "stack_row list"
  rb_blocks :: "block_row list"
  rb_competencies :: "competency_row list"
  rb_topics :: "topic_row list"
  rb_levels :: "level_row list"

definition empty_rubric :: rubric_db where
  "empty_rubric = \<lparr>rb_versions = [], rb_stacks = [], rb_blocks = [], rb_competencies = [],
     rb_topics = [], rb_levels = []\<rparr>"

end
