(* ===== verification/Position_Template.thy ===== *)
theory Position_Template
  imports Persistence Rubric_Tables
begin

text \<open>
  Position templates: the boundary schemas of \<open>app/backend/schemas/position_template.py\<close>,
  the database-backed rules and the operations of
  \<open>app/backend/services/position_template.py\<close>, over the tables of migration
  \<open>0004\<close>. An operation runs in one transaction: an exception leaves the tables as they
  were, so its result is an error or a value with the new tables. A \<open>SELECT\<close> without
  \<open>ORDER BY\<close> reads in insertion order. Ids and times come from the database and are
  arguments.
\<close>

section \<open>Boundary schemas\<close>

datatype position_level = Junior | Middle | Senior | TechLeader

definition level_name :: "position_level \<Rightarrow> string" where
  "level_name l = (case l of Junior \<Rightarrow> ''Junior'' | Middle \<Rightarrow> ''Middle'' | Senior \<Rightarrow> ''Senior''
     | TechLeader \<Rightarrow> ''Tech Leader'')"

definition level_of :: "json \<Rightarrow> position_level option" where
  "level_of = enum_of level_name [Junior, Middle, Senior, TechLeader]"

record template_create =
  tc_title :: string
  tc_level :: position_level
  tc_jd_text :: "string option"
  tc_stack_ids :: "uuid list"
  tc_competency_ids :: "uuid list"
  tc_must_have :: "uuid list"

definition template_create_ok :: "template_create \<Rightarrow> bool" where
  "template_create_ok p \<longleftrightarrow> 1 \<le> py_len (tc_title p) \<and> py_len (tc_title p) \<le> 200
     \<and> tc_stack_ids p \<noteq> [] \<and> tc_competency_ids p \<noteq> []
     \<and> distinct (tc_stack_ids p) \<and> distinct (tc_competency_ids p) \<and> distinct (tc_must_have p)
     \<and> set (tc_must_have p) \<subseteq> set (tc_competency_ids p)"

definition uuid_list :: "codec \<Rightarrow> json \<Rightarrow> uuid list option" where
  "uuid_list cd j = (case px_list (cd_px cd) j of None \<Rightarrow> None | Some xs \<Rightarrow> all_of (cd_uuid cd) xs)"

definition validate_template_create :: "codec \<Rightarrow> json \<Rightarrow> template_create option" where
  "validate_template_create cd = as_object (\<lambda>d.
     if \<not> no_extra [''title'', ''level'', ''jd_text'', ''stack_ids'', ''competency_ids'',
             ''must_have_competency_ids''] d then None else do {
       t \<leftarrow> req d ''title'' (px_str (cd_px cd));
       l \<leftarrow> req d ''level'' level_of;
       jd \<leftarrow> with_default d ''jd_text'' None (nullable (px_str (cd_px cd)));
       sk \<leftarrow> req d ''stack_ids'' (uuid_list cd);
       cs \<leftarrow> req d ''competency_ids'' (uuid_list cd);
       ms \<leftarrow> with_default d ''must_have_competency_ids'' [] (uuid_list cd);
       checked template_create_ok (Some \<lparr>tc_title = t, tc_level = l, tc_jd_text = jd,
         tc_stack_ids = sk, tc_competency_ids = cs, tc_must_have = ms\<rparr>) })"

text \<open>
  A patch: a field that is absent and a field that is null both read \<open>None\<close>;
  \<open>model_fields_set\<close> tells them apart where the code asks.
\<close>

record template_update =
  tu_title :: "string option"
  tu_level :: "position_level option"
  tu_jd_text :: "string option"
  tu_stack_ids :: "uuid list option"
  tu_competency_ids :: "uuid list option"
  tu_must_have :: "uuid list option"
  tu_fields_set :: "string list"

definition opt_all :: "('a \<Rightarrow> bool) \<Rightarrow> 'a option \<Rightarrow> bool" where
  "opt_all P m = (case m of None \<Rightarrow> True | Some x \<Rightarrow> P x)"

definition template_update_ok :: "template_update \<Rightarrow> bool" where
  "template_update_ok u \<longleftrightarrow>
     opt_all (\<lambda>t. 1 \<le> py_len t \<and> py_len t \<le> 200) (tu_title u)
     \<and> opt_all (\<lambda>xs. xs \<noteq> [] \<and> distinct xs) (tu_stack_ids u)
     \<and> opt_all (\<lambda>xs. xs \<noteq> [] \<and> distinct xs) (tu_competency_ids u)
     \<and> opt_all distinct (tu_must_have u)
     \<and> (case (tu_competency_ids u, tu_must_have u) of
          (Some cs, Some ms) \<Rightarrow> set ms \<subseteq> set cs | _ \<Rightarrow> True)"

definition validate_template_update :: "codec \<Rightarrow> json \<Rightarrow> template_update option" where
  "validate_template_update cd = as_object (\<lambda>d.
     if \<not> no_extra [''title'', ''level'', ''jd_text'', ''stack_ids'', ''competency_ids'',
             ''must_have_competency_ids''] d then None else do {
       t \<leftarrow> with_default d ''title'' None (nullable (px_str (cd_px cd)));
       l \<leftarrow> with_default d ''level'' None (nullable level_of);
       jd \<leftarrow> with_default d ''jd_text'' None (nullable (px_str (cd_px cd)));
       sk \<leftarrow> with_default d ''stack_ids'' None (nullable (uuid_list cd));
       cs \<leftarrow> with_default d ''competency_ids'' None (nullable (uuid_list cd));
       ms \<leftarrow> with_default d ''must_have_competency_ids'' None (nullable (uuid_list cd));
       checked template_update_ok (Some \<lparr>tu_title = t, tu_level = l, tu_jd_text = jd,
         tu_stack_ids = sk, tu_competency_ids = cs, tu_must_have = ms,
         tu_fields_set = map fst d\<rparr>) })"

section \<open>Tables\<close>

record template_row =
  pt_title :: string
  pt_level :: position_level
  pt_jd_text :: "string option"
  pt_archived_at :: "time option"
  pt_created_at :: time
  pt_created_by :: "uuid option"

record template_db =
  td_rubric :: rubric_db
  td_templates :: "(uuid, template_row) dict"
  td_stacks :: "(uuid \<times> uuid) list"
  td_competencies :: "(uuid \<times> uuid \<times> bool) list"

datatype template_error =
    UnknownStacks "uuid list"
  | BadCompetencies "uuid list" "uuid list"
  | MustHaveWithoutCompetencies
  | ResultingInvalid
  | TemplateIntegrityError

section \<open>Database-backed validation\<close>

definition in_selected_stack :: "rubric_db \<Rightarrow> uuid list \<Rightarrow> uuid \<Rightarrow> bool" where
  "in_selected_stack db stacks c \<longleftrightarrow>
     list_ex (\<lambda>r. cr_id r = c \<and> list_ex (\<lambda>b. bk_id b = cr_block r \<and> bk_stack b \<in> set stacks)
       (rb_blocks db)) (rb_competencies db)"

definition validate_position_template ::
  "rubric_db \<Rightarrow> template_create \<Rightarrow> template_error + unit" where
  "validate_position_template db p =
     (let missing = filter (\<lambda>s. s \<notin> sk_id ` set (rb_stacks db)) (tc_stack_ids p)
      in if missing \<noteq> [] then Inl (UnknownStacks missing)
         else
           let invalid = filter (\<lambda>c. \<not> in_selected_stack db (tc_stack_ids p) c) (tc_competency_ids p);
               unknown = filter (\<lambda>c. c \<notin> cr_id ` set (rb_competencies db)) invalid;
               wrong_stack = filter (\<lambda>c. c \<notin> set unknown) invalid
           in if invalid \<noteq> [] then Inl (BadCompetencies unknown wrong_stack) else Inr ())"

section \<open>Operations\<close>

record template_read =
  tm_id :: uuid
  tm_title :: string
  tm_level :: position_level
  tm_jd_text :: "string option"
  tm_archived_at :: "time option"
  tm_created_at :: time
  tm_created_by :: "uuid option"
  tm_stack_ids :: "uuid list"
  tm_competencies :: "(uuid \<times> bool) list"

definition stacks_of :: "template_db \<Rightarrow> uuid \<Rightarrow> uuid list" where
  "stacks_of db t = map snd (filter (\<lambda>r. fst r = t) (td_stacks db))"

definition competencies_of :: "template_db \<Rightarrow> uuid \<Rightarrow> (uuid \<times> bool) list" where
  "competencies_of db t = map snd (filter (\<lambda>r. fst r = t) (td_competencies db))"

definition assemble_read :: "template_db \<Rightarrow> uuid \<Rightarrow> template_row \<Rightarrow> template_read" where
  "assemble_read db t r = \<lparr>tm_id = t, tm_title = pt_title r, tm_level = pt_level r,
     tm_jd_text = pt_jd_text r, tm_archived_at = pt_archived_at r, tm_created_at = pt_created_at r,
     tm_created_by = pt_created_by r, tm_stack_ids = stacks_of db t,
     tm_competencies = competencies_of db t\<rparr>"

definition select_stacks :: "template_db \<Rightarrow> uuid \<Rightarrow> uuid list \<Rightarrow> template_db" where
  "select_stacks db t stacks = db\<lparr>td_stacks := td_stacks db @ map (Pair t) stacks\<rparr>"

definition select_competencies :: "template_db \<Rightarrow> uuid \<Rightarrow> uuid list \<Rightarrow> uuid list \<Rightarrow> template_db" where
  "select_competencies db t cs must =
     db\<lparr>td_competencies := td_competencies db @ map (\<lambda>c. (t, c, c \<in> set must)) cs\<rparr>"

definition create_position_template ::
  "template_db \<Rightarrow> uuid \<Rightarrow> time \<Rightarrow> uuid option \<Rightarrow> template_create
    \<Rightarrow> template_error + template_read \<times> template_db" where
  "create_position_template db t now creator p =
     and_then (validate_position_template (td_rubric db) p) (\<lambda>_.
       if dict_get (td_templates db) t \<noteq> None then Inl TemplateIntegrityError
       else
         let r = \<lparr>pt_title = tc_title p, pt_level = tc_level p, pt_jd_text = tc_jd_text p,
                   pt_archived_at = None, pt_created_at = now, pt_created_by = creator\<rparr>;
             db1 = db\<lparr>td_templates := dict_set (td_templates db) t r\<rparr>;
             db2 = select_competencies (select_stacks db1 t (tc_stack_ids p)) t
                     (tc_competency_ids p) (tc_must_have p)
         in Inr (assemble_read db2 t r, db2))"

definition get_position_template :: "template_db \<Rightarrow> uuid \<Rightarrow> template_read option" where
  "get_position_template db t = map_option (assemble_read db t) (dict_get (td_templates db) t)"

definition list_position_templates :: "template_db \<Rightarrow> bool \<Rightarrow> template_read list" where
  "list_position_templates db include_archived =
     map (\<lambda>(t, r). assemble_read db t r) (sort_key (\<lambda>(t, r). pt_created_at r)
       (filter (\<lambda>(t, r). include_archived \<or> pt_archived_at r = None) (td_templates db)))"

definition current_selection :: "template_db \<Rightarrow> uuid \<Rightarrow> uuid list \<times> uuid list \<times> uuid list" where
  "current_selection db t =
     (stacks_of db t, map fst (competencies_of db t), map fst (filter snd (competencies_of db t)))"

definition or_else :: "'a option \<Rightarrow> 'a \<Rightarrow> 'a" where
  "or_else m x = (case m of None \<Rightarrow> x | Some y \<Rightarrow> y)"

text \<open>The state an update would lead to, as a create payload.\<close>

definition resulting :: "template_db \<Rightarrow> uuid \<Rightarrow> template_row \<Rightarrow> template_update \<Rightarrow> template_create" where
  "resulting db t r u =
     (let (stacks, comps, must) = current_selection db t
      in \<lparr>tc_title = or_else (tu_title u) (pt_title r), tc_level = or_else (tu_level u) (pt_level r),
          tc_jd_text = (if ''jd_text'' \<in> set (tu_fields_set u) then tu_jd_text u else pt_jd_text r),
          tc_stack_ids = or_else (tu_stack_ids u) stacks,
          tc_competency_ids = or_else (tu_competency_ids u) comps,
          tc_must_have = (if tu_competency_ids u \<noteq> None then or_else (tu_must_have u) [] else must)\<rparr>)"

definition clear_stacks :: "template_db \<Rightarrow> uuid \<Rightarrow> template_db" where
  "clear_stacks db t = db\<lparr>td_stacks := filter (\<lambda>r. fst r \<noteq> t) (td_stacks db)\<rparr>"

definition clear_competencies :: "template_db \<Rightarrow> uuid \<Rightarrow> template_db" where
  "clear_competencies db t = db\<lparr>td_competencies := filter (\<lambda>r. fst r \<noteq> t) (td_competencies db)\<rparr>"

definition update_position_template ::
  "template_db \<Rightarrow> uuid \<Rightarrow> template_update \<Rightarrow> template_error + (template_read \<times> template_db) option" where
  "update_position_template db t u =
     (case dict_get (td_templates db) t of
        None \<Rightarrow> Inr None
      | Some r \<Rightarrow>
          if ''must_have_competency_ids'' \<in> set (tu_fields_set u) \<and> tu_competency_ids u = None
          then Inl MustHaveWithoutCompetencies
          else
            let p = resulting db t r u
            in if \<not> template_create_ok p then Inl ResultingInvalid
               else and_then (validate_position_template (td_rubric db) p) (\<lambda>_.
                 let r1 = r\<lparr>pt_title := tc_title p, pt_level := tc_level p, pt_jd_text := tc_jd_text p\<rparr>;
                     db1 = db\<lparr>td_templates := dict_set (td_templates db) t r1\<rparr>;
                     db2 = (if tu_stack_ids u \<noteq> None
                            then select_stacks (clear_stacks db1 t) t (tc_stack_ids p) else db1);
                     db3 = (if tu_competency_ids u \<noteq> None
                            then select_competencies (clear_competencies db2 t) t
                                   (tc_competency_ids p) (tc_must_have p) else db2)
                 in Inr (Some (assemble_read db3 t r1, db3))))"

definition archive_position_template ::
  "template_db \<Rightarrow> uuid \<Rightarrow> time \<Rightarrow> (template_read \<times> template_db) option" where
  "archive_position_template db t now =
     (case dict_get (td_templates db) t of
        None \<Rightarrow> None
      | Some r \<Rightarrow>
          let r1 = (if pt_archived_at r = None then r\<lparr>pt_archived_at := Some now\<rparr> else r);
              db1 = db\<lparr>td_templates := dict_set (td_templates db) t r1\<rparr>
          in Some (assemble_read db1 t r1, db1))"

section \<open>What the tables keep\<close>

text \<open>The payload a stored template amounts to.\<close>

definition stored_payload :: "template_db \<Rightarrow> uuid \<Rightarrow> template_row \<Rightarrow> template_create" where
  "stored_payload db t r = \<lparr>tc_title = pt_title r, tc_level = pt_level r, tc_jd_text = pt_jd_text r,
     tc_stack_ids = stacks_of db t, tc_competency_ids = map fst (competencies_of db t),
     tc_must_have = map fst (filter snd (competencies_of db t))\<rparr>"

definition template_db_ok :: "template_db \<Rightarrow> bool" where
  "template_db_ok db \<longleftrightarrow> distinct (map fst (td_templates db)) \<and>
     (\<forall>t r. dict_get (td_templates db) t = Some r \<longrightarrow> template_create_ok (stored_payload db t r)
        \<and> validate_position_template (td_rubric db) (stored_payload db t r) = Inr ())
     \<and> (\<forall>t. dict_get (td_templates db) t = None \<longrightarrow> stacks_of db t = [] \<and> competencies_of db t = [])"

lemma selection_simps [simp]:
  "stacks_of (select_stacks db t xs) t' = (if t' = t then stacks_of db t @ xs else stacks_of db t')"
  "stacks_of (select_competencies db t cs ms) t' = stacks_of db t'"
  "stacks_of (clear_stacks db t) t' = (if t' = t then [] else stacks_of db t')"
  "stacks_of (clear_competencies db t) t' = stacks_of db t'"
  "competencies_of (select_stacks db t xs) t' = competencies_of db t'"
  "competencies_of (select_competencies db t cs ms) t' =
     (if t' = t then competencies_of db t @ map (\<lambda>c. (c, c \<in> set ms)) cs else competencies_of db t')"
  "competencies_of (clear_stacks db t) t' = competencies_of db t'"
  "competencies_of (clear_competencies db t) t' = (if t' = t then [] else competencies_of db t')"
  "stacks_of (db\<lparr>td_templates := ts\<rparr>) t' = stacks_of db t'"
  "competencies_of (db\<lparr>td_templates := ts\<rparr>) t' = competencies_of db t'"
  by (auto simp: stacks_of_def competencies_of_def select_stacks_def select_competencies_def
      clear_stacks_def clear_competencies_def comp_def filter_map filter_empty_conv
      intro!: arg_cong [of _ _ "map snd"] filter_cong)

lemma table_simps [simp]:
  "td_templates (select_stacks db t xs) = td_templates db"
  "td_templates (select_competencies db t cs ms) = td_templates db"
  "td_templates (clear_stacks db t) = td_templates db"
  "td_templates (clear_competencies db t) = td_templates db"
  "td_rubric (select_stacks db t xs) = td_rubric db"
  "td_rubric (select_competencies db t cs ms) = td_rubric db"
  "td_rubric (clear_stacks db t) = td_rubric db"
  "td_rubric (clear_competencies db t) = td_rubric db"
  by (simp_all add: select_stacks_def select_competencies_def clear_stacks_def clear_competencies_def)

end
