(* ===== verification/Rubric_Snapshot.thy ===== *)
theory Rubric_Snapshot
  imports Persistence Rubric_Tables
begin

text \<open>
  \<open>app/backend/services/rubric_snapshot.py\<close>: the frozen copy of one rubric version's
  tree. Names are ordered by the database's collation, which is not part of the repository:
  \<open>coll\<close> ranks a text by a rational number (a countable order always embeds in them).
\<close>

section \<open>The snapshot shape\<close>

record snapshot_level =
  sl_id :: uuid
  sl_rank :: int
  sl_descriptor :: string

record snapshot_topic =
  st_id :: uuid
  st_name :: string

record snapshot_competency =
  sc_id :: uuid
  sc_name :: string
  sc_topics :: "snapshot_topic list"
  sc_levels :: "snapshot_level list"

record snapshot_block =
  sb_id :: uuid
  sb_name :: string
  sb_position :: int
  sb_competencies :: "snapshot_competency list"

record snapshot_stack =
  ss_id :: uuid
  ss_name :: string
  ss_blocks :: "snapshot_block list"

record rubric_snapshot =
  rs_version :: uuid
  rs_label :: string
  rs_stacks :: "snapshot_stack list"

section \<open>Taking one\<close>

text \<open>\<open>ORDER BY name, id\<close>.\<close>

definition by_name :: "(string \<Rightarrow> rat) \<Rightarrow> ('r \<Rightarrow> string) \<Rightarrow> ('r \<Rightarrow> uuid) \<Rightarrow> 'r list \<Rightarrow> 'r list" where
  "by_name coll name key rows = sort_key (\<lambda>r. coll (name r)) (sort_key (\<lambda>r. unat (key r)) rows)"

definition level_rows :: "rubric_db \<Rightarrow> uuid \<Rightarrow> level_row list" where
  "level_rows db v = sort_key lv_rank (sort_key (\<lambda>r. unat (lv_id r))
     (filter (\<lambda>r. lv_version r = v) (rb_levels db)))"

definition topic_rows :: "(string \<Rightarrow> rat) \<Rightarrow> rubric_db \<Rightarrow> uuid \<Rightarrow> topic_row list" where
  "topic_rows coll db v = by_name coll tp_name tp_id (filter (\<lambda>r. tp_version r = v) (rb_topics db))"

definition competency_rows :: "(string \<Rightarrow> rat) \<Rightarrow> rubric_db \<Rightarrow> uuid \<Rightarrow> competency_row list" where
  "competency_rows coll db v =
     by_name coll cr_name cr_id (filter (\<lambda>r. cr_version r = v) (rb_competencies db))"

definition block_rows :: "(string \<Rightarrow> rat) \<Rightarrow> rubric_db \<Rightarrow> uuid \<Rightarrow> block_row list" where
  "block_rows coll db v = sort_key bk_position
     (by_name coll bk_name bk_id (filter (\<lambda>r. bk_version r = v) (rb_blocks db)))"

definition stack_rows :: "(string \<Rightarrow> rat) \<Rightarrow> rubric_db \<Rightarrow> uuid \<Rightarrow> stack_row list" where
  "stack_rows coll db v = by_name coll sk_name sk_id (filter (\<lambda>r. sk_version r = v) (rb_stacks db))"

text \<open>The children of a node, in the order of their rows.\<close>

definition snapshot_competency_of ::
  "(string \<Rightarrow> rat) \<Rightarrow> rubric_db \<Rightarrow> uuid \<Rightarrow> competency_row \<Rightarrow> snapshot_competency" where
  "snapshot_competency_of coll db v r = \<lparr>sc_id = cr_id r, sc_name = cr_name r,
     sc_topics = map (\<lambda>t. \<lparr>st_id = tp_id t, st_name = tp_name t\<rparr>)
       (filter (\<lambda>t. tp_competency t = cr_id r) (topic_rows coll db v)),
     sc_levels = map (\<lambda>l. \<lparr>sl_id = lv_id l, sl_rank = lv_rank l, sl_descriptor = lv_descriptor l\<rparr>)
       (filter (\<lambda>l. lv_competency l = cr_id r) (level_rows db v))\<rparr>"

definition snapshot_block_of :: "(string \<Rightarrow> rat) \<Rightarrow> rubric_db \<Rightarrow> uuid \<Rightarrow> block_row \<Rightarrow> snapshot_block" where
  "snapshot_block_of coll db v r = \<lparr>sb_id = bk_id r, sb_name = bk_name r, sb_position = bk_position r,
     sb_competencies = map (snapshot_competency_of coll db v)
       (filter (\<lambda>c. cr_block c = bk_id r) (competency_rows coll db v))\<rparr>"

definition snapshot_stack_of :: "(string \<Rightarrow> rat) \<Rightarrow> rubric_db \<Rightarrow> uuid \<Rightarrow> stack_row \<Rightarrow> snapshot_stack" where
  "snapshot_stack_of coll db v r = \<lparr>ss_id = sk_id r, ss_name = sk_name r,
     ss_blocks = map (snapshot_block_of coll db v)
       (filter (\<lambda>b. bk_stack b = sk_id r) (block_rows coll db v))\<rparr>"

datatype snapshot_error = RubricSnapshotError

definition snapshot_rubric ::
  "(string \<Rightarrow> rat) \<Rightarrow> rubric_db \<Rightarrow> uuid \<Rightarrow> snapshot_error + rubric_snapshot" where
  "snapshot_rubric coll db v =
     (case find (\<lambda>r. vn_id r = v) (rb_versions db) of
        None \<Rightarrow> Inl RubricSnapshotError
      | Some r \<Rightarrow> Inr \<lparr>rs_version = v, rs_label = vn_label r,
          rs_stacks = map (snapshot_stack_of coll db v) (stack_rows coll db v)\<rparr>)"

definition get_active_rubric_snapshot ::
  "(string \<Rightarrow> rat) \<Rightarrow> rubric_db \<Rightarrow> (snapshot_error + rubric_snapshot) option" where
  "get_active_rubric_snapshot coll db =
     map_option (\<lambda>r. snapshot_rubric coll db (vn_id r)) (find vn_is_active (rb_versions db))"

section \<open>Freezing one onto a session\<close>

definition level_value :: "snapshot_level \<Rightarrow> json" where
  "level_value l = JObj [(''id'', uuid_json (sl_id l)), (''rank'', JInt (sl_rank l)),
     (''descriptor'', JStr (sl_descriptor l))]"

definition topic_value :: "snapshot_topic \<Rightarrow> json" where
  "topic_value t = JObj [(''id'', uuid_json (st_id t)), (''name'', JStr (st_name t))]"

definition competency_value :: "snapshot_competency \<Rightarrow> json" where
  "competency_value c = JObj [(''id'', uuid_json (sc_id c)), (''name'', JStr (sc_name c)),
     (''topics'', JArr (map topic_value (sc_topics c))),
     (''levels'', JArr (map level_value (sc_levels c)))]"

definition block_value :: "snapshot_block \<Rightarrow> json" where
  "block_value b = JObj [(''id'', uuid_json (sb_id b)), (''name'', JStr (sb_name b)),
     (''position'', JInt (sb_position b)),
     (''competencies'', JArr (map competency_value (sb_competencies b)))]"

definition stack_value :: "snapshot_stack \<Rightarrow> json" where
  "stack_value s = JObj [(''id'', uuid_json (ss_id s)), (''name'', JStr (ss_name s)),
     (''competency_blocks'', JArr (map block_value (ss_blocks s)))]"

definition snapshot_value :: "rubric_snapshot \<Rightarrow> json" where
  "snapshot_value s = JObj [(''rubric_tree_version_id'', uuid_json (rs_version s)),
     (''label'', JStr (rs_label s)), (''stacks'', JArr (map stack_value (rs_stacks s)))]"

text \<open>The sessions' \<open>rubric_snapshot\<close> column; an \<open>UPDATE\<close> of an unknown id changes nothing.\<close>

definition freeze_session_rubric ::
  "(string \<Rightarrow> rat) \<Rightarrow> rubric_db \<Rightarrow> (uuid, json) dict \<Rightarrow> uuid \<Rightarrow> uuid
    \<Rightarrow> snapshot_error + rubric_snapshot \<times> (uuid, json) dict" where
  "freeze_session_rubric coll db column session v =
     and_then (snapshot_rubric coll db v) (\<lambda>s.
       Inr (s, if session \<in> dict_keys column then dict_set column session (snapshot_value s) else column))"

section \<open>Validating a stored one\<close>

definition validate_level :: "codec \<Rightarrow> json \<Rightarrow> snapshot_level option" where
  "validate_level cd = as_object (\<lambda>d.
     if \<not> no_extra [''id'', ''rank'', ''descriptor''] d then None else do {
       u \<leftarrow> req d ''id'' (cd_uuid cd); n \<leftarrow> req d ''rank'' (px_int (cd_px cd));
       s \<leftarrow> req d ''descriptor'' (px_str (cd_px cd));
       Some \<lparr>sl_id = u, sl_rank = n, sl_descriptor = s\<rparr> })"

definition validate_topic :: "codec \<Rightarrow> json \<Rightarrow> snapshot_topic option" where
  "validate_topic cd = as_object (\<lambda>d.
     if \<not> no_extra [''id'', ''name''] d then None else do {
       u \<leftarrow> req d ''id'' (cd_uuid cd); s \<leftarrow> req d ''name'' (px_str (cd_px cd));
       Some \<lparr>st_id = u, st_name = s\<rparr> })"

definition list_of :: "codec \<Rightarrow> (json \<Rightarrow> 'a option) \<Rightarrow> json \<Rightarrow> 'a list option" where
  "list_of cd f j = (case px_list (cd_px cd) j of None \<Rightarrow> None | Some xs \<Rightarrow> all_of f xs)"

definition validate_snapshot_competency :: "codec \<Rightarrow> json \<Rightarrow> snapshot_competency option" where
  "validate_snapshot_competency cd = as_object (\<lambda>d.
     if \<not> no_extra [''id'', ''name'', ''topics'', ''levels''] d then None else do {
       u \<leftarrow> req d ''id'' (cd_uuid cd); s \<leftarrow> req d ''name'' (px_str (cd_px cd));
       ts \<leftarrow> req d ''topics'' (list_of cd (validate_topic cd));
       ls \<leftarrow> req d ''levels'' (list_of cd (validate_level cd));
       Some \<lparr>sc_id = u, sc_name = s, sc_topics = ts, sc_levels = ls\<rparr> })"

definition validate_block :: "codec \<Rightarrow> json \<Rightarrow> snapshot_block option" where
  "validate_block cd = as_object (\<lambda>d.
     if \<not> no_extra [''id'', ''name'', ''position'', ''competencies''] d then None else do {
       u \<leftarrow> req d ''id'' (cd_uuid cd); s \<leftarrow> req d ''name'' (px_str (cd_px cd));
       n \<leftarrow> req d ''position'' (px_int (cd_px cd));
       cs \<leftarrow> req d ''competencies'' (list_of cd (validate_snapshot_competency cd));
       Some \<lparr>sb_id = u, sb_name = s, sb_position = n, sb_competencies = cs\<rparr> })"

definition validate_stack :: "codec \<Rightarrow> json \<Rightarrow> snapshot_stack option" where
  "validate_stack cd = as_object (\<lambda>d.
     if \<not> no_extra [''id'', ''name'', ''competency_blocks''] d then None else do {
       u \<leftarrow> req d ''id'' (cd_uuid cd); s \<leftarrow> req d ''name'' (px_str (cd_px cd));
       bs \<leftarrow> req d ''competency_blocks'' (list_of cd (validate_block cd));
       Some \<lparr>ss_id = u, ss_name = s, ss_blocks = bs\<rparr> })"

definition validate_snapshot :: "codec \<Rightarrow> json \<Rightarrow> rubric_snapshot option" where
  "validate_snapshot cd = as_object (\<lambda>d.
     if \<not> no_extra [''rubric_tree_version_id'', ''label'', ''stacks''] d then None else do {
       u \<leftarrow> req d ''rubric_tree_version_id'' (cd_uuid cd); s \<leftarrow> req d ''label'' (px_str (cd_px cd));
       ss \<leftarrow> req d ''stacks'' (list_of cd (validate_stack cd));
       Some \<lparr>rs_version = u, rs_label = s, rs_stacks = ss\<rparr> })"

named_theorems snapshot_codec \<open>a stored node validates to itself\<close>

lemma list_of_map:
  assumes "codec_ok cd" and "\<And>x. f (g x) = Some x"
  shows "list_of cd f (JArr (map g xs)) = Some xs"
  using assms all_of_map [of xs f g] by (simp add: list_of_def)

lemmas object_simps = as_object_def no_extra_def req_def uuid_json_def

lemma level_codec [snapshot_codec]: "codec_ok cd \<Longrightarrow> validate_level cd (level_value x) = Some x"
  by (simp add: validate_level_def level_value_def object_simps)

lemma topic_codec [snapshot_codec]: "codec_ok cd \<Longrightarrow> validate_topic cd (topic_value x) = Some x"
  by (simp add: validate_topic_def topic_value_def object_simps)

lemma competency_codec [snapshot_codec]:
  "codec_ok cd \<Longrightarrow> validate_snapshot_competency cd (competency_value x) = Some x"
  by (simp add: validate_snapshot_competency_def competency_value_def object_simps list_of_map
      snapshot_codec)

lemma block_codec [snapshot_codec]: "codec_ok cd \<Longrightarrow> validate_block cd (block_value x) = Some x"
  by (simp add: validate_block_def block_value_def object_simps list_of_map snapshot_codec)

lemma stack_codec [snapshot_codec]: "codec_ok cd \<Longrightarrow> validate_stack cd (stack_value x) = Some x"
  by (simp add: validate_stack_def stack_value_def object_simps list_of_map snapshot_codec)

lemma snapshot_codec_ok: "codec_ok cd \<Longrightarrow> validate_snapshot cd (snapshot_value x) = Some x"
  by (simp add: validate_snapshot_def snapshot_value_def object_simps list_of_map snapshot_codec)

end
