(* ===== verification/Http.thy ===== *)
theory Http
  imports Dev_Session Position_Template Rubric_Snapshot Feature_Flags Auth
begin

text \<open>
  The HTTP surface: \<open>app/backend/api/dev_sessions.py\<close>, \<open>position_templates.py\<close>,
  \<open>rubric.py\<close> and the gates of \<open>deps.py\<close>, composed of the services modelled in the
  other theories. The framework is not part of the repository; of it the model uses that a
  route's own dependencies run before those of its parameters, in order, that an HTTP
  exception of one ends the request, that parameters and body are validated after them
  (422), that an exception no handler knows is a 500, and that background tasks run, one
  after the other, once a request has succeeded. A body is the JSON value it parses to.
\<close>

section \<open>Requests and replies\<close>

datatype request =
    DevCreateSession json
  | DevPostTurn string json
  | DevGetSession string
  | DevListTraces string
  | TemplateCreate json
  | TemplateList bool
  | TemplateGet string
  | TemplatePatch string json
  | TemplateDelete string
  | RubricActive

datatype reply_body =
    NoBody
  | SessionBody session_view
  | TurnBody turn_answer
  | TracesBody "turn_trace_row list"
  | TemplateBody template_read
  | TemplatesBody "template_read list"
  | SnapshotBody rubric_snapshot

type_synonym reply = "nat \<times> reply_body"

record app =
  ap_verifier :: "verifier option"
  ap_shell :: shell_env
  ap_collation :: "string \<Rightarrow> rat"

text \<open>What one request brings, with the readings and ids the environment gives it.\<close>

record arrival =
  ar_request :: request
  ar_credentials :: "string option"
  ar_monotonic :: rat
  ar_flag_table :: "flag_table option"
  ar_id :: uuid
  ar_time :: time

record app_state =
  st_flags :: "flag_service option"
  st_certs :: cert_cache
  st_world :: world
  st_templates :: template_db

abbreviation app_codec :: "app \<Rightarrow> codec" where
  "app_codec app \<equiv> sh_codec (ap_shell app)"

section \<open>Gates\<close>

text \<open>The module-level \<open>is_enabled\<close>: without a service, or on any exception of it, a 500.\<close>

definition flag_gate :: "string \<Rightarrow> arrival \<Rightarrow> app_state \<Rightarrow> (nat + unit) \<times> app_state" where
  "flag_gate name ar st = (case st_flags st of
     None \<Rightarrow> (Inl 500, st)
   | Some f \<Rightarrow>
       (case is_enabled f (ar_flag_table ar) name (ar_monotonic ar) of
          (Inl _, f') \<Rightarrow> (Inl 500, st\<lparr>st_flags := Some f'\<rparr>)
        | (Inr on, f') \<Rightarrow> (if on then Inr () else Inl 404, st\<lparr>st_flags := Some f'\<rparr>)))"

definition require_live_orchestrator :: "arrival \<Rightarrow> app_state \<Rightarrow> (nat + unit) \<times> app_state" where
  "require_live_orchestrator = flag_gate ''enable_live_orchestrator''"

definition require_crud_enabled :: "arrival \<Rightarrow> app_state \<Rightarrow> (nat + unit) \<times> app_state" where
  "require_crud_enabled = flag_gate ''position_template_crud_enabled''"

definition dev_session_roles :: "string list" where
  "dev_session_roles = [''reviewer'', ''admin'']"

definition require_dev_session_access ::
  "app \<Rightarrow> arrival \<Rightarrow> app_state \<Rightarrow> (nat + principal option) \<times> app_state" where
  "require_dev_session_access app ar st =
     (case get_optional_current_user (ap_verifier app) (ar_credentials ar) (st_certs st) of
        (Inl status, c) \<Rightarrow> (Inl status, st\<lparr>st_certs := c\<rparr>)
      | (Inr None, c) \<Rightarrow> (Inr None, st\<lparr>st_certs := c\<rparr>)
      | (Inr (Some p), c) \<Rightarrow>
          (if pr_role p \<in> set dev_session_roles then Inr (Some p) else Inl 403, st\<lparr>st_certs := c\<rparr>))"

definition require_manager :: "app \<Rightarrow> arrival \<Rightarrow> app_state \<Rightarrow> (nat + principal) \<times> app_state" where
  "require_manager app ar st =
     (case get_current_user (ap_verifier app) (ar_credentials ar) (st_certs st) of
        (Inl status, c) \<Rightarrow> (Inl status, st\<lparr>st_certs := c\<rparr>)
      | (Inr p, c) \<Rightarrow> (require_roles manager_roles p, st\<lparr>st_certs := c\<rparr>))"

text \<open>The rest of a request, unless a dependency ended it.\<close>

definition admitted_then ::
  "(nat + 'a) \<times> app_state \<Rightarrow> ('a \<Rightarrow> app_state \<Rightarrow> reply \<times> app_state) \<Rightarrow> reply \<times> app_state" where
  "admitted_then gate rest = (case gate of
     (Inl status, st) \<Rightarrow> ((status, NoBody), st) | (Inr x, st) \<Rightarrow> rest x st)"

definition dev_route ::
  "app \<Rightarrow> arrival \<Rightarrow> (app_state \<Rightarrow> reply \<times> app_state) \<Rightarrow> app_state \<Rightarrow> reply \<times> app_state" where
  "dev_route app ar rest st = admitted_then (require_live_orchestrator ar st) (\<lambda>_ st1.
     admitted_then (require_dev_session_access app ar st1) (\<lambda>_ st2. rest st2))"

definition template_route ::
  "app \<Rightarrow> arrival \<Rightarrow> (app_state \<Rightarrow> reply \<times> app_state) \<Rightarrow> app_state \<Rightarrow> reply \<times> app_state" where
  "template_route app ar rest st = admitted_then (require_crud_enabled ar st) (\<lambda>_ st1.
     admitted_then (require_manager app ar st1) (\<lambda>_ st2. rest st2))"

section \<open>Validated parameters\<close>

definition path_id :: "app \<Rightarrow> string \<Rightarrow> uuid option" where
  "path_id app s = cd_uuid (app_codec app) (JStr s)"

definition create_session_request :: "json \<Rightarrow> (string, json) dict option" where
  "create_session_request = as_object (\<lambda>d.
     if \<not> no_extra [''plan''] d then None
     else req d ''plan'' (\<lambda>j. case j of JObj p \<Rightarrow> Some p | _ \<Rightarrow> None))"

definition post_turn_request :: "codec \<Rightarrow> json \<Rightarrow> string option" where
  "post_turn_request cd = as_object (\<lambda>d.
     if \<not> no_extra [''text''] d then None
     else req d ''text'' (\<lambda>j. checked (\<lambda>s. 1 \<le> py_len s \<and> py_len s \<le> 8000) (px_str (cd_px cd) j)))"

definition unprocessable :: "app_state \<Rightarrow> reply \<times> app_state" where
  "unprocessable st = ((422, NoBody), st)"

section \<open>Dev session routes\<close>

definition session_status :: "shell_error \<Rightarrow> nat" where
  "session_status e = (case e of
     DevSessionNotFound \<Rightarrow> 404 | DevSessionNotAwaitingCandidate \<Rightarrow> 409 | _ \<Rightarrow> 500)"

definition http_create_session :: "app \<Rightarrow> arrival \<Rightarrow> json \<Rightarrow> app_state \<Rightarrow> reply \<times> app_state" where
  "http_create_session app ar body = dev_route app ar (\<lambda>st.
     case create_session_request body of
       None \<Rightarrow> unprocessable st
     | Some plan_doc \<Rightarrow>
         (let (res, w) = create_session (ap_shell app) plan_doc (ar_id ar) (st_world st);
              st' = st\<lparr>st_world := w\<rparr>
          in case res of
               Inr v \<Rightarrow> ((201, SessionBody v), st')
             | Inl DevSessionPlanInvalid \<Rightarrow> ((422, NoBody), st')
             | Inl _ \<Rightarrow> ((500, NoBody), st')))"

definition http_post_turn :: "app \<Rightarrow> arrival \<Rightarrow> string \<Rightarrow> json \<Rightarrow> app_state \<Rightarrow> reply \<times> app_state" where
  "http_post_turn app ar path body = dev_route app ar (\<lambda>st.
     case (path_id app path, post_turn_request (app_codec app) body) of
       (Some sid, Some said) \<Rightarrow>
         (let (res, w) = post_turn (ap_shell app) sid said (st_world st); st' = st\<lparr>st_world := w\<rparr>
          in case res of Inr a \<Rightarrow> ((200, TurnBody a), st') | Inl e \<Rightarrow> ((session_status e, NoBody), st'))
     | _ \<Rightarrow> unprocessable st)"

text \<open>The read routes map only an unknown session; anything else is a 500.\<close>

definition read_status :: "shell_error \<Rightarrow> nat" where
  "read_status e = (if e = DevSessionNotFound then 404 else 500)"

definition http_get_session :: "app \<Rightarrow> arrival \<Rightarrow> string \<Rightarrow> app_state \<Rightarrow> reply \<times> app_state" where
  "http_get_session app ar path = dev_route app ar (\<lambda>st.
     case path_id app path of
       None \<Rightarrow> unprocessable st
     | Some sid \<Rightarrow>
         (case get_session (ap_shell app) sid (st_world st) of
            Inr v \<Rightarrow> ((200, SessionBody v), st) | Inl e \<Rightarrow> ((read_status e, NoBody), st)))"

definition http_list_traces :: "app \<Rightarrow> arrival \<Rightarrow> string \<Rightarrow> app_state \<Rightarrow> reply \<times> app_state" where
  "http_list_traces app ar path = dev_route app ar (\<lambda>st.
     case path_id app path of
       None \<Rightarrow> unprocessable st
     | Some sid \<Rightarrow>
         (case list_traces (ap_shell app) sid (st_world st) of
            Inr rows \<Rightarrow> ((200, TracesBody rows), st) | Inl e \<Rightarrow> ((read_status e, NoBody), st)))"

section \<open>Position template routes\<close>

text \<open>
  The staff identity carries no user id, so \<open>created_by\<close> is null. An integrity error of the
  database is no validation error.
\<close>

definition template_status :: "template_error \<Rightarrow> nat" where
  "template_status e = (if e = TemplateIntegrityError then 500 else 422)"

definition http_create_template :: "app \<Rightarrow> arrival \<Rightarrow> json \<Rightarrow> app_state \<Rightarrow> reply \<times> app_state" where
  "http_create_template app ar body = template_route app ar (\<lambda>st.
     case validate_template_create (app_codec app) body of
       None \<Rightarrow> unprocessable st
     | Some p \<Rightarrow>
         (case create_position_template (st_templates st) (ar_id ar) (ar_time ar) None p of
            Inl e \<Rightarrow> ((template_status e, NoBody), st)
          | Inr (read, db) \<Rightarrow> ((201, TemplateBody read), st\<lparr>st_templates := db\<rparr>)))"

definition http_list_templates :: "app \<Rightarrow> arrival \<Rightarrow> bool \<Rightarrow> app_state \<Rightarrow> reply \<times> app_state" where
  "http_list_templates app ar archived = template_route app ar (\<lambda>st.
     ((200, TemplatesBody (list_position_templates (st_templates st) archived)), st))"

definition http_get_template :: "app \<Rightarrow> arrival \<Rightarrow> string \<Rightarrow> app_state \<Rightarrow> reply \<times> app_state" where
  "http_get_template app ar path = template_route app ar (\<lambda>st.
     case path_id app path of
       None \<Rightarrow> unprocessable st
     | Some t \<Rightarrow>
         (case get_position_template (st_templates st) t of
            None \<Rightarrow> ((404, NoBody), st) | Some read \<Rightarrow> ((200, TemplateBody read), st)))"

definition http_patch_template :: "app \<Rightarrow> arrival \<Rightarrow> string \<Rightarrow> json \<Rightarrow> app_state \<Rightarrow> reply \<times> app_state" where
  "http_patch_template app ar path body = template_route app ar (\<lambda>st.
     case (path_id app path, validate_template_update (app_codec app) body) of
       (Some t, Some u) \<Rightarrow>
         (case update_position_template (st_templates st) t u of
            Inl e \<Rightarrow> ((template_status e, NoBody), st)
          | Inr None \<Rightarrow> ((404, NoBody), st)
          | Inr (Some (read, db)) \<Rightarrow> ((200, TemplateBody read), st\<lparr>st_templates := db\<rparr>))
     | _ \<Rightarrow> unprocessable st)"

definition http_delete_template :: "app \<Rightarrow> arrival \<Rightarrow> string \<Rightarrow> app_state \<Rightarrow> reply \<times> app_state" where
  "http_delete_template app ar path = template_route app ar (\<lambda>st.
     case path_id app path of
       None \<Rightarrow> unprocessable st
     | Some t \<Rightarrow>
         (case archive_position_template (st_templates st) t (ar_time ar) of
            None \<Rightarrow> ((404, NoBody), st)
          | Some (read, db) \<Rightarrow> ((200, TemplateBody read), st\<lparr>st_templates := db\<rparr>)))"

section \<open>The rubric route\<close>

definition http_active_rubric :: "app \<Rightarrow> arrival \<Rightarrow> app_state \<Rightarrow> reply \<times> app_state" where
  "http_active_rubric app ar st = admitted_then (require_manager app ar st) (\<lambda>_ st1.
     case get_active_rubric_snapshot (ap_collation app) (td_rubric (st_templates st1)) of
       None \<Rightarrow> ((404, NoBody), st1)
     | Some (Inr s) \<Rightarrow> ((200, SnapshotBody s), st1)
     | Some (Inl _) \<Rightarrow> ((500, NoBody), st1))"

section \<open>Serving\<close>

definition handle :: "app \<Rightarrow> arrival \<Rightarrow> app_state \<Rightarrow> reply \<times> app_state" where
  "handle app ar = (case ar_request ar of
     DevCreateSession body \<Rightarrow> http_create_session app ar body
   | DevPostTurn path body \<Rightarrow> http_post_turn app ar path body
   | DevGetSession path \<Rightarrow> http_get_session app ar path
   | DevListTraces path \<Rightarrow> http_list_traces app ar path
   | TemplateCreate body \<Rightarrow> http_create_template app ar body
   | TemplateList archived \<Rightarrow> http_list_templates app ar archived
   | TemplateGet path \<Rightarrow> http_get_template app ar path
   | TemplatePatch path body \<Rightarrow> http_patch_template app ar path body
   | TemplateDelete path \<Rightarrow> http_delete_template app ar path
   | RubricActive \<Rightarrow> http_active_rubric app ar)"

text \<open>
  The queue of background tasks belongs to the request: after a success it is run, and a
  task that raises ends it; after an error it is dropped.
\<close>

definition run_background :: "app \<Rightarrow> bool \<Rightarrow> app_state \<Rightarrow> app_state" where
  "run_background app success st =
     (let w = st_world st;
          w' = (if \<not> success then w
                else case drain (ap_shell app) (length (wd_tasks w)) w of None \<Rightarrow> w | Some (_, v) \<Rightarrow> v)
      in st\<lparr>st_world := w'\<lparr>wd_tasks := []\<rparr>\<rparr>)"

definition serve :: "app \<Rightarrow> arrival \<Rightarrow> app_state \<Rightarrow> reply \<times> app_state" where
  "serve app ar st = (let (answer, st') = handle app ar st
     in (answer, run_background app (fst answer < 400) st'))"

fun serve_all :: "app \<Rightarrow> arrival list \<Rightarrow> app_state \<Rightarrow> app_state" where
  "serve_all app [] st = st"
| "serve_all app (ar # ars) st = serve_all app ars (snd (serve app ar st))"

end
