(* ===== verification/Position_Template_Props.thy ===== *)
theory Position_Template_Props
  imports Position_Template
begin

text \<open>
  What the template tables keep under every operation, and what each operation answers and
  leaves behind.
\<close>

section \<open>Selections read back\<close>

lemma must_have_reads_back:
  "map fst (filter snd (map (\<lambda>c. (c, c \<in> set ms)) cs)) = filter (\<lambda>c. c \<in> set ms) cs"
  by (induction cs) auto

lemma keep_selection:
  assumes "distinct (map fst xs)"
  shows "map (\<lambda>c. (c, c \<in> set (map fst (filter snd xs)))) (map fst xs) = xs"
proof -
  have mem: "(fst p \<in> set (map fst (filter snd xs))) = snd p" if "p \<in> set xs" for p
  proof -
    obtain c b where p: "p = (c, b)" by fastforce
    have "(c, b) \<in> set xs" using that p by simp
    then have "(c \<in> set (map fst (filter snd xs))) = b"
      using eq_key_imp_eq_value [OF assms] by force
    then show ?thesis unfolding p fst_conv snd_conv .
  qed
  show ?thesis
    unfolding map_map comp_def by (intro map_idI) (simp only: mem prod.collapse)
qed

lemma dict_set_again: "dict_set (dict_set d k v) k v = dict_set d k v"
  by (induction d) (auto simp: dict_set_def)

lemma comps_read_back [simp]: "map fst (map (\<lambda>c. (c, c \<in> set ms)) cs) = cs"
  by (induction cs) auto

lemma validate_cong:
  assumes "tc_stack_ids p = tc_stack_ids q" and "tc_competency_ids p = tc_competency_ids q"
  shows "validate_position_template db p = validate_position_template db q"
  unfolding validate_position_template_def assms ..

lemma create_ok_cong:
  assumes "template_create_ok p" and "tc_title q = tc_title p" and "tc_stack_ids q = tc_stack_ids p"
    and "tc_competency_ids q = tc_competency_ids p"
    and "tc_must_have q = filter (\<lambda>c. c \<in> set (tc_must_have p)) (tc_competency_ids p)"
  shows "template_create_ok q"
  using assms by (auto simp: template_create_ok_def)

lemma stored_payload_other:
  assumes "stacks_of db' t = stacks_of db t" and "competencies_of db' t = competencies_of db t"
  shows "stored_payload db' t r = stored_payload db t r"
  by (simp add: stored_payload_def assms)

text \<open>One template changes, to a payload that has been validated; the rest stays.\<close>

lemma template_db_ok_step:
  assumes "template_db_ok db" and tabs: "td_templates db' = dict_set (td_templates db) t r"
    and "td_rubric db' = td_rubric db"
    and "\<And>t'. t' \<noteq> t \<Longrightarrow> stacks_of db' t' = stacks_of db t' \<and> competencies_of db' t' = competencies_of db t'"
    and "template_create_ok (stored_payload db' t r)"
    and "validate_position_template (td_rubric db) (stored_payload db' t r) = Inr ()"
  shows "template_db_ok db'"
  unfolding template_db_ok_def
proof (intro conjI allI impI)
  show "distinct (map fst (td_templates db'))"
    using assms(1) by (simp add: tabs template_db_ok_def)
next
  fix t' r'
  assume get: "dict_get (td_templates db') t' = Some r'"
  have "template_create_ok (stored_payload db' t' r')
      \<and> validate_position_template (td_rubric db') (stored_payload db' t' r') = Inr ()"
  proof (cases "t' = t")
    case True
    with get assms(2,3,5,6) show ?thesis by (simp add: dict_simps)
  next
    case False
    with get assms(1,2,3) stored_payload_other [of db' t' db r'] assms(4) [OF False] show ?thesis
      by (simp add: dict_simps template_db_ok_def)
  qed
  then show "template_create_ok (stored_payload db' t' r')"
    "validate_position_template (td_rubric db') (stored_payload db' t' r') = Inr ()" by simp_all
next
  fix t'
  assume "dict_get (td_templates db') t' = None"
  with assms(1,2,4) show "stacks_of db' t' = []" "competencies_of db' t' = []"
    by (auto simp: dict_simps template_db_ok_def split: if_splits)
qed

section \<open>Each operation\<close>

lemma create_cases:
  assumes "create_position_template db t now creator p = Inr (read, db')"
    and "template_db_ok db" and "template_create_ok p"
  shows "template_db_ok db' \<and> td_rubric db' = td_rubric db
    \<and> get_position_template db' t = Some read
    \<and> read = \<lparr>tm_id = t, tm_title = tc_title p, tm_level = tc_level p, tm_jd_text = tc_jd_text p,
        tm_archived_at = None, tm_created_at = now, tm_created_by = creator,
        tm_stack_ids = tc_stack_ids p,
        tm_competencies = map (\<lambda>c. (c, c \<in> set (tc_must_have p))) (tc_competency_ids p)\<rparr>
    \<and> (\<forall>t'. t' \<noteq> t \<longrightarrow> get_position_template db' t' = get_position_template db t')"
proof -
  let ?r = "\<lparr>pt_title = tc_title p, pt_level = tc_level p, pt_jd_text = tc_jd_text p,
      pt_archived_at = None, pt_created_at = now, pt_created_by = creator\<rparr>"
  let ?db = "select_competencies (select_stacks (db\<lparr>td_templates := dict_set (td_templates db) t ?r\<rparr>) t
      (tc_stack_ids p)) t (tc_competency_ids p) (tc_must_have p)"
  have v: "validate_position_template (td_rubric db) p = Inr ()"
    and absent: "dict_get (td_templates db) t = None"
    and read: "read = assemble_read ?db t ?r" and db': "db' = ?db"
    using assms(1) by (auto simp: create_position_template_def and_then_eq_Inr Let_def split: if_splits)
  have empty: "stacks_of db t = []" "competencies_of db t = []"
    using assms(2) absent by (simp_all add: template_db_ok_def)
  have payload: "stored_payload ?db t ?r = p\<lparr>tc_must_have := filter (\<lambda>c. c \<in> set (tc_must_have p)) (tc_competency_ids p)\<rparr>"
    by (simp add: stored_payload_def empty must_have_reads_back del: map_map)
  have "template_db_ok ?db"
  proof (rule template_db_ok_step [OF assms(2)])
    show "td_templates ?db = dict_set (td_templates db) t ?r" by simp
    show "template_create_ok (stored_payload ?db t ?r)"
      by (rule create_ok_cong [OF assms(3)]) (simp_all add: payload)
    show "validate_position_template (td_rubric db) (stored_payload ?db t ?r) = Inr ()"
      using v validate_cong [of "stored_payload ?db t ?r" p] payload by simp
  qed simp_all
  then show ?thesis
    by (auto simp: db' read get_position_template_def dict_simps assemble_read_def empty fun_eq_iff
        intro!: arg_cong [where f = "\<lambda>f. map_option f _"])
qed

lemma update_cases:
  assumes "update_position_template db t u = Inr (Some (read, db'))" and "template_db_ok db"
  obtains r r1 where "dict_get (td_templates db) t = Some r"
    "r1 = r\<lparr>pt_title := tc_title (resulting db t r u), pt_level := tc_level (resulting db t r u),
        pt_jd_text := tc_jd_text (resulting db t r u)\<rparr>"
    "template_db_ok db'" "td_rubric db' = td_rubric db"
    "td_templates db' = dict_set (td_templates db) t r1"
    "read = assemble_read db' t r1"
    "stacks_of db' t = tc_stack_ids (resulting db t r u)"
    "competencies_of db' t = map (\<lambda>c. (c, c \<in> set (tc_must_have (resulting db t r u))))
       (tc_competency_ids (resulting db t r u))"
    "\<And>t'. t' \<noteq> t \<Longrightarrow> stacks_of db' t' = stacks_of db t' \<and> competencies_of db' t' = competencies_of db t'"
proof -
  obtain r where r: "dict_get (td_templates db) t = Some r"
    using assms(1) by (auto simp: update_position_template_def split: option.splits)
  let ?p = "resulting db t r u"
  let ?r1 = "r\<lparr>pt_title := tc_title ?p, pt_level := tc_level ?p, pt_jd_text := tc_jd_text ?p\<rparr>"
  let ?db1 = "db\<lparr>td_templates := dict_set (td_templates db) t ?r1\<rparr>"
  let ?db2 = "if tu_stack_ids u \<noteq> None
      then select_stacks (clear_stacks ?db1 t) t (tc_stack_ids ?p) else ?db1"
  let ?db3 = "if tu_competency_ids u \<noteq> None
      then select_competencies (clear_competencies ?db2 t) t (tc_competency_ids ?p) (tc_must_have ?p) else ?db2"
  have ok: "template_create_ok ?p" and v: "validate_position_template (td_rubric db) ?p = Inr ()"
    and db': "db' = ?db3" and read: "read = assemble_read ?db3 t ?r1"
    using assms(1) r by (auto simp: update_position_template_def and_then_eq_Inr Let_def split: if_splits)
  have cur: "distinct (map fst (competencies_of db t))"
    using assms(2) r by (simp add: template_db_ok_def stored_payload_def template_create_ok_def)
  have st: "stacks_of ?db3 t = tc_stack_ids ?p"
    by (simp add: resulting_def current_selection_def or_else_def split: option.split)
  have cs: "competencies_of ?db3 t = map (\<lambda>c. (c, c \<in> set (tc_must_have ?p))) (tc_competency_ids ?p)"
    using keep_selection [OF cur]
    by (simp add: resulting_def current_selection_def or_else_def split: option.split del: map_map)
  have others: "stacks_of ?db3 t' = stacks_of db t' \<and> competencies_of ?db3 t' = competencies_of db t'"
    if "t' \<noteq> t" for t' using that by simp
  have payload: "stored_payload ?db3 t ?r1 =
      ?p\<lparr>tc_must_have := filter (\<lambda>c. c \<in> set (tc_must_have ?p)) (tc_competency_ids ?p)\<rparr>"
    by (simp only: stored_payload_def st cs must_have_reads_back comps_read_back) simp
  have tabs: "td_templates ?db3 = dict_set (td_templates db) t ?r1" "td_rubric ?db3 = td_rubric db"
    by simp_all
  have ok3: "template_db_ok ?db3"
  proof (rule template_db_ok_step [OF assms(2) tabs others])
    show "template_create_ok (stored_payload ?db3 t ?r1)"
      by (rule create_ok_cong [OF ok]) (simp_all only: payload, simp_all)
    show "validate_position_template (td_rubric db) (stored_payload ?db3 t ?r1) = Inr ()"
      using v validate_cong [of "stored_payload ?db3 t ?r1" ?p] by (simp only: payload) simp
  qed
  note facts = ok3 tabs st cs others read
  show thesis
    by (rule that [OF r refl]) (use facts in \<open>unfold db' [symmetric], blast+\<close>)
qed

lemma archive_cases:
  assumes "dict_get (td_templates db) t = Some r" and "template_db_ok db"
  obtains db' where "archive_position_template db t now = Some (assemble_read db' t
      (r\<lparr>pt_archived_at := Some (or_else (pt_archived_at r) now)\<rparr>), db')"
    "td_templates db' = dict_set (td_templates db) t
      (r\<lparr>pt_archived_at := Some (or_else (pt_archived_at r) now)\<rparr>)"
    "template_db_ok db'" "td_rubric db' = td_rubric db"
    "\<And>t'. stacks_of db' t' = stacks_of db t'" "\<And>t'. competencies_of db' t' = competencies_of db t'"
proof -
  let ?r = "r\<lparr>pt_archived_at := Some (or_else (pt_archived_at r) now)\<rparr>"
  let ?db = "db\<lparr>td_templates := dict_set (td_templates db) t ?r\<rparr>"
  have same: "stored_payload ?db t ?r = stored_payload db t r"
    by (simp add: stored_payload_def)
  have old: "template_create_ok (stored_payload db t r)"
    "validate_position_template (td_rubric db) (stored_payload db t r) = Inr ()"
    using assms by (simp_all add: template_db_ok_def)
  have "template_db_ok ?db"
  proof (rule template_db_ok_step [OF assms(2)])
    show "template_create_ok (stored_payload ?db t ?r)"
      "validate_position_template (td_rubric db) (stored_payload ?db t ?r) = Inr ()"
      unfolding same by (fact old)+
  qed simp_all
  moreover have "(if pt_archived_at r = None then r\<lparr>pt_archived_at := Some now\<rparr> else r) = ?r"
    by (auto simp: or_else_def)
  ultimately show thesis
    using assms(1) by (intro that [of ?db]) (simp_all add: archive_position_template_def Let_def)
qed

section \<open>Properties\<close>

text \<open>
  C25: templates stay consistent. Creating, updating and archiving keep every stored template
  a payload the rules accept (a title, at least one stack and one competency, no duplicates,
  must-haves among the selected, every competency in a selected stack), with no selection
  left over for a template that does not exist; the rubric is never written, and a payload
  that breaks a rule changes nothing.
\<close>

theorem templates_stay_consistent:
  assumes "template_db_ok db"
  shows "(template_create_ok p \<longrightarrow> (case create_position_template db t now creator p of
            Inr (read, db') \<Rightarrow> template_db_ok db' \<and> td_rubric db' = td_rubric db | Inl _ \<Rightarrow> True))
    \<and> (case update_position_template db t u of
            Inr (Some (read, db')) \<Rightarrow> template_db_ok db' \<and> td_rubric db' = td_rubric db | _ \<Rightarrow> True)
    \<and> (case archive_position_template db t now of
            Some (read, db') \<Rightarrow> template_db_ok db' \<and> td_rubric db' = td_rubric db | None \<Rightarrow> True)"
proof (intro conjI impI)
  show "case create_position_template db t now creator p of
      Inr (read, db') \<Rightarrow> template_db_ok db' \<and> td_rubric db' = td_rubric db | Inl _ \<Rightarrow> True"
    if "template_create_ok p"
    using create_cases [OF _ assms that] by (auto split: sum.splits)
  show "case update_position_template db t u of
      Inr (Some (read, db')) \<Rightarrow> template_db_ok db' \<and> td_rubric db' = td_rubric db | _ \<Rightarrow> True"
    using update_cases [OF _ assms] by (fastforce split: sum.splits option.splits)
  show "case archive_position_template db t now of
      Some (read, db') \<Rightarrow> template_db_ok db' \<and> td_rubric db' = td_rubric db | None \<Rightarrow> True"
  proof (cases "dict_get (td_templates db) t")
    case (Some r)
    then show ?thesis by (rule archive_cases [OF _ assms, of t r now]) simp
  qed (simp add: archive_position_template_def)
qed

definition demo_rubric :: rubric_db where
  "demo_rubric = empty_rubric\<lparr>
     rb_stacks := [\<lparr>sk_id = 1, sk_version = 9, sk_name = ''python''\<rparr>],
     rb_blocks := [\<lparr>bk_id = 2, bk_version = 9, bk_stack = 1, bk_name = ''block.core'', bk_position = 0\<rparr>],
     rb_competencies := [\<lparr>cr_id = 3, cr_version = 9, cr_block = 2, cr_name = ''python.core''\<rparr>]\<rparr>"

definition demo_templates :: template_db where
  "demo_templates = \<lparr>td_rubric = demo_rubric, td_templates = [], td_stacks = [], td_competencies = []\<rparr>"

definition demo_payload :: template_create where
  "demo_payload = \<lparr>tc_title = ''Engineer'', tc_level = Senior, tc_jd_text = None, tc_stack_ids = [1],
     tc_competency_ids = [3], tc_must_have = [3]\<rparr>"

lemmas demo_template_simps = demo_rubric_def demo_templates_def demo_payload_def empty_rubric_def
  template_create_ok_def validate_position_template_def in_selected_stack_def py_len_def
  is_continuation_def template_db_ok_def stacks_of_def competencies_of_def Let_def

lemma demo_templates_ok: "template_db_ok demo_templates" "template_create_ok demo_payload"
  by (simp_all add: demo_template_simps)

lemma demo_created:
  "\<exists>read db'. create_position_template demo_templates 5 100 None demo_payload = Inr (read, db')"
  by (simp add: create_position_template_def demo_template_simps)

theorem templates_stay_consistent_witness:
  "\<exists>read db'. create_position_template demo_templates 5 100 None demo_payload = Inr (read, db')
     \<and> template_db_ok db'"
  using templates_stay_consistent [OF demo_templates_ok(1), of demo_payload 5 100 None]
    demo_templates_ok(2) demo_created by auto

section \<open>Answers\<close>

lemma create_answers:
  assumes "template_db_ok db"
  shows "(template_create_ok p \<longrightarrow> (case create_position_template db t now creator p of
            Inr (read, db') \<Rightarrow> get_position_template db' t = Some read
              \<and> tm_title read = tc_title p \<and> tm_stack_ids read = tc_stack_ids p
              \<and> tm_competencies read = map (\<lambda>c. (c, c \<in> set (tc_must_have p))) (tc_competency_ids p)
              \<and> tm_archived_at read = None
              \<and> (\<forall>t'. t' \<noteq> t \<longrightarrow> get_position_template db' t' = get_position_template db t')
          | Inl _ \<Rightarrow> True))"
proof (cases "create_position_template db t now creator p")
  case (Inr q)
  then obtain read db' where q: "create_position_template db t now creator p = Inr (read, db')"
    by (cases q) simp
  show ?thesis using create_cases [OF q assms] q by (simp del: map_map)
qed simp

lemma update_answers:
  assumes "template_db_ok db"
  shows "(case (get_position_template db t, update_position_template db t u) of
          (Some old, Inr (Some (read, db'))) \<Rightarrow> get_position_template db' t = Some read
            \<and> tm_title read = or_else (tu_title u) (tm_title old)
            \<and> tm_level read = or_else (tu_level u) (tm_level old)
            \<and> tm_jd_text read = (if ''jd_text'' \<in> set (tu_fields_set u) then tu_jd_text u else tm_jd_text old)
            \<and> tm_stack_ids read = or_else (tu_stack_ids u) (tm_stack_ids old)
            \<and> tm_competencies read = (case tu_competency_ids u of
                 None \<Rightarrow> tm_competencies old
               | Some cs \<Rightarrow> map (\<lambda>c. (c, c \<in> set (or_else (tu_must_have u) []))) cs)
            \<and> tm_archived_at read = tm_archived_at old \<and> tm_created_at read = tm_created_at old
            \<and> (\<forall>t'. t' \<noteq> t \<longrightarrow> get_position_template db' t' = get_position_template db t')
        | (None, r) \<Rightarrow> r = Inr None
        | _ \<Rightarrow> True)"
proof (cases "\<exists>read db'. update_position_template db t u = Inr (Some (read, db'))")
  case True
  then obtain read db' where up: "update_position_template db t u = Inr (Some (read, db'))" by blast
  show ?thesis
  proof (rule update_cases [OF up assms])
    fix r r1
    assume r: "dict_get (td_templates db) t = Some r"
      and r1: "r1 = r\<lparr>pt_title := tc_title (resulting db t r u), pt_level := tc_level (resulting db t r u),
        pt_jd_text := tc_jd_text (resulting db t r u)\<rparr>"
      and tabs: "td_templates db' = dict_set (td_templates db) t r1"
      and read: "read = assemble_read db' t r1"
      and st: "stacks_of db' t = tc_stack_ids (resulting db t r u)"
      and cs: "competencies_of db' t = map (\<lambda>c. (c, c \<in> set (tc_must_have (resulting db t r u))))
        (tc_competency_ids (resulting db t r u))"
      and others: "\<And>t'. t' \<noteq> t \<Longrightarrow> stacks_of db' t' = stacks_of db t'
        \<and> competencies_of db' t' = competencies_of db t'"
    have "distinct (map fst (competencies_of db t))"
      using assms r by (simp add: template_db_ok_def stored_payload_def template_create_ok_def)
    note keep = keep_selection [OF this]
    have comps: "competencies_of db' t = (case tu_competency_ids u of
        None \<Rightarrow> competencies_of db t
      | Some cs \<Rightarrow> map (\<lambda>c. (c, c \<in> set (or_else (tu_must_have u) []))) cs)"
      unfolding cs using keep
      by (simp add: resulting_def current_selection_def or_else_def split: option.split del: map_map)
    have "get_position_template db' t' = get_position_template db t'" if "t' \<noteq> t" for t'
    proof -
      have "assemble_read db' t' = assemble_read db t'"
        using others [OF that] by (auto simp: assemble_read_def)
      then show ?thesis using that by (simp add: get_position_template_def tabs dict_simps)
    qed
    then show ?thesis
      using r up
      by (auto simp: get_position_template_def tabs dict_simps read assemble_read_def st comps r1
          resulting_def current_selection_def or_else_def split: option.split)
  qed
next
  case False
  then show ?thesis
    by (auto simp: get_position_template_def update_position_template_def
        split: option.splits sum.splits prod.splits)
qed

lemma archive_answers:
  assumes "template_db_ok db"
  shows "(case (get_position_template db t, archive_position_template db t now) of
          (Some old, Some (read, db')) \<Rightarrow>
            read = old\<lparr>tm_archived_at := Some (or_else (tm_archived_at old) now)\<rparr>
            \<and> get_position_template db' t = Some read
            \<and> archive_position_template db' t later = Some (read, db')
            \<and> t \<notin> tm_id ` set (list_position_templates db' False)
        | (None, r) \<Rightarrow> r = None
        | _ \<Rightarrow> False)"
proof (cases "dict_get (td_templates db) t")
  case (Some r)
  let ?r = "r\<lparr>pt_archived_at := Some (or_else (pt_archived_at r) now)\<rparr>"
  show ?thesis
  proof (rule archive_cases [OF Some assms, of now])
    fix db'
    assume arch: "archive_position_template db t now = Some (assemble_read db' t ?r, db')"
      and tabs: "td_templates db' = dict_set (td_templates db) t ?r" and ok: "template_db_ok db'"
      and rub: "td_rubric db' = td_rubric db"
      and st: "\<And>t'. stacks_of db' t' = stacks_of db t'"
      and cs: "\<And>t'. competencies_of db' t' = competencies_of db t'"
    have get: "dict_get (td_templates db') t = Some ?r" by (simp add: tabs dict_simps)
    have same: "db'\<lparr>td_templates := dict_set (td_templates db') t ?r\<rparr> = db'"
      by (simp add: tabs dict_set_again)
    have "t \<notin> tm_id ` set (list_position_templates db' False)"
    proof
      assume "t \<in> tm_id ` set (list_position_templates db' False)"
      then obtain r' where "(t, r') \<in> set (td_templates db')" "pt_archived_at r' = None"
        by (auto simp: list_position_templates_def assemble_read_def)
      moreover have "distinct (map fst (td_templates db'))" using ok by (simp add: template_db_ok_def)
      ultimately have "dict_get (td_templates db') t = Some r'" by (simp add: dict_get_def)
      with get \<open>pt_archived_at r' = None\<close> show False by auto
    qed
    moreover have "archive_position_template db' t later = Some (assemble_read db' t ?r, db')"
      using get same by (simp add: archive_position_template_def Let_def)
    ultimately show ?thesis
      using Some arch get
      by (simp add: get_position_template_def assemble_read_def st cs or_else_def)
  qed
qed (simp add: get_position_template_def archive_position_template_def)

text \<open>
  What the operations answer. A created template reads back as its payload; an update
  changes exactly the fields the patch sets (a null title keeps the old one, \<open>jd_text\<close> can
  be cleared, new competencies without must-haves clear them), replaces selections
  wholesale, keeps the creation and archival marks, and touches no other template; archiving
  stamps once, keeps the selection, and takes the template out of the default list.
\<close>

theorem template_operations_answer:
  assumes "template_db_ok db"
  shows "(template_create_ok p \<longrightarrow> (case create_position_template db t now creator p of
            Inr (read, db') \<Rightarrow> get_position_template db' t = Some read
              \<and> tm_title read = tc_title p \<and> tm_stack_ids read = tc_stack_ids p
              \<and> tm_competencies read = map (\<lambda>c. (c, c \<in> set (tc_must_have p))) (tc_competency_ids p)
              \<and> tm_archived_at read = None
              \<and> (\<forall>t'. t' \<noteq> t \<longrightarrow> get_position_template db' t' = get_position_template db t')
          | Inl _ \<Rightarrow> True))
    \<and> (case (get_position_template db t, update_position_template db t u) of
          (Some old, Inr (Some (read, db'))) \<Rightarrow> get_position_template db' t = Some read
            \<and> tm_title read = or_else (tu_title u) (tm_title old)
            \<and> tm_level read = or_else (tu_level u) (tm_level old)
            \<and> tm_jd_text read = (if ''jd_text'' \<in> set (tu_fields_set u) then tu_jd_text u else tm_jd_text old)
            \<and> tm_stack_ids read = or_else (tu_stack_ids u) (tm_stack_ids old)
            \<and> tm_competencies read = (case tu_competency_ids u of
                 None \<Rightarrow> tm_competencies old
               | Some cs \<Rightarrow> map (\<lambda>c. (c, c \<in> set (or_else (tu_must_have u) []))) cs)
            \<and> tm_archived_at read = tm_archived_at old \<and> tm_created_at read = tm_created_at old
            \<and> (\<forall>t'. t' \<noteq> t \<longrightarrow> get_position_template db' t' = get_position_template db t')
        | (None, r) \<Rightarrow> r = Inr None
        | _ \<Rightarrow> True)
    \<and> (case (get_position_template db t, archive_position_template db t now) of
          (Some old, Some (read, db')) \<Rightarrow>
            read = old\<lparr>tm_archived_at := Some (or_else (tm_archived_at old) now)\<rparr>
            \<and> get_position_template db' t = Some read
            \<and> archive_position_template db' t later = Some (read, db')
            \<and> t \<notin> tm_id ` set (list_position_templates db' False)
        | (None, r) \<Rightarrow> r = None
        | _ \<Rightarrow> False)"
  using create_answers [OF assms] update_answers [OF assms] archive_answers [OF assms] by blast

theorem template_operations_answer_witness:
  "case create_position_template demo_templates 5 100 None demo_payload of
     Inr (read, db') \<Rightarrow> get_position_template db' 5 = Some read \<and> tm_stack_ids read = [1]
       \<and> tm_competencies read = [(3, True)]
   | Inl _ \<Rightarrow> False"
  using template_operations_answer [OF demo_templates_ok(1), of demo_payload 5 100 None]
    demo_templates_ok(2) demo_created by (auto simp: demo_payload_def)

end
