(* ===== verification/Http_Props.thy ===== *)
theory Http_Props
  imports Http Dev_Session_Props Position_Template_Props Auth_Props Feature_Flags_Cache
begin

text \<open>
  What the HTTP surface promises: nothing is written behind a closed gate, a dark route
  answers as if it did not exist, and whatever requests are served, every stored session and
  template stays valid and no template ever disappears.
\<close>

section \<open>The gates\<close>

definition flag_answers :: "string \<Rightarrow> bool \<Rightarrow> arrival \<Rightarrow> app_state \<Rightarrow> bool" where
  "flag_answers name on ar st \<longleftrightarrow> (case st_flags st of
     None \<Rightarrow> False
   | Some f \<Rightarrow> fst (is_enabled f (ar_flag_table ar) name (ar_monotonic ar)) = Inr on)"

definition signed_in :: "app \<Rightarrow> string list \<Rightarrow> arrival \<Rightarrow> app_state \<Rightarrow> bool" where
  "signed_in app roles ar st \<longleftrightarrow>
     (case fst (get_current_user (ap_verifier app) (ar_credentials ar) (st_certs st)) of
        Inl _ \<Rightarrow> False | Inr p \<Rightarrow> pr_role p \<in> set roles)"

text \<open>A gate leaves the stored data alone.\<close>

definition same_data :: "app_state \<Rightarrow> app_state \<Rightarrow> bool" where
  "same_data st st' \<longleftrightarrow> st_world st' = st_world st \<and> st_templates st' = st_templates st"

lemma same_data_refl [simp]: "same_data st st"
  by (simp add: same_data_def)

lemma same_data_trans: "same_data a b \<Longrightarrow> same_data b c \<Longrightarrow> same_data a c"
  by (simp add: same_data_def)

lemma flag_gate_cases:
  assumes "flag_gate name ar st = (res, st1)"
  shows "same_data st st1 \<and> st_certs st1 = st_certs st
    \<and> (res = Inr () \<longrightarrow> flag_answers name True ar st)
    \<and> (flag_answers name False ar st \<longrightarrow> res = Inl 404)
    \<and> (\<forall>status. res = Inl status \<longrightarrow> status \<in> {404, 500})"
  using assms
  by (auto simp: flag_gate_def flag_answers_def same_data_def split: option.splits prod.splits sum.splits if_splits)

lemma refused_status: "get_current_user v cr c = (Inl status, c') \<Longrightarrow> status \<in> {401, 403, 500}"
  by (auto simp: get_current_user_def split: option.splits prod.splits sum.splits auth_error.splits)

lemma require_manager_cases:
  assumes "require_manager app ar st = (res, st1)"
  shows "same_data st st1 \<and> (\<forall>p. res = Inr p \<longrightarrow> signed_in app manager_roles ar st)
    \<and> (\<forall>status. res = Inl status \<longrightarrow> status \<in> {401, 403, 500})"
  using assms refused_status
  by (fastforce simp: require_manager_def signed_in_def same_data_def require_roles_def
      split: prod.splits sum.splits if_splits)

lemma dev_access_cases:
  assumes "require_dev_session_access app ar st = (res, st1)"
  shows "same_data st st1
    \<and> (\<forall>p. res = Inr p \<longrightarrow> ap_verifier app = None \<or> signed_in app dev_session_roles ar st)
    \<and> (\<forall>status. res = Inl status \<longrightarrow> status \<in> {401, 403, 500})"
  using assms refused_status
  by (fastforce simp: require_dev_session_access_def get_optional_current_user_def signed_in_def same_data_def
      split: prod.splits sum.splits option.splits if_splits)

lemma admitted_then_cases:
  assumes "admitted_then gate rest = (answer, st')"
  obtains (closed) status where "fst gate = Inl status" "answer = (status, NoBody)" "st' = snd gate"
  | (passed) x where "fst gate = Inr x" "rest x (snd gate) = (answer, st')"
  using assms by (cases gate) (auto simp: admitted_then_def split: sum.splits)

lemma signed_in_cong: "st_certs st' = st_certs st \<Longrightarrow> signed_in app roles ar st' = signed_in app roles ar st"
  by (simp add: signed_in_def)

text \<open>A route with its gates: either one of them ended the request, or the handler ran.\<close>

lemma gated_route_cases:
  assumes "admitted_then (flag_gate name ar st) (\<lambda>_ st1. admitted_then (access st1) (\<lambda>_ st2. rest st2)) = (answer, st')"
    and access: "\<And>st1 res st2. access st1 = (res, st2) \<Longrightarrow> same_data st1 st2
      \<and> (\<forall>p. res = Inr p \<longrightarrow> allowed st1) \<and> (\<forall>status. res = Inl status \<longrightarrow> status \<in> {401, 403, 500})"
    and allowed: "\<And>st1. st_certs st1 = st_certs st \<Longrightarrow> allowed st1 \<Longrightarrow> allowed st"
  obtains (closed) "same_data st st'" "snd answer = NoBody" "400 \<le> fst answer"
      "flag_answers name False ar st \<Longrightarrow> fst answer = 404 \<and> st_certs st' = st_certs st"
  | (handled) st1 where "same_data st st1" "rest st1 = (answer, st')"
      "flag_answers name True ar st" "allowed st"
proof -
  obtain res st1 where g: "flag_gate name ar st = (res, st1)" by fastforce
  note gate = flag_gate_cases [OF g]
  show thesis
  proof (cases res)
    case (Inl status)
    with gate have "400 \<le> status" by auto
    with assms(1) g Inl gate show thesis by (intro closed) (auto simp: admitted_then_def)
  next
    case (Inr u)
    obtain who st2 where a: "access st1 = (who, st2)" by fastforce
    note acc = access [OF a]
    have same: "same_data st st2" using gate acc same_data_trans by blast
    show thesis
    proof (cases who)
      case (Inl status)
      with acc have "400 \<le> status" by auto
      with assms(1) g a Inl \<open>res = Inr u\<close> gate same show thesis
        by (intro closed) (auto simp: admitted_then_def)
    next
      case (Inr p)
      have "allowed st" using acc Inr allowed gate by blast
      with assms(1) g a Inr \<open>res = Inr u\<close> gate same show thesis
        by (intro handled) (auto simp: admitted_then_def)
    qed
  qed
qed

lemma dev_route_cases:
  assumes "dev_route app ar rest st = (answer, st')"
  obtains (closed) "same_data st st'" "snd answer = NoBody" "400 \<le> fst answer"
      "flag_answers ''enable_live_orchestrator'' False ar st \<Longrightarrow> fst answer = 404 \<and> st_certs st' = st_certs st"
  | (handled) st1 where "same_data st st1" "rest st1 = (answer, st')"
      "flag_answers ''enable_live_orchestrator'' True ar st"
      "ap_verifier app = None \<or> signed_in app dev_session_roles ar st"
  using assms unfolding dev_route_def require_live_orchestrator_def
  by (rule gated_route_cases [where allowed = "\<lambda>s. ap_verifier app = None \<or> signed_in app dev_session_roles ar s"])
    (use dev_access_cases signed_in_cong in blast)+

lemma template_route_cases:
  assumes "template_route app ar rest st = (answer, st')"
  obtains (closed) "same_data st st'" "snd answer = NoBody" "400 \<le> fst answer"
      "flag_answers ''position_template_crud_enabled'' False ar st \<Longrightarrow> fst answer = 404 \<and> st_certs st' = st_certs st"
  | (handled) st1 where "same_data st st1" "rest st1 = (answer, st')"
      "flag_answers ''position_template_crud_enabled'' True ar st" "signed_in app manager_roles ar st"
  using assms unfolding template_route_def require_crud_enabled_def
  by (rule gated_route_cases [where allowed = "signed_in app manager_roles ar"])
    (use require_manager_cases signed_in_cong in blast)+

section \<open>What a request writes\<close>

definition may_drive :: "app \<Rightarrow> arrival \<Rightarrow> app_state \<Rightarrow> bool" where
  "may_drive app ar st \<longleftrightarrow> flag_answers ''enable_live_orchestrator'' True ar st
     \<and> (ap_verifier app = None \<or> signed_in app dev_session_roles ar st)"

definition may_manage :: "app \<Rightarrow> arrival \<Rightarrow> app_state \<Rightarrow> bool" where
  "may_manage app ar st \<longleftrightarrow> flag_answers ''position_template_crud_enabled'' True ar st
     \<and> signed_in app manager_roles ar st"

text \<open>A change of the sessions, and of the templates, is one of the services' operations.\<close>

definition session_written :: "app \<Rightarrow> arrival \<Rightarrow> world \<Rightarrow> world \<Rightarrow> bool" where
  "session_written app ar w w' \<longleftrightarrow>
     (\<exists>d res. create_session (ap_shell app) d (ar_id ar) w = (res, w'))
     \<or> (\<exists>sid said res. post_turn (ap_shell app) sid said w = (res, w'))"

definition template_written :: "arrival \<Rightarrow> template_db \<Rightarrow> template_db \<Rightarrow> bool" where
  "template_written ar db db' \<longleftrightarrow>
     (\<exists>p read. template_create_ok p \<and> create_position_template db (ar_id ar) (ar_time ar) None p = Inr (read, db'))
     \<or> (\<exists>t u read. update_position_template db t u = Inr (Some (read, db')))
     \<or> (\<exists>t read. archive_position_template db t (ar_time ar) = Some (read, db'))"

definition sound_step :: "app \<Rightarrow> arrival \<Rightarrow> app_state \<Rightarrow> app_state \<Rightarrow> bool" where
  "sound_step app ar st st' \<longleftrightarrow>
     (st_world st' = st_world st \<or> may_drive app ar st \<and> session_written app ar (st_world st) (st_world st'))
     \<and> (st_templates st' = st_templates st
        \<or> may_manage app ar st \<and> template_written ar (st_templates st) (st_templates st'))"

lemma same_data_sound: "same_data st st' \<Longrightarrow> sound_step app ar st st'"
  by (simp add: same_data_def sound_step_def)

text \<open>A handler that, behind its gates, keeps the data or writes it by an operation.\<close>

lemma dev_route_sound:
  assumes "dev_route app ar rest st = (answer, st')"
    and "\<And>st1. rest st1 = (answer, st') \<Longrightarrow> st_templates st' = st_templates st1
      \<and> (st_world st' = st_world st1 \<or> session_written app ar (st_world st1) (st_world st'))"
  shows "sound_step app ar st st'"
  using assms(1)
proof (cases rule: dev_route_cases)
  case (handled st1)
  then show ?thesis using assms(2) [OF handled(2)] by (auto simp: sound_step_def same_data_def may_drive_def)
qed (rule same_data_sound)

lemma template_route_sound:
  assumes "template_route app ar rest st = (answer, st')"
    and "\<And>st1. rest st1 = (answer, st') \<Longrightarrow> st_world st' = st_world st1
      \<and> (st_templates st' = st_templates st1 \<or> template_written ar (st_templates st1) (st_templates st'))"
  shows "sound_step app ar st st'"
  using assms(1)
proof (cases rule: template_route_cases)
  case (handled st1)
  then show ?thesis using assms(2) [OF handled(2)] by (auto simp: sound_step_def same_data_def may_manage_def)
qed (rule same_data_sound)

lemma validated_create_ok: "validate_template_create cd j = Some p \<Longrightarrow> template_create_ok p"
  by (auto simp: validate_template_create_def as_object_def checked_def Option.bind_eq_Some_conv
      split: json.splits if_splits option.splits)

lemma session_routes_sound:
  "http_create_session app ar body st = (answer, st') \<Longrightarrow> sound_step app ar st st'"
  "http_post_turn app ar path body st = (answer, st') \<Longrightarrow> sound_step app ar st st'"
  "http_get_session app ar path st = (answer, st') \<Longrightarrow> sound_step app ar st st'"
  "http_list_traces app ar path st = (answer, st') \<Longrightarrow> sound_step app ar st st'"
proof -
  show "http_create_session app ar body st = (answer, st') \<Longrightarrow> sound_step app ar st st'"
    unfolding http_create_session_def
    by (erule dev_route_sound) (fastforce simp: unprocessable_def session_written_def Let_def
        split: option.splits prod.splits sum.splits shell_error.splits)
  show "http_post_turn app ar path body st = (answer, st') \<Longrightarrow> sound_step app ar st st'"
    unfolding http_post_turn_def
    by (erule dev_route_sound) (fastforce simp: unprocessable_def session_written_def Let_def
        split: option.splits prod.splits sum.splits)
  show "http_get_session app ar path st = (answer, st') \<Longrightarrow> sound_step app ar st st'"
    unfolding http_get_session_def
    by (erule dev_route_sound) (auto simp: unprocessable_def split: option.splits sum.splits)
  show "http_list_traces app ar path st = (answer, st') \<Longrightarrow> sound_step app ar st st'"
    unfolding http_list_traces_def
    by (erule dev_route_sound) (auto simp: unprocessable_def split: option.splits sum.splits)
qed

lemma template_routes_sound:
  "http_create_template app ar body st = (answer, st') \<Longrightarrow> sound_step app ar st st'"
  "http_list_templates app ar archived st = (answer, st') \<Longrightarrow> sound_step app ar st st'"
  "http_get_template app ar path st = (answer, st') \<Longrightarrow> sound_step app ar st st'"
  "http_patch_template app ar path body st = (answer, st') \<Longrightarrow> sound_step app ar st st'"
  "http_delete_template app ar path st = (answer, st') \<Longrightarrow> sound_step app ar st st'"
proof -
  show "http_create_template app ar body st = (answer, st') \<Longrightarrow> sound_step app ar st st'"
    unfolding http_create_template_def
    by (erule template_route_sound) (fastforce simp: unprocessable_def template_written_def
        dest: validated_create_ok split: option.splits prod.splits sum.splits)
  show "http_list_templates app ar archived st = (answer, st') \<Longrightarrow> sound_step app ar st st'"
    unfolding http_list_templates_def by (erule template_route_sound) auto
  show "http_get_template app ar path st = (answer, st') \<Longrightarrow> sound_step app ar st st'"
    unfolding http_get_template_def
    by (erule template_route_sound) (auto simp: unprocessable_def split: option.splits)
  show "http_patch_template app ar path body st = (answer, st') \<Longrightarrow> sound_step app ar st st'"
    unfolding http_patch_template_def
    by (erule template_route_sound) (fastforce simp: unprocessable_def template_written_def
        split: option.splits prod.splits sum.splits)
  show "http_delete_template app ar path st = (answer, st') \<Longrightarrow> sound_step app ar st st'"
    unfolding http_delete_template_def
    by (erule template_route_sound) (fastforce simp: unprocessable_def template_written_def
        split: option.splits prod.splits)
qed

lemma rubric_route_sound: "http_active_rubric app ar st = (answer, st') \<Longrightarrow> sound_step app ar st st'"
proof -
  assume a: "http_active_rubric app ar st = (answer, st')"
  obtain res st1 where g: "require_manager app ar st = (res, st1)" by fastforce
  have "st' = st1"
    using a g by (auto simp: http_active_rubric_def admitted_then_def split: sum.splits option.splits)
  then show ?thesis using require_manager_cases [OF g] same_data_sound by simp
qed

lemma handle_sound: "handle app ar st = (answer, st') \<Longrightarrow> sound_step app ar st st'"
  by (cases "ar_request ar")
    (simp_all add: handle_def session_routes_sound template_routes_sound rubric_route_sound)

section \<open>Background tasks\<close>

lemma run_background_frame:
  "st_templates (run_background app ok st) = st_templates st
   \<and> st_certs (run_background app ok st) = st_certs st
   \<and> wd_tasks (st_world (run_background app ok st)) = []"
  by (simp add: run_background_def Let_def)

lemma run_background_idle: "wd_tasks (st_world st) = [] \<Longrightarrow> run_background app ok st = st"
  by (cases st; cases "st_world st") (simp add: run_background_def Let_def)

lemma world_ok_tasks [simp]: "world_ok env (w\<lparr>wd_tasks := ts\<rparr>) = world_ok env w"
  by (rule world_ok_store) simp

lemma sessions_kept_tasks: "sessions_kept env w (w\<lparr>wd_tasks := ts\<rparr>)"
  by (rule sessions_kept_store) simp

lemma run_background_world:
  assumes "env_sound (ap_shell app)" and "world_ok (ap_shell app) (st_world st)"
  shows "world_ok (ap_shell app) (st_world (run_background app ok st))
    \<and> sessions_kept (ap_shell app) (st_world st) (st_world (run_background app ok st))"
proof -
  let ?w = "st_world st"
  obtain res w' where d: "drain (ap_shell app) (length (wd_tasks ?w)) ?w = Some (res, w')"
    and ok: "world_ok (ap_shell app) w'" "sessions_kept (ap_shell app) ?w w'"
    using drain_left [OF assms] by blast
  show ?thesis
    using d ok assms(2) sessions_kept_tasks [of "ap_shell app"] sessions_kept_trans [OF ok(2)]
    by (simp add: run_background_def Let_def)
qed

section \<open>Nothing is written behind a closed gate\<close>

definition route_flag :: "request \<Rightarrow> string option" where
  "route_flag rq = (case rq of
     DevCreateSession _ \<Rightarrow> Some ''enable_live_orchestrator''
   | DevPostTurn _ _ \<Rightarrow> Some ''enable_live_orchestrator''
   | DevGetSession _ \<Rightarrow> Some ''enable_live_orchestrator''
   | DevListTraces _ \<Rightarrow> Some ''enable_live_orchestrator''
   | RubricActive \<Rightarrow> None
   | _ \<Rightarrow> Some ''position_template_crud_enabled'')"

definition dark :: "arrival \<Rightarrow> app_state \<Rightarrow> bool" where
  "dark ar st \<longleftrightarrow> (case route_flag (ar_request ar) of
     None \<Rightarrow> False | Some name \<Rightarrow> flag_answers name False ar st)"

lemma dark_routes:
  "flag_answers ''enable_live_orchestrator'' False ar st \<Longrightarrow>
     fst (dev_route app ar rest st) = (404, NoBody) \<and> same_data st (snd (dev_route app ar rest st))
     \<and> st_certs (snd (dev_route app ar rest st)) = st_certs st"
  "flag_answers ''position_template_crud_enabled'' False ar st \<Longrightarrow>
     fst (template_route app ar rest st) = (404, NoBody) \<and> same_data st (snd (template_route app ar rest st))
     \<and> st_certs (snd (template_route app ar rest st)) = st_certs st"
  using flag_gate_cases [OF surjective_pairing, where name = "''enable_live_orchestrator''" and ar = ar and st = st]
    flag_gate_cases [OF surjective_pairing, where name = "''position_template_crud_enabled''" and ar = ar and st = st]
  by (auto simp: dev_route_def template_route_def require_live_orchestrator_def
      require_crud_enabled_def admitted_then_def split: prod.splits)

lemma handle_dark:
  assumes "dark ar st"
  shows "fst (handle app ar st) = (404, NoBody) \<and> same_data st (snd (handle app ar st))
    \<and> st_certs (snd (handle app ar st)) = st_certs st"
  using assms
  by (cases "ar_request ar")
    (simp_all add: dark_def route_flag_def handle_def dark_routes http_create_session_def
      http_post_turn_def http_get_session_def http_list_traces_def http_create_template_def
      http_list_templates_def http_get_template_def http_patch_template_def http_delete_template_def)


section \<open>What is served stays valid\<close>

text \<open>A template is never lost; who created it, when, and when it was archived never change.\<close>

definition templates_kept :: "template_db \<Rightarrow> template_db \<Rightarrow> bool" where
  "templates_kept db db' \<longleftrightarrow> (\<forall>t r. dict_get (td_templates db) t = Some r \<longrightarrow>
     (\<exists>r'. dict_get (td_templates db') t = Some r' \<and> pt_created_at r' = pt_created_at r
       \<and> pt_created_by r' = pt_created_by r
       \<and> (pt_archived_at r \<noteq> None \<longrightarrow> pt_archived_at r' = pt_archived_at r)))"

lemma templates_kept_refl [simp]: "templates_kept db db"
  by (simp add: templates_kept_def)

lemma templates_kept_trans: "templates_kept u v \<Longrightarrow> templates_kept v w \<Longrightarrow> templates_kept u w"
  unfolding templates_kept_def by (metis (no_types, lifting))

definition served_ok :: "app \<Rightarrow> app_state \<Rightarrow> app_state \<Rightarrow> bool" where
  "served_ok app st st' \<longleftrightarrow> world_ok (ap_shell app) (st_world st') \<and> template_db_ok (st_templates st')
     \<and> sessions_kept (ap_shell app) (st_world st) (st_world st')
     \<and> templates_kept (st_templates st) (st_templates st')
     \<and> td_rubric (st_templates st') = td_rubric (st_templates st)"

lemma served_ok_trans: "served_ok app u v \<Longrightarrow> served_ok app v w \<Longrightarrow> served_ok app u w"
  by (auto simp: served_ok_def intro: sessions_kept_trans templates_kept_trans)

text \<open>The operations a session change, and a template change, consists of.\<close>

lemma accepts_load: "load env sid w = Inr wk \<Longrightarrow> wk_session_id wk = sid"
  using load_Inr by blast

lemma session_written_ok:
  assumes "env_sound (ap_shell app)" and "world_ok (ap_shell app) w" and "session_written app ar w w'"
  shows "world_ok (ap_shell app) w' \<and> sessions_kept (ap_shell app) w w'"
proof -
  consider d res where "create_session (ap_shell app) d (ar_id ar) w = (res, w')"
    | sid said res where "post_turn (ap_shell app) sid said w = (res, w')"
    using assms(3) by (auto simp: session_written_def)
  then show ?thesis
  proof cases
    case 1
    note create = create_session_world_ok [OF assms(1,2) 1]
    from assms(1) 1 have "sessions_kept (ap_shell app) w w'"
    proof (cases rule: create_session_cases)
      case taken
      then show ?thesis by (simp add: sessions_kept_store)
    next
      case (started wk' now fs)
      then have "load (ap_shell app) (ar_id ar) w \<noteq> Inr v" for v using load_Inr by blast
      with started(4) show ?thesis
        unfolding sessions_kept_def others_same_def by (metis grows_refl)
    qed
    with create show ?thesis ..
  next
    case 2
    note post = post_turn_world_ok [OF assms(1,2) 2]
    from assms(1,2) 2 have "sessions_kept (ap_shell app) w w'"
    proof (cases rule: post_turn_cases)
      case (driven wk wk1 t wk')
      have "load (ap_shell app) (wk_session_id wk1) (tick w) = Inr wk"
        using driven(1,3) accepts_load [OF driven(1)] load_store [of w "tick w"]
        by (simp add: append_entry_def)
      moreover have "grows (wk_transcript wk) (wk_transcript wk1)"
        by (simp add: driven(3) append_entry_def)
      ultimately have "sessions_kept (ap_shell app) (tick w) w'"
        using left_stored_kept [OF driven(4)] by blast
      then show ?thesis
        by (rule sessions_kept_trans [OF sessions_kept_store [OF same_store_updates(1)]])
    qed (simp_all add: sessions_kept_store)
    with post show ?thesis ..
  qed
qed

lemma kept_set:
  assumes "dict_get (td_templates db) t = Some r" and "td_templates db' = dict_set (td_templates db) t r'"
    and "pt_created_at r' = pt_created_at r" and "pt_created_by r' = pt_created_by r"
    and "pt_archived_at r \<noteq> None \<Longrightarrow> pt_archived_at r' = pt_archived_at r"
  shows "templates_kept db db'"
  using assms by (auto simp: templates_kept_def dict_simps)

lemma template_written_ok:
  assumes "template_db_ok db" and "template_written ar db db'"
  shows "template_db_ok db' \<and> templates_kept db db' \<and> td_rubric db' = td_rubric db"
proof -
  consider p read where "template_create_ok p"
      "create_position_template db (ar_id ar) (ar_time ar) None p = Inr (read, db')"
    | t u read where "update_position_template db t u = Inr (Some (read, db'))"
    | t read where "archive_position_template db t (ar_time ar) = Some (read, db')"
    using assms(2) by (auto simp: template_written_def)
  then show ?thesis
  proof cases
    case 1
    note c = create_cases [OF 1(2) assms(1) 1(1)]
    have "dict_get (td_templates db) (ar_id ar) = None"
      "\<exists>r. td_templates db' = dict_set (td_templates db) (ar_id ar) r"
      using 1(2) by (auto simp: create_position_template_def and_then_eq_Inr Let_def split: if_splits)
    then have "templates_kept db db'" by (auto simp: templates_kept_def dict_simps)
    with c show ?thesis by blast
  next
    case 2
    from 2 assms(1) show ?thesis
    proof (cases rule: update_cases)
      case (1 r r1)
      then show ?thesis using kept_set [OF 1(1,5)] by simp
    qed
  next
    case 3
    then obtain r where r: "dict_get (td_templates db) t = Some r"
      by (auto simp: archive_position_template_def split: option.splits)
    show ?thesis
    proof (rule archive_cases [OF r assms(1), of "ar_time ar"])
      fix v
      assume v: "archive_position_template db t (ar_time ar) = Some (assemble_read v t
          (r\<lparr>pt_archived_at := Some (or_else (pt_archived_at r) (ar_time ar))\<rparr>), v)"
        "td_templates v = dict_set (td_templates db) t
          (r\<lparr>pt_archived_at := Some (or_else (pt_archived_at r) (ar_time ar))\<rparr>)"
        "template_db_ok v" "td_rubric v = td_rubric db"
      have "db' = v" using 3 v(1) by simp
      moreover have "templates_kept db v" by (rule kept_set [OF r v(2)]) (auto simp: or_else_def)
      ultimately show ?thesis using v by simp
    qed
  qed
qed

lemma serve_ok:
  assumes "env_sound (ap_shell app)" and "world_ok (ap_shell app) (st_world st)"
    and "template_db_ok (st_templates st)"
  shows "served_ok app st (snd (serve app ar st))"
proof -
  obtain answer st1 where h: "handle app ar st = (answer, st1)" by fastforce
  have w: "world_ok (ap_shell app) (st_world st1) \<and> sessions_kept (ap_shell app) (st_world st) (st_world st1)"
    using handle_sound [OF h] session_written_ok [OF assms(1,2)] assms(2) sessions_kept_store
    by (fastforce simp: sound_step_def)
  have t: "template_db_ok (st_templates st1) \<and> templates_kept (st_templates st) (st_templates st1)
      \<and> td_rubric (st_templates st1) = td_rubric (st_templates st)"
    using handle_sound [OF h] template_written_ok [OF assms(3)] assms(3)
    by (auto simp: sound_step_def)
  show ?thesis
    using w t run_background_frame [of app "fst answer < 400" st1] sessions_kept_trans
      run_background_world [OF assms(1), of st1 "fst answer < 400"]
    by (auto simp: serve_def h served_ok_def)
qed

text \<open>
  C6: what is served stays valid. Whatever requests arrive, in whatever order and with
  whatever credentials and bodies, background tasks included: every stored session remains a
  valid state of the machine and no session or transcript entry is lost; every stored
  template remains a payload the rules accept, none disappears, and its creation record
  and its archival mark never change; the rubric is never written.
\<close>

theorem served_state_stays_valid:
  assumes "env_sound (ap_shell app)" and "world_ok (ap_shell app) (st_world st)"
    and "template_db_ok (st_templates st)"
  shows "served_ok app st (serve_all app ars st)"
  using assms(2,3)
proof (induction ars arbitrary: st)
  case Nil
  then show ?case by (simp add: served_ok_def sessions_kept_store)
next
  case (Cons ar ars)
  note step = serve_ok [OF assms(1) Cons.prems, of ar]
  then have "served_ok app (snd (serve app ar st)) (serve_all app ars (snd (serve app ar st)))"
    by (intro Cons.IH) (simp_all add: served_ok_def)
  with step show ?case by (auto intro: served_ok_trans)
qed

section \<open>A demonstration server\<close>

definition demo_app :: app where
  "demo_app = \<lparr>ap_verifier = Some demo_verifier, ap_shell = demo_shell, ap_collation = (\<lambda>_. 0)\<rparr>"

definition demo_server :: app_state where
  "demo_server = \<lparr>st_flags = Some demo_flags, st_certs = empty_cache, st_world = demo_world demo_tech,
     st_templates = demo_templates\<rparr>"

definition demo_arrival :: "bool \<Rightarrow> arrival" where
  "demo_arrival on = \<lparr>ar_request = DevPostTurn ''7'' (JObj [(''text'', JStr ''answer'')]),
     ar_credentials = Some ''t'', ar_monotonic = 5,
     ar_flag_table = Some [(''enable_live_orchestrator'', on)], ar_id = 9, ar_time = 100\<rparr>"


theorem served_state_stays_valid_witness:
  "served_ok demo_app demo_server (serve_all demo_app [demo_arrival True, demo_arrival False] demo_server)"
  by (rule served_state_stays_valid)
    (simp_all add: demo_app_def demo_server_def demo_shell_sound demo_world_ok [OF demo_sessions(3)]
      demo_templates_ok)

end
