(* ===== verification/Rubric_Seed.thy ===== *)
theory Rubric_Seed
  imports Rubric_Snapshot Feature_Flags Sha256
begin

text \<open>
  \<open>RubricImporter.seed\<close> of \<open>app/backend/services/rubric_importer.py\<close>: reconcile the
  rubric tables with the YAML files. The directory is the sorted list of file names with
  their bytes; \<open>yaml.safe_load\<close> and the JSON-Schema validator are arguments. The whole
  seed is one transaction under an advisory lock, so it returns an error or the new tables.
\<close>

section \<open>Documents\<close>

record rubric_level =
  rl_level :: int
  rl_descriptor :: string

record rubric_node =
  rn_id :: string
  rn_parent :: "string option"
  rn_retired :: bool
  rn_levels :: "rubric_level list"

record rubric_doc =
  rd_retired :: bool
  rd_nodes :: "rubric_node list"

text \<open>
  What the code reads of a validated document. The schema makes \<open>id\<close> a required string,
  \<open>parent\<close> a string or null and each level an integer with a descriptor.
\<close>

definition read_level :: "json \<Rightarrow> rubric_level option" where
  "read_level = as_object (\<lambda>d. do {
     n \<leftarrow> req d ''level'' (\<lambda>j. case j of JInt n \<Rightarrow> Some n | _ \<Rightarrow> None);
     s \<leftarrow> req d ''descriptor_en'' (\<lambda>j. case j of JStr s \<Rightarrow> Some s | _ \<Rightarrow> None);
     Some \<lparr>rl_level = n, rl_descriptor = s\<rparr> })"

definition truthy_field :: "(string, json) dict \<Rightarrow> string \<Rightarrow> bool" where
  "truthy_field d k = (case dict_get d k of None \<Rightarrow> False | Some j \<Rightarrow> truthy j)"

definition array_field :: "(string, json) dict \<Rightarrow> string \<Rightarrow> json list" where
  "array_field d k = (case dict_get d k of Some (JArr xs) \<Rightarrow> xs | _ \<Rightarrow> [])"

definition read_node :: "json \<Rightarrow> rubric_node option" where
  "read_node = as_object (\<lambda>d. do {
     i \<leftarrow> req d ''id'' (\<lambda>j. case j of JStr s \<Rightarrow> Some s | _ \<Rightarrow> None);
     p \<leftarrow> with_default d ''parent'' None (nullable (\<lambda>j. case j of JStr s \<Rightarrow> Some s | _ \<Rightarrow> None));
     ls \<leftarrow> all_of read_level (array_field d ''levels'');
     Some \<lparr>rn_id = i, rn_parent = p, rn_retired = truthy_field d ''retired'', rn_levels = ls\<rparr> })"

definition read_doc :: "(string, json) dict \<Rightarrow> rubric_doc option" where
  "read_doc d = do {
     ns \<leftarrow> all_of read_node (array_field d ''nodes'');
     Some \<lparr>rd_retired = truthy_field d ''retired'', rd_nodes = ns\<rparr> }"

text \<open>
  The last two are not the importer's own: what \<open>yaml\<close> raises, and the database on the
  \<open>UNIQUE\<close> constraint that migration \<open>0003\<close> puts on the hash.
\<close>

datatype importer_error =
    RubricImporterError
  | UnknownColumnError
  | EmptyRequiredCellError
  | DuplicateCompetencyIdError
  | MergedKeyColumnError
  | SchemaViolationError
  | RenameForbiddenError "string list"
  | YamlParseError
  | PayloadHashTaken

record importer =
  im_valid :: "json \<Rightarrow> bool"
  im_yaml :: "string \<Rightarrow> json option"

text \<open>A directory: file stem and content, in sorted order.\<close>

type_synonym yaml_dir = "(string \<times> string) list"

definition load_yaml :: "importer \<Rightarrow> string \<Rightarrow> importer_error + rubric_doc" where
  "load_yaml im content = (case im_yaml im content of
     None \<Rightarrow> Inl YamlParseError
   | Some loaded \<Rightarrow>
       (case (if truthy loaded then loaded else JObj []) of
          JObj d \<Rightarrow>
            if \<not> im_valid im (JObj d) then Inl SchemaViolationError
            else (case read_doc d of None \<Rightarrow> Inl SchemaViolationError | Some r \<Rightarrow> Inr r)
        | _ \<Rightarrow> Inl SchemaViolationError))"

fun load_yaml_dir :: "importer \<Rightarrow> yaml_dir \<Rightarrow> importer_error + (string \<times> rubric_doc) list" where
  "load_yaml_dir im [] = Inr []"
| "load_yaml_dir im ((stem, content) # files) =
     and_then (load_yaml im content) (\<lambda>doc.
     and_then (load_yaml_dir im files) (\<lambda>docs. Inr ((stem, doc) # docs)))"

text \<open>The bytes hashed: the files, separated by a zero byte.\<close>

fun hashed_bytes :: "string list \<Rightarrow> string" where
  "hashed_bytes [] = ''''"
| "hashed_bytes [c] = c"
| "hashed_bytes (c # d # cs) = c @ CHR 0x00 # hashed_bytes (d # cs)"

definition compute_payload_hash :: "yaml_dir \<Rightarrow> string" where
  "compute_payload_hash files = sha256_hex (hashed_bytes (map snd files))"

section \<open>Materialising a stack\<close>

text \<open>The tables with the number of ids the database has generated.\<close>

record seed_db =
  sd_rubric :: rubric_db
  sd_audit :: "(string \<times> string) list"
  sd_next :: nat

record seed_env =
  se_fresh :: "nat \<Rightarrow> uuid"
  se_now :: time

definition new_id :: "seed_env \<Rightarrow> seed_db \<Rightarrow> uuid" where
  "new_id env w = se_fresh env (sd_next w)"

definition insert_stack :: "seed_env \<Rightarrow> uuid \<Rightarrow> string \<Rightarrow> seed_db \<Rightarrow> seed_db" where
  "insert_stack env v name w = w\<lparr>sd_next := sd_next w + 1,
     sd_rubric := (sd_rubric w)\<lparr>rb_stacks := rb_stacks (sd_rubric w)
       @ [\<lparr>sk_id = new_id env w, sk_version = v, sk_name = name\<rparr>]\<rparr>\<rparr>"

definition insert_block :: "seed_env \<Rightarrow> uuid \<Rightarrow> uuid \<Rightarrow> string \<Rightarrow> seed_db \<Rightarrow> seed_db" where
  "insert_block env v stack name w = w\<lparr>sd_next := sd_next w + 1,
     sd_rubric := (sd_rubric w)\<lparr>rb_blocks := rb_blocks (sd_rubric w)
       @ [\<lparr>bk_id = new_id env w, bk_version = v, bk_stack = stack, bk_name = name, bk_position = 0\<rparr>]\<rparr>\<rparr>"

definition insert_competency :: "seed_env \<Rightarrow> uuid \<Rightarrow> uuid \<Rightarrow> string \<Rightarrow> seed_db \<Rightarrow> seed_db" where
  "insert_competency env v block name w = w\<lparr>sd_next := sd_next w + 1,
     sd_rubric := (sd_rubric w)\<lparr>rb_competencies := rb_competencies (sd_rubric w)
       @ [\<lparr>cr_id = new_id env w, cr_version = v, cr_block = block, cr_name = name\<rparr>]\<rparr>\<rparr>"

definition insert_level :: "seed_env \<Rightarrow> uuid \<Rightarrow> uuid \<Rightarrow> rubric_level \<Rightarrow> seed_db \<Rightarrow> seed_db" where
  "insert_level env v c l w = w\<lparr>sd_next := sd_next w + 1,
     sd_rubric := (sd_rubric w)\<lparr>rb_levels := rb_levels (sd_rubric w)
       @ [\<lparr>lv_id = new_id env w, lv_version = v, lv_competency = c, lv_rank = rl_level l,
          lv_descriptor = rl_descriptor l\<rparr>]\<rparr>\<rparr>"

definition insert_topic :: "seed_env \<Rightarrow> uuid \<Rightarrow> uuid \<Rightarrow> string \<Rightarrow> seed_db \<Rightarrow> seed_db" where
  "insert_topic env v c name w = w\<lparr>sd_next := sd_next w + 1,
     sd_rubric := (sd_rubric w)\<lparr>rb_topics := rb_topics (sd_rubric w)
       @ [\<lparr>tp_id = new_id env w, tp_version = v, tp_competency = c, tp_name = name\<rparr>]\<rparr>\<rparr>"

text \<open>The nodes by id: a later node of the same id replaces the earlier one.\<close>

definition nodes_by_id :: "rubric_node list \<Rightarrow> (string, rubric_node) dict" where
  "nodes_by_id ns = fold (\<lambda>n d. dict_set d (rn_id n) n) ns []"

text \<open>The three passes; each carries the tables, the ids given out and the rows counted.\<close>

type_synonym pass = "seed_db \<times> (string, uuid) dict \<times> nat"

definition add_block :: "seed_env \<Rightarrow> uuid \<Rightarrow> uuid \<Rightarrow> rubric_node \<Rightarrow> pass \<Rightarrow> pass" where
  "add_block env v stack n p = (case p of (w, ids, k) \<Rightarrow>
     if rn_parent n = None
     then (insert_block env v stack (rn_id n) w, dict_set ids (rn_id n) (new_id env w), k + 1)
     else p)"

definition add_competency ::
  "seed_env \<Rightarrow> uuid \<Rightarrow> (string, uuid) dict \<Rightarrow> rubric_node \<Rightarrow> pass \<Rightarrow> pass" where
  "add_competency env v blocks n p = (case p of (w, ids, k) \<Rightarrow>
     (case rn_parent n of
        None \<Rightarrow> p
      | Some parent \<Rightarrow>
          (case dict_get blocks parent of
             None \<Rightarrow> p
           | Some b \<Rightarrow>
               (fold (insert_level env v (new_id env w)) (rn_levels n)
                  (insert_competency env v b (rn_id n) w),
                dict_set ids (rn_id n) (new_id env w), k + 1 + length (rn_levels n)))))"

definition add_topic ::
  "seed_env \<Rightarrow> uuid \<Rightarrow> (string, uuid) dict \<Rightarrow> rubric_node \<Rightarrow> seed_db \<times> nat \<Rightarrow> seed_db \<times> nat" where
  "add_topic env v comps n p = (case p of (w, k) \<Rightarrow>
     (case rn_parent n of
        None \<Rightarrow> p
      | Some parent \<Rightarrow>
          (case dict_get comps parent of
             None \<Rightarrow> p | Some c \<Rightarrow> (insert_topic env v c (rn_id n) w, k + 1))))"

definition materialise_stack ::
  "seed_env \<Rightarrow> uuid \<Rightarrow> string \<Rightarrow> rubric_doc \<Rightarrow> seed_db \<Rightarrow> seed_db \<times> nat" where
  "materialise_stack env v name doc w =
     (let stack = new_id env w; w0 = insert_stack env v name w;
          ns = map snd (nodes_by_id (rd_nodes doc));
          (w1, blocks, k1) = fold (add_block env v stack) ns (w0, [], 1);
          (w2, comps, k2) = fold (add_competency env v blocks) ns (w1, [], k1)
      in fold (add_topic env v comps) ns (w2, k2))"

section \<open>Seeding\<close>

record seed_result =
  sr_noop :: bool
  sr_new_version :: "uuid option"
  sr_payload_hash :: string
  sr_rows_inserted :: nat

text \<open>\<open>ORDER BY created_at DESC LIMIT 1\<close>.\<close>

definition latest_version :: "rubric_db \<Rightarrow> version_row option" where
  "latest_version db = (case sort_key (\<lambda>r. - vn_created_at r) (rb_versions db) of
     [] \<Rightarrow> None | r # _ \<Rightarrow> Some r)"

definition prior_active :: "rubric_db \<Rightarrow> string list" where
  "prior_active db = (case latest_version db of
     None \<Rightarrow> []
   | Some r \<Rightarrow> map cr_name (filter (\<lambda>c. cr_version c = vn_id r) (rb_competencies db)))"

definition is_block_id :: "string \<Rightarrow> bool" where
  "is_block_id i \<longleftrightarrow> starts_with ''block.'' i"

definition new_ids :: "(string \<times> rubric_doc) list \<Rightarrow> string list" where
  "new_ids docs = filter (\<lambda>i. \<not> is_block_id i) (concat (map (\<lambda>(_, d). map rn_id (rd_nodes d)) docs))"

definition disappeared :: "rubric_db \<Rightarrow> (string \<times> rubric_doc) list \<Rightarrow> string list" where
  "disappeared db docs = filter (\<lambda>i. i \<notin> set (new_ids docs)) (prior_active db)"

definition insert_version :: "seed_env \<Rightarrow> string \<Rightarrow> seed_db \<Rightarrow> seed_db" where
  "insert_version env hash w = w\<lparr>sd_next := sd_next w + 1,
     sd_rubric := (sd_rubric w)\<lparr>rb_versions := rb_versions (sd_rubric w)
       @ [\<lparr>vn_id = new_id env w, vn_created_at = se_now env, vn_label = ''tree:'' @ take 8 hash,
          vn_is_active = True, vn_payload_hash = hash\<rparr>]\<rparr>\<rparr>"

definition materialise_all ::
  "seed_env \<Rightarrow> uuid \<Rightarrow> (string \<times> rubric_doc) list \<Rightarrow> seed_db \<times> nat \<Rightarrow> seed_db \<times> nat" where
  "materialise_all env v = fold (\<lambda>(stem, doc) (w, k).
     let (w', n) = materialise_stack env v stem doc w in (w', k + n))"

definition seed ::
  "importer \<Rightarrow> seed_env \<Rightarrow> yaml_dir \<Rightarrow> bool \<Rightarrow> seed_db \<Rightarrow> importer_error + seed_result \<times> seed_db" where
  "seed im env files dry_run w =
     and_then (load_yaml_dir im files) (\<lambda>docs.
       let hash = compute_payload_hash files
       in if (case latest_version (sd_rubric w) of None \<Rightarrow> False | Some r \<Rightarrow> vn_payload_hash r = hash)
          then Inr (\<lparr>sr_noop = True, sr_new_version = None, sr_payload_hash = hash,
                     sr_rows_inserted = 0\<rparr>, w)
          else if disappeared (sd_rubric w) docs \<noteq> []
          then Inl (RenameForbiddenError (disappeared (sd_rubric w) docs))
          else if dry_run
          then Inr (\<lparr>sr_noop = False, sr_new_version = None, sr_payload_hash = hash,
                     sr_rows_inserted = 0\<rparr>, w)
          else if hash \<in> vn_payload_hash ` set (rb_versions (sd_rubric w)) then Inl PayloadHashTaken
          else
            let v = new_id env w;
                (w1, k) = materialise_all env v docs (insert_version env hash w, 1)
            in Inr (\<lparr>sr_noop = False, sr_new_version = Some v, sr_payload_hash = hash,
                      sr_rows_inserted = k + 1\<rparr>,
                    w1\<lparr>sd_audit := sd_audit w1 @ [(''rubric.versioned'', hash)]\<rparr>))"

end
