(* ===== verification/Rubric_Seed_Props.thy ===== *)
theory Rubric_Seed_Props
  imports Rubric_Seed
begin

text \<open>
  What seeding does to the tables: it only appends rows of the new version, so every
  earlier version reads as before; and the competencies of the new version are those the
  files declare.
\<close>

section \<open>Rows are only appended\<close>

definition appended :: "('r \<Rightarrow> uuid) \<Rightarrow> uuid \<Rightarrow> 'r list \<Rightarrow> 'r list \<Rightarrow> bool" where
  "appended version v old now \<longleftrightarrow> (\<exists>rows. now = old @ rows \<and> list_all (\<lambda>r. version r = v) rows)"

lemma appended_refl [simp]: "appended f v xs xs"
  by (simp add: appended_def)

lemma appended_one [simp]: "f r = v \<Longrightarrow> appended f v xs (xs @ [r])"
  by (simp add: appended_def)

lemma appended_trans: "appended f v xs ys \<Longrightarrow> appended f v ys zs \<Longrightarrow> appended f v xs zs"
  by (auto simp: appended_def)

lemma appended_other: "appended f v xs ys \<Longrightarrow> u \<noteq> v \<Longrightarrow> filter (\<lambda>r. f r = u) ys = filter (\<lambda>r. f r = u) xs"
  by (auto simp: appended_def filter_empty_conv list_all_iff)

lemma appended_set: "appended f v xs ys \<Longrightarrow> r \<in> set ys \<Longrightarrow> r \<in> set xs \<or> f r = v"
  by (auto simp: appended_def list_all_iff)

lemma appended_known:
  "appended f v xs ys \<Longrightarrow> \<forall>r \<in> set xs. f r \<in> vs \<Longrightarrow> v \<in> vs \<Longrightarrow> r \<in> set ys \<Longrightarrow> f r \<in> vs"
  by (auto simp: appended_def list_all_iff)

definition grown :: "uuid \<Rightarrow> seed_db \<Rightarrow> seed_db \<Rightarrow> bool" where
  "grown v w w' \<longleftrightarrow> (let a = sd_rubric w; b = sd_rubric w' in
     rb_versions b = rb_versions a \<and> sd_audit w' = sd_audit w
     \<and> appended sk_version v (rb_stacks a) (rb_stacks b)
     \<and> appended bk_version v (rb_blocks a) (rb_blocks b)
     \<and> appended cr_version v (rb_competencies a) (rb_competencies b)
     \<and> appended tp_version v (rb_topics a) (rb_topics b)
     \<and> appended lv_version v (rb_levels a) (rb_levels b))"

lemma grown_refl [simp]: "grown v w w"
  by (simp add: grown_def Let_def)

lemma grown_trans: "grown v a b \<Longrightarrow> grown v b c \<Longrightarrow> grown v a c"
  by (auto simp: grown_def Let_def intro: appended_trans)

lemma grown_inserts [simp]:
  "grown v w (insert_stack env v name w)" "grown v w (insert_block env v s name w)"
  "grown v w (insert_competency env v b name w)" "grown v w (insert_level env v c l w)"
  "grown v w (insert_topic env v c name w)"
  by (simp_all add: grown_def insert_stack_def insert_block_def insert_competency_def
      insert_level_def insert_topic_def)

text \<open>A fold of steps that each grow the tables grows them.\<close>

lemma grown_fold:
  assumes "\<And>x s. grown v (f s) (f (step x s))"
  shows "grown v (f s) (f (fold step xs s))"
proof (induction xs arbitrary: s)
  case (Cons x xs)
  show ?case using grown_trans [OF assms Cons.IH] by simp
qed simp

lemma grown_levels: "grown v w (fold (insert_level env v c) ls w)"
  by (rule grown_fold [of v "\<lambda>w. w", simplified]) simp

lemma grown_add:
  "grown v (fst p) (fst (add_block env v s n p))"
  "grown v (fst p) (fst (add_competency env v blocks n p))"
  "grown v (fst q) (fst (add_topic env v comps n q))"
  by (auto simp: add_block_def add_competency_def add_topic_def split: prod.split option.split
      intro: grown_trans [OF grown_inserts(3) grown_levels])

lemma grown_stack: "grown v w (fst (materialise_stack env v name doc w))"
proof -
  let ?ns = "map snd (nodes_by_id (rd_nodes doc))"
  obtain w1 blocks k1 where p1: "fold (add_block env v (new_id env w)) ?ns
      (insert_stack env v name w, [], 1) = (w1, blocks, k1)" by (cases rule: prod_cases3)
  obtain w2 comps k2 where p2: "fold (add_competency env v blocks) ?ns (w1, [], k1) = (w2, comps, k2)"
    by (cases rule: prod_cases3)
  have "grown v (insert_stack env v name w) w1"
    using grown_fold [of v fst "add_block env v (new_id env w)" "(insert_stack env v name w, [], 1)" ?ns]
      grown_add(1) p1 by simp
  moreover have "grown v w1 w2"
    using grown_fold [of v fst "add_competency env v blocks" "(w1, [], k1)" ?ns] grown_add(2) p2 by simp
  moreover have "grown v w2 (fst (fold (add_topic env v comps) ?ns (w2, k2)))"
    using grown_fold [of v fst "add_topic env v comps" "(w2, k2)" ?ns] grown_add(3) by simp
  ultimately have "grown v w (fst (fold (add_topic env v comps) ?ns (w2, k2)))"
    using grown_trans grown_inserts(1) by metis
  then show ?thesis using p1 p2 by (simp add: materialise_stack_def Let_def)
qed

lemma grown_all: "grown v (fst p) (fst (materialise_all env v docs p))"
  unfolding materialise_all_def
proof (rule grown_fold)
  fix x s
  show "grown v (fst s) (fst ((case x of (stem, doc) \<Rightarrow> \<lambda>(w, k).
      let (w', n) = materialise_stack env v stem doc w in (w', k + n)) s))"
    using grown_stack [of v "fst s" env "fst x" "snd x"]
    by (cases x; cases s) (simp add: Let_def case_prod_unfold)
qed

section \<open>Earlier versions\<close>

text \<open>A snapshot depends only on its own version's rows.\<close>

lemma snapshot_cong:
  assumes "find (\<lambda>r. vn_id r = u) (rb_versions b) = find (\<lambda>r. vn_id r = u) (rb_versions a)"
    and f: "filter (\<lambda>r. sk_version r = u) (rb_stacks b) = filter (\<lambda>r. sk_version r = u) (rb_stacks a)"
    "filter (\<lambda>r. bk_version r = u) (rb_blocks b) = filter (\<lambda>r. bk_version r = u) (rb_blocks a)"
    "filter (\<lambda>r. cr_version r = u) (rb_competencies b) = filter (\<lambda>r. cr_version r = u) (rb_competencies a)"
    "filter (\<lambda>r. tp_version r = u) (rb_topics b) = filter (\<lambda>r. tp_version r = u) (rb_topics a)"
    "filter (\<lambda>r. lv_version r = u) (rb_levels b) = filter (\<lambda>r. lv_version r = u) (rb_levels a)"
  shows "snapshot_rubric coll b u = snapshot_rubric coll a u"
proof -
  have rows: "stack_rows coll b u = stack_rows coll a u" "block_rows coll b u = block_rows coll a u"
    "competency_rows coll b u = competency_rows coll a u" "topic_rows coll b u = topic_rows coll a u"
    "level_rows b u = level_rows a u"
    by (simp_all only: stack_rows_def block_rows_def competency_rows_def topic_rows_def level_rows_def f)
  have "snapshot_stack_of coll b u = snapshot_stack_of coll a u"
    by (simp add: fun_eq_iff snapshot_stack_of_def snapshot_block_of_def snapshot_competency_of_def rows)
  then show ?thesis unfolding snapshot_rubric_def assms(1) rows(1) by (simp only:)
qed

lemma snapshot_grown:
  assumes "grown v w w'" and "u \<noteq> v"
  shows "snapshot_rubric coll (sd_rubric w') u = snapshot_rubric coll (sd_rubric w) u"
proof (rule snapshot_cong)
  note g = assms(1) [unfolded grown_def Let_def]
  show "find (\<lambda>r. vn_id r = u) (rb_versions (sd_rubric w')) = find (\<lambda>r. vn_id r = u) (rb_versions (sd_rubric w))"
    by (simp add: g)
qed (use assms(1) in \<open>unfold grown_def Let_def, blast intro: appended_other [OF _ assms(2)]\<close>)+

lemma find_snoc_other: "\<not> P x \<Longrightarrow> find P (xs @ [x]) = find P xs"
  by (induction xs) auto

lemma snapshot_new_version:
  assumes "u \<noteq> new_id env w"
  shows "snapshot_rubric coll (sd_rubric (insert_version env hash w)) u
    = snapshot_rubric coll (sd_rubric w) u"
  by (rule snapshot_cong) (use assms in \<open>simp_all add: insert_version_def find_snoc_other\<close>)

section \<open>The competencies of the new version\<close>

definition version_names :: "uuid \<Rightarrow> seed_db \<Rightarrow> string list" where
  "version_names v w = map cr_name (filter (\<lambda>c. cr_version c = v) (rb_competencies (sd_rubric w)))"

text \<open>The nodes of a document whose parent is one of its top-level nodes.\<close>

definition declared_competencies :: "rubric_doc \<Rightarrow> string list" where
  "declared_competencies doc =
     (let ns = map snd (nodes_by_id (rd_nodes doc));
          tops = map rn_id (filter (\<lambda>n. rn_parent n = None) ns)
      in map rn_id (filter (\<lambda>n. \<exists>p \<in> set tops. rn_parent n = Some p) ns))"

lemma names_inserts [simp]:
  "version_names v (insert_stack env u name w) = version_names v w"
  "version_names v (insert_block env u s name w) = version_names v w"
  "version_names v (insert_level env u c l w) = version_names v w"
  "version_names v (insert_topic env u c name w) = version_names v w"
  "version_names v (insert_competency env v b name w) = version_names v w @ [name]"
  by (simp_all add: version_names_def insert_stack_def insert_block_def insert_level_def
      insert_topic_def insert_competency_def)

lemma names_levels [simp]: "version_names v (fold (insert_level env u c) ls w) = version_names v w"
  by (induction ls arbitrary: w) simp_all

lemma names_blocks:
  assumes "fold (add_block env v s) ns (w, ids, k) = (w', ids', k')"
  shows "version_names v w' = version_names v w
    \<and> dict_keys ids' = dict_keys ids \<union> rn_id ` set (filter (\<lambda>n. rn_parent n = None) ns)"
  using assms
proof (induction ns arbitrary: w ids k)
  case (Cons n ns)
  show ?case
  proof (cases "rn_parent n = None")
    case True
    then have "fold (add_block env v s) ns (insert_block env v s (rn_id n) w,
      dict_set ids (rn_id n) (new_id env w), k + 1) = (w', ids', k')"
      using Cons.prems by (simp add: add_block_def [of env v s n])
    from Cons.IH [OF this] True show ?thesis by (simp add: py_dict.keys_put)
  next
    case False
    then have "fold (add_block env v s) ns (w, ids, k) = (w', ids', k')"
      using Cons.prems by (simp add: add_block_def [of env v s n] del: not_None_eq)
    from Cons.IH [OF this] False show ?thesis by (simp del: not_None_eq)
  qed
qed simp

lemma names_competencies:
  assumes "fold (add_competency env v blocks) ns (w, ids, k) = (w', ids', k')"
  shows "version_names v w' = version_names v w
    @ map rn_id (filter (\<lambda>n. \<exists>p \<in> dict_keys blocks. rn_parent n = Some p) ns)"
  using assms
proof (induction ns arbitrary: w ids k)
  case (Cons n ns)
  show ?case
  proof (cases "\<exists>p b. rn_parent n = Some p \<and> dict_get blocks p = Some b")
    case True
    then obtain p b where n: "rn_parent n = Some p" "dict_get blocks p = Some b" by blast
    then have "p \<in> dict_keys blocks" by (simp add: py_dict.mem_keys)
    moreover have "fold (add_competency env v blocks) ns
      (fold (insert_level env v (new_id env w)) (rn_levels n) (insert_competency env v b (rn_id n) w),
       dict_set ids (rn_id n) (new_id env w), k + 1 + length (rn_levels n)) = (w', ids', k')"
      using Cons.prems n by (simp add: add_competency_def [of env v blocks n])
    from Cons.IH [OF this] have "version_names v w' = version_names v w @ [rn_id n]
      @ map rn_id (filter (\<lambda>n. \<exists>p \<in> dict_keys blocks. rn_parent n = Some p) ns)" by simp
    ultimately show ?thesis using n by simp
  next
    case False
    then have "\<not> (\<exists>p \<in> dict_keys blocks. rn_parent n = Some p)" by (auto simp: py_dict.mem_keys)
    moreover have "add_competency env v blocks n (w, ids, k) = (w, ids, k)"
      using False by (auto simp: add_competency_def split: option.splits)
    ultimately show ?thesis using Cons by simp
  qed
qed simp

lemma names_topics:
  "version_names v (fst (fold (add_topic env u comps) ns (w, k))) = version_names v w"
proof (induction ns arbitrary: w k)
  case (Cons n ns)
  obtain w1 k1 where "add_topic env u comps n (w, k) = (w1, k1)" "version_names v w1 = version_names v w"
    by (cases "add_topic env u comps n (w, k)") (auto simp: add_topic_def split: option.splits)
  with Cons show ?case by simp
qed simp

lemma names_stack:
  "version_names v (fst (materialise_stack env v name doc w))
    = version_names v w @ declared_competencies doc"
proof -
  let ?ns = "map snd (nodes_by_id (rd_nodes doc))"
  obtain w1 blocks k1 where p1: "fold (add_block env v (new_id env w)) ?ns
      (insert_stack env v name w, [], 1) = (w1, blocks, k1)" by (cases rule: prod_cases3)
  obtain w2 comps k2 where p2: "fold (add_competency env v blocks) ?ns (w1, [], k1) = (w2, comps, k2)"
    by (cases rule: prod_cases3)
  have "dict_keys blocks = set (map rn_id (filter (\<lambda>n. rn_parent n = None) ?ns))"
    using names_blocks [OF p1] by simp
  with names_blocks [OF p1] names_competencies [OF p2] names_topics [of v env v comps ?ns w2 k2] p1 p2
  show ?thesis by (simp add: materialise_stack_def Let_def declared_competencies_def)
qed

lemma names_all:
  "version_names v (fst (materialise_all env v docs (w, k)))
    = version_names v w @ concat (map (\<lambda>(_, d). declared_competencies d) docs)"
proof (induction docs arbitrary: w k)
  case (Cons d docs)
  obtain stem doc where d: "d = (stem, doc)" by (cases d)
  obtain w1 n where m: "materialise_stack env v stem doc w = (w1, n)" by fastforce
  have "materialise_all env v (d # docs) (w, k) = materialise_all env v docs (w1, k + n)"
    by (simp add: materialise_all_def d m)
  with Cons names_stack [of v env stem doc w] m d show ?case by simp
qed (simp add: materialise_all_def)

section \<open>Foreign keys\<close>

text \<open>Every row belongs to a version that exists, as the references of the tables demand.\<close>

definition versions_known :: "rubric_db \<Rightarrow> bool" where
  "versions_known db \<longleftrightarrow> (let vs = vn_id ` set (rb_versions db) in
     (\<forall>r \<in> set (rb_stacks db). sk_version r \<in> vs) \<and> (\<forall>r \<in> set (rb_blocks db). bk_version r \<in> vs)
     \<and> (\<forall>r \<in> set (rb_competencies db). cr_version r \<in> vs)
     \<and> (\<forall>r \<in> set (rb_topics db). tp_version r \<in> vs) \<and> (\<forall>r \<in> set (rb_levels db). lv_version r \<in> vs))"

lemma versions_known_grown:
  assumes "versions_known (sd_rubric w)" and "grown v w w'" and "v \<in> vn_id ` set (rb_versions (sd_rubric w))"
  shows "versions_known (sd_rubric w')"
proof -
  note g = assms(2) [unfolded grown_def Let_def]
  have v: "vn_id ` set (rb_versions (sd_rubric w')) = vn_id ` set (rb_versions (sd_rubric w))"
    using g by simp
  show ?thesis
    using assms(1, 3) g unfolding versions_known_def Let_def v
    by (blast intro: appended_known)
qed

lemma latest_after:
  assumes "\<forall>r \<in> set (rb_versions db). vn_created_at r < vn_created_at n"
  shows "latest_version (db\<lparr>rb_versions := rb_versions db @ [n]\<rparr>) = Some n"
proof -
  let ?f = "\<lambda>r. - vn_created_at r"
  have "foldr (insort_key ?f) xs [n] = n # foldr (insort_key ?f) xs []"
    if "\<forall>r \<in> set xs. vn_created_at r < vn_created_at n" for xs
    using that by (induction xs) auto
  with assms show ?thesis by (simp add: latest_version_def sort_key_def)
qed

section \<open>A seed\<close>

text \<open>A seed that creates a version, in its parts.\<close>

definition seeded :: "seed_env \<Rightarrow> yaml_dir \<Rightarrow> (string \<times> rubric_doc) list \<Rightarrow> seed_db \<Rightarrow> seed_db \<Rightarrow> bool" where
  "seeded env files docs w w' \<longleftrightarrow>
     (let w0 = insert_version env (compute_payload_hash files) w;
          w1 = fst (materialise_all env (new_id env w) docs (w0, 1))
      in w' = w1\<lparr>sd_audit := sd_audit w1 @ [(''rubric.versioned'', compute_payload_hash files)]\<rparr>)"

lemma seed_cases:
  assumes "seed im env files dry_run w = Inr (r, w')"
  obtains (same) "w' = w" "sr_new_version r = None"
  | (created) docs where "load_yaml_dir im files = Inr docs" "dry_run = False"
      "disappeared (sd_rubric w) docs = []" "sr_noop r = False" "sr_new_version r = Some (new_id env w)"
      "seeded env files docs w w'"
      "compute_payload_hash files \<notin> vn_payload_hash ` set (rb_versions (sd_rubric w))"
proof (cases "load_yaml_dir im files")
  case (Inr docs)
  let ?C1 = "case latest_version (sd_rubric w) of None \<Rightarrow> False
    | Some r \<Rightarrow> vn_payload_hash r = compute_payload_hash files"
  let ?C2 = "disappeared (sd_rubric w) docs \<noteq> []"
  let ?C3 = "compute_payload_hash files \<in> vn_payload_hash ` set (rb_versions (sd_rubric w))"
  note e = assms [unfolded seed_def Inr and_then_def sum.case Let_def case_prod_unfold]
  consider (a) "?C1 \<or> \<not> ?C1 \<and> \<not> ?C2 \<and> dry_run" | (b) "\<not> ?C1" "?C2"
    | (d) "\<not> ?C1" "\<not> ?C2" "\<not> dry_run" "?C3" | (c) "\<not> ?C1" "\<not> ?C2" "\<not> dry_run" "\<not> ?C3" by blast
  then show thesis
  proof cases
    case a
    with e show thesis by (intro same) auto
  next
    case b
    with e show thesis by (simp only: if_True if_False sum.distinct simp_thms)
  next
    case d
    with e show thesis by (simp only: if_True if_False sum.distinct simp_thms)
  next
    case c
    with e show thesis
      by (intro created [OF Inr]) (auto simp only: if_True if_False sum.inject prod.inject seeded_def
          Let_def seed_result.simps simp_thms)
  qed
qed (use assms in \<open>simp add: seed_def and_then_def\<close>)

lemma insert_version_simps [simp]:
  "rb_versions (sd_rubric (insert_version env h w)) = rb_versions (sd_rubric w)
     @ [\<lparr>vn_id = new_id env w, vn_created_at = se_now env, vn_label = ''tree:'' @ take 8 h,
         vn_is_active = True, vn_payload_hash = h\<rparr>]"
  "sd_audit (insert_version env h w) = sd_audit w"
  "rb_stacks (sd_rubric (insert_version env h w)) = rb_stacks (sd_rubric w)"
  "rb_blocks (sd_rubric (insert_version env h w)) = rb_blocks (sd_rubric w)"
  "rb_competencies (sd_rubric (insert_version env h w)) = rb_competencies (sd_rubric w)"
  "rb_topics (sd_rubric (insert_version env h w)) = rb_topics (sd_rubric w)"
  "rb_levels (sd_rubric (insert_version env h w)) = rb_levels (sd_rubric w)"
  by (simp_all add: insert_version_def)

lemma seeded_parts:
  assumes "seeded env files docs w w'"
  defines "w0 \<equiv> insert_version env (compute_payload_hash files) w"
  shows "grown (new_id env w) w0 (w'\<lparr>sd_audit := sd_audit w\<rparr>)"
    and "rb_versions (sd_rubric w') = rb_versions (sd_rubric w0)"
    and "sd_audit w' = sd_audit w @ [(''rubric.versioned'', compute_payload_hash files)]"
    and "version_names (new_id env w) w' = version_names (new_id env w) w
      @ concat (map (\<lambda>(_, d). declared_competencies d) docs)"
proof -
  obtain w1 k where w1: "materialise_all env (new_id env w) docs (w0, 1) = (w1, k)" by fastforce
  have g: "grown (new_id env w) w0 w1" using grown_all [of "new_id env w" "(w0, 1)" env docs] w1 by simp
  have w': "w' = w1\<lparr>sd_audit := sd_audit w1 @ [(''rubric.versioned'', compute_payload_hash files)]\<rparr>"
    using assms(1) w1 by (simp add: seeded_def w0_def Let_def)
  have a: "sd_audit w1 = sd_audit w" using g by (simp add: grown_def Let_def w0_def)
  show "grown (new_id env w) w0 (w'\<lparr>sd_audit := sd_audit w\<rparr>)"
    using g by (simp add: w' grown_def Let_def w0_def)
  show "rb_versions (sd_rubric w') = rb_versions (sd_rubric w0)"
    using g by (simp add: w' grown_def Let_def)
  show "sd_audit w' = sd_audit w @ [(''rubric.versioned'', compute_payload_hash files)]"
    by (simp add: w' a)
  show "version_names (new_id env w) w' = version_names (new_id env w) w
      @ concat (map (\<lambda>(_, d). declared_competencies d) docs)"
    using names_all [of "new_id env w" env docs w0 1] w1
    by (simp add: w' version_names_def w0_def)
qed

lemma seeded_history:
  assumes "seeded env files docs w w'" and "u \<noteq> new_id env w"
  shows "snapshot_rubric coll (sd_rubric w') u = snapshot_rubric coll (sd_rubric w) u"
  using snapshot_grown [OF seeded_parts(1) [OF assms(1)] assms(2), of coll]
    snapshot_new_version [OF assms(2), of coll "compute_payload_hash files"] by simp

lemma seeded_known:
  assumes "seeded env files docs w w'" and "versions_known (sd_rubric w)"
  shows "versions_known (sd_rubric w')"
proof -
  let ?w0 = "insert_version env (compute_payload_hash files) w"
  have "versions_known (sd_rubric ?w0)" using assms(2) by (auto simp: versions_known_def Let_def)
  from versions_known_grown [OF this seeded_parts(1) [OF assms(1)]] show ?thesis by simp
qed

lemma seeded_latest:
  assumes "seeded env files docs w w'"
    and "\<forall>n \<in> set (rb_versions (sd_rubric w)). vn_created_at n < se_now env"
  shows "latest_version (sd_rubric w') = Some \<lparr>vn_id = new_id env w, vn_created_at = se_now env,
    vn_label = ''tree:'' @ take 8 (compute_payload_hash files), vn_is_active = True,
    vn_payload_hash = compute_payload_hash files\<rparr>" (is "_ = Some ?n")
proof -
  have "latest_version (sd_rubric w') = latest_version ((sd_rubric w)\<lparr>rb_versions := rb_versions (sd_rubric w) @ [?n]\<rparr>)"
    using seeded_parts(2) [OF assms(1)] by (simp add: latest_version_def)
  also have "\<dots> = Some ?n" by (rule latest_after) (use assms(2) in simp)
  finally show ?thesis .
qed

lemma unknown_version_has_no_names:
  assumes "versions_known (sd_rubric w)" and "v \<notin> vn_id ` set (rb_versions (sd_rubric w))"
  shows "version_names v w = []"
  using assms by (auto simp: versions_known_def Let_def version_names_def filter_empty_conv)

lemma load_yaml_dir_single:
  "load_yaml_dir im [(stem, c)] = and_then (load_yaml im c) (\<lambda>d. Inr [(stem, d)])"
  by (simp add: and_then_def split: sum.split)

section \<open>A concrete run\<close>

lemma hash_is_hexadecimal: "CHR ''v'' \<notin> set (compute_payload_hash files)"
proof -
  have "list_all (\<lambda>d. hex_nibble d \<noteq> CHR ''v'') [0..<16]" by code_simp
  then have d: "hex_nibble d \<noteq> CHR ''v''" if "d < 16" for d
    using that by (simp add: list_all_iff)
  have "unat b < 256" for b :: "8 word"
    by (rule order_less_le_trans [OF unsigned_less]) simp
  then have "unat b div 16 < 16" "unat b mod 16 < 16" for b :: "8 word"
    by (simp_all add: div_less_iff_less_mult)
  then have n: "hex_nibble (unat b div 16) \<noteq> CHR ''v''" "hex_nibble (unat b mod 16) \<noteq> CHR ''v''"
    for b :: "8 word" by (simp_all add: d)
  have "CHR ''v'' \<notin> set (hexdigest bs)" for bs
    by (simp add: hexdigest_def n [THEN not_sym])
  then show ?thesis unfolding compute_payload_hash_def sha256_hex_def .
qed

definition demo_yaml :: json where
  "demo_yaml = JObj [(''nodes'', JArr [
     JObj [(''id'', JStr ''block.core''), (''parent'', JNull)],
     JObj [(''id'', JStr ''linq''), (''parent'', JStr ''block.core''),
       (''levels'', JArr [JObj [(''level'', JInt 1), (''descriptor_en'', JStr ''basics'')]])],
     JObj [(''id'', JStr ''joins''), (''parent'', JStr ''linq'')]])]"

definition demo_importer :: importer where
  "demo_importer = \<lparr>im_valid = \<lambda>_. True, im_yaml = \<lambda>c. if c = ''v2'' then Some demo_yaml else None\<rparr>"

definition demo_env :: seed_env where
  "demo_env = \<lparr>se_fresh = of_nat, se_now = 9\<rparr>"

definition demo_seed_db :: seed_db where
  "demo_seed_db = \<lparr>sd_rubric = \<lparr>rb_versions = [\<lparr>vn_id = 1, vn_created_at = 2, vn_label = ''v1'',
       vn_is_active = True, vn_payload_hash = ''v1''\<rparr>],
     rb_stacks = [\<lparr>sk_id = 2, sk_version = 1, sk_name = ''dotnet''\<rparr>],
     rb_blocks = [\<lparr>bk_id = 3, bk_version = 1, bk_stack = 2, bk_name = ''block.core'', bk_position = 0\<rparr>],
     rb_competencies = [\<lparr>cr_id = 4, cr_version = 1, cr_block = 3, cr_name = ''linq''\<rparr>],
     rb_topics = [], rb_levels = []\<rparr>, sd_audit = [], sd_next = 5\<rparr>"

abbreviation demo_files :: yaml_dir where
  "demo_files \<equiv> [(''dotnet'', ''v2'')]"

definition demo_doc :: rubric_doc where
  "demo_doc = \<lparr>rd_retired = False, rd_nodes = [
     \<lparr>rn_id = ''block.core'', rn_parent = None, rn_retired = False, rn_levels = []\<rparr>,
     \<lparr>rn_id = ''linq'', rn_parent = Some ''block.core'', rn_retired = False,
       rn_levels = [\<lparr>rl_level = 1, rl_descriptor = ''basics''\<rparr>]\<rparr>,
     \<lparr>rn_id = ''joins'', rn_parent = Some ''linq'', rn_retired = False, rn_levels = []\<rparr>]\<rparr>"

lemma demo_loads: "load_yaml_dir demo_importer demo_files = Inr [(''dotnet'', demo_doc)]"
  by (simp add: and_then_def load_yaml_def demo_importer_def demo_yaml_def demo_doc_def read_doc_def
      read_node_def read_level_def array_field_def truthy_field_def as_object_def req_def
      with_default_def dict_get_def nullable_def truthy_def)

lemma demo_seeded:
  "\<exists>r w'. seed demo_importer demo_env demo_files False demo_seed_db = Inr (r, w')
     \<and> sr_new_version r = Some (of_nat 5)"
proof -
  have "latest_version (sd_rubric demo_seed_db) = Some (rb_versions (sd_rubric demo_seed_db) ! 0)"
    and "disappeared (sd_rubric demo_seed_db) [(''dotnet'', demo_doc)] = []"
    by (simp_all add: latest_version_def demo_seed_db_def disappeared_def new_ids_def demo_doc_def
        prior_active_def is_block_id_def starts_with_def)
  moreover have "compute_payload_hash demo_files \<noteq> ''v1''"
    using hash_is_hexadecimal [of demo_files] by auto
  ultimately show ?thesis
    unfolding seed_def demo_loads and_then_def sum.case
    by (simp add: Let_def case_prod_unfold demo_seed_db_def new_id_def demo_env_def)
qed

lemma demo_known:
  "versions_known (sd_rubric demo_seed_db)"
  "of_nat 5 \<notin> vn_id ` set (rb_versions (sd_rubric demo_seed_db))"
  "new_id demo_env demo_seed_db = of_nat 5"
  "\<forall>n \<in> set (rb_versions (sd_rubric demo_seed_db)). vn_created_at n < se_now demo_env"
  by (simp_all add: versions_known_def demo_seed_db_def new_id_def demo_env_def Let_def)

section \<open>Properties\<close>

text \<open>
  C19: seeding never touches a version that is already in the tables. Whatever the files
  hold, after \<open>RubricImporter.seed\<close> returns, the snapshot of every earlier version is the
  one it had, rows still belong to existing versions, no two versions share a payload hash, a
  no-op or dry run changes nothing, and a seed that creates a version adds exactly one
  \<open>rubric.versioned\<close> audit row.
\<close>

theorem seed_keeps_history:
  assumes "seed im env files dry_run w = Inr (r, w')" and "versions_known (sd_rubric w)"
    and "new_id env w \<notin> vn_id ` set (rb_versions (sd_rubric w))"
  shows "versions_known (sd_rubric w')
    \<and> (\<forall>u \<in> vn_id ` set (rb_versions (sd_rubric w)).
        snapshot_rubric coll (sd_rubric w') u = snapshot_rubric coll (sd_rubric w) u)
    \<and> (sr_new_version r = None \<longrightarrow> w' = w) \<and> (dry_run \<longrightarrow> w' = w)
    \<and> (distinct (map vn_payload_hash (rb_versions (sd_rubric w)))
        \<longrightarrow> distinct (map vn_payload_hash (rb_versions (sd_rubric w'))))
    \<and> (\<forall>v. sr_new_version r = Some v \<longrightarrow> v = new_id env w
        \<and> sd_audit w' = sd_audit w @ [(''rubric.versioned'', compute_payload_hash files)])"
  using assms(1)
proof (cases rule: seed_cases)
  case same
  then show ?thesis using assms(2) by simp
next
  case (created docs)
  have "snapshot_rubric coll (sd_rubric w') u = snapshot_rubric coll (sd_rubric w) u"
    if "u \<in> vn_id ` set (rb_versions (sd_rubric w))" for u
    using seeded_history [OF created(6)] that assms(3) by metis
  then show ?thesis
    using created seeded_known [OF created(6) assms(2)] seeded_parts(2,3) [OF created(6)] by auto
qed

theorem seed_keeps_history_witness:
  "\<exists>r w'. seed demo_importer demo_env demo_files False demo_seed_db = Inr (r, w')
    \<and> snapshot_rubric (\<lambda>_. 0) (sd_rubric w') 1 = snapshot_rubric (\<lambda>_. 0) (sd_rubric demo_seed_db) 1
    \<and> length (sd_audit w') = 1"
proof -
  obtain r w' where s: "seed demo_importer demo_env demo_files False demo_seed_db = Inr (r, w')"
    and v: "sr_new_version r = Some (of_nat 5)" using demo_seeded by blast
  show ?thesis
    using seed_keeps_history [OF s demo_known(1) demo_known(2) [folded demo_known(3)], of "\<lambda>_. 0"] s v
    by (auto simp: demo_seed_db_def)
qed

text \<open>
  The version a seed creates holds, as its competencies, exactly the nodes of the files
  whose parent is a top-level node, file by file; and no competency of the version before it
  is missing from the files, whichever way the seed is run.
\<close>

theorem seeded_competencies:
  assumes "seed im env files dry_run w = Inr (r, w')" and "sr_new_version r = Some v"
    and "versions_known (sd_rubric w)" and "v \<notin> vn_id ` set (rb_versions (sd_rubric w))"
  shows "\<exists>docs. load_yaml_dir im files = Inr docs
    \<and> map cr_name (filter (\<lambda>c. cr_version c = v) (rb_competencies (sd_rubric w')))
        = concat (map (\<lambda>(_, d). declared_competencies d) docs)
    \<and> set (prior_active (sd_rubric w)) \<subseteq> set (new_ids docs)"
  using assms(1)
proof (cases rule: seed_cases)
  case (created docs)
  have v: "v = new_id env w" using created assms(2) by simp
  have "version_names v w' = concat (map (\<lambda>(_, d). declared_competencies d) docs)"
    using seeded_parts(4) [OF created(6)] unknown_version_has_no_names [OF assms(3, 4)] v by simp
  then show ?thesis
    using created by (auto simp: version_names_def disappeared_def filter_empty_conv)
qed (use assms in simp)

theorem seeded_competencies_witness:
  "\<exists>r w'. seed demo_importer demo_env demo_files False demo_seed_db = Inr (r, w')
    \<and> map cr_name (filter (\<lambda>c. cr_version c = of_nat 5) (rb_competencies (sd_rubric w'))) = [''linq'']"
proof -
  obtain r w' where s: "seed demo_importer demo_env demo_files False demo_seed_db = Inr (r, w')"
    and v: "sr_new_version r = Some (of_nat 5)" using demo_seeded by blast
  have "declared_competencies demo_doc = [''linq'']"
    by code_simp
  then show ?thesis
    using seeded_competencies [OF s v demo_known(1, 2), unfolded demo_loads] s by auto
qed

text \<open>
  Seeding twice is seeding once. When a seed has created a version and the clock has
  moved past every version before it, seeding the same files again reports a no-op and
  changes nothing, whatever clock and ids it is given.
\<close>

theorem reseeding_is_a_noop:
  assumes "seed im env files dry_run w = Inr (r, w')" and "sr_new_version r = Some v"
    and "\<forall>n \<in> set (rb_versions (sd_rubric w)). vn_created_at n < se_now env"
  shows "seed im env' files dry_run' w' = Inr (\<lparr>sr_noop = True, sr_new_version = None,
    sr_payload_hash = compute_payload_hash files, sr_rows_inserted = 0\<rparr>, w')"
  using assms(1)
proof (cases rule: seed_cases)
  case (created docs)
  show ?thesis
    using created(1) seeded_latest [OF created(6) assms(3)] by (simp add: seed_def and_then_def Let_def)
qed (use assms in simp)

theorem reseeding_is_a_noop_witness:
  "\<exists>r w'. seed demo_importer demo_env demo_files False demo_seed_db = Inr (r, w')
    \<and> seed demo_importer demo_env demo_files False w' = Inr (\<lparr>sr_noop = True, sr_new_version = None,
        sr_payload_hash = compute_payload_hash demo_files, sr_rows_inserted = 0\<rparr>, w')"
proof -
  obtain r w' where s: "seed demo_importer demo_env demo_files False demo_seed_db = Inr (r, w')"
    and v: "sr_new_version r = Some (of_nat 5)" using demo_seeded by blast
  show ?thesis using reseeding_is_a_noop [OF s v demo_known(4)] s by auto
qed

end
