(* ===== verification/Rubric_Gate.thy ===== *)
theory Rubric_Gate
  imports Rubric_Seed_Props "HOL-Library.List_Lexorder" "HOL-Library.Char_ord"
begin

text \<open>
  \<open>scripts/sync_rubric_to_db.py\<close>: the policy gate over two states of the rubric files,
  its exit codes, and the sync command around the importer. The gate reads documents of the
  schema's shape, by file name in sorted order. A text searched for a citation is a list of
  code points; which of them are word characters and digits is an argument (the standard
  library's Unicode tables).
\<close>

section \<open>The index of nodes\<close>

record gate_node =
  gn_retired :: bool
  gn_levels :: "(int, string) dict"

type_synonym gate_docs = "(string \<times> rubric_doc) list"

definition gate_levels :: "rubric_level list \<Rightarrow> (int, string) dict" where
  "gate_levels ls = fold (\<lambda>l d. dict_set d (rl_level l) (rl_descriptor l)) ls []"

definition index_doc :: "rubric_doc \<Rightarrow> (string, gate_node) dict \<Rightarrow> (string, gate_node) dict" where
  "index_doc doc = fold (\<lambda>n d. dict_set d (rn_id n)
     \<lparr>gn_retired = rd_retired doc \<or> rn_retired n, gn_levels = gate_levels (rn_levels n)\<rparr>) (rd_nodes doc)"

definition index_nodes :: "gate_docs \<Rightarrow> (string, gate_node) dict" where
  "index_nodes docs = fold (\<lambda>(_, doc). index_doc doc) docs []"

section \<open>Classifying the differences\<close>

datatype severity = FORBIDDEN | DESTRUCTIVE

datatype finding_kind =
  NODE_REMOVED | NODE_RETIRED | NODE_UNRETIRED | LEVEL_REMOVED | LEVEL_RETYPED

record gate_finding =
  gf_severity :: severity
  gf_kind :: finding_kind
  gf_node :: string
  gf_rank :: "int option"

definition level_finding :: "string \<Rightarrow> gate_node \<Rightarrow> int \<times> string \<Rightarrow> gate_finding list" where
  "level_finding i new p = (case p of (rank, old_desc) \<Rightarrow>
     (case dict_get (gn_levels new) rank of
        None \<Rightarrow> [\<lparr>gf_severity = DESTRUCTIVE, gf_kind = LEVEL_REMOVED, gf_node = i, gf_rank = Some rank\<rparr>]
      | Some new_desc \<Rightarrow>
          if new_desc \<noteq> old_desc
          then [\<lparr>gf_severity = DESTRUCTIVE, gf_kind = LEVEL_RETYPED, gf_node = i, gf_rank = Some rank\<rparr>]
          else []))"

definition retired_finding :: "string \<Rightarrow> gate_node \<Rightarrow> gate_node \<Rightarrow> gate_finding list" where
  "retired_finding i old new =
     (if \<not> gn_retired old \<and> gn_retired new
      then [\<lparr>gf_severity = DESTRUCTIVE, gf_kind = NODE_RETIRED, gf_node = i, gf_rank = None\<rparr>]
      else if gn_retired old \<and> \<not> gn_retired new
      then [\<lparr>gf_severity = DESTRUCTIVE, gf_kind = NODE_UNRETIRED, gf_node = i, gf_rank = None\<rparr>]
      else [])"

definition node_findings :: "(string, gate_node) dict \<Rightarrow> string \<times> gate_node \<Rightarrow> gate_finding list" where
  "node_findings new p = (case p of (i, old) \<Rightarrow>
     (case dict_get new i of
        None \<Rightarrow> [\<lparr>gf_severity = FORBIDDEN, gf_kind = NODE_REMOVED, gf_node = i, gf_rank = None\<rparr>]
      | Some nn \<Rightarrow> retired_finding i old nn
          @ (if gn_retired old \<or> gn_retired nn then []
             else concat (map (level_finding i nn) (sort_key fst (gn_levels old))))))"

definition detect_destructive_changes :: "gate_docs \<Rightarrow> gate_docs \<Rightarrow> gate_finding list" where
  "detect_destructive_changes baseline current =
     concat (map (node_findings (index_nodes current)) (sort_key fst (index_nodes baseline)))"

section \<open>Citations and exit codes\<close>

record char_table =
  ct_word :: "nat \<Rightarrow> bool"
  ct_digit :: "nat \<Rightarrow> bool"

text \<open>\<open>\bADR-\d{3}\b\<close>, matched at the head of the text; \<open>word\<close> tells whether the code point before is a word character.\<close>

definition citation_here :: "char_table \<Rightarrow> bool \<Rightarrow> nat list \<Rightarrow> bool" where
  "citation_here ct word cs \<longleftrightarrow>
     (case cs of
        a # d # r # h # x # y # z # rest \<Rightarrow>
          a = 65 \<and> d = 68 \<and> r = 82 \<and> h = 45 \<and> ct_digit ct x \<and> ct_digit ct y \<and> ct_digit ct z
          \<and> word \<noteq> ct_word ct a
          \<and> ct_word ct z \<noteq> (case rest of [] \<Rightarrow> False | c # _ \<Rightarrow> ct_word ct c)
      | _ \<Rightarrow> False)"

fun citation_from :: "char_table \<Rightarrow> bool \<Rightarrow> nat list \<Rightarrow> bool" where
  "citation_from ct word [] = False"
| "citation_from ct word (c # cs) = (citation_here ct word (c # cs) \<or> citation_from ct (ct_word ct c) cs)"

definition has_adr_citation :: "char_table \<Rightarrow> nat list \<Rightarrow> bool" where
  "has_adr_citation ct = citation_from ct False"

text \<open>A directory that is missing is \<open>None\<close>, and so is a context file that is not given or not there.\<close>

definition cmd_check ::
  "char_table \<Rightarrow> gate_docs option \<Rightarrow> gate_docs option \<Rightarrow> nat list option \<Rightarrow> nat" where
  "cmd_check ct baseline_dir rubric_dir adr_context =
     (case baseline_dir of None \<Rightarrow> 2 | Some baseline \<Rightarrow>
     (case rubric_dir of None \<Rightarrow> 2 | Some current \<Rightarrow>
       let findings = detect_destructive_changes baseline current;
           forbidden = filter (\<lambda>f. gf_severity f = FORBIDDEN) findings;
           destructive = filter (\<lambda>f. gf_severity f = DESTRUCTIVE) findings
       in if forbidden \<noteq> [] then 2
          else if destructive = [] then 0
          else if has_adr_citation ct (case adr_context of None \<Rightarrow> [] | Some t \<Rightarrow> t) then 0
          else 1))"

definition run_sync ::
  "bool \<Rightarrow> importer \<Rightarrow> seed_env \<Rightarrow> yaml_dir \<Rightarrow> bool \<Rightarrow> seed_db \<Rightarrow> nat \<times> seed_db" where
  "run_sync up im env files dry_run w =
     (if \<not> up then (1, w)
      else (case seed im env files dry_run w of Inl _ \<Rightarrow> (1, w) | Inr (_, w') \<Rightarrow> (0, w')))"

definition cmd_sync ::
  "string option \<Rightarrow> bool \<Rightarrow> importer \<Rightarrow> seed_env \<Rightarrow> yaml_dir option \<Rightarrow> bool \<Rightarrow> seed_db \<Rightarrow> nat \<times> seed_db" where
  "cmd_sync dsn up im env dir dry_run w =
     (if dsn = None \<or> dsn = Some '''' then (2, w)
      else (case dir of None \<Rightarrow> (2, w) | Some files \<Rightarrow> run_sync up im env files dry_run w))"

section \<open>What the gate lets through\<close>

lemma dict_get_set_iff:
  "distinct (map fst d) \<Longrightarrow> (k, v) \<in> set d \<longleftrightarrow> dict_get d k = Some v"
  by (simp add: dict_get_def)

text \<open>A fold of updates keeps keys distinct and adds the keys updated.\<close>

lemma fold_set_distinct:
  "distinct (map fst d) \<Longrightarrow> distinct (map fst (fold (\<lambda>x d. dict_set d (k x) (v x)) xs d))"
  by (induction xs arbitrary: d) simp_all

lemma fold_set_keys:
  "dict_keys (fold (\<lambda>x d. dict_set d (k x) (v x)) xs d) = dict_keys d \<union> k ` set xs"
  by (induction xs arbitrary: d) (auto simp: dict_simps)

lemma index_doc_keys: "dict_keys (index_doc doc d) = dict_keys d \<union> rn_id ` set (rd_nodes doc)"
  by (simp add: index_doc_def fold_set_keys)

lemma index_nodes_keys: "dict_keys (index_nodes docs) = (\<Union>(_, doc) \<in> set docs. rn_id ` set (rd_nodes doc))"
proof -
  have "dict_keys (fold (\<lambda>(_, doc). index_doc doc) docs d)
    = dict_keys d \<union> (\<Union>(_, doc) \<in> set docs. rn_id ` set (rd_nodes doc))" for d
    by (induction docs arbitrary: d) (auto simp: index_doc_keys)
  then show ?thesis by (simp add: index_nodes_def)
qed

lemma index_nodes_distinct: "distinct (map fst (index_nodes docs))"
proof -
  have "distinct (map fst (fold (\<lambda>(_, doc). index_doc doc) docs d))" if "distinct (map fst d)" for d
    using that by (induction docs arbitrary: d) (auto simp: index_doc_def fold_set_distinct)
  then show ?thesis by (simp add: index_nodes_def)
qed

text \<open>The semantics of the files is kept: no id lost, and what is active keeps its levels.\<close>

definition semantics_kept :: "(string, gate_node) dict \<Rightarrow> (string, gate_node) dict \<Rightarrow> bool" where
  "semantics_kept old new \<longleftrightarrow> (\<forall>(i, n) \<in> set old. case dict_get new i of
     None \<Rightarrow> False
   | Some m \<Rightarrow> gn_retired m = gn_retired n \<and> (\<not> gn_retired n \<longrightarrow>
       (\<forall>(r, s) \<in> set (gn_levels n). dict_get (gn_levels m) r = Some s)))"

lemma level_finding_severity: "f \<in> set (level_finding i n p) \<Longrightarrow> gf_severity f = DESTRUCTIVE"
  by (auto simp: level_finding_def split: prod.splits option.splits if_splits)

lemma level_finding_Nil: "level_finding i n (r, s) = [] \<longleftrightarrow> dict_get (gn_levels n) r = Some s"
  by (auto simp: level_finding_def split: option.splits)

lemma node_findings_forbidden:
  "(\<exists>f \<in> set (node_findings new (i, n)). gf_severity f = FORBIDDEN) \<longleftrightarrow> dict_get new i = None"
  by (auto simp: node_findings_def retired_finding_def dest: level_finding_severity
      split: option.splits if_splits)

lemma detect_forbidden:
  "(\<exists>f \<in> set (detect_destructive_changes b c). gf_severity f = FORBIDDEN)
    \<longleftrightarrow> \<not> dict_keys (index_nodes b) \<subseteq> dict_keys (index_nodes c)"
proof -
  have "(\<exists>f \<in> set (detect_destructive_changes b c). gf_severity f = FORBIDDEN)
    \<longleftrightarrow> (\<exists>(i, n) \<in> set (index_nodes b). dict_get (index_nodes c) i = None)"
    using node_findings_forbidden [of "index_nodes c"]
    by (fastforce simp: detect_destructive_changes_def)
  then show ?thesis by (force simp: dict_keys_def [of "index_nodes b"] py_dict.mem_keys)
qed

lemma node_findings_Nil:
  "node_findings new (i, n) = [] \<longleftrightarrow> (case dict_get new i of
     None \<Rightarrow> False
   | Some m \<Rightarrow> gn_retired m = gn_retired n \<and> (\<not> gn_retired n \<longrightarrow>
       (\<forall>(r, s) \<in> set (gn_levels n). dict_get (gn_levels m) r = Some s)))"
  by (auto simp: node_findings_def retired_finding_def level_finding_Nil split: option.splits)

lemma detect_Nil: "detect_destructive_changes b c = [] \<longleftrightarrow> semantics_kept (index_nodes b) (index_nodes c)"
  unfolding detect_destructive_changes_def semantics_kept_def
  by (simp add: concat_eq_Nil_conv) (auto simp: node_findings_Nil)

lemma dict_set_members: "p \<in> set (dict_set d k v) \<Longrightarrow> p = (k, v) \<or> p \<in> set d"
  by (induction d) (auto split: if_splits)

lemma nodes_by_id_members: "p \<in> set (nodes_by_id ns) \<Longrightarrow> snd p \<in> set ns"
proof -
  have "p \<in> set (fold (\<lambda>n d. dict_set d (rn_id n) n) ns d) \<Longrightarrow> p \<in> set d \<or> snd p \<in> set ns" for d
    by (induction ns arbitrary: d) (fastforce dest: dict_set_members)+
  from this [of "[]"] show "p \<in> set (nodes_by_id ns) \<Longrightarrow> snd p \<in> set ns"
    by (simp add: nodes_by_id_def)
qed

lemma declared_in_doc: "i \<in> set (declared_competencies doc) \<Longrightarrow> i \<in> rn_id ` set (rd_nodes doc)"
  by (auto simp: declared_competencies_def Let_def dest: nodes_by_id_members)

lemma new_ids_set:
  "set (new_ids docs) = {i \<in> dict_keys (index_nodes docs). \<not> is_block_id i}"
  by (auto simp: new_ids_def index_nodes_keys)

lemma gate_not_forbidden:
  assumes "cmd_check ct (Some b) (Some c) adr \<noteq> 2"
  shows "dict_keys (index_nodes b) \<subseteq> dict_keys (index_nodes c)"
proof (rule ccontr)
  assume "\<not> ?thesis"
  then have "filter (\<lambda>f. gf_severity f = FORBIDDEN) (detect_destructive_changes b c) \<noteq> []"
    using detect_forbidden [of b c] by (simp add: filter_empty_conv)
  with assms show False by (simp add: cmd_check_def Let_def)
qed

text \<open>
  A competency whose id starts with \<open>block.\<close> is one no payload can keep: the importer
  leaves such ids out of the payload's side of its comparison, but not out of the tables'.
\<close>

lemma block_competency_always_disappears:
  "i \<in> set (prior_active db) \<Longrightarrow> is_block_id i \<Longrightarrow> i \<in> set (disappeared db docs)"
  by (simp add: disappeared_def new_ids_def)

text \<open>The competencies of the latest version after a seed are those of its files.\<close>

lemma prior_active_seeded:
  assumes "seeded env files docs w w'" and "versions_known (sd_rubric w)"
    and "new_id env w \<notin> vn_id ` set (rb_versions (sd_rubric w))"
    and "\<forall>n \<in> set (rb_versions (sd_rubric w)). vn_created_at n < se_now env"
  shows "prior_active (sd_rubric w') = concat (map (\<lambda>(_, d). declared_competencies d) docs)"
  using seeded_parts(4) [OF assms(1)] unknown_version_has_no_names [OF assms(2, 3)]
    seeded_latest [OF assms(1, 4)]
  by (simp add: prior_active_def version_names_def)

text \<open>
  What a seed of files that lose no id comes to: the hash decides. The latest version's is a
  no-op, another version's is refused by the constraint unless the run is dry.
\<close>

lemma seed_decided_by_hash:
  assumes "load_yaml_dir im files = Inr docs" and "disappeared (sd_rubric w) docs = []"
    and "latest_version (sd_rubric w) = Some n"
  shows "if \<not> dry_run \<and> compute_payload_hash files \<noteq> vn_payload_hash n
      \<and> compute_payload_hash files \<in> vn_payload_hash ` set (rb_versions (sd_rubric w))
    then seed im env files dry_run w = Inl PayloadHashTaken
    else \<exists>r w'. seed im env files dry_run w = Inr (r, w')"
  using assms by (auto simp: seed_def and_then_def Let_def case_prod_unfold)

section \<open>Properties\<close>

text \<open>
  The exit code of \<open>sync_rubric_to_db.py check\<close>. With both directories present it is 2
  exactly when a stable id of the baseline is gone, else 0 exactly when the current files
  keep the retired flag of every node and every level of the active ones, or an ADR is
  cited; every other change exits 1. No citation turns a removal into anything but 2.
\<close>

theorem gate_exit_codes:
  "cmd_check ct (Some baseline) (Some current) adr =
     (if \<not> dict_keys (index_nodes baseline) \<subseteq> dict_keys (index_nodes current) then 2
      else if semantics_kept (index_nodes baseline) (index_nodes current)
        \<or> (\<exists>text. adr = Some text \<and> has_adr_citation ct text) then 0
      else 1)"
proof -
  let ?fs = "detect_destructive_changes baseline current"
  have forbidden: "filter (\<lambda>f. gf_severity f = FORBIDDEN) ?fs \<noteq> []
      \<longleftrightarrow> \<not> dict_keys (index_nodes baseline) \<subseteq> dict_keys (index_nodes current)"
    using detect_forbidden [of baseline current] by (simp add: filter_empty_conv)
  have "s \<noteq> FORBIDDEN \<longleftrightarrow> s = DESTRUCTIVE" for s by (cases s) simp_all
  then have destructive: "filter (\<lambda>f. gf_severity f = DESTRUCTIVE) ?fs = ?fs"
    if "filter (\<lambda>f. gf_severity f = FORBIDDEN) ?fs = []"
    using that unfolding filter_empty_conv filter_id_conv by blast
  have cited: "has_adr_citation ct (case adr of None \<Rightarrow> [] | Some t \<Rightarrow> t)
      \<longleftrightarrow> (\<exists>text. adr = Some text \<and> has_adr_citation ct text)"
    by (cases adr) (simp_all add: has_adr_citation_def)
  show ?thesis
  proof (cases "filter (\<lambda>f. gf_severity f = FORBIDDEN) ?fs = []")
    case True
    then show ?thesis using forbidden
      unfolding cmd_check_def Let_def option.case destructive [OF True] detect_Nil cited by simp
  next
    case False
    then show ?thesis using forbidden unfolding cmd_check_def Let_def option.case by simp
  qed
qed


definition demo_yaml_next :: json where
  "demo_yaml_next = JObj [(''nodes'', JArr [
     JObj [(''id'', JStr ''block.core''), (''parent'', JNull)],
     JObj [(''id'', JStr ''block.web''), (''parent'', JNull)],
     JObj [(''id'', JStr ''linq''), (''parent'', JStr ''block.web''),
       (''levels'', JArr [JObj [(''level'', JInt 1), (''descriptor_en'', JStr ''basics'')]])],
     JObj [(''id'', JStr ''joins''), (''parent'', JStr ''linq'')]])]"

definition demo_importer_next :: importer where
  "demo_importer_next = \<lparr>im_valid = \<lambda>_. True, im_yaml = \<lambda>c. if c = ''v2'' then Some demo_yaml
     else if c = ''v3'' then Some demo_yaml_next else None\<rparr>"

definition demo_doc_next :: rubric_doc where
  "demo_doc_next = \<lparr>rd_retired = False, rd_nodes = [
     \<lparr>rn_id = ''block.core'', rn_parent = None, rn_retired = False, rn_levels = []\<rparr>,
     \<lparr>rn_id = ''block.web'', rn_parent = None, rn_retired = False, rn_levels = []\<rparr>,
     \<lparr>rn_id = ''linq'', rn_parent = Some ''block.web'', rn_retired = False,
       rn_levels = [\<lparr>rl_level = 1, rl_descriptor = ''basics''\<rparr>]\<rparr>,
     \<lparr>rn_id = ''joins'', rn_parent = Some ''linq'', rn_retired = False, rn_levels = []\<rparr>]\<rparr>"

lemmas demo_load_simps = and_then_def load_yaml_def demo_importer_next_def demo_yaml_def
  demo_yaml_next_def demo_doc_def demo_doc_next_def read_doc_def read_node_def read_level_def
  array_field_def truthy_field_def as_object_def req_def with_default_def dict_get_def nullable_def
  truthy_def

lemma demo_next_loads:
  "load_yaml_dir demo_importer_next demo_files = Inr [(''dotnet'', demo_doc)]"
  "load_yaml_dir demo_importer_next [(''dotnet'', ''v3'')] = Inr [(''dotnet'', demo_doc_next)]"
  by (simp_all add: demo_load_simps)

lemma demo_next_seeded:
  "\<exists>r w'. seed demo_importer_next demo_env demo_files False demo_seed_db = Inr (r, w')
     \<and> sr_new_version r = Some (of_nat 5)"
  using demo_seeded unfolding seed_def demo_next_loads demo_loads .

lemma demo_gate:
  "cmd_check \<lparr>ct_word = \<lambda>_. False, ct_digit = \<lambda>_. False\<rparr> (Some [(''dotnet'', demo_doc)])
     (Some [(''dotnet'', demo_doc_next)]) None = 0"
  by code_simp


end
