(* ===== verification/Rubric_Convert.thy ===== *)
theory Rubric_Convert
  imports Rubric_Gate
begin

text \<open>
  \<open>RubricImporter.convert\<close> of \<open>app/backend/services/rubric_importer.py\<close>: a workbook, one
  sheet per stack, becomes one canonical YAML file per stack. A sheet is the list of its
  rows, a cell the text \<open>str\<close> gives of its value, or nothing; the merged ranges come with
  it. Unicode normalisation and the YAML emitter are arguments.
\<close>

section \<open>Cells\<close>

record unicode =
  uc_nfc :: "string \<Rightarrow> string"
  uc_nfkd :: "string \<Rightarrow> string"

type_synonym row = "string option list"

definition norm :: "unicode \<Rightarrow> string option \<Rightarrow> string" where
  "norm uc v = (case v of None \<Rightarrow> '''' | Some s \<Rightarrow> uc_nfc uc (strip s))"

definition is_lower_char :: "char \<Rightarrow> bool" where
  "is_lower_char c \<longleftrightarrow> 97 \<le> (of_char c :: nat) \<and> (of_char c :: nat) \<le> 122"

definition is_alnum :: "char \<Rightarrow> bool" where
  "is_alnum c \<longleftrightarrow> is_lower_char c \<or> is_digit c \<or> 65 \<le> (of_char c :: nat) \<and> (of_char c :: nat) \<le> 90"

text \<open>\<open>re.sub(r"[^a-zA-Z0-9]+", "_", s)\<close>: a run is replaced where it ends.\<close>

fun squeeze :: "string \<Rightarrow> string" where
  "squeeze [] = []"
| "squeeze (c # cs) =
     (if is_alnum c then c # squeeze cs
      else case cs of
        [] \<Rightarrow> ''_''
      | d # _ \<Rightarrow> if is_alnum d then CHR ''_'' # squeeze cs else squeeze cs)"

definition strip_underscores :: "string \<Rightarrow> string" where
  "strip_underscores s = rev (dropWhile (\<lambda>c. c = CHR ''_'') (rev (dropWhile (\<lambda>c. c = CHR ''_'') s)))"

definition slugify :: "unicode \<Rightarrow> string \<Rightarrow> string" where
  "slugify uc name =
     (let ascii = filter (\<lambda>c. (of_char c :: nat) < 128) (uc_nfkd uc name);
          s = lower (strip_underscores (squeeze ascii))
      in if s = '''' then ''block'' else s)"

text \<open>
  \<open>_STABLE_ID_RE.match\<close>, segment by segment; the flag tells whether a segment starts. As in
  the regular expression, one line break may follow the end.
\<close>

fun stable_from :: "bool \<Rightarrow> string \<Rightarrow> bool" where
  "stable_from start [] \<longleftrightarrow> \<not> start"
| "stable_from start (c # cs) \<longleftrightarrow>
     (if start then is_lower_char c \<and> stable_from False cs
      else if c = CHR ''.'' then stable_from True cs
      else c = CHR 0x0A \<and> cs = []
        \<or> (is_lower_char c \<or> is_digit c \<or> c = CHR ''_'') \<and> stable_from False cs)"

definition is_stable_id :: "string \<Rightarrow> bool" where
  "is_stable_id = stable_from True"

text \<open>\<open>int(level_str)\<close> on a stripped text: a sign, then digits with single underscores between.\<close>

fun underscored :: "bool \<Rightarrow> string \<Rightarrow> bool" where
  "underscored after_digit [] \<longleftrightarrow> after_digit"
| "underscored after_digit (c # cs) \<longleftrightarrow>
     (if c = CHR ''_'' then after_digit \<and> underscored False cs else is_digit c \<and> underscored True cs)"

definition py_nat :: "string \<Rightarrow> nat option" where
  "py_nat s = (if underscored False s then Some (read_nat (filter is_digit s)) else None)"

definition py_int :: "string \<Rightarrow> int option" where
  "py_int s = (case s of
     [] \<Rightarrow> None
   | c # cs \<Rightarrow>
       if c = CHR ''-'' then map_option (\<lambda>n. - int n) (py_nat cs)
       else if c = CHR ''+'' then map_option int (py_nat cs)
       else map_option int (py_nat s))"

section \<open>Reading a sheet\<close>

record parsed_level =
  pl_level :: int
  pl_label_uk :: string
  pl_descriptor_en :: string
  pl_evidence :: "string list"

record parsed_competency =
  pc_id :: string
  pc_block_slug :: string
  pc_block_label :: string
  pc_label_uk :: string
  pc_label_en :: string
  pc_topic :: string
  pc_retired :: bool
  pc_levels :: "(int, parsed_level) dict"

record merged_range =
  mr_min_col :: nat
  mr_max_col :: nat
  mr_min_row :: nat
  mr_max_row :: nat

record sheet =
  sh_rows :: "row list"
  sh_merged :: "merged_range list"

definition required_headers :: "string list" where
  "required_headers = [''block'', ''competency_id'', ''competency_label_uk'', ''competency_label_en'',
     ''level'', ''descriptor_en'', ''level_label_uk'']"

definition key_columns :: "string list" where
  "key_columns = [''block'', ''competency_id'', ''topic'', ''level'']"

definition header_index :: "unicode \<Rightarrow> row \<Rightarrow> (string, nat) dict" where
  "header_index uc hs = fold (\<lambda>(i, v) d. let name = norm uc v
     in if name \<noteq> '''' then dict_set d name i else d) (enumerate 0 hs) []"

definition merged_key :: "(string, nat) dict \<Rightarrow> merged_range list \<Rightarrow> bool" where
  "merged_key headers ranges \<longleftrightarrow> list_ex (\<lambda>col. case dict_get headers col of
     None \<Rightarrow> False
   | Some i \<Rightarrow> list_ex (\<lambda>r. mr_min_col r \<le> i + 1 \<and> i + 1 \<le> mr_max_col r \<and> mr_min_row r \<noteq> mr_max_row r)
       ranges) key_columns"

definition cell_at :: "unicode \<Rightarrow> (string, nat) dict \<Rightarrow> row \<Rightarrow> string \<Rightarrow> string" where
  "cell_at uc headers row name = (case dict_get headers name of
     None \<Rightarrow> '''' | Some i \<Rightarrow> if i \<ge> length row then '''' else norm uc (row ! i))"

definition required_cells :: "string list" where
  "required_cells = [''block'', ''competency_label_uk'', ''competency_label_en'', ''level'',
     ''descriptor_en'', ''level_label_uk'']"

definition evidence_of :: "string \<Rightarrow> string list" where
  "evidence_of raw = filter (\<lambda>e. e \<noteq> '''') (map strip (split_on (CHR '';'') raw))"

definition row_level :: "unicode \<Rightarrow> (string, nat) dict \<Rightarrow> row \<Rightarrow> importer_error + int" where
  "row_level uc headers row = (case py_int (cell_at uc headers row ''level'') of
     None \<Rightarrow> Inl EmptyRequiredCellError
   | Some n \<Rightarrow> if 1 \<le> n \<and> n \<le> 5 then Inr n else Inl EmptyRequiredCellError)"

definition row_entry :: "unicode \<Rightarrow> (string, nat) dict \<Rightarrow> row \<Rightarrow> int \<Rightarrow> parsed_level" where
  "row_entry uc headers row n = \<lparr>pl_level = n,
     pl_label_uk = cell_at uc headers row ''level_label_uk'',
     pl_descriptor_en = cell_at uc headers row ''descriptor_en'',
     pl_evidence = evidence_of (cell_at uc headers row ''evidence_examples'')\<rparr>"

definition new_competency :: "unicode \<Rightarrow> (string, nat) dict \<Rightarrow> row \<Rightarrow> parsed_competency" where
  "new_competency uc headers row = \<lparr>pc_id = cell_at uc headers row ''competency_id'',
     pc_block_slug = slugify uc (cell_at uc headers row ''block''),
     pc_block_label = cell_at uc headers row ''block'',
     pc_label_uk = cell_at uc headers row ''competency_label_uk'',
     pc_label_en = cell_at uc headers row ''competency_label_en'',
     pc_topic = cell_at uc headers row ''topic'',
     pc_retired = (lower (norm uc (Some (cell_at uc headers row ''competency_retired''))) = ''true''),
     pc_levels = []\<rparr>"

text \<open>
  One row. Without a competency id it is skipped, whether the rest of it is empty or not.
\<close>

definition read_row ::
  "unicode \<Rightarrow> (string, nat) dict \<Rightarrow> row \<Rightarrow> (string, parsed_competency) dict
    \<Rightarrow> importer_error + (string, parsed_competency) dict" where
  "read_row uc headers row parsed =
     (let i = cell_at uc headers row ''competency_id''
      in if i = '''' then Inr parsed
         else if \<not> is_stable_id i then Inl EmptyRequiredCellError
         else if list_ex (\<lambda>c. cell_at uc headers row c = '''') required_cells
         then Inl EmptyRequiredCellError
         else and_then (row_level uc headers row) (\<lambda>n.
           and_then (case dict_get parsed i of
               None \<Rightarrow> Inr (new_competency uc headers row)
             | Some c \<Rightarrow>
                 if pc_block_slug c \<noteq> slugify uc (cell_at uc headers row ''block'')
                 then Inl DuplicateCompetencyIdError else Inr c) (\<lambda>c.
             if n \<in> dict_keys (pc_levels c) then Inl DuplicateCompetencyIdError
             else Inr (dict_set parsed i
               (c\<lparr>pc_levels := dict_set (pc_levels c) n (row_entry uc headers row n)\<rparr>)))))"

fun read_rows ::
  "unicode \<Rightarrow> (string, nat) dict \<Rightarrow> row list \<Rightarrow> (string, parsed_competency) dict
    \<Rightarrow> importer_error + (string, parsed_competency) dict" where
  "read_rows uc headers [] parsed = Inr parsed"
| "read_rows uc headers (row # rows) parsed =
     and_then (read_row uc headers row parsed) (read_rows uc headers rows)"

definition read_sheet ::
  "unicode \<Rightarrow> sheet \<Rightarrow> importer_error + (string, parsed_competency) dict" where
  "read_sheet uc sheet = (case sh_rows sheet of
     [] \<Rightarrow> Inl UnknownColumnError
   | header # rows \<Rightarrow>
       let headers = header_index uc header
       in if list_ex (\<lambda>c. c \<notin> dict_keys headers) required_headers then Inl UnknownColumnError
          else if merged_key headers (sh_merged sheet) then Inl MergedKeyColumnError
          else read_rows uc headers rows [])"

section \<open>The document\<close>

definition level_node :: "parsed_level \<Rightarrow> json" where
  "level_node l = JObj ([(''level'', JInt (pl_level l)), (''label_uk'', JStr (pl_label_uk l)),
     (''descriptor_en'', JStr (pl_descriptor_en l))]
     @ (if pl_evidence l \<noteq> [] then [(''evidence_examples_en'', JArr (map JStr (pl_evidence l)))] else []))"

definition block_id :: "string \<Rightarrow> string" where
  "block_id slug = ''block.'' @ slug"

definition block_node :: "parsed_competency \<Rightarrow> json" where
  "block_node c = JObj [(''id'', JStr (block_id (pc_block_slug c))), (''label_en'', JStr (pc_block_label c)),
     (''label_uk'', JStr (pc_block_label c)), (''parent'', JNull), (''retired'', JBool False)]"

definition competency_node :: "parsed_competency \<Rightarrow> json" where
  "competency_node c = JObj ([(''id'', JStr (pc_id c)), (''label_en'', JStr (pc_label_en c)),
     (''label_uk'', JStr (pc_label_uk c)), (''parent'', JStr (block_id (pc_block_slug c))),
     (''retired'', JBool (pc_retired c))]
     @ (if pc_levels c \<noteq> [] then [(''levels'', JArr (map (\<lambda>(_, l). level_node l) (pc_levels c)))] else []))"

fun doc_nodes :: "parsed_competency list \<Rightarrow> string list \<Rightarrow> json list" where
  "doc_nodes [] slugs = []"
| "doc_nodes (c # cs) slugs =
     (if pc_block_slug c \<in> set slugs then competency_node c # doc_nodes cs slugs
      else block_node c # competency_node c # doc_nodes cs (pc_block_slug c # slugs))"

definition competencies_to_yaml_doc :: "parsed_competency list \<Rightarrow> (string, json) dict" where
  "competencies_to_yaml_doc cs =
     [(''version'', JInt 1), (''retired'', JBool False), (''nodes'', JArr (doc_nodes cs []))]"

section \<open>Canonical form\<close>

definition id_key :: "json \<Rightarrow> string" where
  "id_key j = (case json_field j ''id'' of Some (JStr s) \<Rightarrow> s | _ \<Rightarrow> '''')"

definition level_key :: "json \<Rightarrow> int" where
  "level_key j = (case json_field j ''level'' of Some (JInt n) \<Rightarrow> n | _ \<Rightarrow> 0)"

definition canonical_node :: "json \<Rightarrow> json" where
  "canonical_node j = (case j of
     JObj d \<Rightarrow> (case dict_get d ''levels'' of
        Some (JArr ls) \<Rightarrow> JObj (dict_set d ''levels'' (JArr (sort_key level_key ls)))
      | _ \<Rightarrow> j)
   | _ \<Rightarrow> j)"

definition canonical_doc :: "(string, json) dict \<Rightarrow> (string, json) dict" where
  "canonical_doc d = dict_set d ''nodes''
     (JArr (map canonical_node (sort_key id_key (array_field d ''nodes''))))"

section \<open>Converting a workbook\<close>

record converter =
  cv_unicode :: unicode
  cv_valid :: "json \<Rightarrow> bool"
  cv_dump :: "json \<Rightarrow> string"

definition emit_canonical_yaml :: "converter \<Rightarrow> (string, json) dict \<Rightarrow> string" where
  "emit_canonical_yaml cv d = cv_dump cv (JObj (canonical_doc d))"

text \<open>One sheet: the name of its file and the text written.\<close>

definition sheet_yaml :: "converter \<Rightarrow> string \<Rightarrow> sheet \<Rightarrow> importer_error + string \<times> string" where
  "sheet_yaml cv name sheet =
     (let stack = norm (cv_unicode cv) (Some name)
      in if \<not> is_stable_id stack then Inl EmptyRequiredCellError
         else and_then (read_sheet (cv_unicode cv) sheet) (\<lambda>parsed.
           let d = competencies_to_yaml_doc (map snd parsed)
           in if \<not> cv_valid cv (JObj d) then Inl SchemaViolationError
              else Inr (stack @ ''.yaml'', emit_canonical_yaml cv d)))"

text \<open>
  The sheets in order, each written before the next is read, over the files of the output
  directory; a sheet whose name starts with an underscore is ignored.
\<close>

fun convert_sheets ::
  "converter \<Rightarrow> (string \<times> sheet) list \<Rightarrow> (string, string) dict \<Rightarrow> string list
    \<Rightarrow> (importer_error + string list) \<times> (string, string) dict" where
  "convert_sheets cv [] files written = (Inr (sort_key (\<lambda>p. p) written), files)"
| "convert_sheets cv ((name, sheet) # rest) files written =
     (if starts_with ''_'' name then convert_sheets cv rest files written
      else case sheet_yaml cv name sheet of
        Inl e \<Rightarrow> (Inl e, files)
      | Inr (path, content) \<Rightarrow>
          convert_sheets cv rest (dict_set files path content) (written @ [path]))"

definition convert ::
  "converter \<Rightarrow> (string \<times> sheet) list \<Rightarrow> (string, string) dict
    \<Rightarrow> (importer_error + string list) \<times> (string, string) dict" where
  "convert cv workbook files = convert_sheets cv workbook files []"

end
