(* ===== verification/Rubric_Convert_Props.thy ===== *)
theory Rubric_Convert_Props
  imports Rubric_Convert "HOL-Library.Multiset"
begin

text \<open>
  What a converted sheet holds: every row with a competency id is one level of that
  competency, nothing else is, and the YAML written for the sheet loads, on the seeding
  side, as exactly those competencies and levels.
\<close>

section \<open>Rows and levels\<close>

definition parsed_entries :: "(string, parsed_competency) dict \<Rightarrow> (string \<times> parsed_level) list" where
  "parsed_entries ps = concat (map (\<lambda>(i, c). map (\<lambda>(_, l). (i, l)) (pc_levels c)) ps)"

definition level_of_row :: "unicode \<Rightarrow> (string, nat) dict \<Rightarrow> row \<Rightarrow> int" where
  "level_of_row uc headers row = (case row_level uc headers row of Inr n \<Rightarrow> n | Inl _ \<Rightarrow> 0)"

definition row_entries :: "unicode \<Rightarrow> (string, nat) dict \<Rightarrow> row list \<Rightarrow> (string \<times> parsed_level) list" where
  "row_entries uc headers rows =
     map (\<lambda>r. (cell_at uc headers r ''competency_id'', row_entry uc headers r (level_of_row uc headers r)))
       (filter (\<lambda>r. cell_at uc headers r ''competency_id'' \<noteq> '''') rows)"

definition competency_ok :: "string \<Rightarrow> parsed_competency \<Rightarrow> bool" where
  "competency_ok i c \<longleftrightarrow> pc_id c = i
     \<and> list_all (\<lambda>(n, l). pl_level l = n \<and> 1 \<le> n \<and> n \<le> 5) (pc_levels c)
     \<and> distinct (map fst (pc_levels c))"

definition parsed_ok :: "(string, parsed_competency) dict \<Rightarrow> bool" where
  "parsed_ok ps \<longleftrightarrow> distinct (map fst ps) \<and> list_all (\<lambda>(i, c). competency_ok i c \<and> pc_levels c \<noteq> []) ps"

lemma dict_set_fresh: "dict_get d k = None \<Longrightarrow> dict_set d k v = d @ [(k, v)]"
  by (induction d) (auto split: if_splits)

lemma entries_append: "parsed_entries (ps @ [(i, c)]) = parsed_entries ps @ map (\<lambda>(_, l). (i, l)) (pc_levels c)"
  by (simp add: parsed_entries_def)

lemma entries_set:
  assumes "dict_get ps i = Some c" and "dict_get (pc_levels c) n = None"
  shows "mset (parsed_entries (dict_set ps i (c\<lparr>pc_levels := dict_set (pc_levels c) n l\<rparr>)))
    = add_mset (i, l) (mset (parsed_entries ps))"
  using assms(1)
proof (induction ps)
  case (Cons p ps)
  obtain j b where p: "p = (j, b)" by (cases p)
  show ?case
  proof (cases "j = i")
    case True
    then show ?thesis using Cons.prems p by (simp add: parsed_entries_def dict_set_fresh [OF assms(2)])
  next
    case False
    then show ?thesis using Cons p by (simp add: parsed_entries_def)
  qed
qed simp

lemma dict_get_member: "dict_get d k = Some v \<Longrightarrow> (k, v) \<in> set d"
  by (simp add: dict_get_def map_of_SomeD)

lemma read_row_step:
  assumes "read_row uc headers row ps = Inr ps'"
  defines "i \<equiv> cell_at uc headers row ''competency_id''"
  obtains (blank) "i = ''''" "ps' = ps"
  | (added) c where "i \<noteq> ''''" "1 \<le> level_of_row uc headers row" "level_of_row uc headers row \<le> 5"
      "dict_get ps i = Some c \<or> dict_get ps i = None \<and> c = new_competency uc headers row"
      "dict_get (pc_levels c) (level_of_row uc headers row) = None"
      "ps' = dict_set ps i (c\<lparr>pc_levels := dict_set (pc_levels c) (level_of_row uc headers row)
         (row_entry uc headers row (level_of_row uc headers row))\<rparr>)"
proof (cases "i = ''''")
  case True
  then show ?thesis using assms blank by (simp add: read_row_def Let_def)
next
  case False
  then obtain n where n: "row_level uc headers row = Inr n"
    using assms by (auto simp: read_row_def Let_def and_then_def split: if_splits sum.splits)
  then have level: "level_of_row uc headers row = n" by (simp add: level_of_row_def)
  have range: "1 \<le> n" "n \<le> 5" using n by (auto simp: row_level_def split: option.splits if_splits)
  show ?thesis
  proof (cases "dict_get ps i")
    case None
    with False assms(1) n level range added [of "new_competency uc headers row"] show ?thesis
      unfolding read_row_def i_def Let_def and_then_def
      by (simp add: py_dict.mem_keys split: if_splits)
  next
    case (Some c)
    with False assms(1) n level range added [of c] show ?thesis
      unfolding read_row_def i_def Let_def and_then_def
      by (simp add: py_dict.mem_keys split: if_splits)
  qed
qed

lemma read_row_entries:
  assumes "read_row uc headers row ps = Inr ps'"
  shows "mset (parsed_entries ps') = mset (parsed_entries ps) + mset (row_entries uc headers [row])"
  using assms
proof (cases rule: read_row_step)
  case blank
  then show ?thesis by (simp add: row_entries_def)
next
  case (added c)
  show ?thesis
  proof (cases "dict_get ps (cell_at uc headers row ''competency_id'')")
    case None
    then show ?thesis using added
      by (simp add: dict_set_fresh entries_append row_entries_def new_competency_def)
  next
    case (Some d)
    then show ?thesis using added entries_set [of ps _ c] by (simp add: row_entries_def)
  qed
qed

lemma read_rows_entries:
  assumes "read_rows uc headers rows ps = Inr ps'"
  shows "mset (parsed_entries ps') = mset (parsed_entries ps) + mset (row_entries uc headers rows)"
  using assms
proof (induction rows arbitrary: ps)
  case (Cons row rows)
  then obtain q where q: "read_row uc headers row ps = Inr q" "read_rows uc headers rows q = Inr ps'"
    by (auto simp: and_then_def split: sum.splits)
  have "row_entries uc headers (row # rows) = row_entries uc headers [row] @ row_entries uc headers rows"
    by (simp add: row_entries_def)
  with Cons.IH [OF q(2)] read_row_entries [OF q(1)] show ?case by simp
qed (simp add: row_entries_def)

lemma read_row_ok:
  assumes "read_row uc headers row ps = Inr ps'" and "parsed_ok ps"
  shows "parsed_ok ps'"
  using assms(1)
proof (cases rule: read_row_step)
  case (added c)
  let ?i = "cell_at uc headers row ''competency_id''"
  let ?n = "level_of_row uc headers row"
  let ?c = "c\<lparr>pc_levels := dict_set (pc_levels c) ?n (row_entry uc headers row ?n)\<rparr>"
  have "competency_ok ?i c"
  proof (cases "dict_get ps ?i")
    case None
    then show ?thesis using added(4) by (simp add: competency_ok_def new_competency_def)
  next
    case (Some d)
    then show ?thesis using added(4) assms(2) dict_get_member [OF Some]
      by (auto simp: parsed_ok_def list_all_iff)
  qed
  then have "competency_ok ?i ?c"
    using added(2,3) by (simp add: competency_ok_def dict_set_fresh [OF added(5)] row_entry_def)
      (use added(5) in \<open>simp add: dict_get_def map_of_eq_None_iff\<close>)
  then have "list_all (\<lambda>(i, c). competency_ok i c \<and> pc_levels c \<noteq> []) (dict_set ps ?i ?c)"
    using assms(2) by (auto simp: parsed_ok_def list_all_iff dict_set_fresh [OF added(5)] dest!: dict_set_members)
  then show ?thesis using added(6) assms(2) by (simp add: parsed_ok_def)
qed (use assms in simp)

lemma read_rows_ok: "read_rows uc headers rows ps = Inr ps' \<Longrightarrow> parsed_ok ps \<Longrightarrow> parsed_ok ps'"
proof (induction rows arbitrary: ps)
  case (Cons row rows)
  then show ?case using read_row_ok by (auto simp: and_then_def split: sum.splits)
qed simp

text \<open>A sheet that is accepted, with its header row.\<close>

lemma read_sheet_parts:
  assumes "read_sheet uc sheet = Inr parsed"
  obtains header rows where "sh_rows sheet = header # rows"
    "mset (parsed_entries parsed) = mset (row_entries uc (header_index uc header) rows)" "parsed_ok parsed"
proof -
  from assms obtain header rows where r: "sh_rows sheet = header # rows"
    by (auto simp: read_sheet_def split: list.splits)
  then have "read_rows uc (header_index uc header) rows [] = Inr parsed"
    using assms by (auto simp: read_sheet_def Let_def split: if_splits)
  from read_rows_entries [OF this] read_rows_ok [OF this] r show thesis
    by (intro that) (simp_all add: parsed_entries_def parsed_ok_def)
qed

section \<open>Reading the document back\<close>

text \<open>The nodes as items: the block of a competency, or the competency.\<close>

datatype doc_item = BlockOf parsed_competency | CompetencyOf parsed_competency

fun doc_items :: "parsed_competency list \<Rightarrow> string list \<Rightarrow> doc_item list" where
  "doc_items [] slugs = []"
| "doc_items (c # cs) slugs =
     (if pc_block_slug c \<in> set slugs then CompetencyOf c # doc_items cs slugs
      else BlockOf c # CompetencyOf c # doc_items cs (pc_block_slug c # slugs))"

fun item_node :: "doc_item \<Rightarrow> json" where
  "item_node (BlockOf c) = block_node c"
| "item_node (CompetencyOf c) = competency_node c"

fun item_id :: "doc_item \<Rightarrow> string" where
  "item_id (BlockOf c) = block_id (pc_block_slug c)"
| "item_id (CompetencyOf c) = pc_id c"

definition rubric_levels :: "parsed_competency \<Rightarrow> rubric_level list" where
  "rubric_levels c = map (\<lambda>l. \<lparr>rl_level = pl_level l, rl_descriptor = pl_descriptor_en l\<rparr>)
     (sort_key pl_level (map snd (pc_levels c)))"

fun item_rubric :: "doc_item \<Rightarrow> rubric_node" where
  "item_rubric (BlockOf c) = \<lparr>rn_id = block_id (pc_block_slug c), rn_parent = None, rn_retired = False,
     rn_levels = []\<rparr>"
| "item_rubric (CompetencyOf c) = \<lparr>rn_id = pc_id c, rn_parent = Some (block_id (pc_block_slug c)),
     rn_retired = pc_retired c, rn_levels = rubric_levels c\<rparr>"

lemma doc_nodes_items: "doc_nodes cs slugs = map item_node (doc_items cs slugs)"
  by (induction cs slugs rule: doc_items.induct) simp_all

lemma sort_key_map: "sort_key k (map f xs) = map f (sort_key (\<lambda>x. k (f x)) xs)"
proof (induction xs)
  case (Cons x xs)
  have "insort_key k (f x) (map f ys) = map f (insort_key (\<lambda>x. k (f x)) x ys)" for ys
    by (induction ys) simp_all
  with Cons show ?case by (simp add: sort_key_def)
qed (simp add: sort_key_def)

lemma all_of_images:
  "(\<And>x. x \<in> set xs \<Longrightarrow> f (g x) = Some (h x)) \<Longrightarrow> all_of f (map g xs) = Some (map h xs)"
  by (induction xs) simp_all

lemma read_level_node:
  "read_level (level_node l) = Some \<lparr>rl_level = pl_level l, rl_descriptor = pl_descriptor_en l\<rparr>"
  by (simp add: read_level_def level_node_def as_object_def req_def)

lemma level_key_node: "level_key (level_node l) = pl_level l"
  by (simp add: level_key_def level_node_def json_field_def)

lemma read_item: "read_node (canonical_node (item_node x)) = Some (item_rubric x)"
proof (cases x)
  case (BlockOf c)
  then show ?thesis
    by (simp add: block_node_def canonical_node_def read_node_def as_object_def req_def
        with_default_def nullable_def truthy_field_def truthy_def array_field_def)
next
  case (CompetencyOf c)
  have levels: "sort_key level_key (map (\<lambda>(_, l). level_node l) ls)
      = map level_node (sort_key pl_level (map snd ls))" for ls :: "(int \<times> parsed_level) list"
    using sort_key_map [of level_key level_node "map snd ls"]
    by (simp add: level_key_node comp_def case_prod_unfold)
  show ?thesis
  proof (cases "pc_levels c = []")
    case True
    then show ?thesis using CompetencyOf
      by (simp add: competency_node_def canonical_node_def read_node_def as_object_def req_def
          with_default_def nullable_def truthy_field_def truthy_def array_field_def rubric_levels_def)
  next
    case False
    then show ?thesis using CompetencyOf
      by (simp add: competency_node_def canonical_node_def read_node_def as_object_def req_def levels
          with_default_def nullable_def truthy_field_def truthy_def array_field_def rubric_levels_def
          all_of_images [of _ read_level level_node, OF read_level_node])
  qed
qed

lemma id_key_node: "id_key (item_node x) = item_id x"
  by (cases x) (simp_all add: id_key_def json_field_def block_node_def competency_node_def)

text \<open>The document written is read as its items, by id.\<close>

lemma read_canonical_doc:
  "read_doc (canonical_doc (competencies_to_yaml_doc cs))
    = Some \<lparr>rd_retired = False, rd_nodes = map item_rubric (sort_key item_id (doc_items cs []))\<rparr>"
proof -
  let ?items = "doc_items cs []"
  have nodes: "sort_key id_key (map item_node ?items) = map item_node (sort_key item_id ?items)"
    by (simp add: sort_key_map id_key_node)
  have "all_of read_node (map canonical_node (map item_node (sort_key item_id ?items)))
      = Some (map item_rubric (sort_key item_id ?items))"
    using all_of_images [of "sort_key item_id ?items" read_node "\<lambda>x. canonical_node (item_node x)" item_rubric]
    by (simp add: read_item comp_def)
  then show ?thesis
    by (simp add: canonical_doc_def competencies_to_yaml_doc_def read_doc_def array_field_def
        truthy_field_def truthy_def doc_nodes_items nodes)
qed

section \<open>The competencies declared\<close>

lemma is_block_id_block [simp]: "is_block_id (block_id s)"
  by (simp add: is_block_id_def block_id_def starts_with_def)

lemma block_id_inj [simp]: "block_id s = block_id t \<longleftrightarrow> s = t"
  by (simp add: block_id_def)

lemma not_block_id: "\<not> is_block_id i \<Longrightarrow> block_id s \<noteq> i"
  by auto

lemma block_items: "BlockOf c \<in> set (doc_items cs slugs) \<Longrightarrow> c \<in> set cs \<and> pc_block_slug c \<notin> set slugs"
  by (induction cs slugs rule: doc_items.induct) (auto split: if_splits)

lemma competency_items: "CompetencyOf c \<in> set (doc_items cs slugs) \<longleftrightarrow> c \<in> set cs"
  by (induction cs slugs rule: doc_items.induct) auto

lemma slug_items:
  "c \<in> set cs \<Longrightarrow> pc_block_slug c \<notin> set slugs \<Longrightarrow>
    \<exists>b. BlockOf b \<in> set (doc_items cs slugs) \<and> pc_block_slug b = pc_block_slug c"
  by (induction cs slugs rule: doc_items.induct) (fastforce split: if_splits)+

lemma item_ids_distinct:
  assumes "distinct (map pc_id cs)" and "\<forall>c \<in> set cs. \<not> is_block_id (pc_id c)"
  shows "distinct (map item_id (doc_items cs slugs))"
  using assms
proof (induction cs slugs rule: doc_items.induct)
  case (2 c cs slugs)
  have "pc_id c \<noteq> item_id x" if "x \<in> set (doc_items cs slugs')" for x slugs'
    by (cases x) (use that 2(3,4) in \<open>auto simp: competency_items\<close>)
  moreover have "block_id (pc_block_slug c) \<noteq> item_id x" if "x \<in> set (doc_items cs (pc_block_slug c # slugs))" for x
  proof (cases x)
    case (CompetencyOf b)
    then have "\<not> is_block_id (pc_id b)" using that 2(4) by (simp add: competency_items)
    then show ?thesis using CompetencyOf by (simp add: not_block_id)
  qed (use that in \<open>auto dest: block_items\<close>)
  moreover have "block_id (pc_block_slug c) \<noteq> pc_id c" using 2(4) by (simp add: not_block_id)
  ultimately show ?case using 2 by fastforce
qed simp

lemma nodes_by_id_distinct: "distinct (map rn_id ns) \<Longrightarrow> map snd (nodes_by_id ns) = ns"
proof -
  have "fold (\<lambda>n d. dict_set d (rn_id n) n) ns d = d @ map (\<lambda>n. (rn_id n, n)) ns"
    if "distinct (map rn_id ns)" "\<forall>n \<in> set ns. dict_get d (rn_id n) = None" for d
    using that
  proof (induction ns arbitrary: d)
    case (Cons n ns)
    have "\<forall>m \<in> set ns. dict_get (dict_set d (rn_id n) n) (rn_id m) = None"
      using Cons.prems by (auto simp: dict_simps) (metis imageI)
    with Cons.IH [of "dict_set d (rn_id n) n"] Cons.prems show ?case by (simp add: dict_set_fresh)
  qed simp
  then show "distinct (map rn_id ns) \<Longrightarrow> map snd (nodes_by_id ns) = ns"
    by (simp add: nodes_by_id_def comp_def)
qed

lemma item_rubric_id [simp]: "rn_id (item_rubric x) = item_id x"
  by (cases x) simp_all

lemma declared_from_items:
  assumes "distinct (map pc_id cs)" and "\<forall>c \<in> set cs. \<not> is_block_id (pc_id c)"
  shows "set (declared_competencies \<lparr>rd_retired = r,
      rd_nodes = map item_rubric (sort_key item_id (doc_items cs []))\<rparr>) = pc_id ` set cs"
    (is "set (declared_competencies ?doc) = _")
proof -
  let ?xs = "sort_key item_id (doc_items cs [])"
  have "distinct (map rn_id (map item_rubric ?xs))"
    using item_ids_distinct [OF assms, of "[]"] by (simp add: comp_def distinct_map)
  then have ns: "map snd (nodes_by_id (rd_nodes ?doc)) = map item_rubric ?xs"
    by (simp add: nodes_by_id_distinct)
  have declared: "i \<in> set (declared_competencies ?doc) \<longleftrightarrow> (\<exists>x \<in> set (doc_items cs []). \<exists>b \<in> set (doc_items cs []).
      rn_parent (item_rubric b) = None \<and> rn_parent (item_rubric x) = Some (item_id b) \<and> i = item_id x)" for i
  proof -
    have pick: "j \<in> set (map rn_id (filter P (map item_rubric xs)))
        \<longleftrightarrow> (\<exists>x \<in> set xs. P (item_rubric x) \<and> j = item_id x)" for j P xs by force
    show ?thesis unfolding declared_competencies_def Let_def ns pick by (auto; blast)
  qed
  have "i \<in> set (declared_competencies ?doc) \<longleftrightarrow> i \<in> pc_id ` set cs" for i
  proof
    assume "i \<in> set (declared_competencies ?doc)"
    then obtain x where x: "x \<in> set (doc_items cs [])" "rn_parent (item_rubric x) \<noteq> None" "i = item_id x"
      using declared by auto
    show "i \<in> pc_id ` set cs" by (cases x) (use x in \<open>auto simp: competency_items\<close>)
  next
    assume "i \<in> pc_id ` set cs"
    then obtain c where c: "c \<in> set cs" "i = pc_id c" by blast
    then obtain b where "BlockOf b \<in> set (doc_items cs [])" "pc_block_slug b = pc_block_slug c"
      using slug_items [of c cs "[]"] by auto
    moreover have "CompetencyOf c \<in> set (doc_items cs [])" using c by (simp add: competency_items)
    ultimately show "i \<in> set (declared_competencies ?doc)"
      using c(2) unfolding declared by force
  qed
  then show ?thesis by blast
qed

section \<open>From the rows to the loaded document\<close>

definition doc_entries :: "rubric_doc \<Rightarrow> (string \<times> int \<times> string) list" where
  "doc_entries rd = concat (map (\<lambda>n. map (\<lambda>l. (rn_id n, rl_level l, rl_descriptor l)) (rn_levels n)) (rd_nodes rd))"

definition entry_text :: "string \<times> parsed_level \<Rightarrow> string \<times> int \<times> string" where
  "entry_text e = (fst e, pl_level (snd e), pl_descriptor_en (snd e))"

lemma mset_concat_cong: "mset xs = mset ys \<Longrightarrow> mset (concat (map f xs)) = mset (concat (map f ys))"
  by (simp add: mset_concat flip: sum_mset_sum_list)

definition item_entries :: "doc_item \<Rightarrow> (string \<times> int \<times> string) list" where
  "item_entries x = map (\<lambda>l. (item_id x, rl_level l, rl_descriptor l)) (rn_levels (item_rubric x))"

lemma competency_entries:
  "mset (item_entries (CompetencyOf c)) = mset (map (\<lambda>(_, l). entry_text (pc_id c, l)) (pc_levels c))"
proof -
  have "mset (map f (sort_key k xs)) = mset (map f xs)"
    for f :: "parsed_level \<Rightarrow> string \<times> int \<times> string" and k :: "parsed_level \<Rightarrow> int" and xs
    by (simp only: mset_map mset_sort)
  then show ?thesis
    by (simp add: item_entries_def rubric_levels_def entry_text_def comp_def case_prod_unfold del: mset_map)
qed

lemma items_entries:
  "mset (concat (map item_entries (doc_items cs slugs)))
    = mset (concat (map (\<lambda>c. map (\<lambda>(_, l). entry_text (pc_id c, l)) (pc_levels c)) cs))"
proof (induction cs slugs rule: doc_items.induct)
  case (2 c cs slugs)
  have "item_entries (BlockOf c) = []" by (simp add: item_entries_def)
  with 2 competency_entries [of c] show ?case by simp
qed simp

lemma entries_of_parsed:
  assumes "parsed_ok ps"
  shows "concat (map (\<lambda>c. map (\<lambda>(_, l). entry_text (pc_id c, l)) (pc_levels c)) (map snd ps))
    = map entry_text (parsed_entries ps)"
proof -
  have "map (\<lambda>(_, l). entry_text (pc_id (snd p), l)) (pc_levels (snd p))
      = map entry_text (map (\<lambda>(_, l). (fst p, l)) (pc_levels (snd p)))" if "p \<in> set ps" for p
    using assms that by (auto simp: parsed_ok_def competency_ok_def list_all_iff)
  then show ?thesis
    by (auto simp: parsed_entries_def map_concat comp_def case_prod_unfold intro!: arg_cong [of _ _ concat])
qed

lemma parsed_keys: "parsed_ok ps \<Longrightarrow> fst ` set (parsed_entries ps) = dict_keys ps"
proof -
  assume ok: "parsed_ok ps"
  have "fst ` set (map (\<lambda>(_, l). (fst p, l)) (pc_levels (snd p))) = {fst p}" if "p \<in> set ps" for p
    using ok that by (cases "pc_levels (snd p)") (auto simp: parsed_ok_def list_all_iff image_image)
  then have "(\<Union>p \<in> set ps. fst ` set (map (\<lambda>(_, l). (fst p, l)) (pc_levels (snd p)))) = dict_keys ps"
    by (auto simp: dict_keys_def)
  then show ?thesis by (simp add: parsed_entries_def case_prod_unfold image_UN)
qed

lemma parsed_ids: "parsed_ok ps \<Longrightarrow> map pc_id (map snd ps) = map fst ps"
  by (auto simp: parsed_ok_def competency_ok_def list_all_iff)

text \<open>
  The YAML library gives back the document that was written, up to the order of keys, and
  the schema does not depend on order.
\<close>

definition yaml_faithful :: "importer \<Rightarrow> converter \<Rightarrow> bool" where
  "yaml_faithful im cv \<longleftrightarrow> (\<forall>d. cv_valid cv (JObj d) \<longrightarrow>
     (\<exists>d'. im_yaml im (cv_dump cv (JObj (canonical_doc d))) = Some (JObj d')
       \<and> im_valid im (JObj d') \<and> read_doc d' = read_doc (canonical_doc d)))"

lemma load_yaml_emitted:
  assumes "yaml_faithful im cv" and "cv_valid cv (JObj d)" and "read_doc (canonical_doc d) = Some rd"
  shows "load_yaml im (emit_canonical_yaml cv d) = Inr rd"
proof -
  obtain d' where d': "im_yaml im (emit_canonical_yaml cv d) = Some (JObj d')" "im_valid im (JObj d')"
    "read_doc d' = Some rd"
    using assms by (auto simp: yaml_faithful_def emit_canonical_yaml_def)
  have "(if truthy (JObj d') then JObj d' else JObj []) = JObj d'" by (simp add: truthy_def)
  with d' show ?thesis by (simp add: load_yaml_def)
qed

lemma sheet_yaml_parts:
  assumes "sheet_yaml cv name sheet = Inr (path, content)"
  obtains parsed where "read_sheet (cv_unicode cv) sheet = Inr parsed"
    "cv_valid cv (JObj (competencies_to_yaml_doc (map snd parsed)))"
    "content = emit_canonical_yaml cv (competencies_to_yaml_doc (map snd parsed))"
    "path = norm (cv_unicode cv) (Some name) @ ''.yaml''"
  using assms by (auto simp: sheet_yaml_def Let_def and_then_def split: sum.splits if_splits)

section \<open>Properties\<close>

text \<open>The rows of a sheet that name a competency, and the document written for competencies.\<close>

definition sheet_entries :: "converter \<Rightarrow> sheet \<Rightarrow> (string \<times> parsed_level) list" where
  "sheet_entries cv sheet = row_entries (cv_unicode cv) (header_index (cv_unicode cv) (hd (sh_rows sheet)))
     (tl (sh_rows sheet))"

definition written_doc :: "parsed_competency list \<Rightarrow> rubric_doc" where
  "written_doc cs = \<lparr>rd_retired = False, rd_nodes = map item_rubric (sort_key item_id (doc_items cs []))\<rparr>"

lemma converted_sheet_parts:
  assumes "sheet_yaml cv name sheet = Inr (path, content)" and "yaml_faithful im cv"
    and "\<forall>(i, l) \<in> set (sheet_entries cv sheet). \<not> is_block_id i"
  obtains cs where "load_yaml im content = Inr (written_doc cs)"
    "distinct (map pc_id cs)" "\<forall>c \<in> set cs. \<not> is_block_id (pc_id c)"
    "pc_id ` set cs = fst ` set (sheet_entries cv sheet)"
    "mset (doc_entries (written_doc cs)) = mset (map entry_text (sheet_entries cv sheet))"
proof -
  obtain parsed where p: "read_sheet (cv_unicode cv) sheet = Inr parsed"
    and valid: "cv_valid cv (JObj (competencies_to_yaml_doc (map snd parsed)))"
    and content: "content = emit_canonical_yaml cv (competencies_to_yaml_doc (map snd parsed))"
    using assms(1) by (rule sheet_yaml_parts)
  obtain header rows where "sh_rows sheet = header # rows" and ok: "parsed_ok parsed"
    and "mset (parsed_entries parsed) = mset (row_entries (cv_unicode cv) (header_index (cv_unicode cv) header) rows)"
    using p by (rule read_sheet_parts)
  then have same: "mset (parsed_entries parsed) = mset (sheet_entries cv sheet)"
    by (simp add: sheet_entries_def)
  then have keys: "dict_keys parsed = fst ` set (sheet_entries cv sheet)"
    using parsed_keys [OF ok] by (metis set_mset_mset)
  let ?cs = "map snd parsed"
  have ids: "pc_id ` set ?cs = dict_keys parsed"
    using parsed_ids [OF ok] by (metis dict_keys_def list.set_map)
  show thesis
  proof (rule that [of ?cs])
    show "load_yaml im content = Inr (written_doc ?cs)"
      unfolding content written_doc_def by (rule load_yaml_emitted [OF assms(2) valid read_canonical_doc])
    show "distinct (map pc_id ?cs)" unfolding parsed_ids [OF ok] using ok by (simp add: parsed_ok_def)
    have "\<not> is_block_id i" if "i \<in> pc_id ` set ?cs" for i
      using that assms(3) unfolding ids keys by auto
    then show "\<forall>c \<in> set ?cs. \<not> is_block_id (pc_id c)" by simp
    show "pc_id ` set ?cs = fst ` set (sheet_entries cv sheet)" unfolding ids keys ..
    have "doc_entries (written_doc ?cs) = concat (map item_entries (sort_key item_id (doc_items ?cs [])))"
      by (simp add: doc_entries_def written_doc_def item_entries_def [abs_def] comp_def)
    also have "mset \<dots> = mset (concat (map item_entries (doc_items ?cs [])))"
      by (rule mset_concat_cong) simp
    also have "\<dots> = mset (map entry_text (parsed_entries parsed))"
      unfolding items_entries entries_of_parsed [OF ok] ..
    finally show "mset (doc_entries (written_doc ?cs)) = mset (map entry_text (sheet_entries cv sheet))"
      using same by simp
  qed
qed

text \<open>
  Conversion loses no row and invents none. Whenever a sheet converts, the file written
  for it loads on the seeding side, the levels of the loaded nodes are exactly the rows that
  have a competency id, each with the level and the descriptor of its cells, and the
  competencies a seed will store are exactly the ids of those rows, provided no id starts
  with \<open>block.\<close> and the YAML library loads what it has dumped.
\<close>

theorem converted_sheet_loads:
  assumes "sheet_yaml cv name sheet = Inr (path, content)" and "yaml_faithful im cv"
    and "\<forall>(i, l) \<in> set (sheet_entries cv sheet). \<not> is_block_id i"
  shows "\<exists>rd. load_yaml im content = Inr rd
    \<and> mset (doc_entries rd) = mset (map entry_text (sheet_entries cv sheet))
    \<and> set (declared_competencies rd) = fst ` set (sheet_entries cv sheet)"
proof -
  obtain cs where cs: "load_yaml im content = Inr (written_doc cs)"
    "distinct (map pc_id cs)" "\<forall>c \<in> set cs. \<not> is_block_id (pc_id c)"
    "pc_id ` set cs = fst ` set (sheet_entries cv sheet)"
    "mset (doc_entries (written_doc cs)) = mset (map entry_text (sheet_entries cv sheet))"
    using assms by (rule converted_sheet_parts)
  have "set (declared_competencies (written_doc cs)) = pc_id ` set cs"
    unfolding written_doc_def by (rule declared_from_items [OF cs(2,3)])
  with cs show ?thesis by auto
qed

definition demo_header :: row where
  "demo_header = map Some required_headers"

definition demo_sheet :: sheet where
  "demo_sheet = \<lparr>sh_rows = [demo_header,
     map Some [''Core'', ''linq'', ''LINQ'', ''LINQ'', ''3'', ''composes queries'', ''mid''],
     map Some [''Core'', ''linq'', ''LINQ'', ''LINQ'', ''1'', ''basics'', ''low''],
     [None, None],
     map Some [''Core'', ''async'', ''Async'', ''Async'', '' 2 '', ''awaits'', ''low'']], sh_merged = []\<rparr>"

definition demo_converter :: converter where
  "demo_converter = \<lparr>cv_unicode = \<lparr>uc_nfc = \<lambda>s. s, uc_nfkd = \<lambda>s. s\<rparr>, cv_valid = \<lambda>_. True,
     cv_dump = \<lambda>_. ''text''\<rparr>"

text \<open>A pair of library functions that keeps one document: the one of the sheet.\<close>

definition demo_parsed :: "(string, parsed_competency) dict" where
  "demo_parsed = (case read_sheet (cv_unicode demo_converter) demo_sheet of Inr p \<Rightarrow> p | Inl _ \<Rightarrow> [])"

definition demo_written :: "(string, json) dict" where
  "demo_written = competencies_to_yaml_doc (map snd demo_parsed)"

definition one_doc_converter :: converter where
  "one_doc_converter = demo_converter\<lparr>cv_valid := \<lambda>j. j = JObj demo_written\<rparr>"

definition one_doc_importer :: importer where
  "one_doc_importer = \<lparr>im_valid = \<lambda>_. True, im_yaml = \<lambda>_. Some (JObj (canonical_doc demo_written))\<rparr>"

lemma one_doc_faithful: "yaml_faithful one_doc_importer one_doc_converter"
  by (simp add: yaml_faithful_def one_doc_importer_def one_doc_converter_def demo_converter_def)

lemma demo_sheet_converts:
  "sheet_yaml one_doc_converter ''dotnet'' demo_sheet = Inr (''dotnet.yaml'', ''text'')"
proof -
  have "read_sheet (cv_unicode demo_converter) demo_sheet = Inr demo_parsed" by code_simp
  moreover have "is_stable_id (norm (cv_unicode demo_converter) (Some ''dotnet''))"
    and "norm (cv_unicode demo_converter) (Some ''dotnet'') = ''dotnet''" by code_simp+
  ultimately show ?thesis
    by (simp add: sheet_yaml_def Let_def and_then_def one_doc_converter_def demo_written_def
        emit_canonical_yaml_def) (simp add: demo_converter_def)
qed

lemma demo_entries:
  "map entry_text (sheet_entries one_doc_converter demo_sheet)
    = [(''linq'', 3, ''composes queries''), (''linq'', 1, ''basics''), (''async'', 2, ''awaits'')]"
  by (simp add: one_doc_converter_def sheet_entries_def) code_simp

lemma demo_no_block_ids: "\<forall>(i, l) \<in> set (sheet_entries one_doc_converter demo_sheet). \<not> is_block_id i"
proof -
  let ?es = "sheet_entries one_doc_converter demo_sheet"
  have "fst ` set ?es = fst ` set (map entry_text ?es)" by (simp add: entry_text_def image_image)
  also have "\<dots> = {''linq'', ''async''}" unfolding demo_entries by auto
  finally have ids: "fst ` set ?es = {''linq'', ''async''}" .
  have "\<not> is_block_id (fst e)" if "e \<in> set ?es" for e
  proof -
    have "fst e \<in> {''linq'', ''async''}" using that unfolding ids [symmetric] by (rule imageI)
    then show ?thesis by (elim insertE emptyE) (simp_all add: is_block_id_def starts_with_def)
  qed
  then show ?thesis by (simp add: case_prod_unfold)
qed

theorem converted_sheet_loads_witness:
  "\<exists>rd. load_yaml one_doc_importer ''text'' = Inr rd
    \<and> mset (doc_entries rd)
      = mset [(''linq'', 3, ''composes queries''), (''linq'', 1, ''basics''), (''async'', 2, ''awaits'')]"
  using converted_sheet_loads [OF demo_sheet_converts one_doc_faithful demo_no_block_ids]
  unfolding demo_entries by blast

end
