(* ===== verification/Boot.thy ===== *)
theory Boot
  imports Http_Props
begin

text \<open>
  \<open>app/backend/main.py\<close>: what the application installs when it starts and takes down when it
  stops, and the liveness route. Reading the environment, the flag file and the installed
  version are arguments.
\<close>

section \<open>Starting and stopping\<close>

datatype boot_error =
    UnsafeSettings startup_error
  | NoVerifier auth_error
  | NoFlagService flag_error

record boot_env =
  be_settings :: settings
  be_database_url :: "string option"
  be_flags_yaml :: json
  be_flags_valid :: "json \<Rightarrow> bool"
  be_jwt :: jwt_lib
  be_fetch :: "nat \<Rightarrow> certs option"
  be_clock :: "nat \<Rightarrow> rat"
  be_lower :: "string \<Rightarrow> string"

definition default_certs_ttl_s :: rat where "default_certs_ttl_s = 3600"
definition default_cooldown_s :: rat where "default_cooldown_s = 30"

text \<open>What the process holds: the installed verifier and the installed flag service.\<close>

record process =
  ps_verifier :: "verifier option"
  ps_flags :: "flag_service option"

definition boot_verifier :: "boot_env \<Rightarrow> boot_error + verifier option" where
  "boot_verifier env =
     (if auth_mode (be_settings env) \<noteq> IdentityPlatform then Inr None
      else case make_verifier (gcp_project (be_settings env)) (auth_allowed_domain (be_settings env))
             default_certs_ttl_s default_cooldown_s (be_jwt env) (be_fetch env) (be_clock env) (be_lower env) of
        Inl e \<Rightarrow> Inl (NoVerifier e) | Inr v \<Rightarrow> Inr (Some v))"

definition boot_flags :: "boot_env \<Rightarrow> boot_error + flag_service option" where
  "boot_flags env =
     (if be_database_url env \<in> {None, Some ''''} then Inr None
      else case flags_from_yaml (be_flags_valid env) (be_flags_yaml env) of
        Inl e \<Rightarrow> Inl (NoFlagService e) | Inr f \<Rightarrow> Inr (Some f))"

definition startup :: "boot_env \<Rightarrow> boot_error + process" where
  "startup env = (case assert_safe_for_environment (be_settings env) of
     Inl e \<Rightarrow> Inl (UnsafeSettings e)
   | Inr _ \<Rightarrow>
       and_then (boot_verifier env) (\<lambda>v.
       and_then (boot_flags env) (\<lambda>f. Inr \<lparr>ps_verifier = v, ps_flags = f\<rparr>)))"

definition shutdown :: "process \<Rightarrow> process" where
  "shutdown p = \<lparr>ps_verifier = None, ps_flags = None\<rparr>"

section \<open>Liveness\<close>

record health_response =
  hr_status :: string
  hr_service :: string
  hr_version :: string

definition project_version :: "string option \<Rightarrow> string" where
  "project_version installed = (case installed of Some v \<Rightarrow> v | None \<Rightarrow> ''0.0.0'')"

definition health :: "string option \<Rightarrow> health_response" where
  "health installed = \<lparr>hr_status = ''ok'', hr_service = ''techscreen-backend'',
     hr_version = project_version installed\<rparr>"

section \<open>Facts\<close>

lemma startup_cases:
  assumes "startup env = Inr p"
  shows "assert_safe_for_environment (be_settings env) = Inr ()
    \<and> boot_verifier env = Inr (ps_verifier p) \<and> boot_flags env = Inr (ps_flags p)"
  using assms by (auto simp: startup_def and_then_eq_Inr split: sum.splits)

lemma booted_verifier:
  assumes "boot_verifier env = Inr v"
  shows "v = None \<longleftrightarrow> auth_mode (be_settings env) = AuthDisabled"
  using assms by (cases "auth_mode (be_settings env)") (auto simp: boot_verifier_def split: sum.splits)

lemma made_verifier_names_project:
  assumes "make_verifier project domain ttl cooldown jwt fetch clock low = Inr v"
  shows "vr_project_id v \<noteq> ''''"
  using assms by (auto simp: make_verifier_def split: if_splits)

lemma booted_verifier_names_project:
  assumes "boot_verifier env = Inr pv" and "auth_mode (be_settings env) = IdentityPlatform"
  shows "\<exists>v. pv = Some v \<and> vr_project_id v \<noteq> ''''"
  using assms made_verifier_names_project by (auto simp: boot_verifier_def split: sum.splits)

lemma no_verifier_signs_nobody_in: "ap_verifier app = None \<Longrightarrow> \<not> signed_in app roles ar st"
  by (simp add: signed_in_def get_current_user_def)

lemma no_service_answers_no_flag: "st_flags st = None \<Longrightarrow> \<not> flag_answers name on ar st"
  by (simp add: flag_answers_def)

section \<open>The posture of a started server\<close>

text \<open>
  C40: what a started server can do follows from its settings. A server starts in production
  only with the real model backend and a budget within the ceiling; with sign-in on, it has
  a verifier for a named project, and every change of a session or a template comes from a
  signed-in caller with the role; with sign-in off nobody can change a template, and with
  no database nothing can be changed at all. Once stopped, it has neither verifier nor flags.
\<close>

theorem started_server_posture:
  assumes "startup env = Inr p" and "ap_verifier app = ps_verifier p" and "st_flags st = ps_flags p"
    and "wd_tasks (st_world st) = []" and "serve app ar st = (answer, st')"
  shows "(app_env (be_settings env) \<noteq> Prod \<or> llm_backend (be_settings env) \<noteq> MockBackend
        \<and> llm_budget_per_session_usd (be_settings env) \<le> prod_budget_ceiling_usd)
    \<and> (case auth_mode (be_settings env) of
         IdentityPlatform \<Rightarrow> (\<exists>v. ap_verifier app = Some v \<and> vr_project_id v \<noteq> '''')
           \<and> (st_world st' = st_world st \<or> signed_in app dev_session_roles ar st)
           \<and> (st_templates st' = st_templates st \<or> signed_in app manager_roles ar st)
       | AuthDisabled \<Rightarrow> ap_verifier app = None \<and> st_templates st' = st_templates st)
    \<and> (be_database_url env \<notin> {None, Some ''''}
       \<or> st_world st' = st_world st \<and> st_templates st' = st_templates st)
    \<and> ps_verifier (shutdown p) = None \<and> ps_flags (shutdown p) = None"
proof -
  note boot = startup_cases [OF assms(1)]
  obtain st1 where h: "handle app ar st = (answer, st1)"
    and st': "st' = run_background app (fst answer < 400) st1"
    using assms(5) by (auto simp: serve_def split: prod.splits)
  have world: "st_world st' = st_world st \<or> may_drive app ar st"
    using handle_sound [OF h] run_background_idle [of st1] st' assms(4) by (auto simp: sound_step_def)
  have templates: "st_templates st' = st_templates st \<or> may_manage app ar st"
    using handle_sound [OF h] run_background_frame [of app "fst answer < 400" st1] st'
    by (auto simp: sound_step_def)
  have project: "\<exists>v. ap_verifier app = Some v \<and> vr_project_id v \<noteq> ''''"
    if "auth_mode (be_settings env) = IdentityPlatform"
    using booted_verifier_names_project [of env "ps_verifier p"] boot that assms(2) by simp
  have off: "ap_verifier app = None" if "auth_mode (be_settings env) = AuthDisabled"
    using booted_verifier boot that assms(2) by metis
  have dark: "st_flags st = None" if "be_database_url env \<in> {None, Some ''''}"
    using boot that assms(3) by (simp add: boot_flags_def)
  have "app_env (be_settings env) \<noteq> Prod \<or> llm_backend (be_settings env) \<noteq> MockBackend
      \<and> llm_budget_per_session_usd (be_settings env) \<le> prod_budget_ceiling_usd"
    using boot by (auto simp: assert_safe_for_environment_def split: if_splits)
  moreover have "case auth_mode (be_settings env) of
      IdentityPlatform \<Rightarrow> (\<exists>v. ap_verifier app = Some v \<and> vr_project_id v \<noteq> '''')
        \<and> (st_world st' = st_world st \<or> signed_in app dev_session_roles ar st)
        \<and> (st_templates st' = st_templates st \<or> signed_in app manager_roles ar st)
    | AuthDisabled \<Rightarrow> ap_verifier app = None \<and> st_templates st' = st_templates st"
    using world templates project off no_verifier_signs_nobody_in
    by (auto simp: may_drive_def may_manage_def split: auth_mode.split)
  moreover have "be_database_url env \<notin> {None, Some ''''}
      \<or> st_world st' = st_world st \<and> st_templates st' = st_templates st"
  proof (cases "be_database_url env \<in> {None, Some ''''}")
    case True
    from dark [OF this] world templates no_service_answers_no_flag [of st] show ?thesis
      by (simp add: may_drive_def may_manage_def)
  qed blast
  ultimately show ?thesis by (simp add: shutdown_def)
qed

definition demo_boot :: boot_env where
  "demo_boot = \<lparr>be_settings = \<lparr>llm_backend = MockBackend, app_env = Dev,
       llm_budget_per_session_usd = 5, auth_mode = AuthDisabled, gcp_project = '''',
       auth_allowed_domain = ''n-ix.com''\<rparr>,
     be_database_url = None, be_flags_yaml = JNull, be_flags_valid = (\<lambda>_. True),
     be_jwt = vr_jwt demo_verifier, be_fetch = vr_fetch demo_verifier, be_clock = of_nat, be_lower = lower\<rparr>"

theorem started_server_posture_witness:
  "st_world (snd (serve (demo_app\<lparr>ap_verifier := None\<rparr>) (demo_arrival True) (demo_server\<lparr>st_flags := None\<rparr>)))
     = st_world demo_server"
proof -
  have "startup demo_boot = Inr \<lparr>ps_verifier = None, ps_flags = None\<rparr>"
    by (simp add: startup_def demo_boot_def boot_verifier_def boot_flags_def assert_safe_for_environment_def)
  from started_server_posture [OF this, of "demo_app\<lparr>ap_verifier := None\<rparr>" "demo_server\<lparr>st_flags := None\<rparr>",
      OF _ _ _ surjective_pairing]
  show ?thesis by (simp add: demo_server_def demo_world_def demo_boot_def)
qed

end
