(* ===== verification/Auth_Claims.thy ===== *)
theory Auth_Claims
  imports Auth
begin

text \<open>
  The blocking function of \<open>infra/functions/auth_claims\<close>: \<open>roles.py\<close> (the role mapping
  and the sign-in decision) and \<open>main.py\<close> (the two triggers), which put the claims into
  the tokens \<open>app/backend/services/auth.py\<close> verifies. The identity platform that calls the
  triggers and signs the tokens is not part of the repository. Unicode lower-casing is the
  argument \<open>low\<close>; white space is ASCII, and a YAML mapping has string keys.
\<close>

section \<open>The role mapping\<close>

record role_mapping =
  mp_domain :: string
  mp_roles :: "(string, string) dict"

datatype mapping_error = RoleMappingError

definition role_entry ::
  "(string \<Rightarrow> string) \<Rightarrow> string \<times> json \<Rightarrow> (string, string) dict
    \<Rightarrow> mapping_error + (string, string) dict" where
  "role_entry low entry roles = (case entry of (email, role) \<Rightarrow>
     if CHR ''@'' \<notin> set email then Inl RoleMappingError
     else case role of
       JStr r \<Rightarrow> if r \<in> set staff_roles then Inr (dict_set roles (low (strip email)) r)
                else Inl RoleMappingError
     | _ \<Rightarrow> Inl RoleMappingError)"

fun role_entries ::
  "(string \<Rightarrow> string) \<Rightarrow> (string \<times> json) list \<Rightarrow> (string, string) dict
    \<Rightarrow> mapping_error + (string, string) dict" where
  "role_entries low [] roles = Inr roles"
| "role_entries low (e # es) roles = and_then (role_entry low e roles) (role_entries low es)"

text \<open>\<open>load_mapping\<close> on what the file parses to; no document stands for a missing file.\<close>

definition load_mapping :: "(string \<Rightarrow> string) \<Rightarrow> json option \<Rightarrow> mapping_error + role_mapping" where
  "load_mapping low loaded = (case loaded of
     Some (JObj doc) \<Rightarrow>
       (case dict_get doc ''domain'' of
          Some (JStr domain) \<Rightarrow>
            if strip domain = '''' \<or> CHR ''@'' \<in> set domain then Inl RoleMappingError
            else (case dict_get doc ''roles'' of
              Some (JObj raw) \<Rightarrow>
                and_then (role_entries low raw []) (\<lambda>roles.
                  Inr \<lparr>mp_domain = low (strip domain), mp_roles = roles\<rparr>)
            | _ \<Rightarrow> Inl RoleMappingError)
        | _ \<Rightarrow> Inl RoleMappingError)
   | _ \<Rightarrow> Inl RoleMappingError)"

section \<open>The decision\<close>

datatype refusal = NoUsableEmail | EmailNotVerified | OutsideDomain

record decision =
  de_allowed :: bool
  de_reason :: "refusal option"
  de_claims :: "(string, string) dict"

text \<open>The part after the last at-sign (\<open>rpartition\<close>).\<close>

definition domain_of :: "string \<Rightarrow> string" where
  "domain_of s = rev (takeWhile (\<lambda>c. c \<noteq> CHR ''@'') (rev s))"

definition blocked :: "refusal \<Rightarrow> decision" where
  "blocked why = \<lparr>de_allowed = False, de_reason = Some why, de_claims = []\<rparr>"

definition decide :: "(string \<Rightarrow> string) \<Rightarrow> json \<Rightarrow> json \<Rightarrow> role_mapping \<Rightarrow> decision" where
  "decide low email verified mapping = (case email of
     JStr e \<Rightarrow>
       if CHR ''@'' \<notin> set e then blocked NoUsableEmail
       else if verified \<noteq> JBool True then blocked EmailNotVerified
       else (let normalized = low (strip e)
             in if domain_of normalized \<noteq> mp_domain mapping then blocked OutsideDomain
                else \<lparr>de_allowed = True, de_reason = None, de_claims =
                       (case dict_get (mp_roles mapping) normalized of
                          Some role \<Rightarrow> dict_set [(''hd'', mp_domain mapping)] ''role'' role
                        | None \<Rightarrow> [(''hd'', mp_domain mapping)])\<rparr>)
   | _ \<Rightarrow> blocked NoUsableEmail)"

section \<open>The triggers\<close>

text \<open>
  A refusal is the error \<open>PERMISSION_DENIED\<close>. Creation sets no persistent claims; every
  sign-in gets the claims of the mapping as deployed then.
\<close>

datatype https_error = PermissionDenied refusal

definition decision_for ::
  "(string \<Rightarrow> string) \<Rightarrow> role_mapping \<Rightarrow> json \<Rightarrow> json \<Rightarrow> https_error + decision" where
  "decision_for low mapping email verified =
     (let d = decide low email verified mapping
      in if \<not> de_allowed d then Inl (PermissionDenied (the (de_reason d))) else Inr d)"

definition before_created ::
  "(string \<Rightarrow> string) \<Rightarrow> role_mapping \<Rightarrow> json \<Rightarrow> json \<Rightarrow> https_error + (string, string) dict option" where
  "before_created low mapping email verified =
     and_then (decision_for low mapping email verified) (\<lambda>_. Inr None)"

definition before_signed_in ::
  "(string \<Rightarrow> string) \<Rightarrow> role_mapping \<Rightarrow> json \<Rightarrow> json \<Rightarrow> https_error + (string, string) dict" where
  "before_signed_in low mapping email verified =
     and_then (decision_for low mapping email verified) (\<lambda>d. Inr (de_claims d))"

section \<open>Facts\<close>

text \<open>What the proofs use of lower-casing: it neither makes nor removes an at-sign.\<close>

definition keeps_at :: "(string \<Rightarrow> string) \<Rightarrow> bool" where
  "keeps_at low \<longleftrightarrow> (\<forall>s. CHR ''@'' \<in> set (low s) \<longleftrightarrow> CHR ''@'' \<in> set s)"

lemma strip_subset: "set (strip s) \<subseteq> set s"
  unfolding strip_def by (metis set_dropWhileD set_rev subsetI)

lemma domain_of_split: "CHR ''@'' \<notin> set d \<Longrightarrow> domain_of (p @ CHR ''@'' # d) = d"
  by (simp add: domain_of_def takeWhile_append takeWhile_eq_all_conv)

lemma domain_of_iff:
  assumes "CHR ''@'' \<notin> set d" and "CHR ''@'' \<in> set s"
  shows "domain_of s = d \<longleftrightarrow> ends_with (CHR ''@'' # d) s"
proof -
  obtain p q where s: "s = p @ CHR ''@'' # q" "CHR ''@'' \<notin> set q"
    using split_list_last [OF assms(2)] by blast
  then have "domain_of s = q" by (simp add: domain_of_split)
  then show ?thesis using s domain_of_split [OF assms(1)] by (auto simp: ends_with_iff)
qed

definition mapping_ok :: "role_mapping \<Rightarrow> bool" where
  "mapping_ok m \<longleftrightarrow> CHR ''@'' \<notin> set (mp_domain m)
     \<and> (\<forall>e r. dict_get (mp_roles m) e = Some r \<longrightarrow> r \<in> set staff_roles)"

lemma role_entries_staff:
  assumes "role_entries low es roles = Inr roles'"
    and "\<forall>e r. dict_get roles e = Some r \<longrightarrow> r \<in> set staff_roles"
  shows "\<forall>e r. dict_get roles' e = Some r \<longrightarrow> r \<in> set staff_roles"
  using assms
proof (induction es arbitrary: roles)
  case (Cons x es)
  obtain acc where step: "role_entry low x roles = Inr acc" "role_entries low es acc = Inr roles'"
    using Cons.prems(1) by (auto simp: and_then_eq_Inr)
  have "\<forall>e r. dict_get acc e = Some r \<longrightarrow> r \<in> set staff_roles"
    using step(1) Cons.prems(2)
    by (auto simp: role_entry_def dict_simps split: prod.splits json.splits if_splits)
  with step(2) show ?case by (rule Cons.IH)
qed simp

lemma loaded_mapping_ok:
  assumes "load_mapping low loaded = Inr m" and "keeps_at low"
  shows "mapping_ok m"
proof -
  obtain domain raw where
    d: "CHR ''@'' \<notin> set domain" "mp_domain m = low (strip domain)"
    and r: "role_entries low raw [] = Inr (mp_roles m)"
    using assms(1)
    by (auto simp: load_mapping_def and_then_eq_Inr split: option.splits json.splits if_splits)
  have "CHR ''@'' \<notin> set (mp_domain m)"
    using assms(2) d strip_subset by (auto simp: keeps_at_def)
  with role_entries_staff [OF r] show ?thesis by (simp add: mapping_ok_def)
qed

lemma decide_cases:
  assumes "mapping_ok m" and "keeps_at low" and "strip e = e"
  shows "before_signed_in low m (JStr e) ev =
    (if CHR ''@'' \<notin> set e then Inl (PermissionDenied NoUsableEmail)
     else if ev \<noteq> JBool True then Inl (PermissionDenied EmailNotVerified)
     else if \<not> ends_with (CHR ''@'' # mp_domain m) (low e) then Inl (PermissionDenied OutsideDomain)
     else Inr ((''hd'', mp_domain m) # (case dict_get (mp_roles m) (low e) of
        Some role \<Rightarrow> [(''role'', role)] | None \<Rightarrow> [])))"
  using assms domain_of_iff [of "mp_domain m" "low e"]
  by (auto simp: before_signed_in_def decision_for_def decide_def blocked_def Let_def mapping_ok_def
      keeps_at_def split: option.split)

end
