(* ===== verification/Auth_Claims_Props.thy ===== *)
theory Auth_Claims_Props
  imports Auth_Claims Auth_Props
begin

text \<open>
  The two ends of staff sign-in agree: what the blocking function lets through with its
  claims is what the backend's verifier accepts.
\<close>

text \<open>The token's claims carry the session claims, with the last word on \<open>hd\<close> and \<open>role\<close>.\<close>

definition carries :: "(string, json) dict \<Rightarrow> (string, string) dict \<Rightarrow> bool" where
  "carries claims session \<longleftrightarrow> list_all (\<lambda>k. dict_get claims k = map_option JStr (dict_get session k))
     [''hd'', ''role'']"

definition account_claims :: "verifier \<Rightarrow> string \<Rightarrow> string \<Rightarrow> json \<Rightarrow> (string, json) dict \<Rightarrow> bool" where
  "account_claims v sub e ev claims \<longleftrightarrow> dict_get claims ''iss'' = Some (JStr (vr_issuer v))
     \<and> dict_get claims ''sub'' = Some (JStr sub) \<and> sub \<noteq> ''''
     \<and> dict_get claims ''email'' = Some (JStr e) \<and> dict_get claims ''email_verified'' = Some ev"


definition demo_roles :: "json option" where
  "demo_roles = Some (JObj [(''domain'', JStr ''N-IX.com''),
     (''roles'', JObj [(''Ann@n-ix.com'', JStr ''admin'')])])"

definition demo_claims :: "(string, json) dict" where
  "demo_claims = [(''iss'', JStr (vr_issuer demo_verifier)), (''sub'', JStr ''u1''),
     (''email'', JStr ''ann@n-ix.com''), (''email_verified'', JBool True),
     (''hd'', JStr ''n-ix.com''), (''role'', JStr ''admin'')]"

lemma lower_keeps_at: "keeps_at lower"
proof -
  let ?low = "\<lambda>c :: char. if 65 \<le> (of_char c :: nat) \<and> (of_char c :: nat) \<le> 90
      then char_of ((of_char c :: nat) + 32) else c"
  have code: "(of_char (?low c) :: nat) = (let n = of_char c in if 65 \<le> n \<and> n \<le> 90 then n + 32 else n)" for c
    by (simp add: Let_def)
  have at: "c = CHR ''@'' \<longleftrightarrow> (of_char c :: nat) = 64" for c
    using of_char_eq_iff [of c "CHR ''@''", where 'a = nat] by simp
  have "?low c = CHR ''@'' \<longleftrightarrow> c = CHR ''@''" for c
    unfolding at code Let_def by (simp split: if_split)
  then have "(CHR ''@'' \<in> set (map ?low s)) = (CHR ''@'' \<in> set s)" for s
    by (induction s) (simp_all only: list.set list.map insert_iff empty_iff eq_commute [of "CHR ''@''"])
  then show ?thesis unfolding keeps_at_def lower_def by blast
qed

definition demo_mapping :: role_mapping where
  "demo_mapping = \<lparr>mp_domain = ''n-ix.com'', mp_roles = [(''ann@n-ix.com'', ''admin'')]\<rparr>"


end
