(* ===== verification/Logging.thy ===== *)
theory Logging
  imports Py_Text
begin

text \<open>
  \<open>app/backend/logging.py\<close>: the processor that scrubs candidate data from log records and
  the choice of format and level. A log text is its list of code points, since the e-mail
  pattern works on characters; which code points are word characters beyond ASCII is
  Python's \<open>str\<close>, the argument \<open>word\<close>. The logging libraries themselves, and what
  they render, are not modelled.
\<close>

type_synonym char_codes = "nat list"

definition char_codes :: "string \<Rightarrow> char_codes" where
  "char_codes = map of_char"

section \<open>The e-mail pattern\<close>

text \<open>
  The pattern is a run of user characters, an at-sign, a run of host characters, a dot, and
  a run of at least two top-level characters. \<open>match_email\<close> is the length of the match
  at the start of the text, found the way the greedy, backtracking matcher finds it: the
  first run cannot give back (an at-sign is no user character), the host gives back until a
  dot with a long enough run after it follows.
\<close>

definition user_char :: "(nat \<Rightarrow> bool) \<Rightarrow> nat \<Rightarrow> bool" where
  "user_char word c \<longleftrightarrow> word c \<or> c \<in> set (char_codes ''.+%-'')"

definition host_char :: "(nat \<Rightarrow> bool) \<Rightarrow> nat \<Rightarrow> bool" where
  "host_char word c \<longleftrightarrow> word c \<or> c \<in> set (char_codes ''.-'')"

definition top_char :: "(nat \<Rightarrow> bool) \<Rightarrow> nat \<Rightarrow> bool" where
  "top_char word c \<longleftrightarrow> word c \<or> c \<in> set (char_codes ''-'')"

definition run_length :: "(nat \<Rightarrow> bool) \<Rightarrow> char_codes \<Rightarrow> nat" where
  "run_length p s = length (takeWhile p s)"

fun match_host :: "(nat \<Rightarrow> bool) \<Rightarrow> char_codes \<Rightarrow> nat \<Rightarrow> nat option" where
  "match_host word s 0 = None"
| "match_host word s (Suc k) =
     (let tld = run_length (top_char word) (drop (Suc (Suc k)) s)
      in if Suc k < length s \<and> s ! Suc k = of_char (CHR ''.'') \<and> tld \<ge> 2
         then Some (Suc (Suc k) + tld)
         else match_host word s k)"

definition match_email :: "(nat \<Rightarrow> bool) \<Rightarrow> char_codes \<Rightarrow> nat option" where
  "match_email word s =
     (let u = run_length (user_char word) s
      in if u \<ge> 1 \<and> u < length s \<and> s ! u = of_char (CHR ''@'')
         then (let rest = drop (Suc u) s
               in map_option (\<lambda>h. Suc u + h) (match_host word rest (run_length (host_char word) rest)))
         else None)"

definition redacted_email :: char_codes where
  "redacted_email = char_codes ''<REDACTED_EMAIL>''"

text \<open>\<open>re.sub\<close>: non-overlapping matches from left to right.\<close>

function scrub :: "(nat \<Rightarrow> bool) \<Rightarrow> char_codes \<Rightarrow> char_codes" where
  "scrub word [] = []"
| "scrub word (c # s) = (case match_email word (c # s) of
     None \<Rightarrow> c # scrub word s
   | Some n \<Rightarrow> redacted_email @ scrub word (drop n (c # s)))"
  by pat_completeness auto

lemma match_host_bounds: "match_host word s k = Some n \<Longrightarrow> 0 < n"
  by (induction word s k rule: match_host.induct) (auto simp: Let_def split: if_splits)

lemma match_email_positive: "match_email word s = Some n \<Longrightarrow> 0 < n"
  by (auto simp: match_email_def Let_def split: if_splits)

termination scrub
  by (relation "measure (\<lambda>(word, s). length s)") (auto dest: match_email_positive)

section \<open>Log records\<close>

datatype log_value = LogText char_codes | LogOther json

type_synonym event_dict = "(string, log_value) dict"

definition pii_fields :: "string list" where
  "pii_fields = [''candidate_email'']"

definition redacted :: char_codes where
  "redacted = char_codes ''<REDACTED>''"

definition redact_field :: "string \<Rightarrow> event_dict \<Rightarrow> event_dict" where
  "redact_field k d = (if k \<in> dict_keys d then dict_set d k (LogText redacted) else d)"

definition pii_redaction_processor :: "(nat \<Rightarrow> bool) \<Rightarrow> event_dict \<Rightarrow> event_dict" where
  "pii_redaction_processor word d =
     (let d1 = fold redact_field pii_fields d
      in case dict_get d1 ''event'' of
           Some (LogText t) \<Rightarrow> dict_set d1 ''event'' (LogText (scrub word t))
         | _ \<Rightarrow> d1)"

section \<open>Format and level\<close>

definition valid_formats :: "string list" where
  "valid_formats = [''json'', ''console'']"

definition valid_levels :: "(string \<times> nat) list" where
  "valid_levels = [(''DEBUG'', 10), (''INFO'', 20), (''WARNING'', 30), (''ERROR'', 40), (''CRITICAL'', 50)]"

definition upper :: "string \<Rightarrow> string" where
  "upper = map (\<lambda>c. if 97 \<le> (of_char c :: nat) \<and> (of_char c :: nat) \<le> 122
                    then char_of ((of_char c :: nat) - 32) else c)"

text \<open>Python's \<open>a or b\<close> on texts that may be absent.\<close>

definition or_text :: "string option \<Rightarrow> string option \<Rightarrow> string option" where
  "or_text a b = (case a of Some (c # s) \<Rightarrow> a | _ \<Rightarrow> b)"

definition first_text :: "string option \<Rightarrow> string option \<Rightarrow> string \<Rightarrow> string" where
  "first_text a b fallback = (case or_text (or_text a b) (Some fallback) of Some s \<Rightarrow> s | None \<Rightarrow> fallback)"

definition resolve_log_format :: "string option \<Rightarrow> string option \<Rightarrow> string" where
  "resolve_log_format log_format env =
     (let candidate = lower (first_text log_format env ''json'')
      in if candidate \<in> set valid_formats then candidate else ''json'')"

definition resolve_log_level :: "string option \<Rightarrow> string option \<Rightarrow> nat" where
  "resolve_log_level log_level env =
     (case map_of valid_levels (upper (first_text log_level env ''INFO'')) of
        Some n \<Rightarrow> n | None \<Rightarrow> 20)"

text \<open>The pipeline \<open>configure_logging\<close> installs, by the name of each processor.\<close>

datatype processor =
    MergeContextvars | AddLogLevel | TimeStamper | PiiRedaction | EventRenamer
  | ConsoleRenderer | JSONRenderer

definition configure_logging ::
  "string option \<Rightarrow> string option \<Rightarrow> string option \<Rightarrow> string option \<Rightarrow> processor list \<times> nat" where
  "configure_logging log_format log_level env_format env_level =
     ([MergeContextvars, AddLogLevel, TimeStamper, PiiRedaction, EventRenamer,
       if resolve_log_format log_format env_format = ''console'' then ConsoleRenderer else JSONRenderer],
      resolve_log_level log_level env_level)"

section \<open>What the matcher finds\<close>

text \<open>An address at the start of a text, as the pattern reads.\<close>

definition address :: "(nat \<Rightarrow> bool) \<Rightarrow> char_codes \<Rightarrow> bool" where
  "address word a \<longleftrightarrow> (\<exists>user host top.
     a = user @ of_char (CHR ''@'') # host @ of_char (CHR ''.'') # top
     \<and> user \<noteq> [] \<and> list_all (user_char word) user
     \<and> host \<noteq> [] \<and> list_all (host_char word) host
     \<and> 2 \<le> length top \<and> list_all (top_char word) top)"

text \<open>On ASCII, a word character is a letter, a digit or the underscore.\<close>

definition ascii_word :: "(nat \<Rightarrow> bool) \<Rightarrow> bool" where
  "ascii_word word \<longleftrightarrow> (\<forall>c < 128. word c \<longleftrightarrow>
     48 \<le> c \<and> c \<le> 57 \<or> 65 \<le> c \<and> c \<le> 90 \<or> 97 \<le> c \<and> c \<le> 122 \<or> c = 95)"

lemma ascii_simps:
  assumes "ascii_word word"
  shows "\<not> user_char word 64" "\<not> host_char word 64" "\<not> user_char word 60" "\<not> user_char word 62"
    "\<not> host_char word 60" "\<not> top_char word 60" "\<not> host_char word 62" "host_char word 46"
    "\<not> top_char word 62"
  using assms by (simp_all add: ascii_word_def user_char_def host_char_def top_char_def char_codes_def)

lemma run_length_append:
  "list_all p u \<Longrightarrow> run_length p (u @ s) = length u + run_length p s"
  by (induction u) (simp_all add: run_length_def)

lemma run_length_Cons: "run_length p (c # s) = (if p c then Suc (run_length p s) else 0)"
  by (simp add: run_length_def)

lemma run_length_le: "run_length p s \<le> length s"
  by (simp add: run_length_def length_takeWhile_le)

lemma run_length_take: "list_all p (take (run_length p s) s)"
  unfolding run_length_def by (metis list_all_iff set_takeWhileD takeWhile_eq_take)

lemma match_host_Some:
  assumes "k' < k" and "Suc k' < length s" and "s ! Suc k' = 46"
    and "2 \<le> run_length (top_char word) (drop (Suc (Suc k')) s)"
  shows "match_host word s k \<noteq> None"
  using assms(1)
proof (induction k)
  case (Suc k)
  then show ?case using assms(2-4) by (cases "k' = k") (simp_all add: Let_def)
qed simp

lemma match_host_None:
  "match_host word s k = Some n \<Longrightarrow> \<exists>k' < k. Suc k' < length s \<and> s ! Suc k' = 46
     \<and> 2 \<le> run_length (top_char word) (drop (Suc (Suc k')) s)
     \<and> n = Suc (Suc k') + run_length (top_char word) (drop (Suc (Suc k')) s)"
proof (induction k)
  case (Suc k)
  then show ?case by (auto simp: Let_def less_Suc_eq split: if_splits)
qed simp

end
