(* ===== verification/Logging_Props.thy ===== *)
theory Logging_Props
  imports Logging
begin

text \<open>
  What leaves the log pipeline: the scrubber is equivalent to its reading as a pattern, no
  address survives it, and nothing but addresses is replaced.
\<close>

section \<open>The matcher and the pattern\<close>

lemma address_matches:
  assumes "ascii_word word" and "address word a"
  shows "match_email word (a @ rest) \<noteq> None"
proof -
  obtain user host top where a: "a = user @ 64 # host @ 46 # top"
    and user: "user \<noteq> []" "list_all (user_char word) user"
    and host: "host \<noteq> []" "list_all (host_char word) host"
    and top: "2 \<le> length top" "list_all (top_char word) top"
    using assms(2) by (auto simp: address_def)
  note ascii = ascii_simps [OF assms(1)]
  let ?s = "a @ rest" and ?r = "host @ 46 # top @ rest"
  have u: "run_length (user_char word) ?s = length user"
    using ascii(1) by (simp add: a run_length_append [OF user(2)] run_length_Cons)
  have r: "drop (Suc (length user)) ?s = ?r" by (simp add: a)
  have at: "?s ! length user = 64" "length user < length ?s" by (simp_all add: a)
  have "length host - 1 < run_length (host_char word) ?r"
    using host(1) ascii(8) by (simp add: run_length_append [OF host(2)] run_length_Cons)
  moreover have "Suc (length host - 1) = length host" using host(1) by simp
  ultimately have "match_host word ?r (run_length (host_char word) ?r) \<noteq> None"
    using top(1) by (intro match_host_Some [of "length host - 1"])
      (simp_all add: run_length_append [OF top(2)])
  then show ?thesis using user(1) u r at by (simp add: match_email_def Let_def Suc_le_eq)
qed

lemma matched_address:
  assumes "match_email word s = Some n"
  shows "n \<le> length s \<and> address word (take n s)"
proof -
  define u where "u = run_length (user_char word) s"
  define rest where "rest = drop (Suc u) s"
  have u: "1 \<le> u" "u < length s" "s ! u = 64"
    using assms by (auto simp: match_email_def u_def Let_def split: if_splits)
  obtain h where h: "match_host word rest (run_length (host_char word) rest) = Some h" "n = Suc u + h"
    using assms by (auto simp: match_email_def u_def rest_def Let_def split: if_splits)
  obtain k where k: "k < run_length (host_char word) rest" "Suc k < length rest" "rest ! Suc k = 46"
    "2 \<le> run_length (top_char word) (drop (Suc (Suc k)) rest)"
    "h = Suc (Suc k) + run_length (top_char word) (drop (Suc (Suc k)) rest)"
    using match_host_None [OF h(1)] by blast
  let ?top = "take (run_length (top_char word) (drop (Suc (Suc k)) rest)) (drop (Suc (Suc k)) rest)"
  have rest: "take h rest = take (Suc k) rest @ 46 # ?top"
    unfolding k(5) take_add take_Suc_conv_app_nth [OF k(2)] by (simp add: k(3))
  have s: "take n s = take u s @ 64 # take h rest"
    unfolding h(2) take_add take_Suc_conv_app_nth [OF u(2)] by (simp add: u(3) rest_def)
  have "list_all (host_char word) (take (Suc k) rest)"
    using run_length_take [of "host_char word" rest] k(1)
    by (metis Suc_leI list_all_append min.absorb1 take_add take_take append_take_drop_id)
  moreover have "2 \<le> length ?top"
    using k(4) run_length_le [of "top_char word" "drop (Suc (Suc k)) rest"] by simp
  moreover have "take u s \<noteq> []" "take (Suc k) rest \<noteq> []" using u k(2) by auto
  moreover have "list_all (user_char word) (take u s)" by (simp add: u_def run_length_take)
  ultimately have "address word (take n s)"
    unfolding address_def s rest using run_length_take by (intro exI conjI) auto
  moreover have "h \<le> length rest"
    using k(2,5) run_length_le [of "top_char word" "drop (Suc (Suc k)) rest"] by simp
  ultimately show ?thesis using u(2) h(2) by (simp add: rest_def)
qed

section \<open>No address survives\<close>

definition mentions_address :: "(nat \<Rightarrow> bool) \<Rightarrow> char_codes \<Rightarrow> bool" where
  "mentions_address word s \<longleftrightarrow> (\<exists>before a after. s = before @ a @ after \<and> address word a)"

lemma mentions_Cons:
  "mentions_address word (c # s) \<longleftrightarrow> (\<exists>a after. c # s = a @ after \<and> address word a) \<or> mentions_address word s"
proof
  assume "mentions_address word (c # s)"
  then obtain before a after where "c # s = before @ a @ after" "address word a"
    by (auto simp: mentions_address_def)
  then show "(\<exists>a after. c # s = a @ after \<and> address word a) \<or> mentions_address word s"
    by (cases before) (auto simp: mentions_address_def)
next
  assume "(\<exists>a after. c # s = a @ after \<and> address word a) \<or> mentions_address word s"
  then show "mentions_address word (c # s)"
    unfolding mentions_address_def by (metis append_Cons append_Nil)
qed

lemma address_nonempty: "address word a \<Longrightarrow> a \<noteq> []"
  by (auto simp: address_def)

lemma address_brackets:
  assumes "ascii_word word" and "address word a"
  shows "60 \<notin> set a" "62 \<notin> set a" "64 \<in> set a"
  using assms(2) ascii_simps [OF assms(1)] by (auto simp: address_def list_all_iff)

lemma scrub_common_prefix:
  "scrub word s = p @ q \<Longrightarrow> 60 \<notin> set p \<Longrightarrow> \<exists>q'. s = p @ q'"
proof (induction word s arbitrary: p rule: scrub.induct)
  case (2 word c s)
  show ?case
  proof (cases "p = [] \<or> match_email word (c # s) \<noteq> None")
    case True
    then show ?thesis
      using "2.prems" by (cases p) (auto simp: redacted_email_def char_codes_def)
  next
    case False
    then obtain p' where "p = c # p'" "scrub word s = p' @ q"
      using "2.prems"(1) by (cases p) auto
    then show ?thesis using "2.IH"(1) False "2.prems"(2) by auto
  qed
qed simp

lemma infix_beside:
  assumes "before @ a @ after = r @ z # t" and "z \<notin> set a"
  shows "(\<exists>w. r = before @ a @ w) \<or> (\<exists>w. t = w @ a @ after)"
proof -
  have "(before @ a) @ after = r @ z # t" using assms(1) by simp
  then obtain us where "before @ a = r @ us \<and> us @ after = z # t \<or> (before @ a) @ us = r"
    unfolding append_eq_append_conv2 by blast
  moreover have ?thesis if us: "before @ a = r @ z # us'" "us' @ after = t" for us'
  proof -
    obtain vs where "before = r @ vs \<and> vs @ a = z # us' \<or> before @ vs = r \<and> a = vs @ z # us'"
      using us(1) unfolding append_eq_append_conv2 by blast
    then show ?thesis using assms(2) us(2) by (cases vs) auto
  qed
  ultimately show ?thesis by (cases us) auto
qed

lemma redacted_beside:
  assumes "ascii_word word" and "mentions_address word (redacted_email @ t)"
  shows "mentions_address word t"
proof -
  obtain before a after where s: "redacted_email @ t = before @ a @ after" and a: "address word a"
    using assms(2) by (auto simp: mentions_address_def)
  note br = address_brackets [OF assms(1) a]
  let ?r = "char_codes ''<REDACTED_EMAIL''"
  have "before @ a @ after = ?r @ 62 # t" using s by (simp add: redacted_email_def char_codes_def)
  from infix_beside [OF this br(2)] have "\<exists>w. t = w @ a @ after"
  proof
    assume "\<exists>w. ?r = before @ a @ w"
    then have "64 \<in> set ?r" using br(3) by (metis Un_iff set_append)
    then show ?thesis by (simp add: char_codes_def)
  qed
  then show ?thesis using a by (auto simp: mentions_address_def)
qed

lemma scrub_clean:
  assumes "ascii_word word"
  shows "\<not> mentions_address word (scrub word s)"
  using assms
proof (induction word s rule: scrub.induct)
  case (1 word)
  then show ?case using address_nonempty by (auto simp: mentions_address_def)
next
  case (2 word c s)
  show ?case
  proof (cases "match_email word (c # s)")
    case None
    have "\<not> address word a" if "c # scrub word s = a @ after" for a after
    proof
      assume a: "address word a"
      then obtain x a' where "a = x # a'" using address_nonempty by (cases a) auto
      then have a': "a = c # a'" "scrub word s = a' @ after" using that by simp_all
      then obtain q where "s = a' @ q"
        using scrub_common_prefix [of word s a' after] address_brackets(1) [OF "2.prems" a] by auto
      then have "c # s = a @ q" using a' by simp
      with address_matches [OF "2.prems" a, of q] None show False by simp
    qed
    with "2.IH"(1) [OF None "2.prems"] None show ?thesis by (auto simp: mentions_Cons)
  next
    case (Some n)
    then show ?thesis using "2.IH"(2) [OF Some "2.prems"] redacted_beside [OF "2.prems"] by auto
  qed
qed

lemma scrub_unchanged: "\<not> mentions_address word s \<Longrightarrow> scrub word s = s"
proof (induction word s rule: scrub.induct)
  case (2 word c s)
  have "match_email word (c # s) = None"
  proof (rule ccontr)
    assume "match_email word (c # s) \<noteq> None"
    then obtain n where "match_email word (c # s) = Some n" by blast
    from matched_address [OF this] have "mentions_address word (c # s)"
      unfolding mentions_address_def by (metis append_Nil append_take_drop_id)
    with "2.prems" show False by contradiction
  qed
  with 2 show ?case by (simp add: mentions_Cons)
qed simp

text \<open>
  The text falls into pieces, some of them addresses; the scrubbed text has the marker for
  each address and the other pieces as they were.
\<close>

definition replaced_only :: "(nat \<Rightarrow> bool) \<Rightarrow> char_codes \<Rightarrow> char_codes \<Rightarrow> bool" where
  "replaced_only word s t \<longleftrightarrow> (\<exists>pieces. s = concat (map fst pieces)
     \<and> t = concat (map (\<lambda>(piece, is_address). if is_address then redacted_email else piece) pieces)
     \<and> list_all (\<lambda>(piece, is_address). is_address \<longrightarrow> address word piece) pieces)"

lemma replaced_piece:
  assumes "replaced_only word s t" and "b \<longrightarrow> address word x"
  shows "replaced_only word (x @ s) ((if b then redacted_email else x) @ t)"
proof -
  obtain pieces where "s = concat (map fst pieces)"
     "t = concat (map (\<lambda>(piece, is_address). if is_address then redacted_email else piece) pieces)"
     "list_all (\<lambda>(piece, is_address). is_address \<longrightarrow> address word piece) pieces"
    using assms(1) by (auto simp: replaced_only_def)
  then show ?thesis
    unfolding replaced_only_def using assms(2) by (intro exI [of _ "(x, b) # pieces"]) simp
qed

lemma scrub_replaces: "replaced_only word s (scrub word s)"
proof (induction word s rule: scrub.induct)
  case (1 word)
  show ?case unfolding replaced_only_def by (intro exI [of _ "[]"]) simp
next
  case (2 word c s)
  show ?case
  proof (cases "match_email word (c # s)")
    case None
    from replaced_piece [OF "2.IH"(1) [OF None], of False "[c]"] None show ?thesis by simp
  next
    case (Some n)
    from replaced_piece [OF "2.IH"(2) [OF Some], of True "take n (c # s)"] matched_address [OF Some]
    have "replaced_only word (take n (c # s) @ drop n (c # s)) (redacted_email @ scrub word (drop n (c # s)))"
      by simp
    then show ?thesis using Some by (simp only: append_take_drop_id scrub.simps option.case)
  qed
qed

section \<open>The record\<close>

lemma processed_record:
  defines "d' \<equiv> \<lambda>word d. pii_redaction_processor word d"
  shows "dict_keys (d' word d) = dict_keys d"
    and "dict_get (d' word d) k =
      (if k = ''candidate_email'' then map_option (\<lambda>_. LogText redacted) (dict_get d k)
       else if k = ''event'' then map_option (\<lambda>v. case v of
          LogText t \<Rightarrow> LogText (scrub word t) | LogOther _ \<Rightarrow> v) (dict_get d k)
       else dict_get d k)"
proof -
  have key: "''event'' \<in> dict_keys d" if "dict_get d ''event'' = Some v" for v
    using that py_dict.mem_keys [of "''event''" d] by simp
  show "dict_keys (d' word d) = dict_keys d"
    using key by (auto simp: d'_def pii_redaction_processor_def redact_field_def pii_fields_def Let_def
        dict_simps split: option.splits log_value.splits)
  show "dict_get (d' word d) k =
      (if k = ''candidate_email'' then map_option (\<lambda>_. LogText redacted) (dict_get d k)
       else if k = ''event'' then map_option (\<lambda>v. case v of
          LogText t \<Rightarrow> LogText (scrub word t) | LogOther _ \<Rightarrow> v) (dict_get d k)
       else dict_get d k)"
    by (auto simp: d'_def pii_redaction_processor_def redact_field_def pii_fields_def Let_def
        dict_simps py_dict.mem_keys split: option.splits log_value.splits)
qed

lemma dict_set_same: "dict_get d k = Some v \<Longrightarrow> dict_set d k v = d"
  by (induction d) auto

lemma processed_twice:
  assumes "ascii_word word"
  shows "pii_redaction_processor word (pii_redaction_processor word d) = pii_redaction_processor word d"
proof -
  let ?d = "pii_redaction_processor word d"
  have "dict_get ?d ''candidate_email'' = Some (LogText redacted)" if "''candidate_email'' \<in> dict_keys ?d"
    using that processed_record(2) [of word d "''candidate_email''"]
    by (auto simp: py_dict.mem_keys)
  then have "redact_field ''candidate_email'' ?d = ?d" by (simp add: redact_field_def dict_set_same)
  then have "fold redact_field pii_fields ?d = ?d" by (simp add: pii_fields_def)
  moreover have "dict_set ?d ''event'' (LogText (scrub word t)) = ?d"
    if t: "dict_get ?d ''event'' = Some (LogText t)" for t
  proof -
    have "\<exists>s. t = scrub word s"
      using t processed_record(2) [of word d "''event''"]
      by (cases "dict_get d ''event''") (auto split: log_value.splits)
    then have "scrub word t = t" using scrub_unchanged scrub_clean [OF assms] by blast
    with t show ?thesis by (simp add: dict_set_same)
  qed
  ultimately show ?thesis
    using pii_redaction_processor_def [of word ?d] by (auto simp: Let_def split: option.splits log_value.splits)
qed

text \<open>
  C21: what a log record says once it is scrubbed. A candidate's address field holds the
  marker; the message holds no address, each one replaced by the marker and nothing else
  changed; every other field, and the set of fields, is as it was; and scrubbing again
  changes nothing.
\<close>

theorem log_records_are_scrubbed:
  assumes "ascii_word word"
  shows "let d' = pii_redaction_processor word d in
      dict_keys d' = dict_keys d
      \<and> (\<forall>k v. dict_get d' k = Some v \<longrightarrow>
          (if k = ''candidate_email'' then v = LogText redacted
           else if k = ''event''
           then (case v of LogText t \<Rightarrow> \<not> mentions_address word t
                  \<and> (\<exists>s. dict_get d k = Some (LogText s) \<and> replaced_only word s t)
                | LogOther _ \<Rightarrow> dict_get d k = Some v)
           else dict_get d k = Some v))
      \<and> pii_redaction_processor word d' = d'"
proof -
  have "(if k = ''candidate_email'' then v = LogText redacted
      else if k = ''event''
      then (case v of LogText t \<Rightarrow> \<not> mentions_address word t
             \<and> (\<exists>s. dict_get d k = Some (LogText s) \<and> replaced_only word s t)
           | LogOther _ \<Rightarrow> dict_get d k = Some v)
      else dict_get d k = Some v)"
    if got: "dict_get (pii_redaction_processor word d) k = Some v" for k v
  proof (cases "dict_get d k")
    case None
    with got processed_record(2) [of word d k] show ?thesis by (simp split: if_splits)
  next
    case (Some w)
    with got processed_record(2) [of word d k] scrub_clean [OF assms] scrub_replaces [of word]
    show ?thesis by (cases w) (auto split: if_splits)
  qed
  then show ?thesis by (simp add: Let_def processed_record(1) processed_twice [OF assms])
qed

definition ascii_letters :: "nat \<Rightarrow> bool" where
  "ascii_letters c \<longleftrightarrow> 48 \<le> c \<and> c \<le> 57 \<or> 65 \<le> c \<and> c \<le> 90 \<or> 97 \<le> c \<and> c \<le> 122 \<or> c = 95"

theorem log_records_are_scrubbed_witness:
  "\<not> mentions_address ascii_letters (scrub ascii_letters (char_codes ''from ann@n-ix.com: hi''))
   \<and> scrub ascii_letters (char_codes ''from ann@n-ix.com: hi'') = char_codes ''from <REDACTED_EMAIL>: hi''"
proof -
  let ?d = "[(''event'', LogText (char_codes ''from ann@n-ix.com: hi''))]"
  have "ascii_word ascii_letters" by (simp add: ascii_word_def ascii_letters_def)
  note scrubbed = log_records_are_scrubbed [OF this, of ?d, unfolded Let_def]
  have "dict_get (pii_redaction_processor ascii_letters ?d) ''event''
      = Some (LogText (scrub ascii_letters (char_codes ''from ann@n-ix.com: hi'')))"
    by (simp only: processed_record(2)) simp
  with scrubbed have "\<not> mentions_address ascii_letters (scrub ascii_letters (char_codes ''from ann@n-ix.com: hi''))"
    by fastforce
  moreover have "scrub ascii_letters (char_codes ''from ann@n-ix.com: hi'')
      = char_codes ''from <REDACTED_EMAIL>: hi''" by code_simp
  ultimately show ?thesis ..
qed

end
