(* ===== verification/Flag_Check.thy ===== *)
theory Flag_Check
  imports Feature_Flags_Cache "HOL-Library.List_Lexorder" "HOL-Library.Char_ord"
begin

text \<open>
  \<open>scripts/check-feature-flag-registration.py\<close>: the guard that keeps the flag file, the
  call sites in the code and the human index in step. The tree is an argument: what the
  flag file parses to, whether the schema file exists, the text of the index, and the Python
  files below the backend with their path. An exception nothing catches ends the script
  with status 1; the messages printed are not modelled, only which violation each reports.
\<close>

section \<open>Call sites\<close>

definition call_name :: string where "call_name = ''is_enabled''"

definition is_quote :: "char \<Rightarrow> bool" where
  "is_quote c \<longleftrightarrow> c = CHR 0x22 \<or> c = CHR 0x27"

text \<open>
  A literal call at the start of the text: its name and what follows. Every run of the
  pattern ends before a character it cannot contain, so the matcher never goes back.
\<close>

definition match_call :: "string \<Rightarrow> (string \<times> string) option" where
  "match_call s =
     (if \<not> starts_with call_name s then None
      else case dropWhile is_space (drop (length call_name) s) of
        [] \<Rightarrow> None
      | p # s1 \<Rightarrow>
          if p \<noteq> CHR ''('' then None
          else (case dropWhile is_space s1 of
            [] \<Rightarrow> None
          | q # s2 \<Rightarrow>
              if \<not> is_quote q then None
              else (let name = takeWhile (\<lambda>c. \<not> is_quote c) s2
                    in case dropWhile (\<lambda>c. \<not> is_quote c) s2 of
                         [] \<Rightarrow> None
                       | _ # rest \<Rightarrow> if name = '''' then None else Some (name, rest))))"

text \<open>\<open>finditer\<close>: the search goes on after each match.\<close>

function find_calls :: "string \<Rightarrow> string list" where
  "find_calls [] = []"
| "find_calls (c # s) = (case match_call (c # s) of
     None \<Rightarrow> find_calls s
   | Some (name, rest) \<Rightarrow> name # find_calls rest)"
  by pat_completeness auto

lemma length_dropWhile: "length (dropWhile P xs) \<le> length xs"
  by (induction xs) auto

lemma match_call_shorter: "match_call s = Some (name, rest) \<Longrightarrow> length rest < length s"
proof -
  assume a: "match_call s = Some (name, rest)"
  obtain p s1 where s1: "dropWhile is_space (drop (length call_name) s) = p # s1"
    using a by (auto simp: match_call_def split: if_splits list.splits)
  obtain q s2 where s2: "dropWhile is_space s1 = q # s2"
    using a s1 by (auto simp: match_call_def split: if_splits list.splits)
  obtain r where "dropWhile (\<lambda>c. \<not> is_quote c) s2 = r # rest"
    using a s1 s2 by (auto simp: match_call_def Let_def split: if_splits list.splits)
  then show ?thesis
    using s1 s2 length_dropWhile [of is_space "drop (length call_name) s"]
      length_dropWhile [of is_space s1] length_dropWhile [of "\<lambda>c. \<not> is_quote c" s2] by simp
qed

termination find_calls
  by (relation "measure length") (auto dest: match_call_shorter)

text \<open>The path is relative to the backend, as a list of its parts.\<close>

type_synonym py_tree = "(string list \<times> string) list"

definition service_definition :: "string list" where
  "service_definition = [''services'', ''feature_flags.py'']"

definition scan_call_sites :: "py_tree option \<Rightarrow> (string, string list list) dict" where
  "scan_call_sites backend = (case backend of
     None \<Rightarrow> []
   | Some files \<Rightarrow>
       fold (\<lambda>(path, content) sites.
         if \<not> ends_with ''.py'' (last path) \<or> path = service_definition \<or> ''tests'' \<in> set path then sites
         else fold (\<lambda>name d. dict_set d name (dict_default d name [] @ [path])) (find_calls content) sites)
       files [])"

section \<open>The index\<close>

datatype doc_section = ActiveSection | SunsetSection

type_synonym doc_tables = "string list \<times> (string, string \<times> string) dict"

definition docs_row :: "doc_section \<Rightarrow> string \<Rightarrow> doc_tables \<Rightarrow> doc_tables" where
  "docs_row part stripped tables =
     (let cells = map strip (split_on (CHR ''|'') (strip_char (CHR ''|'') stripped));
          name = strip_char (CHR 0x60) (hd cells)
      in if lower name \<in> {''name'', ''''} \<or> set name \<subseteq> {CHR ''-'', CHR '':''} then tables
         else case part of
           ActiveSection \<Rightarrow> (name # fst tables, snd tables)
         | SunsetSection \<Rightarrow>
             if length cells \<ge> 3 then (fst tables, dict_set (snd tables) name (cells ! 1, cells ! 2))
             else tables)"

fun read_tables :: "doc_section option \<Rightarrow> string list \<Rightarrow> doc_tables \<Rightarrow> doc_tables" where
  "read_tables part [] tables = tables"
| "read_tables part (raw # lines) tables =
     (let stripped = strip raw
      in if starts_with ''## active flags'' (lower stripped) then read_tables (Some ActiveSection) lines tables
         else if starts_with ''## sunset flags'' (lower stripped)
         then read_tables (Some SunsetSection) lines tables
         else if starts_with ''## '' stripped then read_tables None lines tables
         else case part of
           None \<Rightarrow> read_tables part lines tables
         | Some sec \<Rightarrow>
             read_tables part lines
               (if starts_with ''|'' stripped then docs_row sec stripped tables else tables))"

definition parse_docs_tables :: "string option \<Rightarrow> doc_tables" where
  "parse_docs_tables docs = (case docs of
     None \<Rightarrow> ([], []) | Some content \<Rightarrow> read_tables None (splitlines content) ([], []))"

section \<open>The check\<close>

record flag_tree =
  ft_yaml :: "json option"
  ft_schema :: bool
  ft_docs :: "string option"
  ft_backend :: "py_tree option"

datatype violation =
    UndeclaredCall string
  | NoCallSite string
  | NoSunsetRow string
  | EmptyPr string
  | EmptyDate string
  | OrphanRow string

definition flag_state :: "json \<Rightarrow> (string \<times> string) option" where
  "flag_state j = (case (json_field j ''name'', json_field j ''state'') of
     (Some (JStr n), Some (JStr st)) \<Rightarrow> Some (n, st) | _ \<Rightarrow> None)"

definition names_in :: "string \<Rightarrow> (string \<times> string) list \<Rightarrow> string list" where
  "names_in st flags = map fst (filter (\<lambda>(_, s). s = st) flags)"

text \<open>\<open>sorted\<close> of a set of names.\<close>

definition sorted_names :: "string list \<Rightarrow> string list" where
  "sorted_names ns = sort (remdups ns)"

definition sunset_violations :: "(string, string \<times> string) dict \<Rightarrow> string \<Rightarrow> violation list" where
  "sunset_violations docs name = (case dict_get docs name of
     None \<Rightarrow> [NoSunsetRow name]
   | Some (pr, date) \<Rightarrow>
       (if pr = '''' then [EmptyPr name] else []) @ (if date = '''' then [EmptyDate name] else []))"

definition violations ::
  "(string \<times> string) list \<Rightarrow> (string, string list list) dict \<Rightarrow> (string, string \<times> string) dict
    \<Rightarrow> violation list" where
  "violations flags sites docs =
     (let active = names_in ''active'' flags; sunset = names_in ''sunset'' flags; called = map fst sites
      in map UndeclaredCall (sorted_names (filter (\<lambda>n. n \<notin> set active) called))
         @ map NoCallSite (sorted_names (filter (\<lambda>n. n \<notin> set called) active))
         @ concat (map (sunset_violations docs) (sorted_names sunset))
         @ map OrphanRow (sorted_names (filter (\<lambda>n. n \<notin> set sunset) (map fst docs))))"

definition check_registration :: "(json \<Rightarrow> bool) \<Rightarrow> flag_tree \<Rightarrow> nat" where
  "check_registration valid tree =
     (if ft_yaml tree = None \<or> \<not> ft_schema tree then 2
      else case (if truthy (the (ft_yaml tree)) then the (ft_yaml tree) else JObj []) of
        JObj doc \<Rightarrow>
          if \<not> valid (JObj doc) then 1
          else (case those (map flag_state (flag_list doc)) of
            None \<Rightarrow> 1
          | Some flags \<Rightarrow>
              if violations flags (scan_call_sites (ft_backend tree)) (snd (parse_docs_tables (ft_docs tree))) = []
              then 0 else 1)
      | _ \<Rightarrow> 1)"

end
