(* ===== verification/Flag_Check_Props.thy ===== *)
theory Flag_Check_Props
  imports Flag_Check
begin

text \<open>
  What a passing registration check means: the matcher finds every literal call, the exit
  status is 0 exactly on a consistent tree, and then no literal query of the feature-flag
  service can fail for want of a declaration.
\<close>

section \<open>Literal calls\<close>

definition call_text :: "string \<Rightarrow> string \<Rightarrow> bool" where
  "call_text name t \<longleftrightarrow> (\<exists>sp sp' q q'. t = call_name @ sp @ CHR ''('' # sp' @ q # name @ [q']
     \<and> list_all is_space sp \<and> list_all is_space sp' \<and> is_quote q \<and> is_quote q'
     \<and> name \<noteq> '''' \<and> list_all (\<lambda>c. \<not> is_quote c) name)"

definition calls_flag :: "string \<Rightarrow> string \<Rightarrow> bool" where
  "calls_flag content name \<longleftrightarrow> (\<exists>before call after. content = before @ call @ after \<and> call_text name call)"

lemma split_at_first:
  assumes "a @ x # u = b @ y # v" and "list_all P a" "\<not> P x" "list_all P b" "\<not> P y"
  shows "a = b \<and> x = y \<and> u = v"
  using assms by (induction a arbitrary: b) (case_tac b; auto)+

lemma dropWhile_run: "list_all P a \<Longrightarrow> \<not> P x \<Longrightarrow> dropWhile P (a @ x # u) = x # u"
  by (induction a) simp_all

lemma takeWhile_run: "list_all P a \<Longrightarrow> \<not> P x \<Longrightarrow> takeWhile P (a @ x # u) = a"
  by (induction a) simp_all

lemma dropWhile_ConsE:
  assumes "dropWhile P s = x # u"
  obtains a where "s = a @ x # u" "list_all P a" "\<not> P x"
proof -
  have "s = takeWhile P s @ x # u" using takeWhile_dropWhile_id [of P s] assms by simp
  moreover have "list_all P (takeWhile P s)" by (auto simp: list_all_iff dest: set_takeWhileD)
  moreover have "\<not> P x" using hd_dropWhile [of P s] assms by simp
  ultimately show thesis by (rule that)
qed

lemma call_simps [simp]: "\<not> is_space (CHR ''('')" "\<not> is_quote (CHR ''('')"
  by (simp_all add: is_space_def is_quote_def)

lemma quote_no_space: "is_quote q \<Longrightarrow> \<not> is_space q"
  by (auto simp: is_quote_def is_space_def)

lemma match_call_finds:
  assumes "call_text name t"
  shows "match_call (t @ rest) = Some (name, rest)"
proof -
  obtain sp sp' q q' where t: "t = call_name @ sp @ CHR ''('' # sp' @ q # name @ [q']"
    and sp: "list_all is_space sp" "list_all is_space sp'" "is_quote q" "is_quote q'"
    and name: "name \<noteq> ''''" "list_all (\<lambda>c. \<not> is_quote c) name"
    using assms by (auto simp: call_text_def)
  show ?thesis
    using sp name quote_no_space [OF sp(3)]
    by (simp add: match_call_def t starts_with_def dropWhile_run [where P = is_space]
        dropWhile_run [where P = "\<lambda>c. \<not> is_quote c"] takeWhile_run [where P = "\<lambda>c. \<not> is_quote c"])
qed

lemma match_call_text:
  assumes "match_call s = Some (name, rest)"
  shows "\<exists>t. s = t @ rest \<and> call_text name t"
proof -
  have start: "starts_with call_name s" using assms by (auto simp: match_call_def split: if_splits)
  then have s: "s = call_name @ drop (length call_name) s"
    unfolding starts_with_def by (metis append_take_drop_id)
  obtain p s1 where s1: "dropWhile is_space (drop (length call_name) s) = p # s1" "p = CHR ''(''"
    using assms start by (auto simp: match_call_def split: if_splits list.splits)
  obtain q s2 where s2: "dropWhile is_space s1 = q # s2" "is_quote q"
    using assms start s1 by (auto simp: match_call_def split: if_splits list.splits)
  obtain q' where s3: "dropWhile (\<lambda>c. \<not> is_quote c) s2 = q' # rest" "name = takeWhile (\<lambda>c. \<not> is_quote c) s2" "name \<noteq> ''''"
    using assms start s1 s2 by (auto simp: match_call_def Let_def split: if_splits list.splits)
  obtain sp where sp: "drop (length call_name) s = sp @ p # s1" "list_all is_space sp"
    using s1(1) by (rule dropWhile_ConsE)
  obtain sp' where sp': "s1 = sp' @ q # s2" "list_all is_space sp'"
    using s2(1) by (rule dropWhile_ConsE)
  obtain n where n: "s2 = n @ q' # rest" "list_all (\<lambda>c. \<not> is_quote c) n" "is_quote q'"
    using s3(1) by (rule dropWhile_ConsE) simp
  have "name = n" using s3(2) n takeWhile_run [OF n(2)] by simp
  then have "call_text name (call_name @ sp @ CHR ''('' # sp' @ q # name @ [q'])"
    using sp sp' n s2 s3(3) unfolding call_text_def by blast
  moreover have "s = (call_name @ sp @ CHR ''('' # sp' @ q # name @ [q']) @ rest"
    using s sp(1) sp'(1) n(1) s1(2) \<open>name = n\<close> by simp
  ultimately show ?thesis by blast
qed

lemma find_calls_sound: "name \<in> set (find_calls s) \<Longrightarrow> calls_flag s name"
proof (induction s rule: find_calls.induct)
  case (2 c s)
  show ?case
  proof (cases "match_call (c # s)")
    case None
    with 2 have "calls_flag s name" by simp
    then show ?thesis unfolding calls_flag_def by (metis append_Cons)
  next
    case (Some m)
    obtain n rest where m: "m = (n, rest)" by fastforce
    obtain t where t: "c # s = t @ rest" "call_text n t"
      using match_call_text Some m by blast
    show ?thesis
    proof (cases "name = n")
      case True
      then show ?thesis using t unfolding calls_flag_def by (metis append_Nil)
    next
      case False
      then have "calls_flag rest name" using 2(2) [OF Some m [symmetric]] 2(3) Some m by simp
      then show ?thesis using t(1) unfolding calls_flag_def by (metis append_assoc)
    qed
  qed
qed simp

text \<open>
  A call that starts inside another one starts inside its name, which then holds a
  parenthesis; so when no name found has one, every literal call is found.
\<close>

lemma head_unique:
  assumes "call_name @ sp @ CHR ''('' # sp' = before @ call_name @ sp1 @ CHR ''('' # sp1'"
    and "list_all is_space sp" "list_all is_space sp1" "list_all is_space sp'" "list_all is_space sp1'"
  shows "before = []"
proof -
  have no_paren: "list_all (\<lambda>c. c \<noteq> CHR ''('') sp" if "list_all is_space sp" for sp
    using that by (auto simp: list_all_iff)
  have call: "list_all (\<lambda>c. c \<noteq> CHR ''('') call_name" by (simp add: call_name_def)
  let ?paren = "\<lambda>s. length (filter (\<lambda>c. c = CHR ''('') s)"
  have none: "?paren s = 0" if "list_all (\<lambda>c. c \<noteq> CHR ''('') s" for s
    using that by (simp add: list_all_iff filter_empty_conv)
  have "?paren (call_name @ sp @ CHR ''('' # sp') = ?paren before + 1"
    using none [OF call] none [OF no_paren [OF assms(3)]] none [OF no_paren [OF assms(5)]]
    unfolding assms(1) by simp
  moreover have "?paren (call_name @ sp @ CHR ''('' # sp') = 1"
    using none [OF call] none [OF no_paren [OF assms(2)]] none [OF no_paren [OF assms(4)]] by simp
  ultimately have before: "list_all (\<lambda>c. c \<noteq> CHR ''('') before"
    by (simp add: list_all_iff filter_empty_conv)
  have "(call_name @ sp) @ CHR ''('' # sp' = (before @ call_name @ sp1) @ CHR ''('' # sp1'"
    using assms(1) by simp
  then have "call_name @ sp = before @ call_name @ sp1"
    by (rule split_at_first [where P = "\<lambda>c. c \<noteq> CHR ''(''", THEN conjunct1])
      (use no_paren [OF assms(2)] no_paren [OF assms(3)] call before in simp_all)
  then have "rev sp @ rev call_name = rev sp1 @ rev call_name @ rev before"
    by (metis rev_append append_assoc)
  then have e: "rev sp @ CHR ''d'' # rev (butlast call_name)
      = rev sp1 @ CHR ''d'' # (rev (butlast call_name) @ rev before)"
    by (simp add: call_name_def)
  have "rev (butlast call_name) = rev (butlast call_name) @ rev before"
    by (rule split_at_first [OF e, where P = is_space, THEN conjunct2, THEN conjunct2])
      (use assms(2,3) in \<open>simp_all add: list_all_rev is_space_def\<close>)
  then show ?thesis by simp
qed

lemma call_overlap:
  assumes "call_text n t" and "call_text name call" and "t @ rest = before @ call @ after"
    and "CHR ''('' \<notin> set n"
  shows "before = [] \<and> name = n \<or> (\<exists>w. before = t @ w \<and> rest = w @ call @ after)"
proof -
  let ?plain = "\<lambda>c. \<not> is_quote c"
  obtain sp sp' q q' where t: "t = call_name @ sp @ CHR ''('' # sp' @ q # n @ [q']"
    and sp: "list_all is_space sp" "list_all is_space sp'" "is_quote q" "is_quote q'" "list_all ?plain n"
    using assms(1) by (auto simp: call_text_def)
  obtain sp1 sp1' q1 q1' where c: "call = call_name @ sp1 @ CHR ''('' # sp1' @ q1 # name @ [q1']"
    and sp1: "list_all is_space sp1" "list_all is_space sp1'" "is_quote q1" "is_quote q1'" "list_all ?plain name"
    using assms(2) by (auto simp: call_text_def)
  let ?h = "call_name @ sp @ CHR ''('' # sp'" and ?h1 = "call_name @ sp1 @ CHR ''('' # sp1'"
  have plain: "list_all ?plain a" if "list_all is_space a" for a
    using that quote_no_space by (auto simp: list_all_iff)
  have call: "list_all ?plain call_name" by (simp add: call_name_def is_quote_def)
  have h: "list_all ?plain ?h" "list_all ?plain ?h1" using sp sp1 call plain by simp_all
  have start: "?h1 = CHR ''i'' # tl ?h1" "\<not> is_quote (CHR ''i'')"
    by (simp_all add: call_name_def is_quote_def)
  have eq: "?h @ q # n @ q' # rest = before @ ?h1 @ q1 # name @ q1' # after"
    using assms(3) by (simp add: t c)
  consider (outside) w where "before = ?h @ q # n @ q' # w" "rest = w @ ?h1 @ q1 # name @ q1' # after"
    | (name) w where "?h @ q # n = before @ w" "w \<noteq> []" "w @ q' # rest = ?h1 @ q1 # name @ q1' # after"
  proof -
    from eq have "(?h @ q # n) @ q' # rest = before @ (?h1 @ q1 # name @ q1' # after)" by simp
    then obtain us where "(?h @ q # n) = before @ us \<and> us @ q' # rest = ?h1 @ q1 # name @ q1' # after
        \<or> (?h @ q # n) @ us = before \<and> q' # rest = us @ ?h1 @ q1 # name @ q1' # after"
      unfolding append_eq_append_conv2 by blast
    then show thesis
      using start sp(4) name outside by (cases us) (auto simp: call_name_def)
  qed
  then show ?thesis
  proof cases
    case (outside w)
    then show ?thesis by (auto simp: t c)
  next
    case (name w)
    obtain us where us: "?h = before @ us \<and> us @ q # n = w \<or> ?h @ us = before \<and> q # n = us @ w"
      using name(1) unfolding append_eq_append_conv2 by blast
    show ?thesis
    proof (cases "?h = before @ us \<and> us @ q # n = w")
      case True
      then have "us @ q # n @ q' # rest = ?h1 @ q1 # name @ q1' # after" using name(3) by auto
      then have "us = ?h1 \<and> q = q1 \<and> n @ q' # rest = name @ q1' # after"
        by (rule split_at_first [where P = ?plain]) (use h True sp sp1 in simp_all)
      then have 1: "us = ?h1" "n @ q' # rest = name @ q1' # after" by simp_all
      have "?h = before @ ?h1" using True 1(1) by blast
      then have "before = []" by (rule head_unique) (use sp sp1 in simp_all)
      moreover have "n = name"
        using split_at_first [OF 1(2), where P = ?plain] sp sp1 by simp
      ultimately show ?thesis by simp
    next
      case False
      with us have f: "?h @ us = before" "q # n = us @ w" by blast+
      show ?thesis
      proof (cases us)
        case Nil
        then have "w = q # n" using f(2) by simp
        then have "q # n @ q' # rest = ?h1 @ q1 # name @ q1' # after" using name(3) by simp
        then have "is_quote (CHR ''i'')" using sp(3) start(1) by (metis append_Cons list.inject)
        with start(2) show ?thesis by contradiction
      next
        case (Cons x us')
        then have "n = us' @ w" using f(2) by simp
        then have "list_all ?plain w" using sp(5) by simp
        then have "w = ?h1"
          using split_at_first [OF name(3), where P = ?plain] h sp sp1 by simp
        then have "CHR ''('' \<in> set n" using \<open>n = us' @ w\<close> by simp
        with assms(4) show ?thesis by contradiction
      qed
    qed
  qed
qed

lemma find_calls_complete:
  assumes "calls_flag s name" and "\<forall>n \<in> set (find_calls s). CHR ''('' \<notin> set n"
  shows "name \<in> set (find_calls s)"
  using assms
proof (induction s rule: find_calls.induct)
  case 1
  then show ?case by (auto simp: calls_flag_def call_text_def)
next
  case (2 c s)
  obtain before call after where call: "c # s = before @ call @ after" "call_text name call"
    using "2.prems"(1) by (auto simp: calls_flag_def)
  show ?case
  proof (cases "match_call (c # s)")
    case None
    have "before \<noteq> []" using match_call_finds [OF call(2), of after] call(1) None by auto
    then obtain b where "s = b @ call @ after" using call(1) by (cases before) auto
    then have "calls_flag s name" using call(2) by (auto simp: calls_flag_def)
    then show ?thesis using "2.IH"(1) None "2.prems"(2) by simp
  next
    case (Some m)
    obtain n rest where m: "m = (n, rest)" by fastforce
    obtain t where t: "c # s = t @ rest" "call_text n t"
      using match_call_text Some m by blast
    have found: "find_calls (c # s) = n # find_calls rest" using Some m by simp
    have "t @ rest = before @ call @ after" using t(1) call(1) by simp
    from call_overlap [OF t(2) call(2) this] "2.prems"(2) found
    consider "name = n" | w where "rest = w @ call @ after" by fastforce
    then show ?thesis
    proof cases
      case 2
      then have "calls_flag rest name" using call(2) by (auto simp: calls_flag_def)
      then show ?thesis using "2.IH"(2) [OF Some m [symmetric]] "2.prems"(2) found by simp
    qed (simp only: found list.set insertI1)
  qed
qed

section \<open>The scan and the violations\<close>

definition scanned :: "string list \<Rightarrow> bool" where
  "scanned path \<longleftrightarrow> ends_with ''.py'' (last path) \<and> path \<noteq> service_definition \<and> ''tests'' \<notin> set path"

lemma add_calls_keys:
  "dict_keys (fold (\<lambda>name d. dict_set d name (dict_default d name [] @ [path])) ns d)
     = dict_keys d \<union> set ns"
  by (induction ns arbitrary: d) (auto simp: dict_simps)

lemma scan_keys:
  "dict_keys (scan_call_sites (Some files))
     = {n. \<exists>(path, content) \<in> set files. scanned path \<and> n \<in> set (find_calls content)}"
proof -
  let ?step = "\<lambda>(path, content) sites.
     if \<not> ends_with ''.py'' (last path) \<or> path = service_definition \<or> ''tests'' \<in> set path then sites
     else fold (\<lambda>name d. dict_set d name (dict_default d name [] @ [path])) (find_calls content) sites"
  have "dict_keys (fold ?step files d) = dict_keys d
      \<union> {n. \<exists>(path, content) \<in> set files. scanned path \<and> n \<in> set (find_calls content)}" for d
  proof (induction files arbitrary: d)
    case (Cons f fs)
    obtain path content where f: "f = (path, content)" by fastforce
    show ?case
    proof (cases "scanned path")
      case True
      then have "?step f d = fold (\<lambda>name d. dict_set d name (dict_default d name [] @ [path])) (find_calls content) d"
        by (auto simp: f scanned_def)
      then show ?thesis using Cons.IH [of "?step f d"] True add_calls_keys [of path "find_calls content" d]
        by (auto simp: f)
    next
      case False
      then have "?step f d = d" by (auto simp: f scanned_def)
      then show ?thesis using Cons.IH [of d] False by (auto simp: f)
    qed
  qed simp
  then show ?thesis by (simp add: scan_call_sites_def)
qed

lemma sorted_names_Nil [simp]: "sorted_names ns = [] \<longleftrightarrow> ns = []"
  by (simp add: sorted_names_def) (metis length_0_conv length_sort remdups_eq_nil_iff)

lemma set_sorted_names [simp]: "set (sorted_names ns) = set ns"
  by (simp add: sorted_names_def)

definition consistent ::
  "(string \<times> string) list \<Rightarrow> string set \<Rightarrow> (string, string \<times> string) dict \<Rightarrow> bool" where
  "consistent flags called docs \<longleftrightarrow> called = set (names_in ''active'' flags)
     \<and> dict_keys docs = set (names_in ''sunset'' flags)
     \<and> (\<forall>n pr date. dict_get docs n = Some (pr, date) \<longrightarrow> pr \<noteq> '''' \<and> date \<noteq> '''')"

lemma sunset_violations_Nil:
  "sunset_violations docs n = [] \<longleftrightarrow> (\<exists>pr date. dict_get docs n = Some (pr, date) \<and> pr \<noteq> '''' \<and> date \<noteq> '''')"
  by (auto simp: sunset_violations_def split: option.splits)

lemma violations_Nil: "violations flags sites docs = [] \<longleftrightarrow> consistent flags (dict_keys sites) docs"
proof -
  let ?active = "set (names_in ''active'' flags)" and ?sunset = "set (names_in ''sunset'' flags)"
  have "violations flags sites docs = [] \<longleftrightarrow> dict_keys sites \<subseteq> ?active \<and> ?active \<subseteq> dict_keys sites
      \<and> (\<forall>n \<in> ?sunset. sunset_violations docs n = []) \<and> dict_keys docs \<subseteq> ?sunset"
    by (auto simp: violations_def Let_def filter_empty_conv dict_keys_def)
  moreover have "(\<forall>n \<in> ?sunset. sunset_violations docs n = []) \<and> dict_keys docs \<subseteq> ?sunset
      \<longleftrightarrow> dict_keys docs = ?sunset
        \<and> (\<forall>n pr date. dict_get docs n = Some (pr, date) \<longrightarrow> pr \<noteq> '''' \<and> date \<noteq> '''')"
  proof -
    let ?rows = "\<forall>n \<in> ?sunset. sunset_violations docs n = []"
    let ?filled = "\<forall>n pr date. dict_get docs n = Some (pr, date) \<longrightarrow> pr \<noteq> '''' \<and> date \<noteq> ''''"
    have mem: "n \<in> dict_keys docs \<longleftrightarrow> (\<exists>pr date. dict_get docs n = Some (pr, date))" for n
      by (simp add: py_dict.mem_keys)
    have "?sunset \<subseteq> dict_keys docs" if ?rows
      using that mem unfolding sunset_violations_Nil by blast
    moreover have "?filled" if ?rows "dict_keys docs \<subseteq> ?sunset"
    proof (intro allI impI)
      fix n pr date
      assume n: "dict_get docs n = Some (pr, date)"
      then have "sunset_violations docs n = []" using that mem by blast
      then show "pr \<noteq> '''' \<and> date \<noteq> ''''" using n by (simp add: sunset_violations_Nil)
    qed
    moreover have ?rows if "dict_keys docs = ?sunset" ?filled
      using that mem unfolding sunset_violations_Nil by blast
    ultimately show ?thesis by blast
  qed
  ultimately show ?thesis unfolding consistent_def by blast
qed

lemma those_iff: "those xs = Some ys \<longleftrightarrow> xs = map Some ys"
  by (induction xs arbitrary: ys) (auto split: option.splits simp: Cons_eq_map_conv)

section \<open>Exit status\<close>

text \<open>The document the checks run on, and what it declares.\<close>

definition flag_document :: "json \<Rightarrow> json" where
  "flag_document loaded = (if truthy loaded then loaded else JObj [])"


text \<open>The registry of a file declares each of its flags.\<close>

lemma registry_from_keys:
  assumes "registry_from js acc = Inr r" and "map flag_state js = map Some flags"
  shows "dict_keys r = dict_keys acc \<union> fst ` set flags"
  using assms
proof (induction js arbitrary: acc flags)
  case (Cons j js)
  obtain f where f: "flag_entry j = Inr f" "registry_from js (dict_set acc (fd_name f) f) = Inr r"
    using Cons.prems(1) by (auto simp: and_then_eq_Inr)
  obtain n st rest where flags: "flags = (n, st) # rest" "flag_state j = Some (n, st)" "map flag_state js = map Some rest"
    using Cons.prems(2) by (cases flags) auto
  have "n = fd_name f"
    using f(1) flags(2)
    by (auto simp: flag_entry_def flag_state_def json_field_def split: json.splits option.splits)
  with Cons.IH [OF f(2) flags(3)] show ?case by (auto simp: flags(1) dict_simps)
qed simp

text \<open>
  Code that passes the guard cannot query an undeclared flag. When the guard answers 0
  and the service loads the same file (whose names hold no parenthesis, as the schema's
  pattern demands), every literal call in a scanned file names a declared flag, so the
  service does not raise \<open>UnknownFeatureFlag\<close> for it.
\<close>

theorem checked_calls_are_declared:
  assumes "check_registration valid tree = 0" and "ft_yaml tree = Some loaded"
    and "flags_from_yaml valid loaded = Inr s"
    and "\<forall>n \<in> dict_keys (fs_registry s). CHR ''('' \<notin> set n"
    and "ft_backend tree = Some files" and "(path, content) \<in> set files" and "scanned path"
    and "calls_flag content name"
  shows "name \<in> dict_keys (fs_registry s) \<and> fst (is_enabled s db name now) \<noteq> Inl UnknownFeatureFlag"
proof -
  obtain doc where doc: "flag_document loaded = JObj doc" "valid (JObj doc)" "build_registry doc = Inr (fs_registry s)"
    using assms(3)
    by (auto simp: flags_from_yaml_def flag_document_def and_then_eq_Inr split: json.splits if_splits)
  have loaded: "(if truthy (the (ft_yaml tree)) then the (ft_yaml tree) else JObj []) = JObj doc"
    using doc(1) unfolding assms(2) flag_document_def option.sel .
  have "check_registration valid tree = (case those (map flag_state (flag_list doc)) of
      None \<Rightarrow> 1
    | Some flags \<Rightarrow>
        if violations flags (scan_call_sites (ft_backend tree)) (snd (parse_docs_tables (ft_docs tree))) = []
        then 0 else 1) \<or> check_registration valid tree = 2"
    unfolding check_registration_def loaded json.case using doc(2) by simp
  then obtain flags where flags: "those (map flag_state (flag_list doc)) = Some flags"
    "violations flags (scan_call_sites (ft_backend tree)) (snd (parse_docs_tables (ft_docs tree))) = []"
    using assms(1) by (auto split: option.splits if_splits)
  have "map flag_state (flag_list doc) = map Some flags"
    using flags(1) by (simp add: those_iff)
  then have keys: "dict_keys (fs_registry s) = fst ` set flags"
    using registry_from_keys [OF doc(3) [unfolded build_registry_def]] by simp
  have called: "dict_keys (scan_call_sites (Some files)) = set (names_in ''active'' flags)"
    using flags(2) by (simp add: violations_Nil consistent_def assms(5))
  have declared: "n \<in> dict_keys (fs_registry s)" if "n \<in> set (find_calls content)" for n
  proof -
    have "n \<in> dict_keys (scan_call_sites (Some files))"
      using that assms(6,7) unfolding scan_keys by blast
    then show ?thesis unfolding called keys names_in_def by auto
  qed
  then have "name \<in> set (find_calls content)" using find_calls_complete assms(4,8) by blast
  then have name: "name \<in> dict_keys (fs_registry s)" by (rule declared)
  then show ?thesis
    by (auto simp: is_enabled_def cached_answer_def Let_def split: option.splits)
qed

definition demo_flag_tree :: flag_tree where
  "demo_flag_tree = \<lparr>
     ft_yaml = Some (JObj [(''flags'', JArr [JObj [(''name'', JStr ''live''), (''owner'', JStr ''ann''),
       (''default'', JBool False), (''state'', JStr ''active'')]])]),
     ft_schema = True, ft_docs = None,
     ft_backend = Some [([''api.py''], ''await is_enabled( '' @ [CHR 0x22] @ ''live'' @ [CHR 0x22] @ '')'')]\<rparr>"

definition demo_flag_service :: flag_service where
  "demo_flag_service = \<lparr>fs_registry = [(''live'',
     \<lparr>fd_name = ''live'', fd_owner = ''ann'', fd_default = False, fd_state = ''active''\<rparr>)], fs_cache = []\<rparr>"

theorem checked_calls_are_declared_witness:
  "fst (is_enabled demo_flag_service None ''live'' 0) \<noteq> Inl UnknownFeatureFlag"
proof -
  let ?call = "''is_enabled( '' @ [CHR 0x22] @ ''live'' @ [CHR 0x22]"
  have "check_registration (\<lambda>_. True) demo_flag_tree = 0" by code_simp
  moreover have "flags_from_yaml (\<lambda>_. True) (the (ft_yaml demo_flag_tree)) = Inr demo_flag_service"
    by code_simp
  moreover have "call_text ''live'' ?call"
    unfolding call_text_def
    by (intro exI [of _ "''''"] exI [of _ "'' ''"] exI [of _ "CHR 0x22"])
      (simp add: call_name_def is_space_def is_quote_def)
  then have "calls_flag (''await '' @ ?call @ '')'') ''live''" unfolding calls_flag_def by blast
  moreover have "scanned [''api.py'']"
    by (simp add: scanned_def ends_with_def service_definition_def)
  ultimately show ?thesis
    using checked_calls_are_declared [of "\<lambda>_. True" demo_flag_tree "the (ft_yaml demo_flag_tree)"
        demo_flag_service "the (ft_backend demo_flag_tree)" "[''api.py'']"
        "''await '' @ ?call @ '')''" "''live''" None 0]
    by (simp add: demo_flag_tree_def demo_flag_service_def dict_keys_def)
qed

end
