(* ===== verification/Flag_Sync.thy ===== *)
theory Flag_Sync
  imports Feature_Flags_Cache
begin

text \<open>
  The run of \<open>scripts/sync_feature_flags_to_db.py\<close>: from the environment and the flag file
  to its exit status, the rows it leaves and the names it notified, and what the flag
  service answers over those rows. Statements commit one by one, so a run that fails keeps
  the rows it has written.
\<close>

section \<open>The run\<close>

text \<open>\<open>list(yaml_doc.get("flags") or [])\<close>; what is neither empty nor a list has no entries with names.\<close>

definition sync_entries :: "json \<Rightarrow> json list option" where
  "sync_entries loaded = (case (if truthy loaded then loaded else JObj []) of
     JObj d \<Rightarrow>
       (case dict_get d ''flags'' of
          None \<Rightarrow> Some []
        | Some v \<Rightarrow> if \<not> truthy v then Some [] else (case v of JArr xs \<Rightarrow> Some xs | _ \<Rightarrow> None))
   | _ \<Rightarrow> None)"

text \<open>An entry whose name can be put in a set: an entry that has one, no list and no mapping.\<close>

definition entry_name :: "json \<Rightarrow> json option" where
  "entry_name j = (case json_field j ''name'' of
     Some (JArr _) \<Rightarrow> None | Some (JObj _) \<Rightarrow> None | v \<Rightarrow> v)"

definition text_names :: "json list \<Rightarrow> string list" where
  "text_names ns = map (\<lambda>n. case n of JStr s \<Rightarrow> s | _ \<Rightarrow> '''') (filter (\<lambda>n. case n of JStr _ \<Rightarrow> True | _ \<Rightarrow> False) ns)"

record sync_result =
  sy_status :: nat
  sy_rows :: "(string, flag_row) dict"
  sy_notified :: "string list"
  sy_orphans :: "string list"

definition sync_flags ::
  "string option \<Rightarrow> json \<Rightarrow> bool \<Rightarrow> (string, flag_row) dict \<Rightarrow> sync_result" where
  "sync_flags dsn loaded up rows =
     (let failed = \<lparr>sy_status = 1, sy_rows = rows, sy_notified = [], sy_orphans = []\<rparr>
      in if dsn \<in> {None, Some ''''} then failed
         else case sync_entries loaded of
           None \<Rightarrow> failed
         | Some entries \<Rightarrow>
             (case those (map entry_name entries) of
                None \<Rightarrow> failed
              | Some names \<Rightarrow>
                  if \<not> up then failed
                  else (case upsert_all entries rows [] of
                    (Inl _, written, ns) \<Rightarrow> failed\<lparr>sy_rows := written, sy_notified := ns\<rparr>
                  | (Inr _, written, ns) \<Rightarrow>
                      \<lparr>sy_status = 0, sy_rows = written, sy_notified = ns,
                       sy_orphans = orphans written (text_names names)\<rparr>)))"

section \<open>What the rows say\<close>

text \<open>The flag as the service would answer it from the rows, with the registry's default.\<close>

definition row_value :: "(string, flag_row) dict \<Rightarrow> string \<Rightarrow> bool \<Rightarrow> bool" where
  "row_value rows name initial = (case dict_get rows name of Some r \<Rightarrow> fr_enabled r | None \<Rightarrow> initial)"

lemma read_row_value:
  "read_from_db s (table_of rows) name =
     row_value rows name (case dict_get (fs_registry s) name of Some f \<Rightarrow> fd_default f | None \<Rightarrow> False)"
  by (simp add: read_from_db_def row_value_def table_of_get split: option.split)

text \<open>An entry the upsert accepts: its name, owner, stored payload and default.\<close>

definition upsert_entry :: "json \<Rightarrow> (string \<times> string \<times> json option \<times> bool) option" where
  "upsert_entry j = (case j of
     JObj d \<Rightarrow>
       (case (dict_get d ''name'', dict_get d ''owner'', dict_get d ''default'') of
          (Some (JStr n), Some (JStr ow), Some df) \<Rightarrow> Some (n, ow, default_value_of d, truthy df)
        | _ \<Rightarrow> None)
   | _ \<Rightarrow> None)"

lemma upsert_all_Cons:
  "upsert_all (j # js) rows ns = (case upsert_entry j of
     None \<Rightarrow> (Inl FlagKeyError, rows, ns)
   | Some (n, ow, dv, df) \<Rightarrow> upsert_all js (upsert_flag rows n ow dv df) (ns @ [n]))"
  by (auto simp: upsert_entry_def split: json.split option.split)

lemma flag_entry_upserts:
  "flag_entry j = Inr f \<Longrightarrow> \<exists>dv. upsert_entry j = Some (fd_name f, fd_owner f, dv, fd_default f)"
  by (auto simp: flag_entry_def upsert_entry_def split: json.splits option.splits)

lemma upsert_flag_value:
  "row_value (upsert_flag rows n ow dv df) m b =
     (if m = n then row_value rows n df else row_value rows m b)"
  by (auto simp: row_value_def upsert_flag_def dict_simps split: option.splits)

declare upsert_all.simps(2) [simp del]

text \<open>A name no entry has keeps its row, and its value for any default.\<close>

lemma upsert_all_others:
  assumes "upsert_all js rows ns = (res, rows', ns')"
    and "\<forall>j \<in> set js. \<forall>n ow dv df. upsert_entry j = Some (n, ow, dv, df) \<longrightarrow> n \<noteq> m"
  shows "dict_get rows' m = dict_get rows m"
  using assms
proof (induction js arbitrary: rows ns)
  case (Cons j js)
  then show ?case
    by (cases "upsert_entry j") (auto simp: upsert_all_Cons upsert_flag_def dict_simps)
qed simp

lemma upsert_all_complete:
  assumes "upsert_all js rows ns = (Inr (), rows', ns')"
  shows "list_all (\<lambda>j. upsert_entry j \<noteq> None) js"
  using assms
  by (induction js arbitrary: rows ns) (auto simp: upsert_all_Cons split: option.splits)

lemma upsert_all_keys:
  assumes "upsert_all js rows ns = (Inr (), rows', ns')"
  shows "dict_keys rows' = dict_keys rows \<union> {n. \<exists>j \<in> set js. \<exists>ow dv df. upsert_entry j = Some (n, ow, dv, df)}"
  using assms
proof (induction js arbitrary: rows ns)
  case (Cons j js)
  then obtain n ow dv df where j: "upsert_entry j = Some (n, ow, dv, df)"
    and rest: "upsert_all js (upsert_flag rows n ow dv df) (ns @ [n]) = (Inr (), rows', ns')"
    by (auto simp: upsert_all_Cons split: option.splits)
  have "dict_keys (upsert_flag rows n ow dv df) = insert n (dict_keys rows)"
    by (simp add: upsert_flag_def dict_simps)
  with Cons.IH [OF rest] show ?case by (auto simp: j)
qed simp

text \<open>A name whose entries all have the same default answers the same before and after.\<close>

lemma upsert_all_value:
  assumes "upsert_all js rows ns = (res, rows', ns')"
    and "\<forall>j \<in> set js. \<forall>ow dv df. upsert_entry j = Some (n, ow, dv, df) \<longrightarrow> df = b"
  shows "row_value rows' n b = row_value rows n b"
  using assms
proof (induction js arbitrary: rows ns)
  case (Cons j js)
  show ?case
  proof (cases "upsert_entry j")
    case (Some e)
    obtain m ow dv df where e: "e = (m, ow, dv, df)" by (cases e)
    with Cons.prems(1) Some have rest: "upsert_all js (upsert_flag rows m ow dv df) (ns @ [m]) = (res, rows', ns')"
      by (simp add: upsert_all_Cons)
    have "row_value (upsert_flag rows m ow dv df) n b = row_value rows n b"
      using Cons.prems(2) Some e by (auto simp: upsert_flag_value)
    with Cons.IH [OF rest] Cons.prems(2) show ?thesis by simp
  qed (use Cons.prems(1) in \<open>simp add: upsert_all_Cons\<close>)
qed simp

section \<open>The registry of the same file\<close>

lemma flag_entry_name: "flag_entry j = Inr f \<Longrightarrow> entry_name j = Some (JStr (fd_name f))"
  by (auto simp: flag_entry_def entry_name_def json_field_def split: json.splits option.splits)

lemma registry_from_others:
  assumes "registry_from js acc = Inr r" and "Some (JStr n) \<notin> set (map entry_name js)"
  shows "dict_get r n = dict_get acc n"
  using assms
proof (induction js arbitrary: acc)
  case (Cons j js)
  then obtain f where f: "flag_entry j = Inr f" "registry_from js (dict_set acc (fd_name f) f) = Inr r"
    by (auto simp: and_then_eq_Inr)
  have "n \<noteq> fd_name f" using flag_entry_name [OF f(1)] Cons.prems(2) by auto
  with Cons.IH [OF f(2)] Cons.prems(2) show ?case by (simp add: dict_simps)
qed simp

lemma registry_from_entries:
  assumes "registry_from js acc = Inr r" and "distinct (map entry_name js)" and "j \<in> set js"
  shows "\<exists>f. flag_entry j = Inr f \<and> dict_get r (fd_name f) = Some f"
  using assms
proof (induction js arbitrary: acc)
  case (Cons i js)
  then obtain f where f: "flag_entry i = Inr f" "registry_from js (dict_set acc (fd_name f) f) = Inr r"
    by (auto simp: and_then_eq_Inr)
  show ?case
  proof (cases "j = i")
    case True
    have "Some (JStr (fd_name f)) \<notin> set (map entry_name js)"
      using Cons.prems(2) flag_entry_name [OF f(1)] by auto
    from registry_from_others [OF f(2) this] show ?thesis by (auto simp: True f(1) dict_simps)
  next
    case False
    with Cons.IH [OF f(2)] Cons.prems show ?thesis by simp
  qed
qed simp

lemma registry_from_names:
  assumes "registry_from js acc = Inr r"
  shows "dict_keys r = dict_keys acc \<union> {n. \<exists>j \<in> set js. \<exists>ow dv df. upsert_entry j = Some (n, ow, dv, df)}"
  using assms
proof (induction js arbitrary: acc)
  case (Cons j js)
  then obtain f where f: "flag_entry j = Inr f" "registry_from js (dict_set acc (fd_name f) f) = Inr r"
    by (auto simp: and_then_eq_Inr)
  obtain dv where "upsert_entry j = Some (fd_name f, fd_owner f, dv, fd_default f)"
    using flag_entry_upserts [OF f(1)] by blast
  with Cons.IH [OF f(2)] show ?case by (auto simp: dict_simps)
qed simp

lemma loaded_registry:
  assumes "flags_from_yaml valid loaded = Inr s" and "sync_entries loaded = Some entries"
  shows "registry_from entries [] = Inr (fs_registry s)"
proof -
  obtain doc where doc: "(if truthy loaded then loaded else JObj []) = JObj doc"
    and r: "registry_from (flag_list doc) [] = Inr (fs_registry s)"
    using assms(1) by (auto simp: flags_from_yaml_def build_registry_def and_then_eq_Inr split: json.splits if_splits)
  have "entries = flag_list doc"
    using assms(2) unfolding sync_entries_def doc
    by (auto simp: flag_list_def truthy_def split: option.splits json.splits if_splits)
  with r show ?thesis by simp
qed

text \<open>How a run ends: nothing written, or the entries upserted as far as they went.\<close>

lemma sync_flags_cases:
  obtains (failed) "sync_flags dsn loaded up rows
      = \<lparr>sy_status = 1, sy_rows = rows, sy_notified = [], sy_orphans = []\<rparr>"
  | (written) entries names res rows' ns where "sync_entries loaded = Some entries"
      "those (map entry_name entries) = Some names" "upsert_all entries rows [] = (res, rows', ns)"
      "sync_flags dsn loaded up rows = (case res of
         Inl _ \<Rightarrow> \<lparr>sy_status = 1, sy_rows = rows', sy_notified = ns, sy_orphans = []\<rparr>
       | Inr _ \<Rightarrow> \<lparr>sy_status = 0, sy_rows = rows', sy_notified = ns,
                   sy_orphans = orphans rows' (text_names names)\<rparr>)"
proof (cases "dsn \<in> {None, Some ''''} \<or> \<not> up \<or> sync_entries loaded = None
    \<or> those (map entry_name (the (sync_entries loaded))) = None")
  case True
  then show thesis by (intro failed) (auto simp: sync_flags_def Let_def split: option.split)
next
  case False
  then obtain entries where "sync_entries loaded = Some entries" by auto
  moreover from this False obtain names where "those (map entry_name entries) = Some names" by auto
  ultimately have e: "sync_entries loaded = Some entries" "those (map entry_name entries) = Some names" by blast+
  obtain res rows' ns where u: "upsert_all entries rows [] = (res, rows', ns)" by (cases "upsert_all entries rows []")
  show thesis
    by (rule written [OF e u]) (use False e u in \<open>auto simp: sync_flags_def Let_def split: sum.split\<close>)
qed

lemma upsert_entry_name: "upsert_entry j = Some (n, ow, dv, df) \<Longrightarrow> entry_name j = Some (JStr n)"
  by (auto simp: upsert_entry_def entry_name_def json_field_def split: json.splits option.splits)

lemma those_SomeD: "those xs = Some ys \<Longrightarrow> xs = map Some ys"
  by (induction xs arbitrary: ys) (auto split: option.splits)

lemma text_names_entries:
  assumes "those (map entry_name js) = Some names" and "list_all (\<lambda>j. upsert_entry j \<noteq> None) js"
  shows "set (text_names names) = {n. \<exists>j \<in> set js. \<exists>ow dv df. upsert_entry j = Some (n, ow, dv, df)}"
  using those_SomeD [OF assms(1)] assms(2)
proof (induction js arbitrary: names)
  case (Cons j js)
  then obtain n ow dv df where j: "upsert_entry j = Some (n, ow, dv, df)" by auto
  obtain ns where ns: "names = JStr n # ns" "map entry_name js = map Some ns"
    using Cons.prems(1) upsert_entry_name [OF j] by (cases names) auto
  from Cons.IH [OF ns(2)] Cons.prems(2) show ?case by (auto simp: ns(1) text_names_def j)
qed (simp add: text_names_def)

section \<open>A sync changes no answer\<close>


definition demo_flag_file :: json where
  "demo_flag_file = JObj [(''flags'', JArr [JObj [(''name'', JStr ''live''), (''owner'', JStr ''ann''),
     (''default'', JBool False), (''state'', JStr ''active'')]])]"

definition demo_flag_rows :: "(string, flag_row) dict" where
  "demo_flag_rows = [(''live'', \<lparr>fr_enabled = True, fr_owner = ''bob'', fr_default_value = None\<rparr>),
     (''old'', \<lparr>fr_enabled = False, fr_owner = ''bob'', fr_default_value = None\<rparr>)]"



end
