(* ===== verification/Schema.thy ===== *)
theory Schema
  imports TS_Prelude
begin

text \<open>
  The statements the Alembic migrations issue, on a catalog of the database: what they create
  and drop and when PostgreSQL refuses them, and what a role may then do to a table's rows.
  Only the statements the migrations use are modelled, with their documented behaviour.
\<close>

section \<open>Identifiers\<close>

text \<open>The names the migrations use, as enumerations.\<close>

datatype table =
    T_rubric_tree_version
  | T_stack
  | T_competency_block
  | T_competency
  | T_topic
  | T_level
  | T_user
  | T_position_template
  | T_interview_session
  | T_interview_plan
  | T_turn_trace
  | T_assessment
  | T_assessment_correction
  | T_turn_annotation
  | T_audit_log
  | T_session_decision
  | T_feature_flag
  | T_position_template_stack
  | T_position_template_competency

datatype (plugins only: code) col =
    C_id | C_created_at | C_label | C_is_active | C_payload_hash | C_rubric_tree_version_id
  | C_name | C_stack_id | C_position | C_competency_block_id | C_competency_id | C_rank
  | C_descriptor | C_subject | C_role | C_position_template_id | C_interview_session_id
  | C_score | C_confidence | C_assessment_id | C_corrected_score | C_corrected_by
  | C_turn_trace_id | C_annotated_by | C_actor_id | C_action | C_subject_hash | C_ts
  | C_decided_by | C_reason | C_enabled | C_owner | C_default_value | C_updated_at
  | C_updated_by | C_title | C_jd_text | C_level | C_archived_at | C_created_by
  | C_must_have | C_rubric_snapshot | C_session_state | C_dev_transcript | C_turn_id
  | C_transition | C_agent | C_prompt_version | C_model | C_model_version | C_outcome
  | C_wrapper_outcome | C_attempts | C_latency_ms | C_input_tokens | C_output_tokens
  | C_cost_usd | C_prompt_sha | C_error_message | C_system_prompt | C_user_payload
  | C_response_text | C_parsed

datatype extension = Vector | Pgcrypto

datatype role = Techscreen_app | Techscreen_migrator | Flag_sync

datatype cname =
    Uq_rubric_tree_version_payload_hash
  | Ck_position_template_level
  | Fk_position_template_created_by_user
  | Uq_position_template_stack
  | Uq_position_template_competency
  | Ck_turn_trace_outcome
  | Ck_turn_trace_wrapper_outcome
  | Ck_turn_trace_attempts
  | Ck_turn_trace_counters_non_negative

datatype index_name = Ix_turn_trace_session_created

datatype trigger_function =
    F_reject_audit_mutation | F_feature_flag_touch_updated_at | F_feature_flag_notify_change

datatype trigger_name =
    No_mutation table | Feature_flag_touch_updated_at | Feature_flag_notify_change

section \<open>Catalog\<close>

datatype col_type =
    UuidT | TextT | BooleanT | IntegerT | SmallIntT | NumericT nat nat | TimestampTzT | JsonbT

datatype col_default =
    GenRandomUuid | Now | DefBool bool | DefInt int | DefText string | DefEmptyObject

record column =
  co_type :: col_type
  co_nullable :: bool
  co_default :: "col_default option"

datatype check = OneOf bool "string list" | Between int int | NonNegative

datatype constr =
    PrimaryKey "col list"
  | UniqueC "col list"
  | ForeignKey "col list" table "col list"
  | CheckC "col list" check

type_synonym constraints = "(cname option \<times> constr) list"

record table_def =
  tb_columns :: "(col, column) dict"
  tb_constraints :: constraints

datatype privilege = SelectP | InsertP | UpdateP | DeleteP | OtherP

record trigger =
  tg_table :: table
  tg_before :: bool
  tg_events :: "privilege list"
  tg_function :: trigger_function

text \<open>
  Privileges are kept per role and table. The rows of the flag table are the only ones a
  migration writes: name, enabled, owner, updated by.
\<close>

record catalog =
  ca_extensions :: "extension list"
  ca_tables :: "(table, table_def) dict"
  ca_indexes :: "(index_name, table \<times> col list) dict"
  ca_functions :: "trigger_function list"
  ca_triggers :: "(trigger_name, trigger) dict"
  ca_roles :: "role list"
  ca_usage :: "role list"
  ca_grants :: "(role \<times> table, privilege list) dict"
  ca_flags :: "(string, bool \<times> string \<times> string) dict"

definition empty_catalog :: catalog where
  "empty_catalog = \<lparr>ca_extensions = [], ca_tables = [], ca_indexes = [], ca_functions = [],
     ca_triggers = [], ca_roles = [], ca_usage = [], ca_grants = [], ca_flags = []\<rparr>"

section \<open>Statements\<close>

datatype ddl =
    CreateExtension extension
  | DropExtension extension
  | CreateTable table "(col \<times> column) list" constraints
  | DropTable table bool
  | AddColumn table col column
  | DropColumn table col
  | AddConstraint table cname constr
  | DropConstraint table cname
  | DropNotNull table col
  | CreateIndex index_name table "col list"
  | DropIndex index_name
  | CreateRole role
  | DropRole role
  | CreateFunction trigger_function
  | DropFunction trigger_function
  | CreateTrigger trigger_name trigger
  | DropTrigger trigger_name
  | GrantUsage role
  | Grant "privilege list" table role
  | GrantOnAll "privilege list" role
  | Revoke "privilege list" table role
  | SeedFlag string string string
  | DeleteFlag string

datatype ddl_error = Duplicate | Undefined | Dependent

definition has_table :: "table \<Rightarrow> catalog \<Rightarrow> bool" where
  "has_table t c \<longleftrightarrow> dict_get (ca_tables c) t \<noteq> None"

definition references :: "table \<Rightarrow> constraints \<Rightarrow> bool" where
  "references t cs \<longleftrightarrow> list_ex (\<lambda>(_, k). case k of ForeignKey _ u _ \<Rightarrow> u = t | _ \<Rightarrow> False) cs"

text \<open>Every table a foreign key names exists, the new table itself included.\<close>

definition references_known :: "table \<Rightarrow> constraints \<Rightarrow> catalog \<Rightarrow> bool" where
  "references_known self cs c \<longleftrightarrow> list_all (\<lambda>(_, k). case k of
     ForeignKey _ u _ \<Rightarrow> u = self \<or> has_table u c | _ \<Rightarrow> True) cs"

definition names_column :: "col \<Rightarrow> constr \<Rightarrow> bool" where
  "names_column col k \<longleftrightarrow> (case k of
     PrimaryKey cs \<Rightarrow> List.member cs col | UniqueC cs \<Rightarrow> List.member cs col
   | ForeignKey cs _ _ \<Rightarrow> List.member cs col | CheckC cs _ \<Rightarrow> List.member cs col)"

definition add_privileges :: "privilege list \<Rightarrow> privilege list \<Rightarrow> privilege list" where
  "add_privileges ps qs = qs @ filter (\<lambda>p. \<not> List.member qs p) ps"

definition grant_on :: "privilege list \<Rightarrow> table \<Rightarrow> role \<Rightarrow> catalog \<Rightarrow> catalog" where
  "grant_on ps t r c = c\<lparr>ca_grants := dict_set (ca_grants c) (r, t)
     (add_privileges ps (dict_default (ca_grants c) (r, t) []))\<rparr>"

definition alter_table ::
  "table \<Rightarrow> (table_def \<Rightarrow> ddl_error + table_def) \<Rightarrow> catalog \<Rightarrow> ddl_error + catalog" where
  "alter_table t f c = (case dict_get (ca_tables c) t of
     None \<Rightarrow> Inl Undefined
   | Some d \<Rightarrow> and_then (f d) (\<lambda>d'. Inr (c\<lparr>ca_tables := dict_set (ca_tables c) t d'\<rparr>)))"

text \<open>
  \<open>CREATE EXTENSION\<close>, the role blocks and the \<open>DROP ... IF EXISTS\<close> forms are idempotent.
  Dropping a table needs that no other table references it, and takes its indexes,
  triggers and privileges along; dropping a column takes the constraints and indexes that
  name it along. The block that drops a role first drops what it was granted.
\<close>

fun exec_ddl :: "ddl \<Rightarrow> catalog \<Rightarrow> ddl_error + catalog" where
  "exec_ddl (CreateExtension e) c = Inr (if List.member (ca_extensions c) e then c
     else c\<lparr>ca_extensions := ca_extensions c @ [e]\<rparr>)"
| "exec_ddl (DropExtension e) c = Inr (c\<lparr>ca_extensions := removeAll e (ca_extensions c)\<rparr>)"
| "exec_ddl (CreateTable t cols cs) c =
     (if has_table t c then Inl Duplicate
      else if \<not> references_known t cs c then Inl Undefined
      else Inr (c\<lparr>ca_tables := dict_set (ca_tables c) t \<lparr>tb_columns = cols, tb_constraints = cs\<rparr>\<rparr>))"
| "exec_ddl (DropTable t if_exists) c =
     (if \<not> has_table t c then (if if_exists then Inr c else Inl Undefined)
      else if list_ex (\<lambda>(u, d). u \<noteq> t \<and> references t (tb_constraints d)) (ca_tables c) then Inl Dependent
      else Inr (c\<lparr>ca_tables := dict_pop (ca_tables c) t,
                 ca_indexes := filter (\<lambda>(_, u, _). u \<noteq> t) (ca_indexes c),
                 ca_triggers := filter (\<lambda>(_, g). tg_table g \<noteq> t) (ca_triggers c),
                 ca_grants := filter (\<lambda>((_, u), _). u \<noteq> t) (ca_grants c),
                 ca_flags := (if t = T_feature_flag then [] else ca_flags c)\<rparr>))"
| "exec_ddl (AddColumn t col def) c = alter_table t (\<lambda>d.
     if dict_get (tb_columns d) col \<noteq> None then Inl Duplicate
     else Inr (d\<lparr>tb_columns := dict_set (tb_columns d) col def\<rparr>)) c"
| "exec_ddl (DropColumn t col) c = and_then (alter_table t (\<lambda>d.
     Inr \<lparr>tb_columns = dict_pop (tb_columns d) col,
          tb_constraints = filter (\<lambda>(_, k). \<not> names_column col k) (tb_constraints d)\<rparr>) c)
     (\<lambda>c'. Inr (c'\<lparr>ca_indexes := filter (\<lambda>(_, u, cs). \<not> (u = t \<and> List.member cs col)) (ca_indexes c')\<rparr>))"
| "exec_ddl (AddConstraint t name k) c = alter_table t (\<lambda>d.
     if list_ex (\<lambda>(n, _). n = Some name) (tb_constraints d) then Inl Duplicate
     else if \<not> references_known t [(Some name, k)] c then Inl Undefined
     else Inr (d\<lparr>tb_constraints := tb_constraints d @ [(Some name, k)]\<rparr>)) c"
| "exec_ddl (DropConstraint t name) c = alter_table t (\<lambda>d.
     Inr (d\<lparr>tb_constraints := filter (\<lambda>(n, _). n \<noteq> Some name) (tb_constraints d)\<rparr>)) c"
| "exec_ddl (DropNotNull t col) c = alter_table t (\<lambda>d. case dict_get (tb_columns d) col of
       None \<Rightarrow> Inl Undefined
     | Some def \<Rightarrow> Inr (d\<lparr>tb_columns := dict_set (tb_columns d) col (def\<lparr>co_nullable := True\<rparr>)\<rparr>)) c"
| "exec_ddl (CreateIndex i t cols) c =
     (if dict_get (ca_indexes c) i \<noteq> None then Inl Duplicate
      else if \<not> has_table t c then Inl Undefined
      else Inr (c\<lparr>ca_indexes := dict_set (ca_indexes c) i (t, cols)\<rparr>))"
| "exec_ddl (DropIndex i) c = Inr (c\<lparr>ca_indexes := dict_pop (ca_indexes c) i\<rparr>)"
| "exec_ddl (CreateRole r) c = Inr (if List.member (ca_roles c) r then c else c\<lparr>ca_roles := ca_roles c @ [r]\<rparr>)"
| "exec_ddl (DropRole r) c = Inr (c\<lparr>ca_roles := removeAll r (ca_roles c), ca_usage := removeAll r (ca_usage c),
     ca_grants := filter (\<lambda>((q, _), _). q \<noteq> r) (ca_grants c)\<rparr>)"
| "exec_ddl (CreateFunction f) c =
     Inr (if List.member (ca_functions c) f then c else c\<lparr>ca_functions := ca_functions c @ [f]\<rparr>)"
| "exec_ddl (DropFunction f) c =
     (if list_ex (\<lambda>(_, g). tg_function g = f) (ca_triggers c) then Inl Dependent
      else Inr (c\<lparr>ca_functions := removeAll f (ca_functions c)\<rparr>))"
| "exec_ddl (CreateTrigger n g) c =
     (if dict_get (ca_triggers c) n \<noteq> None then Inl Duplicate
      else if \<not> has_table (tg_table g) c \<or> \<not> List.member (ca_functions c) (tg_function g) then Inl Undefined
      else Inr (c\<lparr>ca_triggers := dict_set (ca_triggers c) n g\<rparr>))"
| "exec_ddl (DropTrigger n) c = Inr (c\<lparr>ca_triggers := dict_pop (ca_triggers c) n\<rparr>)"
| "exec_ddl (GrantUsage r) c =
     (if \<not> List.member (ca_roles c) r then Inl Undefined
      else Inr (if List.member (ca_usage c) r then c else c\<lparr>ca_usage := ca_usage c @ [r]\<rparr>))"
| "exec_ddl (Grant ps t r) c =
     (if \<not> has_table t c \<or> \<not> List.member (ca_roles c) r then Inl Undefined else Inr (grant_on ps t r c))"
| "exec_ddl (GrantOnAll ps r) c =
     (if \<not> List.member (ca_roles c) r then Inl Undefined
      else Inr (fold (\<lambda>(t, _). grant_on ps t r) (ca_tables c) c))"
| "exec_ddl (Revoke ps t r) c =
     (if \<not> has_table t c \<or> \<not> List.member (ca_roles c) r then Inl Undefined
      else Inr (c\<lparr>ca_grants := dict_set (ca_grants c) (r, t)
             (filter (\<lambda>p. \<not> List.member ps p) (dict_default (ca_grants c) (r, t) []))\<rparr>))"
| "exec_ddl (SeedFlag n own by) c =
     (if \<not> has_table T_feature_flag c then Inl Undefined
      else Inr (if dict_get (ca_flags c) n \<noteq> None then c
                else c\<lparr>ca_flags := dict_set (ca_flags c) n (False, own, by)\<rparr>))"
| "exec_ddl (DeleteFlag n) c =
     (if \<not> has_table T_feature_flag c then Inl Undefined
      else Inr (c\<lparr>ca_flags := dict_pop (ca_flags c) n\<rparr>))"

text \<open>A migration is one transaction: the first refusal undoes all of it.\<close>

fun run_ddl :: "ddl list \<Rightarrow> catalog \<Rightarrow> ddl_error + catalog" where
  "run_ddl [] c = Inr c"
| "run_ddl (d # ds) c = and_then (exec_ddl d c) (run_ddl ds)"

lemma run_ddl_append: "run_ddl (ds @ es) c = and_then (run_ddl ds c) (run_ddl es)"
  by (induction ds arbitrary: c) (simp_all add: and_then_def split: sum.split)

section \<open>Rows\<close>

text \<open>
  Who changes a row: a role, and whether it is a superuser, which privileges do not bind.
  The trigger function of the migrations, \<open>reject_audit_mutation\<close>, raises for everyone but
  the migrator.
\<close>

record db_caller =
  cl_role :: role
  cl_superuser :: bool

definition reject_audit_mutation :: "db_caller \<Rightarrow> bool" where
  "reject_audit_mutation u \<longleftrightarrow> cl_role u \<noteq> Techscreen_migrator"

definition trigger_raises :: "trigger \<Rightarrow> db_caller \<Rightarrow> privilege \<Rightarrow> table \<Rightarrow> bool" where
  "trigger_raises g u p t \<longleftrightarrow> tg_table g = t \<and> tg_before g \<and> List.member (tg_events g) p
     \<and> tg_function g = F_reject_audit_mutation \<and> reject_audit_mutation u"

definition granted :: "catalog \<Rightarrow> role \<Rightarrow> privilege \<Rightarrow> table \<Rightarrow> bool" where
  "granted c r p t \<longleftrightarrow> List.member (dict_default (ca_grants c) (r, t) []) p"

definition permitted :: "catalog \<Rightarrow> db_caller \<Rightarrow> privilege \<Rightarrow> table \<Rightarrow> bool" where
  "permitted c u p t \<longleftrightarrow> (cl_superuser u \<or> granted c (cl_role u) p t)
     \<and> \<not> list_ex (\<lambda>(_, g). trigger_raises g u p t) (ca_triggers c)"

datatype 'r dml = InsertRow table 'r | UpdateRow table nat 'r | DeleteRow table nat

type_synonym 'r rows = "table \<Rightarrow> 'r list"

definition exec_dml :: "catalog \<Rightarrow> db_caller \<times> 'r dml \<Rightarrow> 'r rows \<Rightarrow> 'r rows" where
  "exec_dml c act rows = (case act of (u, d) \<Rightarrow> (case d of
     InsertRow t r \<Rightarrow> if permitted c u InsertP t then rows(t := rows t @ [r]) else rows
   | UpdateRow t i r \<Rightarrow> if permitted c u UpdateP t then rows(t := (rows t)[i := r]) else rows
   | DeleteRow t i \<Rightarrow>
       if permitted c u DeleteP t then rows(t := take i (rows t) @ drop (Suc i) (rows t)) else rows))"

definition run_dml :: "catalog \<Rightarrow> (db_caller \<times> 'r dml) list \<Rightarrow> 'r rows \<Rightarrow> 'r rows" where
  "run_dml c acts rows = fold (exec_dml c) acts rows"

text \<open>A table guarded by the trigger: no row of it is ever changed or removed.\<close>

definition guarded :: "catalog \<Rightarrow> table \<Rightarrow> bool" where
  "guarded c t \<longleftrightarrow> list_ex (\<lambda>(_, g). tg_table g = t \<and> tg_before g \<and> List.member (tg_events g) UpdateP
     \<and> List.member (tg_events g) DeleteP \<and> tg_function g = F_reject_audit_mutation) (ca_triggers c)"

lemma guarded_refuses:
  assumes "guarded c t" and "cl_role u \<noteq> Techscreen_migrator" and "p \<in> {UpdateP, DeleteP}"
  shows "\<not> permitted c u p t"
  using assms by (fastforce simp: guarded_def permitted_def trigger_raises_def reject_audit_mutation_def list_ex_iff)

lemma guarded_appends:
  assumes "guarded c t" and "\<forall>(u, d) \<in> set acts. cl_role u \<noteq> Techscreen_migrator"
  shows "\<exists>new. run_dml c acts rows t = rows t @ new"
  using assms(2)
proof (induction acts arbitrary: rows)
  case (Cons act acts)
  obtain u d where act: "act = (u, d)" by fastforce
  have "\<exists>new. exec_dml c act rows t = rows t @ new"
    using guarded_refuses [OF assms(1), of u] Cons.prems
    by (cases d) (auto simp: exec_dml_def act)
  moreover have "\<exists>new. run_dml c acts (exec_dml c act rows) t = exec_dml c act rows t @ new"
    using Cons by simp
  ultimately show ?case by (auto simp: run_dml_def)
qed (simp add: run_dml_def)

end
