(* ===== verification/Migrations.thy ===== *)
theory Migrations
  imports Schema
begin

text \<open>
  The seven migrations of \<open>alembic/versions\<close>, statement by statement, upgrades and
  downgrades, and the grants of \<open>scripts/cloud-db-grants.sql\<close>.
\<close>

section \<open>Column helpers\<close>

definition req_col :: "col_type \<Rightarrow> column" where
  "req_col ty = \<lparr>co_type = ty, co_nullable = False, co_default = None\<rparr>"

definition opt_col :: "col_type \<Rightarrow> column" where
  "opt_col ty = \<lparr>co_type = ty, co_nullable = True, co_default = None\<rparr>"

definition dflt_col :: "col_type \<Rightarrow> col_default \<Rightarrow> column" where
  "dflt_col ty v = \<lparr>co_type = ty, co_nullable = False, co_default = Some v\<rparr>"

definition uuid_pk :: "col \<times> column" where
  "uuid_pk = (C_id, dflt_col UuidT GenRandomUuid)"

definition created_at :: "col \<times> column" where
  "created_at = (C_created_at, dflt_col TimestampTzT Now)"

definition pk_id :: "cname option \<times> constr" where
  "pk_id = (None, PrimaryKey [C_id])"

definition fk_to :: "col \<Rightarrow> table \<Rightarrow> cname option \<times> constr" where
  "fk_to col t = (None, ForeignKey [col] t [C_id])"

section \<open>0001: baseline\<close>

definition append_only_tables :: "table list" where
  "append_only_tables = [T_turn_trace, T_assessment, T_assessment_correction, T_turn_annotation,
     T_audit_log, T_session_decision]"

definition all_tables_drop_order :: "table list" where
  "all_tables_drop_order = [T_assessment_correction, T_turn_annotation, T_session_decision,
     T_assessment, T_turn_trace, T_audit_log, T_interview_plan, T_interview_session,
     T_position_template, T_user, T_level, T_topic, T_competency, T_competency_block,
     T_stack, T_rubric_tree_version]"

definition version_col :: "col \<times> column" where
  "version_col = (C_rubric_tree_version_id, req_col UuidT)"

definition version_fk :: "cname option \<times> constr" where
  "version_fk = fk_to C_rubric_tree_version_id T_rubric_tree_version"

definition rubric_tables_0001 :: "ddl list" where
  "rubric_tables_0001 = [
     CreateTable T_rubric_tree_version
       [uuid_pk, (C_label, req_col TextT), (C_is_active, dflt_col BooleanT (DefBool False)), created_at] [pk_id],
     CreateTable T_stack [uuid_pk, version_col, (C_name, req_col TextT), created_at] [pk_id, version_fk],
     CreateTable T_competency_block
       [uuid_pk, version_col, (C_stack_id, req_col UuidT), (C_name, req_col TextT),
        (C_position, dflt_col IntegerT (DefInt 0)), created_at]
       [pk_id, version_fk, fk_to C_stack_id T_stack],
     CreateTable T_competency
       [uuid_pk, version_col, (C_competency_block_id, req_col UuidT), (C_name, req_col TextT), created_at]
       [pk_id, version_fk, fk_to C_competency_block_id T_competency_block],
     CreateTable T_topic
       [uuid_pk, version_col, (C_competency_id, req_col UuidT), (C_name, req_col TextT), created_at]
       [pk_id, version_fk, fk_to C_competency_id T_competency],
     CreateTable T_level
       [uuid_pk, version_col, (C_competency_id, req_col UuidT), (C_rank, req_col SmallIntT),
        (C_descriptor, req_col TextT), created_at]
       [pk_id, version_fk, fk_to C_competency_id T_competency]]"

definition session_tables_0001 :: "ddl list" where
  "session_tables_0001 = [
     CreateTable T_user [uuid_pk, (C_subject, req_col TextT), (C_role, req_col TextT), created_at]
       [pk_id, (None, UniqueC [C_subject])],
     CreateTable T_position_template [uuid_pk, created_at] [pk_id],
     CreateTable T_interview_session [uuid_pk, (C_position_template_id, opt_col UuidT), created_at]
       [pk_id, fk_to C_position_template_id T_position_template],
     CreateTable T_interview_plan [uuid_pk, (C_interview_session_id, opt_col UuidT), created_at]
       [pk_id, fk_to C_interview_session_id T_interview_session]]"

definition audit_tables_0001 :: "ddl list" where
  "audit_tables_0001 = [
     CreateTable T_turn_trace [uuid_pk, (C_interview_session_id, opt_col UuidT), created_at]
       [pk_id, fk_to C_interview_session_id T_interview_session],
     CreateTable T_assessment
       [uuid_pk, (C_interview_session_id, req_col UuidT), (C_competency_id, req_col UuidT),
        (C_score, req_col SmallIntT), (C_confidence, req_col (NumericT 4 3)), created_at]
       [pk_id, fk_to C_interview_session_id T_interview_session, fk_to C_competency_id T_competency],
     CreateTable T_assessment_correction
       [uuid_pk, (C_assessment_id, req_col UuidT), (C_corrected_score, req_col SmallIntT),
        (C_corrected_by, req_col UuidT), created_at]
       [pk_id, fk_to C_assessment_id T_assessment, fk_to C_corrected_by T_user],
     CreateTable T_turn_annotation
       [uuid_pk, (C_turn_trace_id, req_col UuidT), (C_annotated_by, req_col UuidT), created_at]
       [pk_id, fk_to C_turn_trace_id T_turn_trace, fk_to C_annotated_by T_user],
     CreateTable T_audit_log
       [uuid_pk, (C_actor_id, opt_col UuidT), (C_action, req_col TextT), (C_subject_hash, req_col TextT),
        (C_ts, dflt_col TimestampTzT Now)]
       [pk_id, fk_to C_actor_id T_user],
     CreateTable T_session_decision
       [uuid_pk, (C_interview_session_id, req_col UuidT), (C_decided_by, req_col UuidT), created_at]
       [pk_id, fk_to C_interview_session_id T_interview_session, fk_to C_decided_by T_user]]"

definition mutation_trigger :: "table \<Rightarrow> trigger" where
  "mutation_trigger t = \<lparr>tg_table = t, tg_before = True, tg_events = [UpdateP, DeleteP],
     tg_function = F_reject_audit_mutation\<rparr>"

definition all_privileges :: "privilege list" where
  "all_privileges = [SelectP, InsertP, UpdateP, DeleteP, OtherP]"

definition upgrade_0001 :: "ddl list" where
  "upgrade_0001 = [CreateExtension Vector, CreateExtension Pgcrypto]
     @ rubric_tables_0001 @ session_tables_0001 @ audit_tables_0001
     @ [CreateRole Techscreen_app, CreateRole Techscreen_migrator,
        CreateFunction F_reject_audit_mutation]
     @ map (\<lambda>t. CreateTrigger (No_mutation t) (mutation_trigger t)) append_only_tables
     @ [GrantUsage Techscreen_app, GrantUsage Techscreen_migrator,
        GrantOnAll [SelectP, InsertP, UpdateP, DeleteP] Techscreen_app,
        GrantOnAll all_privileges Techscreen_migrator]
     @ concat (map (\<lambda>t. [Grant [InsertP, SelectP] t Techscreen_app,
         Revoke [UpdateP, DeleteP] t Techscreen_app]) append_only_tables)"

definition downgrade_0001 :: "ddl list" where
  "downgrade_0001 = map (\<lambda>t. DropTrigger (No_mutation t)) append_only_tables
     @ [DropFunction F_reject_audit_mutation]
     @ map (\<lambda>t. DropTable t False) all_tables_drop_order
     @ [DropRole Techscreen_app, DropRole Techscreen_migrator,
        DropExtension Vector, DropExtension Pgcrypto]"

section \<open>0002 to 0006\<close>

definition upgrade_0002 :: "ddl list" where
  "upgrade_0002 = [
     CreateTable T_feature_flag
       [(C_name, req_col TextT), (C_enabled, dflt_col BooleanT (DefBool False)), (C_owner, req_col TextT),
        (C_default_value, opt_col JsonbT), (C_updated_at, dflt_col TimestampTzT Now),
        (C_updated_by, opt_col TextT)] [(None, PrimaryKey [C_name])],
     Grant [SelectP, InsertP, UpdateP, DeleteP] T_feature_flag Techscreen_app,
     Grant [SelectP, InsertP, UpdateP, DeleteP] T_feature_flag Techscreen_migrator,
     CreateFunction F_feature_flag_touch_updated_at,
     CreateTrigger Feature_flag_touch_updated_at \<lparr>tg_table = T_feature_flag, tg_before = True,
       tg_events = [UpdateP], tg_function = F_feature_flag_touch_updated_at\<rparr>,
     CreateFunction F_feature_flag_notify_change,
     CreateTrigger Feature_flag_notify_change \<lparr>tg_table = T_feature_flag, tg_before = False,
       tg_events = [InsertP, UpdateP, DeleteP], tg_function = F_feature_flag_notify_change\<rparr>]"

definition downgrade_0002 :: "ddl list" where
  "downgrade_0002 = [DropTrigger Feature_flag_notify_change, DropTrigger Feature_flag_touch_updated_at,
     DropFunction F_feature_flag_notify_change, DropFunction F_feature_flag_touch_updated_at,
     DropTable T_feature_flag False]"

definition upgrade_0003 :: "ddl list" where
  "upgrade_0003 = [AddColumn T_rubric_tree_version C_payload_hash (dflt_col TextT (DefText '''')),
     AddConstraint T_rubric_tree_version Uq_rubric_tree_version_payload_hash
       (UniqueC [C_payload_hash])]"

definition downgrade_0003 :: "ddl list" where
  "downgrade_0003 = [DropConstraint T_rubric_tree_version Uq_rubric_tree_version_payload_hash,
     DropColumn T_rubric_tree_version C_payload_hash]"

definition upgrade_0004 :: "ddl list" where
  "upgrade_0004 = [
     AddColumn T_position_template C_title (dflt_col TextT (DefText '''')),
     AddColumn T_position_template C_jd_text (opt_col TextT),
     AddColumn T_position_template C_level (dflt_col TextT (DefText ''Middle'')),
     AddColumn T_position_template C_archived_at (opt_col TimestampTzT),
     AddColumn T_position_template C_created_by (opt_col UuidT),
     AddConstraint T_position_template Ck_position_template_level (CheckC [C_level] (OneOf False [''Junior'', ''Middle'', ''Senior'', ''Tech Leader''])),
     AddConstraint T_position_template Fk_position_template_created_by_user
       (ForeignKey [C_created_by] T_user [C_id]),
     CreateTable T_position_template_stack
       [uuid_pk, created_at, (C_position_template_id, req_col UuidT), (C_stack_id, req_col UuidT)]
       [pk_id, fk_to C_position_template_id T_position_template, fk_to C_stack_id T_stack,
        (Some Uq_position_template_stack, UniqueC [C_position_template_id, C_stack_id])],
     CreateTable T_position_template_competency
       [uuid_pk, created_at, (C_position_template_id, req_col UuidT), (C_competency_id, req_col UuidT),
        (C_must_have, dflt_col BooleanT (DefBool False))]
       [pk_id, fk_to C_position_template_id T_position_template, fk_to C_competency_id T_competency,
        (Some Uq_position_template_competency, UniqueC [C_position_template_id, C_competency_id])]]"

definition downgrade_0004 :: "ddl list" where
  "downgrade_0004 = [DropTable T_position_template_competency True, DropTable T_position_template_stack True,
     DropConstraint T_position_template Fk_position_template_created_by_user,
     DropConstraint T_position_template Ck_position_template_level,
     DropColumn T_position_template C_created_by, DropColumn T_position_template C_archived_at,
     DropColumn T_position_template C_level, DropColumn T_position_template C_jd_text,
     DropColumn T_position_template C_title]"

definition upgrade_0005 :: "ddl list" where
  "upgrade_0005 = [AddColumn T_interview_session C_rubric_snapshot (dflt_col JsonbT DefEmptyObject)]"

definition downgrade_0005 :: "ddl list" where
  "downgrade_0005 = [DropColumn T_interview_session C_rubric_snapshot]"

definition upgrade_0006 :: "ddl list" where
  "upgrade_0006 = [AddColumn T_interview_session C_session_state (opt_col JsonbT)]"

definition downgrade_0006 :: "ddl list" where
  "downgrade_0006 = [DropColumn T_interview_session C_session_state]"

section \<open>0007: the audit columns\<close>

definition turn_trace_columns :: "(col \<times> column) list" where
  "turn_trace_columns = [
     (C_turn_id, opt_col UuidT), (C_transition, opt_col JsonbT),
     (C_agent, dflt_col TextT (DefText '''')), (C_prompt_version, dflt_col TextT (DefText '''')), (C_model, dflt_col TextT (DefText '''')),
     (C_model_version, opt_col TextT), (C_outcome, dflt_col TextT (DefText '''')), (C_wrapper_outcome, opt_col TextT),
     (C_attempts, dflt_col SmallIntT (DefInt 1)), (C_latency_ms, dflt_col IntegerT (DefInt 0)),
     (C_input_tokens, dflt_col IntegerT (DefInt 0)), (C_output_tokens, dflt_col IntegerT (DefInt 0)),
     (C_cost_usd, dflt_col (NumericT 12 6) (DefInt 0)), (C_prompt_sha, dflt_col TextT (DefText '''')),
     (C_error_message, opt_col TextT), (C_system_prompt, dflt_col TextT (DefText '''')),
     (C_user_payload, dflt_col TextT (DefText '''')), (C_response_text, dflt_col TextT (DefText '''')), (C_parsed, opt_col JsonbT)]"

definition turn_trace_constraints :: "(cname \<times> constr) list" where
  "turn_trace_constraints = [
     (Ck_turn_trace_outcome, CheckC [C_outcome]
       (OneOf False ['''', ''ok'', ''schema_error'', ''timeout'', ''upstream_unavailable'', ''budget_exceeded'',
          ''config_error''])),
     (Ck_turn_trace_wrapper_outcome, CheckC [C_wrapper_outcome]
       (OneOf True [''accepted'', ''contract_miss_retried'', ''rejected''])),
     (Ck_turn_trace_attempts, CheckC [C_attempts] (Between 1 3)),
     (Ck_turn_trace_counters_non_negative,
       CheckC [C_latency_ms, C_input_tokens, C_output_tokens, C_cost_usd]
         NonNegative)]"

definition seeded_flags :: "string list" where
  "seeded_flags = [''enforce_session_cost_ceiling'', ''enable_live_orchestrator'']"

definition upgrade_0007 :: "ddl list" where
  "upgrade_0007 = map (\<lambda>(n, d). AddColumn T_turn_trace n d) turn_trace_columns
     @ map (\<lambda>(n, k). AddConstraint T_turn_trace n k) turn_trace_constraints
     @ [CreateIndex Ix_turn_trace_session_created T_turn_trace [C_interview_session_id, C_created_at],
        AddColumn T_session_decision C_reason (opt_col TextT), DropNotNull T_session_decision C_decided_by,
        AddColumn T_interview_session C_dev_transcript (opt_col JsonbT)]
     @ map (\<lambda>f. SeedFlag f ''@andrii'' ''0007_turn_trace_audit_columns'') seeded_flags"

definition downgrade_0007 :: "ddl list" where
  "downgrade_0007 = map DeleteFlag seeded_flags
     @ [DropColumn T_interview_session C_dev_transcript, DropColumn T_session_decision C_reason,
        DropIndex Ix_turn_trace_session_created]
     @ map (\<lambda>(n, _). DropConstraint T_turn_trace n) turn_trace_constraints
     @ map (\<lambda>(n, _). DropColumn T_turn_trace n) turn_trace_columns"

section \<open>The history\<close>

definition upgrades :: "ddl list list" where
  "upgrades = [upgrade_0001, upgrade_0002, upgrade_0003, upgrade_0004, upgrade_0005, upgrade_0006,
     upgrade_0007]"

definition downgrades :: "ddl list list" where
  "downgrades = [downgrade_0001, downgrade_0002, downgrade_0003, downgrade_0004, downgrade_0005,
     downgrade_0006, downgrade_0007]"

text \<open>The database at a revision, by its number, from an empty one.\<close>

definition at_revision :: "nat \<Rightarrow> ddl_error + catalog" where
  "at_revision n = run_ddl (concat (take n upgrades)) empty_catalog"

definition downgrade_base :: "nat \<Rightarrow> ddl list" where
  "downgrade_base n = concat (rev (take n downgrades))"

section \<open>Grants of the configuration sync\<close>

definition cloud_db_grants :: "ddl list" where
  "cloud_db_grants = [
     Grant [SelectP, InsertP, UpdateP] T_feature_flag Flag_sync,
     Grant [SelectP, InsertP] T_rubric_tree_version Flag_sync,
     Grant [SelectP, InsertP] T_stack Flag_sync,
     Grant [SelectP, InsertP] T_competency_block Flag_sync,
     Grant [SelectP, InsertP] T_competency Flag_sync,
     Grant [InsertP] T_topic Flag_sync,
     Grant [InsertP] T_level Flag_sync,
     Grant [InsertP] T_audit_log Flag_sync]"

end
