(* ===== verification/Orm.thy ===== *)
theory Orm
  imports Migrations
begin

text \<open>
  The mapped classes of \<open>app/backend/db/models\<close>: the tables, columns and constraints they
  declare, and how they differ from a migrated database. Constraint names, which the
  metadata's naming convention makes up, are left out.
\<close>

section \<open>Mapped classes\<close>

text \<open>The mixins of \<open>_mixins.py\<close>: the key and the creation time come before a class's own columns.\<close>

definition mapped :: "bool \<Rightarrow> (col \<times> column) list \<Rightarrow> constr list \<Rightarrow> table_def" where
  "mapped timestamped cols cs = \<lparr>tb_columns = uuid_pk # (if timestamped then [created_at] else []) @ cols,
     tb_constraints = pk_id # map (Pair None) cs\<rparr>"

definition fk :: "col \<Rightarrow> table \<Rightarrow> constr" where
  "fk c t = ForeignKey [c] t [C_id]"

definition rubric_models :: "(table, table_def) dict" where
  "rubric_models = [
     (T_rubric_tree_version, mapped True [(C_label, req_col TextT),
        (C_is_active, dflt_col BooleanT (DefBool False)), (C_payload_hash, dflt_col TextT (DefText ''''))] []),
     (T_stack, mapped True [(C_rubric_tree_version_id, req_col UuidT), (C_name, req_col TextT)]
        [fk C_rubric_tree_version_id T_rubric_tree_version]),
     (T_competency_block, mapped True [(C_rubric_tree_version_id, req_col UuidT), (C_stack_id, req_col UuidT),
        (C_name, req_col TextT), (C_position, dflt_col IntegerT (DefInt 0))]
        [fk C_rubric_tree_version_id T_rubric_tree_version, fk C_stack_id T_stack]),
     (T_competency, mapped True [(C_rubric_tree_version_id, req_col UuidT), (C_competency_block_id, req_col UuidT),
        (C_name, req_col TextT)]
        [fk C_rubric_tree_version_id T_rubric_tree_version, fk C_competency_block_id T_competency_block]),
     (T_topic, mapped True [(C_rubric_tree_version_id, req_col UuidT), (C_competency_id, req_col UuidT),
        (C_name, req_col TextT)]
        [fk C_rubric_tree_version_id T_rubric_tree_version, fk C_competency_id T_competency]),
     (T_level, mapped True [(C_rubric_tree_version_id, req_col UuidT), (C_competency_id, req_col UuidT),
        (C_rank, req_col SmallIntT), (C_descriptor, req_col TextT)]
        [fk C_rubric_tree_version_id T_rubric_tree_version, fk C_competency_id T_competency])]"

definition user_model :: "table \<times> table_def" where
  "user_model = (T_user, mapped True [(C_subject, req_col TextT), (C_role, req_col TextT)] [UniqueC [C_subject]])"

definition interview_models :: "(table, table_def) dict" where
  "interview_models = [
     (T_position_template, mapped True [(C_title, dflt_col TextT (DefText '''')), (C_jd_text, opt_col TextT),
        (C_level, dflt_col TextT (DefText ''Middle'')), (C_archived_at, opt_col TimestampTzT), (C_created_by, opt_col UuidT)]
        [CheckC [C_level] (OneOf False [''Junior'', ''Middle'', ''Senior'', ''Tech Leader'']),
         fk C_created_by T_user]),
     (T_position_template_stack, mapped True [(C_position_template_id, req_col UuidT), (C_stack_id, req_col UuidT)]
        [UniqueC [C_position_template_id, C_stack_id], fk C_position_template_id T_position_template,
         fk C_stack_id T_stack]),
     (T_position_template_competency, mapped True [(C_position_template_id, req_col UuidT),
        (C_competency_id, req_col UuidT), (C_must_have, dflt_col BooleanT (DefBool False))]
        [UniqueC [C_position_template_id, C_competency_id], fk C_position_template_id T_position_template,
         fk C_competency_id T_competency]),
     (T_interview_session, mapped True [(C_position_template_id, opt_col UuidT),
        (C_rubric_snapshot, dflt_col JsonbT DefEmptyObject), (C_session_state, opt_col JsonbT),
        (C_dev_transcript, opt_col JsonbT)] [fk C_position_template_id T_position_template]),
     (T_interview_plan, mapped True [(C_interview_session_id, opt_col UuidT)]
        [fk C_interview_session_id T_interview_session])]"

definition audit_models :: "(table, table_def) dict" where
  "audit_models = [
     (T_turn_trace, mapped True [(C_interview_session_id, opt_col UuidT), (C_turn_id, opt_col UuidT),
        (C_transition, opt_col JsonbT), (C_agent, dflt_col TextT (DefText '''')),
        (C_prompt_version, dflt_col TextT (DefText '''')), (C_model, dflt_col TextT (DefText '''')),
        (C_model_version, opt_col TextT), (C_outcome, dflt_col TextT (DefText '''')), (C_wrapper_outcome, opt_col TextT),
        (C_attempts, dflt_col SmallIntT (DefInt 1)), (C_latency_ms, dflt_col IntegerT (DefInt 0)),
        (C_input_tokens, dflt_col IntegerT (DefInt 0)), (C_output_tokens, dflt_col IntegerT (DefInt 0)),
        (C_cost_usd, dflt_col (NumericT 12 6) (DefInt 0)), (C_prompt_sha, dflt_col TextT (DefText '''')),
        (C_error_message, opt_col TextT), (C_system_prompt, dflt_col TextT (DefText '''')),
        (C_user_payload, dflt_col TextT (DefText '''')), (C_response_text, dflt_col TextT (DefText '''')),
        (C_parsed, opt_col JsonbT)] [fk C_interview_session_id T_interview_session]),
     (T_assessment, mapped True [(C_interview_session_id, req_col UuidT), (C_competency_id, req_col UuidT),
        (C_score, req_col SmallIntT), (C_confidence, req_col (NumericT 4 3))]
        [fk C_interview_session_id T_interview_session, fk C_competency_id T_competency]),
     (T_assessment_correction, mapped True [(C_assessment_id, req_col UuidT), (C_corrected_score, req_col SmallIntT),
        (C_corrected_by, req_col UuidT)] [fk C_assessment_id T_assessment, fk C_corrected_by T_user]),
     (T_turn_annotation, mapped True [(C_turn_trace_id, req_col UuidT), (C_annotated_by, req_col UuidT)]
        [fk C_turn_trace_id T_turn_trace, fk C_annotated_by T_user]),
     (T_audit_log, mapped False [(C_actor_id, opt_col UuidT), (C_action, req_col TextT),
        (C_subject_hash, req_col TextT), (C_ts, dflt_col TimestampTzT Now)] [fk C_actor_id T_user]),
     (T_session_decision, mapped True [(C_interview_session_id, req_col UuidT), (C_decided_by, opt_col UuidT),
        (C_reason, opt_col TextT)] [fk C_interview_session_id T_interview_session, fk C_decided_by T_user])]"

definition feature_flag_model :: "table \<times> table_def" where
  "feature_flag_model = (T_feature_flag, \<lparr>tb_columns = [(C_name, req_col TextT),
     (C_enabled, dflt_col BooleanT (DefBool False)), (C_owner, req_col TextT), (C_default_value, opt_col JsonbT),
     (C_updated_at, dflt_col TimestampTzT Now), (C_updated_by, opt_col TextT)],
     tb_constraints = [(None, PrimaryKey [C_name])]\<rparr>)"

definition orm_metadata :: "(table, table_def) dict" where
  "orm_metadata = rubric_models @ [user_model] @ interview_models @ audit_models @ [feature_flag_model]"

section \<open>Differences\<close>

datatype drift =
    TableOnlyMapped table
  | TableOnlyMigrated table
  | ColumnDiffers table col
  | OnlyMapped table constr
  | OnlyMigrated table constr

definition column_drift :: "table \<Rightarrow> table_def \<Rightarrow> table_def \<Rightarrow> drift list" where
  "column_drift t m d =
     map (ColumnDiffers t) (filter (\<lambda>c. dict_get (tb_columns m) c \<noteq> dict_get (tb_columns d) c)
       (map fst (tb_columns m) @ map fst (tb_columns d)))"

definition constraint_drift :: "table \<Rightarrow> table_def \<Rightarrow> table_def \<Rightarrow> drift list" where
  "constraint_drift t m d =
     (let ms = map snd (tb_constraints m); ds = map snd (tb_constraints d)
      in map (OnlyMapped t) (filter (\<lambda>k. \<not> List.member ds k) ms)
         @ map (OnlyMigrated t) (filter (\<lambda>k. \<not> List.member ms k) ds))"

definition schema_drift :: "(table, table_def) dict \<Rightarrow> catalog \<Rightarrow> drift list" where
  "schema_drift orm c =
     concat (map (\<lambda>(t, m). case dict_get (ca_tables c) t of
         None \<Rightarrow> [TableOnlyMapped t]
       | Some d \<Rightarrow> column_drift t m d @ constraint_drift t m d) orm)
     @ map TableOnlyMigrated (filter (\<lambda>t. dict_get orm t = None) (map fst (ca_tables c)))"

end
