(* ===== verification/Schema_Props.thy ===== *)
theory Schema_Props
  imports Orm
begin

text \<open>
  What the migrations establish: they apply, they undo each other, the audit tables only
  grow, the mapped classes agree with the database, and which privileges the roles hold.
\<close>

section \<open>Applying and undoing\<close>

definition head_revision :: nat where "head_revision = 7"

text \<open>
  The migrations apply, in order, to an empty database, and come back down: the
  downgrade of each of the first six gives exactly the database before it, the one of the
  last does too but for \<open>decided_by\<close>, which it leaves nullable, and all of them together,
  drop order and dependencies included, leave nothing behind.
\<close>

theorem migrations_round_trip:
  "list_all (\<lambda>n. and_then (at_revision (Suc n)) (run_ddl (downgrades ! n)) = at_revision n
       \<and> is_ok (at_revision n)) [0..<6]
   \<and> and_then (at_revision 7) (run_ddl downgrade_0007)
      = and_then (at_revision 6) (exec_ddl (DropNotNull T_session_decision C_decided_by))
   \<and> and_then (at_revision head_revision) (run_ddl (downgrade_base head_revision)) = Inr empty_catalog"
  by code_simp

section \<open>Append-only tables\<close>

text \<open>At every revision from the baseline on, each audit table has its trigger and the application may append.\<close>

definition app_caller :: db_caller where
  "app_caller = \<lparr>cl_role = Techscreen_app, cl_superuser = False\<rparr>"

definition audit_enforced :: "catalog \<Rightarrow> bool" where
  "audit_enforced c \<longleftrightarrow> list_all (\<lambda>t. guarded c t \<and> permitted c app_caller InsertP t \<and> permitted c app_caller SelectP t
     \<and> \<not> granted c Techscreen_app UpdateP t \<and> \<not> granted c Techscreen_app DeleteP t) append_only_tables"

definition enforced_at :: "nat \<Rightarrow> bool" where
  "enforced_at n \<longleftrightarrow> (case at_revision n of Inr c \<Rightarrow> audit_enforced c | Inl _ \<Rightarrow> False)"

lemma enforced_at_revisions: "list_all enforced_at [1..<8]"
  by code_simp

lemma guarded_at:
  assumes "at_revision n = Inr c" and "1 \<le> n" and "t \<in> set append_only_tables"
  shows "guarded c t \<and> permitted c app_caller InsertP t \<and> permitted c app_caller SelectP t
    \<and> \<not> granted c Techscreen_app UpdateP t \<and> \<not> granted c Techscreen_app DeleteP t"
proof -
  define m where "m = min n 7"
  have "at_revision m = at_revision n" by (simp add: m_def at_revision_def upgrades_def min_def)
  moreover have "m \<in> set [1..<8]" using assms(2) by (simp add: m_def)
  then have "enforced_at m" using enforced_at_revisions unfolding list_all_iff by (rule bspec [rotated])
  ultimately have "audit_enforced c" using assms(1) unfolding enforced_at_def by simp
  then show ?thesis using assms(3) unfolding audit_enforced_def list_all_iff by (rule bspec)
qed


definition head_catalog :: catalog where
  "head_catalog = (case at_revision head_revision of Inr c \<Rightarrow> c | Inl _ \<Rightarrow> empty_catalog)"

lemma head_catalog: "at_revision head_revision = Inr head_catalog"
proof -
  have "is_ok (at_revision head_revision)" by code_simp
  then show ?thesis by (auto simp: is_ok_iff head_catalog_def)
qed


section \<open>Mapped classes and the database\<close>

text \<open>
  The mapped classes describe the migrated database: the same tables, each with the same
  columns, types, nullability and defaults, the same keys and references. The classes leave
  out exactly the uniqueness of a rubric version's payload hash and the value checks of
  \<open>turn_trace\<close>, which only the migrations know.
\<close>

theorem models_match_migrations:
  "schema_drift orm_metadata head_catalog =
     OnlyMigrated T_rubric_tree_version (UniqueC [C_payload_hash])
     # map (\<lambda>(_, k). OnlyMigrated T_turn_trace k) turn_trace_constraints"
  by code_simp

section \<open>Privileges\<close>


text \<open>What the SQL of the importer and of the flag sync asks of the tables.\<close>

definition sync_needs :: "(privilege \<times> table) list" where
  "sync_needs = [(SelectP, T_rubric_tree_version), (InsertP, T_rubric_tree_version),
     (InsertP, T_stack), (SelectP, T_stack), (InsertP, T_competency_block), (SelectP, T_competency_block),
     (InsertP, T_competency), (SelectP, T_competency), (InsertP, T_level), (InsertP, T_topic),
     (InsertP, T_audit_log), (InsertP, T_feature_flag), (UpdateP, T_feature_flag), (SelectP, T_feature_flag)]"

definition synced_catalog :: "ddl_error + catalog" where
  "synced_catalog = run_ddl (CreateRole Flag_sync # cloud_db_grants) head_catalog"

text \<open>
  The grants of the configuration sync are what its scripts need and no more: the file
  applies to the migrated database, every statement of the importer and of the flag sync
  is then permitted, and the identity has no other privilege on any table.
\<close>

theorem sync_grants_are_exact:
  "case synced_catalog of
     Inl _ \<Rightarrow> False
   | Inr c \<Rightarrow>
       list_all (\<lambda>t. list_all (\<lambda>p. permitted c \<lparr>cl_role = Flag_sync, cl_superuser = False\<rparr> p t
           \<longleftrightarrow> List.member sync_needs (p, t)) all_privileges) (map fst (ca_tables c))"
  by code_simp

end
