(* ===== verification/Tools.thy ===== *)
theory Tools
  imports Rubric_Convert
begin

text \<open>
  The command-line entry points around the rubric and the API contract:
  \<open>app/backend/cli/import_matrix.py\<close>, \<open>scripts/check-rubric-schema.py\<close> and
  \<open>app/backend/generate_openapi.py\<close>. Each answers with its exit status; an exception
  nothing catches is status 1. What is printed and how arguments are parsed is not modelled.
\<close>

section \<open>The schema guard\<close>

text \<open>A file: parsed, a mapping at top level (an empty file is one), and without a schema error.\<close>

definition file_conforms :: "importer \<Rightarrow> string \<Rightarrow> bool" where
  "file_conforms im content = (case im_yaml im content of
     None \<Rightarrow> False
   | Some loaded \<Rightarrow>
       (case (if truthy loaded then loaded else JObj []) of
          JObj d \<Rightarrow> im_valid im (JObj d) | _ \<Rightarrow> False))"

definition check_rubric_schema :: "importer \<Rightarrow> bool \<Rightarrow> yaml_dir option \<Rightarrow> nat" where
  "check_rubric_schema im schema_exists dir =
     (if \<not> schema_exists then 2
      else case dir of
        None \<Rightarrow> 2
      | Some files \<Rightarrow> if list_all (\<lambda>(_, content). file_conforms im content) files then 0 else 1)"

section \<open>The import tool\<close>

text \<open>
  A workbook that is not there makes the reader raise \<open>FileNotFoundError\<close>; a directory that
  is not there has no files, since listing it raises nothing.
\<close>

datatype tool_command =
    CmdConvert "(string \<times> sheet) list option"
  | CmdSeed "yaml_dir option" bool

record tool_env =
  to_converter :: converter
  to_importer :: importer
  to_seed_env :: seed_env
  to_database_url :: "string option"

record tool_state =
  ts_files :: "(string, string) dict"
  ts_db :: seed_db

definition import_matrix :: "tool_env \<Rightarrow> tool_command \<Rightarrow> tool_state \<Rightarrow> nat \<times> tool_state" where
  "import_matrix env cmd st = (case cmd of
     CmdConvert workbook \<Rightarrow>
       (case workbook of
          None \<Rightarrow> (2, st)
        | Some sheets \<Rightarrow>
            (case convert (to_converter env) sheets (ts_files st) of
               (Inl _, files) \<Rightarrow> (1, st\<lparr>ts_files := files\<rparr>)
             | (Inr _, files) \<Rightarrow> (0, st\<lparr>ts_files := files\<rparr>)))
   | CmdSeed dir dry_run \<Rightarrow>
       if to_database_url env \<in> {None, Some ''''} then (2, st)
       else (case seed (to_importer env) (to_seed_env env) (case dir of None \<Rightarrow> [] | Some files \<Rightarrow> files)
                    dry_run (ts_db st) of
               Inl _ \<Rightarrow> (1, st)
             | Inr (_, w) \<Rightarrow> (0, st\<lparr>ts_db := w\<rparr>)))"

section \<open>The API contract\<close>

text \<open>\<open>regenerated\<close> is the serialised contract of the running application.\<close>

definition check_yaml :: "string \<Rightarrow> string option \<Rightarrow> nat" where
  "check_yaml regenerated committed = (case committed of
     None \<Rightarrow> 1 | Some bytes \<Rightarrow> if bytes = regenerated then 0 else 1)"

definition write_yaml :: "string \<Rightarrow> string option \<Rightarrow> string option" where
  "write_yaml regenerated committed = Some regenerated"

definition generate_openapi :: "bool \<Rightarrow> string \<Rightarrow> string option \<Rightarrow> nat \<times> string option" where
  "generate_openapi check_only regenerated committed =
     (if check_only then (check_yaml regenerated committed, committed)
      else (0, write_yaml regenerated committed))"

lemma regenerated_contract_checks:
  "fst (generate_openapi True r (snd (generate_openapi False r committed))) = 0"
  by (simp add: generate_openapi_def write_yaml_def check_yaml_def)

section \<open>The guard and the importer\<close>

text \<open>With the schema demanding at least the shape the importer reads.\<close>

definition shaped :: "importer \<Rightarrow> bool" where
  "shaped im \<longleftrightarrow> (\<forall>d. im_valid im (JObj d) \<longrightarrow> read_doc d \<noteq> None)"

lemma conforming_file_loads:
  assumes "shaped im"
  shows "file_conforms im content \<longleftrightarrow> is_ok (load_yaml im content)"
proof (cases "im_yaml im content")
  case (Some loaded)
  obtain top where top: "(if truthy loaded then loaded else JObj []) = top" by blast
  show ?thesis
    using assms unfolding file_conforms_def load_yaml_def Some option.case top
    by (cases top) (auto simp: shaped_def split: option.split)
qed (simp add: file_conforms_def load_yaml_def)

lemma load_dir_ok: "is_ok (load_yaml_dir im files) \<longleftrightarrow> list_all (\<lambda>(_, c). is_ok (load_yaml im c)) files"
  by (induction im files rule: load_yaml_dir.induct) (auto simp: is_ok_def and_then_def split: sum.splits)

text \<open>
  The schema guard answers for the importer. With the schema in place, and demanding at
  least the shape the importer reads, the guard answers 0 exactly on the directories the
  importer loads, 1 on the others, and 2 exactly when the schema or the directory is missing.
\<close>

theorem schema_guard_is_the_loader:
  assumes "shaped im"
  shows "check_rubric_schema im schema_exists dir =
    (if \<not> schema_exists \<or> dir = None then 2
     else if is_ok (load_yaml_dir im (the dir)) then 0 else 1)"
proof -
  have "list_all (\<lambda>(_, c). file_conforms im c) files \<longleftrightarrow> is_ok (load_yaml_dir im files)" for files
    by (simp only: load_dir_ok conforming_file_loads [OF assms])
  then show ?thesis by (cases dir) (simp_all add: check_rubric_schema_def)
qed

definition strict_importer :: importer where
  "strict_importer = \<lparr>im_valid = (\<lambda>j. case j of JObj d \<Rightarrow> read_doc d \<noteq> None | _ \<Rightarrow> False),
     im_yaml = (\<lambda>s. Some (JStr s))\<rparr>"

theorem schema_guard_is_the_loader_witness:
  "check_rubric_schema strict_importer True (Some [(''a'', ''text'')]) = 1"
proof -
  have "shaped strict_importer" by (simp add: shaped_def strict_importer_def)
  moreover have "load_yaml strict_importer ''text'' = Inl SchemaViolationError"
    by (simp add: strict_importer_def load_yaml_def truthy_def)
  ultimately show ?thesis
    using schema_guard_is_the_loader [of strict_importer True "Some [(''a'', ''text'')]"] by simp
qed

section \<open>A missing directory\<close>

text \<open>
  A directory that does not exist is seeded as an empty rubric. On a database without
  rubric versions, \<open>seed\<close> with a mistyped directory answers 0 and leaves an active version
  with no stack behind, where the sync script answers 2 for the same mistake.
\<close>

theorem missing_directory_is_seeded:
  assumes "to_database_url env = Some (c # url)" and "rb_versions (sd_rubric (ts_db st)) = []"
  shows "let (status, st') = import_matrix env (CmdSeed None False) st
     in status = 0 \<and> rb_stacks (sd_rubric (ts_db st')) = rb_stacks (sd_rubric (ts_db st))
       \<and> (\<exists>v. rb_versions (sd_rubric (ts_db st')) = [v] \<and> vn_is_active v)
       \<and> fst (cmd_sync (to_database_url env) True (to_importer env) (to_seed_env env) None False (ts_db st)) = 2"
proof -
  have latest: "latest_version (sd_rubric (ts_db st)) = None" by (simp add: latest_version_def assms(2))
  then have "prior_active (sd_rubric (ts_db st)) = []" by (simp add: prior_active_def)
  then show ?thesis
    using latest assms
    by (simp add: import_matrix_def seed_def disappeared_def materialise_all_def insert_version_def
        cmd_sync_def Let_def)
qed

definition demo_tool :: tool_env where
  "demo_tool = \<lparr>to_converter = \<lparr>cv_unicode = \<lparr>uc_nfc = (\<lambda>s. s), uc_nfkd = (\<lambda>s. s)\<rparr>,
       cv_valid = (\<lambda>_. True), cv_dump = (\<lambda>_. '''')\<rparr>, to_importer = strict_importer,
     to_seed_env = \<lparr>se_fresh = (\<lambda>n. of_nat n), se_now = 0\<rparr>, to_database_url = Some ''postgresql://db''\<rparr>"

definition demo_tool_state :: tool_state where
  "demo_tool_state = \<lparr>ts_files = [], ts_db = \<lparr>sd_rubric = empty_rubric, sd_audit = [], sd_next = 0\<rparr>\<rparr>"

theorem missing_directory_is_seeded_witness:
  "fst (import_matrix demo_tool (CmdSeed None False) demo_tool_state) = 0"
  using missing_directory_is_seeded [of demo_tool "CHR ''p''" "''ostgresql://db''" demo_tool_state]
  by (simp add: demo_tool_def demo_tool_state_def empty_rubric_def case_prod_unfold Let_def)

end
