(* ===== verification/Rubric_Serve.thy ===== *)
theory Rubric_Serve
  imports Rubric_Convert_Props
begin

text \<open>
  From the workbook to the session: the rubric a session freezes
  (\<open>services/rubric_snapshot.py\<close>) says what the files that were seeded say, and so what the
  sheet that was converted says. The tables are related to the files row by row, through the
  ids the database generated for the new version.
\<close>

section \<open>What a version of the tables says\<close>

type_synonym level_entry = "string \<times> int \<times> string"

abbreviation stacks_in :: "uuid \<Rightarrow> rubric_db \<Rightarrow> stack_row list" where
  "stacks_in v db \<equiv> filter (\<lambda>r. sk_version r = v) (rb_stacks db)"

abbreviation blocks_in :: "uuid \<Rightarrow> rubric_db \<Rightarrow> block_row list" where
  "blocks_in v db \<equiv> filter (\<lambda>r. bk_version r = v) (rb_blocks db)"

abbreviation comps_in :: "uuid \<Rightarrow> rubric_db \<Rightarrow> competency_row list" where
  "comps_in v db \<equiv> filter (\<lambda>r. cr_version r = v) (rb_competencies db)"

abbreviation levels_in :: "uuid \<Rightarrow> rubric_db \<Rightarrow> level_row list" where
  "levels_in v db \<equiv> filter (\<lambda>r. lv_version r = v) (rb_levels db)"

definition level_entry :: "competency_row \<Rightarrow> level_row \<Rightarrow> level_entry" where
  "level_entry c l = (cr_name c, lv_rank l, lv_descriptor l)"

definition competency_levels :: "level_row list \<Rightarrow> competency_row \<Rightarrow> level_entry list" where
  "competency_levels ls c = map (level_entry c) (filter (\<lambda>l. lv_competency l = cr_id c) ls)"

definition version_levels :: "uuid \<Rightarrow> rubric_db \<Rightarrow> level_entry list" where
  "version_levels v db = concat (map (competency_levels (levels_in v db)) (comps_in v db))"

text \<open>The tree hangs together: ids name one row, and every row's parent is there.\<close>

definition tree_ok :: "uuid \<Rightarrow> rubric_db \<Rightarrow> bool" where
  "tree_ok v db \<longleftrightarrow>
     distinct (map sk_id (stacks_in v db)) \<and> distinct (map bk_id (blocks_in v db))
     \<and> distinct (map cr_id (comps_in v db))
     \<and> bk_stack ` set (blocks_in v db) \<subseteq> sk_id ` set (stacks_in v db)
     \<and> cr_block ` set (comps_in v db) \<subseteq> bk_id ` set (blocks_in v db)
     \<and> lv_competency ` set (levels_in v db) \<subseteq> cr_id ` set (comps_in v db)"

section \<open>What a snapshot says\<close>

definition snapshot_levels :: "rubric_snapshot \<Rightarrow> level_entry list" where
  "snapshot_levels s = concat (map (\<lambda>k. concat (map (\<lambda>b. concat (map
     (\<lambda>c. map (\<lambda>l. (sc_name c, sl_rank l, sl_descriptor l)) (sc_levels c))
     (sb_competencies b))) (ss_blocks k))) (rs_stacks s))"

text \<open>Children listed under their parents are all the children, once.\<close>

lemma one_parent:
  assumes "distinct (map key ps)" and "x \<in> key ` set ps"
  shows "(\<Sum>p\<leftarrow>ps. if x = key p then M else {#}) = (M :: 'm multiset)"
  using assms
proof (induction ps)
  case (Cons p ps)
  show ?case
  proof (cases "x = key p")
    case True
    with Cons.prems have "x \<noteq> key q" if "q \<in> set ps" for q using that by auto
    then have "(\<Sum>q\<leftarrow>ps. if x = key q then M else {#}) = (\<Sum>q\<leftarrow>ps. {#})"
      by (intro arg_cong [of _ _ sum_list] map_cong) auto
    with True show ?thesis by simp
  qed (use Cons in auto)
qed simp

lemma mset_concat_map: "mset (concat (map f xs)) = (\<Sum>x\<leftarrow>xs. mset (f x))"
  by (induction xs) simp_all

lemma mset_children:
  assumes "distinct (map key ps)" and "fk ` set cs \<subseteq> key ` set ps"
  shows "mset (concat (map (\<lambda>p. concat (map f (filter (\<lambda>c. fk c = key p) cs))) ps))
    = mset (concat (map f cs))"
proof -
  have part: "mset (concat (map f (filter P cs))) = (\<Sum>c\<leftarrow>cs. if P c then mset (f c) else {#})" for P
    by (induction cs) auto
  have swap: "(\<Sum>p\<leftarrow>ps. \<Sum>c\<leftarrow>cs. if fk c = key p then mset (f c) else {#})
      = (\<Sum>c\<leftarrow>cs. \<Sum>p\<leftarrow>ps. if fk c = key p then mset (f c) else {#})"
    by (induction ps) (simp_all add: sum_list_addf)
  have "(\<Sum>c\<leftarrow>cs. \<Sum>p\<leftarrow>ps. if fk c = key p then mset (f c) else {#}) = (\<Sum>c\<leftarrow>cs. mset (f c))"
    using assms by (intro arg_cong [of _ _ sum_list] map_cong one_parent) auto
  then show ?thesis unfolding mset_concat_map [of _ ps] part swap mset_concat_map [of f cs] .
qed

lemma rows_same [simp]:
  "mset (stack_rows coll db v) = mset (stacks_in v db)" "mset (block_rows coll db v) = mset (blocks_in v db)"
  "mset (competency_rows coll db v) = mset (comps_in v db)" "mset (level_rows db v) = mset (levels_in v db)"
  by (simp_all add: stack_rows_def block_rows_def competency_rows_def level_rows_def by_name_def)

lemma distinct_keys_cong: "mset xs = mset ys \<Longrightarrow> distinct (map k xs) = distinct (map k ys)"
  by (rule mset_eq_imp_distinct_iff) simp

lemma snapshot_says_version:
  assumes "snapshot_rubric coll db v = Inr s" and "tree_ok v db"
  shows "mset (snapshot_levels s) = mset (version_levels v db)"
proof -
  define h where "h c = map (level_entry c) (filter (\<lambda>l. lv_competency l = cr_id c) (level_rows db v))" for c
  define g where "g b = concat (map h (filter (\<lambda>c. cr_block c = bk_id b) (competency_rows coll db v)))" for b :: block_row
  note sets = rows_same [THEN mset_eq_setD] and keys = rows_same [THEN distinct_keys_cong]
  have stacks: "rs_stacks s = map (snapshot_stack_of coll db v) (stack_rows coll db v)"
    using assms(1) by (auto simp: snapshot_rubric_def split: option.splits)
  have "snapshot_levels s
      = concat (map (\<lambda>k. concat (map g (filter (\<lambda>b. bk_stack b = sk_id k) (block_rows coll db v)))) (stack_rows coll db v))"
    unfolding snapshot_levels_def stacks
    by (simp add: snapshot_stack_of_def snapshot_block_of_def snapshot_competency_of_def g_def [abs_def] h_def [abs_def]
        level_entry_def [abs_def] comp_def)
  also have "mset \<dots> = mset (concat (map g (block_rows coll db v)))"
    by (rule mset_children) (use assms(2) in \<open>simp_all add: tree_ok_def sets keys\<close>)
  also have "\<dots> = mset (concat (map h (competency_rows coll db v)))"
    unfolding g_def by (rule mset_children) (use assms(2) in \<open>simp_all add: tree_ok_def sets keys\<close>)
  also have "\<dots> = mset (concat (map h (comps_in v db)))"
    by (rule mset_concat_cong) simp
  also have "\<dots> = mset (version_levels v db)"
  proof -
    have "mset (h c) = mset (competency_levels (levels_in v db) c)" for c
      unfolding h_def competency_levels_def mset_map mset_filter rows_same ..
    then show ?thesis unfolding version_levels_def mset_concat_map by simp
  qed
  finally show ?thesis .
qed

section \<open>What seeding writes\<close>

text \<open>The ids given out so far for the new version, and what then holds when they differ.\<close>

definition issued :: "seed_env \<Rightarrow> nat \<Rightarrow> seed_db \<Rightarrow> uuid set" where
  "issued env a w = se_fresh env ` {a..<sd_next w}"

definition fresh_ids :: "seed_env \<Rightarrow> nat \<Rightarrow> seed_db \<Rightarrow> bool" where
  "fresh_ids env a w \<longleftrightarrow> inj_on (se_fresh env) {a..<sd_next w}"

definition says :: "seed_env \<Rightarrow> nat \<Rightarrow> uuid \<Rightarrow> seed_db \<Rightarrow> level_entry multiset \<Rightarrow> bool" where
  "says env a v w M \<longleftrightarrow> a \<le> sd_next w \<and> (fresh_ids env a w \<longrightarrow>
     tree_ok v (sd_rubric w) \<and> mset (version_levels v (sd_rubric w)) = M
     \<and> sk_id ` set (stacks_in v (sd_rubric w)) \<subseteq> issued env a w
     \<and> bk_id ` set (blocks_in v (sd_rubric w)) \<subseteq> issued env a w
     \<and> cr_id ` set (comps_in v (sd_rubric w)) \<subseteq> issued env a w)"

lemma next_id:
  assumes "a \<le> sd_next w" and "sd_next w' = sd_next w + 1" and "fresh_ids env a w'"
  shows "fresh_ids env a w" "new_id env w \<notin> issued env a w"
    "issued env a w' = insert (new_id env w) (issued env a w)"
proof -
  have r: "{a..<sd_next w'} = insert (sd_next w) {a..<sd_next w}" using assms(1,2) by auto
  show "fresh_ids env a w" using assms(3) unfolding fresh_ids_def r by (rule inj_on_subset) auto
  show "new_id env w \<notin> issued env a w"
    using assms(3) unfolding fresh_ids_def r issued_def new_id_def by auto
  show "issued env a w' = insert (new_id env w) (issued env a w)"
    unfolding issued_def r new_id_def by simp
qed

lemmas version_defs = tree_ok_def version_levels_def

lemma says_insert_stack:
  assumes "says env a v w M"
  shows "says env a v (insert_stack env v name w) M"
proof -
  let ?w = "insert_stack env v name w"
  have n: "sd_next ?w = sd_next w + 1" by (simp add: insert_stack_def)
  have a: "a \<le> sd_next w" using assms by (simp add: says_def)
  show ?thesis
    using assms next_id [OF a n, of env] unfolding says_def
    by (auto simp: insert_stack_def version_defs)
qed

lemma says_insert_block:
  assumes "says env a v w M" and "stack \<in> sk_id ` set (stacks_in v (sd_rubric w))"
  shows "says env a v (insert_block env v stack name w) M"
proof -
  let ?w = "insert_block env v stack name w"
  have n: "sd_next ?w = sd_next w + 1" by (simp add: insert_block_def)
  have a: "a \<le> sd_next w" using assms by (simp add: says_def)
  show ?thesis
    using assms next_id [OF a n, of env] unfolding says_def
    by (auto simp: insert_block_def version_defs)
qed

lemma competency_levels_unknown:
  "cr_id c \<notin> lv_competency ` set ls \<Longrightarrow> competency_levels ls c = []"
  by (auto simp: competency_levels_def filter_empty_conv) (metis imageI)

lemma says_insert_competency:
  assumes "says env a v w M" and "block \<in> bk_id ` set (blocks_in v (sd_rubric w))"
  shows "says env a v (insert_competency env v block name w) M"
proof -
  let ?w = "insert_competency env v block name w"
  have n: "sd_next ?w = sd_next w + 1" by (simp add: insert_competency_def)
  have a: "a \<le> sd_next w" using assms by (simp add: says_def)
  note ids = next_id [OF a n, of env]
  have none: "competency_levels (levels_in v (sd_rubric w))
      \<lparr>cr_id = new_id env w, cr_version = v, cr_block = block, cr_name = name\<rparr> = []" if "fresh_ids env a ?w"
  proof (rule competency_levels_unknown)
    have "new_id env w \<notin> cr_id ` set (comps_in v (sd_rubric w))"
      using assms(1) ids [OF that] unfolding says_def by blast
    then show "cr_id \<lparr>cr_id = new_id env w, cr_version = v, cr_block = block, cr_name = name\<rparr>
        \<notin> lv_competency ` set (levels_in v (sd_rubric w))"
      using assms(1) ids(1) [OF that] unfolding says_def tree_ok_def by auto
  qed
  show ?thesis
    using assms ids none unfolding says_def
    by (auto simp: insert_competency_def version_defs)
qed

lemma says_insert_topic:
  assumes "says env a v w M"
  shows "says env a v (insert_topic env v c name w) M"
proof -
  let ?w = "insert_topic env v c name w"
  have n: "sd_next ?w = sd_next w + 1" by (simp add: insert_topic_def)
  have a: "a \<le> sd_next w" using assms by (simp add: says_def)
  show ?thesis
    using assms next_id [OF a n, of env] unfolding says_def
    by (auto simp: insert_topic_def version_defs)
qed

text \<open>A level adds its entry under its competency.\<close>

lemma competency_levels_snoc:
  "competency_levels (ls @ [l]) c
    = competency_levels ls c @ (if lv_competency l = cr_id c then [level_entry c l] else [])"
  by (simp add: competency_levels_def)

lemma one_level_more:
  assumes "distinct (map cr_id cs)" and "c \<in> set cs" and "lv_competency l = cr_id c"
  shows "mset (concat (map (competency_levels (ls @ [l])) cs))
    = add_mset (level_entry c l) (mset (concat (map (competency_levels ls) cs)))"
  using assms
proof (induction cs)
  case (Cons d cs)
  show ?case
  proof (cases "d = c")
    case True
    have "competency_levels (ls @ [l]) e = competency_levels ls e" if "e \<in> set cs" for e
      using Cons.prems True that by (auto simp: competency_levels_snoc)
    then have "map (competency_levels (ls @ [l])) cs = map (competency_levels ls) cs"
      by (intro map_cong) simp_all
    then show ?thesis
      using Cons.prems(3) unfolding True by (simp only: list.map concat.simps) (simp add: competency_levels_snoc)
  next
    case False
    then have "c \<in> set cs" using Cons.prems(2) by simp
    moreover from this have "cr_id d \<noteq> cr_id c" using Cons.prems(1) by auto
    ultimately show ?thesis using Cons by (simp add: competency_levels_snoc)
  qed
qed simp

lemma says_insert_level:
  assumes "says env a v w M" and "c \<in> set (comps_in v (sd_rubric w))"
  shows "says env a v (insert_level env v (cr_id c) l w) (add_mset (cr_name c, rl_level l, rl_descriptor l) M)
    \<and> comps_in v (sd_rubric (insert_level env v (cr_id c) l w)) = comps_in v (sd_rubric w)"
proof -
  let ?w = "insert_level env v (cr_id c) l w"
  have n: "sd_next ?w = sd_next w + 1" by (simp add: insert_level_def)
  have a: "a \<le> sd_next w" using assms by (simp add: says_def)
  note ids = next_id [OF a n, of env]
  have rows: "stacks_in v (sd_rubric ?w) = stacks_in v (sd_rubric w)"
    "blocks_in v (sd_rubric ?w) = blocks_in v (sd_rubric w)"
    "comps_in v (sd_rubric ?w) = comps_in v (sd_rubric w)"
    "levels_in v (sd_rubric ?w) = levels_in v (sd_rubric w) @ [\<lparr>lv_id = new_id env w, lv_version = v,
       lv_competency = cr_id c, lv_rank = rl_level l, lv_descriptor = rl_descriptor l\<rparr>]"
    by (simp_all add: insert_level_def)
  show ?thesis
    using assms ids unfolding says_def version_defs rows n
    by (auto simp: one_level_more [OF _ assms(2)] level_entry_def)
qed

section \<open>The passes\<close>

definition node_entries :: "rubric_node \<Rightarrow> level_entry list" where
  "node_entries n = map (\<lambda>l. (rn_id n, rl_level l, rl_descriptor l)) (rn_levels n)"

text \<open>The levels of the nodes a seed stores as competencies, those under a top-level node.\<close>

definition declared_levels :: "rubric_doc \<Rightarrow> level_entry list" where
  "declared_levels doc =
     (let ns = map snd (nodes_by_id (rd_nodes doc));
          tops = map rn_id (filter (\<lambda>n. rn_parent n = None) ns)
      in concat (map node_entries (filter (\<lambda>n. \<exists>p \<in> set tops. rn_parent n = Some p) ns)))"

lemma says_levels:
  assumes "says env a v w M" and "c \<in> set (comps_in v (sd_rubric w))"
  shows "says env a v (fold (insert_level env v (cr_id c)) ls w)
    (M + mset (map (\<lambda>l. (cr_name c, rl_level l, rl_descriptor l)) ls))"
  using assms
proof (induction ls arbitrary: w M)
  case (Cons l ls)
  from says_insert_level [OF Cons.prems, of l] Cons.prems(2)
    Cons.IH [of "insert_level env v (cr_id c) l w" "add_mset (cr_name c, rl_level l, rl_descriptor l) M"]
  show ?case by simp
qed simp

lemma says_competency:
  assumes "says env a v w M" and "block \<in> bk_id ` set (blocks_in v (sd_rubric w))"
  shows "says env a v (fold (insert_level env v (new_id env w)) (rn_levels n)
      (insert_competency env v block (rn_id n) w)) (M + mset (node_entries n))"
proof -
  let ?c = "\<lparr>cr_id = new_id env w, cr_version = v, cr_block = block, cr_name = rn_id n\<rparr>"
  have "?c \<in> set (comps_in v (sd_rubric (insert_competency env v block (rn_id n) w)))"
    by (simp add: insert_competency_def)
  from says_levels [OF says_insert_competency [OF assms] this] show ?thesis
    by (simp add: node_entries_def)
qed

text \<open>What the inserts leave of the other tables.\<close>

lemma kept_rows [simp]:
  "rb_stacks (sd_rubric (insert_block env v s name w)) = rb_stacks (sd_rubric w)"
  "rb_blocks (sd_rubric (insert_competency env v b name w)) = rb_blocks (sd_rubric w)"
  "rb_blocks (sd_rubric (insert_level env v c l w)) = rb_blocks (sd_rubric w)"
  by (simp_all add: insert_block_def insert_competency_def insert_level_def)

lemma kept_levels [simp]:
  "rb_blocks (sd_rubric (fold (insert_level env v c) ls w)) = rb_blocks (sd_rubric w)"
  by (induction ls arbitrary: w) simp_all

lemma inserted_block:
  "b \<in> bk_id ` set (blocks_in v (sd_rubric w)) \<Longrightarrow>
     b \<in> bk_id ` set (blocks_in v (sd_rubric (insert_block env v s name w)))"
  "new_id env w \<in> bk_id ` set (blocks_in v (sd_rubric (insert_block env v s name w)))"
  by (simp_all add: insert_block_def)

lemma says_blocks:
  assumes "fold (add_block env v stack) ns (w, ids, k) = (w', ids', k')"
    and "says env a v w M" and "stack \<in> sk_id ` set (stacks_in v (sd_rubric w))"
    and "\<And>p b. dict_get ids p = Some b \<Longrightarrow> b \<in> bk_id ` set (blocks_in v (sd_rubric w))"
  shows "says env a v w' M
    \<and> (\<forall>p b. dict_get ids' p = Some b \<longrightarrow> b \<in> bk_id ` set (blocks_in v (sd_rubric w')))"
  using assms
proof (induction ns arbitrary: w ids k)
  case (Cons n ns)
  show ?case
  proof (cases "rn_parent n = None")
    case True
    let ?w = "insert_block env v stack (rn_id n) w"
    show ?thesis
    proof (rule Cons.IH)
      show "fold (add_block env v stack) ns (?w, dict_set ids (rn_id n) (new_id env w), k + 1) = (w', ids', k')"
        using Cons.prems(1) True by (simp add: add_block_def [of env v stack n])
      show "says env a v ?w M" using Cons.prems(2,3) by (rule says_insert_block)
      show "stack \<in> sk_id ` set (stacks_in v (sd_rubric ?w))" using Cons.prems(3) by simp
      show "b \<in> bk_id ` set (blocks_in v (sd_rubric ?w))"
        if "dict_get (dict_set ids (rn_id n) (new_id env w)) p = Some b" for p b
        using that Cons.prems(4) inserted_block by (auto simp only: dict_simps split: if_splits)
    qed
  next
    case False
    then have "fold (add_block env v stack) ns (w, ids, k) = (w', ids', k')"
      using Cons.prems(1) by (simp add: add_block_def [of env v stack n] del: not_None_eq)
    from Cons.IH [OF this Cons.prems(2-4)] show ?thesis .
  qed
qed auto

lemma says_competencies:
  assumes "fold (add_competency env v blocks) ns (w, ids, k) = (w', ids', k')"
    and "says env a v w M"
    and "\<And>p b. dict_get blocks p = Some b \<Longrightarrow> b \<in> bk_id ` set (blocks_in v (sd_rubric w))"
  shows "says env a v w' (M + mset (concat (map node_entries
    (filter (\<lambda>n. \<exists>p \<in> dict_keys blocks. rn_parent n = Some p) ns))))"
  using assms
proof (induction ns arbitrary: w ids k M)
  case (Cons n ns)
  show ?case
  proof (cases "\<exists>p b. rn_parent n = Some p \<and> dict_get blocks p = Some b")
    case True
    then obtain p b where n: "rn_parent n = Some p" "dict_get blocks p = Some b" by blast
    let ?w = "fold (insert_level env v (new_id env w)) (rn_levels n) (insert_competency env v b (rn_id n) w)"
    have "fold (add_competency env v blocks) ns
        (?w, dict_set ids (rn_id n) (new_id env w), k + 1 + length (rn_levels n)) = (w', ids', k')"
      using Cons.prems(1) n by (simp add: add_competency_def [of env v blocks n])
    moreover have "says env a v ?w (M + mset (node_entries n))"
      using says_competency [OF Cons.prems(2,3)] n(2) by blast
    moreover have "\<And>q d. dict_get blocks q = Some d \<Longrightarrow> d \<in> bk_id ` set (blocks_in v (sd_rubric ?w))"
      using Cons.prems(3) by simp
    ultimately have "says env a v w' (M + mset (node_entries n) + mset (concat (map node_entries
        (filter (\<lambda>n. \<exists>p \<in> dict_keys blocks. rn_parent n = Some p) ns))))"
      by (rule Cons.IH)
    moreover have "p \<in> dict_keys blocks" using n(2) by (simp add: py_dict.mem_keys)
    ultimately show ?thesis using n(1) by (simp add: ac_simps)
  next
    case False
    then have "\<not> (\<exists>p \<in> dict_keys blocks. rn_parent n = Some p)" by (auto simp: py_dict.mem_keys)
    moreover have "add_competency env v blocks n (w, ids, k) = (w, ids, k)"
      using False by (auto simp: add_competency_def split: option.splits)
    ultimately show ?thesis using Cons by simp
  qed
qed simp

lemma says_topics:
  assumes "says env a v w M"
  shows "says env a v (fst (fold (add_topic env v comps) ns (w, k))) M"
  using assms
proof (induction ns arbitrary: w k)
  case (Cons n ns)
  obtain w1 k1 where s: "add_topic env v comps n (w, k) = (w1, k1)" by fastforce
  then have "says env a v w1 M"
    using Cons.prems says_insert_topic by (auto simp: add_topic_def split: option.splits)
  with Cons.IH s show ?case by simp
qed simp

lemma says_stack:
  assumes "says env a v w M"
  shows "says env a v (fst (materialise_stack env v name doc w)) (M + mset (declared_levels doc))"
proof -
  let ?ns = "map snd (nodes_by_id (rd_nodes doc))" and ?w = "insert_stack env v name w"
  obtain w1 blocks k1 where p1: "fold (add_block env v (new_id env w)) ?ns (?w, [], 1) = (w1, blocks, k1)"
    by (cases rule: prod_cases3)
  obtain w2 comps k2 where p2: "fold (add_competency env v blocks) ?ns (w1, [], k1) = (w2, comps, k2)"
    by (cases rule: prod_cases3)
  have "new_id env w \<in> sk_id ` set (stacks_in v (sd_rubric ?w))" by (simp add: insert_stack_def)
  from says_blocks [OF p1 says_insert_stack [OF assms] this]
  have b: "says env a v w1 M"
    "\<And>p b. dict_get blocks p = Some b \<Longrightarrow> b \<in> bk_id ` set (blocks_in v (sd_rubric w1))" by simp_all
  have "dict_keys blocks = set (map rn_id (filter (\<lambda>n. rn_parent n = None) ?ns))"
    using names_blocks [OF p1] by simp
  then have "says env a v w2 (M + mset (declared_levels doc))"
    using says_competencies [OF p2 b] by (simp add: declared_levels_def Let_def)
  from says_topics [OF this] p1 p2 show ?thesis by (simp add: materialise_stack_def Let_def)
qed

lemma says_all:
  assumes "says env a v w M"
  shows "says env a v (fst (materialise_all env v docs (w, k)))
    (M + mset (concat (map (\<lambda>(_, d). declared_levels d) docs)))"
  using assms
proof (induction docs arbitrary: w k M)
  case (Cons d docs)
  obtain stem doc where d: "d = (stem, doc)" by (cases d)
  obtain w1 n where m: "materialise_stack env v stem doc w = (w1, n)" by fastforce
  have "materialise_all env v (d # docs) (w, k) = materialise_all env v docs (w1, k + n)"
    by (simp add: materialise_all_def d m)
  moreover have "says env a v w1 (M + mset (declared_levels doc))"
    using says_stack [OF Cons.prems, of stem doc] m by simp
  ultimately show ?case using Cons.IH [of w1 "M + mset (declared_levels doc)" "k + n"] d
    by (simp add: ac_simps)
qed (simp add: materialise_all_def)

section \<open>A seeded version\<close>

lemma new_version_says_nothing:
  assumes "versions_known (sd_rubric w)" and "v \<notin> vn_id ` set (rb_versions (sd_rubric w))"
  shows "says env (sd_next w) v (insert_version env h w) {#}"
proof -
  have "stacks_in v (sd_rubric w) = []" "blocks_in v (sd_rubric w) = []" "comps_in v (sd_rubric w) = []"
    "levels_in v (sd_rubric w) = []"
    using assms by (auto simp: versions_known_def Let_def filter_empty_conv)
  moreover have "sd_next (insert_version env h w) = sd_next w + 1" by (simp add: insert_version_def)
  ultimately show ?thesis by (simp add: says_def version_defs)
qed

lemma find_snoc: "find P xs = None \<Longrightarrow> P x \<Longrightarrow> find P (xs @ [x]) = Some x"
  by (induction xs) (auto split: if_splits)

text \<open>The snapshot of the version a seed creates says what the files declare.\<close>

lemma seeded_snapshot:
  assumes "seed im env files dry_run w = Inr (r, w')" and "sr_new_version r = Some v"
    and "versions_known (sd_rubric w)" and "v \<notin> vn_id ` set (rb_versions (sd_rubric w))"
    and "inj_on (se_fresh env) {sd_next w..<sd_next w'}"
  obtains docs s where "load_yaml_dir im files = Inr docs" "snapshot_rubric coll (sd_rubric w') v = Inr s"
    "rs_label s = ''tree:'' @ take 8 (compute_payload_hash files)"
    "mset (snapshot_levels s) = mset (concat (map (\<lambda>(_, d). declared_levels d) docs))"
    "\<forall>n \<in> set (rb_versions (sd_rubric w)). \<not> vn_is_active n \<Longrightarrow>
      get_active_rubric_snapshot coll (sd_rubric w') = Some (Inr s)"
  using assms(1)
proof (cases rule: seed_cases)
  case (created docs)
  let ?w0 = "insert_version env (compute_payload_hash files) w"
  let ?n = "\<lparr>vn_id = v, vn_created_at = se_now env, vn_label = ''tree:'' @ take 8 (compute_payload_hash files),
    vn_is_active = True, vn_payload_hash = compute_payload_hash files\<rparr>"
  have v: "v = new_id env w" using created(5) assms(2) by simp
  have w': "w' = (fst (materialise_all env v docs (?w0, 1)))\<lparr>sd_audit := sd_audit w'\<rparr>"
    using created(6) v by (simp add: seeded_def Let_def)
  have "says env (sd_next w) v (fst (materialise_all env v docs (?w0, 1)))
      ({#} + mset (concat (map (\<lambda>(_, d). declared_levels d) docs)))"
    by (rule says_all [OF new_version_says_nothing [OF assms(3,4)]])
  then have "says env (sd_next w) v w' (mset (concat (map (\<lambda>(_, d). declared_levels d) docs)))"
    by (subst w') (simp add: says_def fresh_ids_def issued_def)
  then have tree: "tree_ok v (sd_rubric w')"
    and levels: "mset (version_levels v (sd_rubric w')) = mset (concat (map (\<lambda>(_, d). declared_levels d) docs))"
    using assms(5) by (simp_all add: says_def fresh_ids_def)
  have versions: "rb_versions (sd_rubric w') = rb_versions (sd_rubric w) @ [?n]"
    using seeded_parts(2) [OF created(6)] v by simp
  have "find (\<lambda>m. vn_id m = v) (rb_versions (sd_rubric w)) = None"
    using assms(4) by (auto simp: find_None_iff)
  then have found: "find (\<lambda>m. vn_id m = v) (rb_versions (sd_rubric w')) = Some ?n"
    unfolding versions by (rule find_snoc) simp
  then obtain s where s: "snapshot_rubric coll (sd_rubric w') v = Inr s" "rs_label s = vn_label ?n"
    by (simp add: snapshot_rubric_def)
  show thesis
  proof (rule that [OF created(1) s(1)])
    show "rs_label s = ''tree:'' @ take 8 (compute_payload_hash files)" using s(2) by simp
    show "mset (snapshot_levels s) = mset (concat (map (\<lambda>(_, d). declared_levels d) docs))"
      using snapshot_says_version [OF s(1) tree] levels by simp
    assume "\<forall>n \<in> set (rb_versions (sd_rubric w)). \<not> vn_is_active n"
    then have "find vn_is_active (rb_versions (sd_rubric w)) = None" by (auto simp: find_None_iff)
    then have "find vn_is_active (rb_versions (sd_rubric w')) = Some ?n"
      unfolding versions by (rule find_snoc) simp
    then show "get_active_rubric_snapshot coll (sd_rubric w') = Some (Inr s)"
      using s(1) by (simp add: get_active_rubric_snapshot_def)
  qed
qed (use assms(2) in simp)

section \<open>A converted workbook\<close>

lemma written_levels:
  assumes "distinct (map pc_id cs)" and "\<forall>c \<in> set cs. \<not> is_block_id (pc_id c)"
  shows "declared_levels (written_doc cs) = doc_entries (written_doc cs)"
proof -
  let ?xs = "sort_key item_id (doc_items cs [])" and ?ns = "rd_nodes (written_doc cs)"
  have ns: "?ns = map item_rubric ?xs" by (simp add: written_doc_def)
  have "distinct (map rn_id ?ns)"
    using item_ids_distinct [OF assms, of "[]"] by (simp add: ns comp_def distinct_map)
  then have same: "map snd (nodes_by_id ?ns) = ?ns" by (rule nodes_by_id_distinct)
  let ?tops = "map rn_id (filter (\<lambda>n. rn_parent n = None) ?ns)"
  have dropped: "node_entries n = []" if n: "n \<in> set ?ns" "\<not> (\<exists>p \<in> set ?tops. rn_parent n = Some p)" for n
  proof -
    obtain x where x: "x \<in> set (doc_items cs [])" "n = item_rubric x" using n(1) ns by auto
    show ?thesis
    proof (cases x)
      case (BlockOf c)
      then show ?thesis using x(2) by (simp add: node_entries_def)
    next
      case (CompetencyOf c)
      then have "c \<in> set cs" using x(1) by (simp add: competency_items)
      then obtain b where b: "BlockOf b \<in> set (doc_items cs [])" "pc_block_slug b = pc_block_slug c"
        using slug_items [of c cs "[]"] by auto
      then have "rn_parent (item_rubric (BlockOf b)) = None \<and> item_rubric (BlockOf b) \<in> set ?ns"
        unfolding ns by (auto intro: rev_image_eqI)
      then have "block_id (pc_block_slug b) \<in> set ?tops" by (force simp: image_iff)
      moreover have "rn_parent n = Some (block_id (pc_block_slug b))" using x(2) CompetencyOf b(2) by simp
      ultimately show ?thesis using n(2) by blast
    qed
  qed
  have "concat (map node_entries (filter P ns)) = concat (map node_entries ns)"
    if "\<forall>n \<in> set ns. \<not> P n \<longrightarrow> node_entries n = []" for P ns
    using that by (induction ns) auto
  with dropped show ?thesis
    unfolding declared_levels_def Let_def same
    by (simp add: doc_entries_def node_entries_def [abs_def])
qed

text \<open>
  The directory the importer reads after a conversion into an empty one: \<open>glob("*.yaml")\<close>,
  sorted, with the stems of the names.
\<close>

definition yaml_directory :: "(string, string) dict \<Rightarrow> yaml_dir" where
  "yaml_directory files = map (\<lambda>(path, content). (take (length path - 5) path, content)) (sort_key fst files)"

definition kept_sheets :: "(string \<times> sheet) list \<Rightarrow> (string \<times> sheet) list" where
  "kept_sheets workbook = filter (\<lambda>(name, _). \<not> starts_with ''_'' name) workbook"

definition sheet_path :: "converter \<Rightarrow> string \<times> sheet \<Rightarrow> string" where
  "sheet_path cv p = norm (cv_unicode cv) (Some (fst p)) @ ''.yaml''"

definition workbook_entries :: "converter \<Rightarrow> (string \<times> sheet) list \<Rightarrow> level_entry list" where
  "workbook_entries cv workbook =
     concat (map (\<lambda>(_, sheet). map entry_text (sheet_entries cv sheet)) (kept_sheets workbook))"

lemma convert_sheets_written:
  assumes "convert_sheets cv workbook files written = (Inr ps, out)"
    and "distinct (map fst files @ map (sheet_path cv) (kept_sheets workbook))"
  shows "\<exists>new. out = files @ new
    \<and> list_all2 (\<lambda>(name, sheet) f. sheet_yaml cv name sheet = Inr f) (kept_sheets workbook) new"
  using assms
proof (induction cv workbook files written rule: convert_sheets.induct)
  case (2 cv name sheet rest files written)
  show ?case
  proof (cases "starts_with ''_'' name")
    case True
    with 2 show ?thesis by (simp add: kept_sheets_def)
  next
    case False
    then obtain path content where y: "sheet_yaml cv name sheet = Inr (path, content)"
      using 2(3) by (auto split: sum.splits)
    have kept: "kept_sheets ((name, sheet) # rest) = (name, sheet) # kept_sheets rest"
      using False by (simp add: kept_sheets_def)
    have path: "path = sheet_path cv (name, sheet)"
      using y by (rule sheet_yaml_parts) (simp add: sheet_path_def)
    have "dict_get files path = None"
      using 2(4) unfolding kept path by (auto simp: py_dict.mem_keys dict_keys_def dest!: py_dict.mem_keys [THEN iffD2])
    then have set: "dict_set files path content = files @ [(path, content)]" by (rule dict_set_fresh)
    have "convert_sheets cv rest (files @ [(path, content)]) (written @ [path]) = (Inr ps, out)"
      using 2(3) False y set by simp
    moreover have "distinct (map fst (files @ [(path, content)]) @ map (sheet_path cv) (kept_sheets rest))"
      using 2(4) unfolding kept path by auto
    ultimately obtain new where "out = (files @ [(path, content)]) @ new"
      "list_all2 (\<lambda>(name, sheet) f. sheet_yaml cv name sheet = Inr f) (kept_sheets rest) new"
      using 2(2) [OF False y refl] set by auto
    then show ?thesis using y unfolding kept by (intro exI [of _ "(path, content) # new"]) simp
  qed
qed (simp add: kept_sheets_def)

text \<open>What a file declares, as a function of its content.\<close>

definition content_levels :: "importer \<Rightarrow> string \<Rightarrow> level_entry multiset" where
  "content_levels im content = (case load_yaml im content of Inl _ \<Rightarrow> {#} | Inr d \<Rightarrow> mset (declared_levels d))"

lemma loaded_levels:
  "load_yaml_dir im files = Inr docs \<Longrightarrow>
    mset (concat (map (\<lambda>(_, d). declared_levels d) docs)) = (\<Sum>(_, c)\<leftarrow>files. content_levels im c)"
proof (induction im files arbitrary: docs rule: load_yaml_dir.induct)
  case (2 im stem content files)
  then show ?case by (auto simp: and_then_eq_Inr content_levels_def)
qed simp

lemma sum_list_perm: "mset xs = mset ys \<Longrightarrow> (\<Sum>x\<leftarrow>xs. f x) = (\<Sum>y\<leftarrow>ys. f y :: 'm multiset)"
  by (metis mset_map sum_mset_sum_list)

lemma sheet_content_levels:
  assumes "sheet_yaml cv name sheet = Inr f" and "yaml_faithful im cv"
    and "\<forall>(i, l) \<in> set (sheet_entries cv sheet). \<not> is_block_id i"
  shows "content_levels im (snd f) = mset (map entry_text (sheet_entries cv sheet))"
proof -
  obtain path content where f: "f = (path, content)" by (cases f)
  obtain cs where "load_yaml im content = Inr (written_doc cs)"
    "distinct (map pc_id cs)" "\<forall>c \<in> set cs. \<not> is_block_id (pc_id c)"
    "mset (doc_entries (written_doc cs)) = mset (map entry_text (sheet_entries cv sheet))"
    using assms unfolding f by (rule converted_sheet_parts)
  then show ?thesis by (simp add: content_levels_def f written_levels)
qed

lemma workbook_levels:
  assumes "list_all2 (\<lambda>(name, sheet) f. sheet_yaml cv name sheet = Inr f) sheets new"
    and "yaml_faithful im cv"
    and "\<forall>(_, sheet) \<in> set sheets. \<forall>(i, l) \<in> set (sheet_entries cv sheet). \<not> is_block_id i"
  shows "(\<Sum>(_, c)\<leftarrow>new. content_levels im c)
    = mset (concat (map (\<lambda>(_, sheet). map entry_text (sheet_entries cv sheet)) sheets))"
  using assms(1,3)
proof (induction rule: list_all2_induct)
  case (Cons p sheets f new)
  obtain name sheet where p: "p = (name, sheet)" by (cases p)
  have "content_levels im (snd f) = mset (map entry_text (sheet_entries cv sheet))"
    by (rule sheet_content_levels [OF _ assms(2)]) (use Cons p in auto)
  then show ?case using Cons by (simp add: p case_prod_unfold)
qed simp

section \<open>From the workbook to the session\<close>


definition demo_served_doc :: rubric_doc where
  "demo_served_doc = \<lparr>rd_retired = False, rd_nodes = [
     \<lparr>rn_id = ''async'', rn_parent = Some ''block.core'', rn_retired = False,
       rn_levels = [\<lparr>rl_level = 2, rl_descriptor = ''awaits''\<rparr>]\<rparr>,
     \<lparr>rn_id = ''block.core'', rn_parent = None, rn_retired = False, rn_levels = []\<rparr>,
     \<lparr>rn_id = ''linq'', rn_parent = Some ''block.core'', rn_retired = False,
       rn_levels = [\<lparr>rl_level = 1, rl_descriptor = ''basics''\<rparr>,
         \<lparr>rl_level = 3, rl_descriptor = ''composes queries''\<rparr>]\<rparr>]\<rparr>"

lemma demo_written_reads: "read_doc (canonical_doc demo_written) = Some demo_served_doc"
  by code_simp

definition empty_seed_db :: seed_db where
  "empty_seed_db = \<lparr>sd_rubric = empty_rubric, sd_audit = [], sd_next = 0\<rparr>"

lemma demo_next:
  "sd_next (fst (materialise_all demo_env v [(''dotnet'', demo_served_doc)] (insert_version demo_env h empty_seed_db, 1))) = 8"
  by (simp add: materialise_all_def materialise_stack_def demo_served_doc_def nodes_by_id_def Let_def
      add_block_def add_competency_def add_topic_def insert_version_def insert_stack_def insert_block_def
      insert_competency_def insert_level_def insert_topic_def empty_seed_db_def dict_set_def dict_get_def)

lemma demo_directory: "yaml_directory [(''dotnet.yaml'', ''text'')] = [(''dotnet'', ''text'')]"
  by (simp add: yaml_directory_def)

lemma demo_text_loads:
  "load_yaml_dir one_doc_importer [(''dotnet'', ''text'')] = Inr [(''dotnet'', demo_served_doc)]"
proof -
  have "truthy (JObj (canonical_doc demo_written))"
    by (simp add: truthy_def canonical_doc_def dict_set_def)
  then show ?thesis
    by (simp add: load_yaml_dir_single load_yaml_def one_doc_importer_def demo_written_reads and_then_def)
qed

lemma demo_workbook_seeds:
  obtains r w' where "seed one_doc_importer demo_env [(''dotnet'', ''text'')] False empty_seed_db = Inr (r, w')"
    "sr_new_version r = Some (new_id demo_env empty_seed_db)" "sd_next w' = 8"
proof -
  let ?h = "compute_payload_hash [(''dotnet'', ''text'')]"
  have "latest_version (sd_rubric empty_seed_db) = None" "rb_versions (sd_rubric empty_seed_db) = []"
    and "disappeared (sd_rubric empty_seed_db) [(''dotnet'', demo_served_doc)] = []"
    by (simp_all add: latest_version_def empty_seed_db_def empty_rubric_def disappeared_def prior_active_def)
  then show thesis
    using that demo_next [of "new_id demo_env empty_seed_db" ?h]
    unfolding seed_def demo_text_loads and_then_def sum.case
    by (simp add: Let_def case_prod_unfold)
qed


end
