(* ===== verification/Dev_Session_Serial.thy ===== *)
theory Dev_Session_Serial
  imports Dev_Session_Races_Props
begin

text \<open>
  Two guarantees about races. Every activity ends, whatever the others do to the world
  between its steps. And as long as no two activities work on copies of one session, the
  stored sessions only advance: transcripts grow and states move along runs of the machine.
\<close>

section \<open>Activities end\<close>

text \<open>
  The steps an activity still needs: an event takes one for its transition, at most four for
  its commands, one to fold their events back in; what follows an event cascades less far.
\<close>

definition steps_after :: "nat \<Rightarrow> nat" where
  "steps_after n = 6 * n + 1"

definition ends_within :: "activity \<Rightarrow> nat \<Rightarrow> bool" where
  "ends_within a k \<longleftrightarrow> (case a of
     Driving wk queue \<Rightarrow> (case queue of
         [] \<Rightarrow> steps_after 0 \<le> k
       | [e] \<Rightarrow> event_ok e \<and> steps_after (cascade (wk_state wk) e) \<le> k
       | _ \<Rightarrow> False)
   | Executing wk _ _ cs raised queue _ \<Rightarrow> queue = []
       \<and> (\<exists>n. length cs + 1 + steps_after n \<le> k
           \<and> (\<forall>ess. list_all2 answers_command cs ess \<longrightarrow>
                follows (wk_state wk) (Suc n) (raised @ concat ess)))
   | Assessing _ \<Rightarrow> 21 \<le> k
   | Assessed _ e \<Rightarrow> event_ok e \<and> quiet_event e \<and> 20 \<le> k
   | Finished _ \<Rightarrow> True)"

lemma ends_within_mono: "ends_within a k \<Longrightarrow> k \<le> m \<Longrightarrow> ends_within a m"
  by (auto simp: ends_within_def split: activity.splits list.splits) (meson order_trans)

lemma quiet_cascade: "quiet_event e \<Longrightarrow> cascade s e \<le> 3"
  by (auto simp: quiet_event_def cascade_def split: event.splits)

lemma row_length: "table_row ph e ph' cs \<Longrightarrow> length cs \<le> 4"
  by (cases rule: table_row.cases) auto

lemma follows_queue:
  "follows (wk_state wk) (Suc n) es \<Longrightarrow> steps_after n \<le> k \<Longrightarrow> ends_within (Driving wk es) k"
  by (auto simp: follows_def ends_within_def steps_after_def)

lemma own_step_counts:
  assumes "env_sound env" and "world_ok env w" and "activity_ok env w a" and "ends_within a k"
    and "advance env a w = (a', w')" and "\<nexists>res. a = Finished res"
  shows "0 < k \<and> ends_within a' (k - 1)"
proof (cases "(env, a, w)" rule: advance.cases)
  case (1 env' wk v)
  with assms(4,5) show ?thesis by (auto simp: ends_within_def steps_after_def)
next
  case (2 env' wk e queue v)
  then have eqs: "env' = env" "v = w" "a = Driving wk (e # queue)" by simp_all
  with assms(4) have k: "queue = []" "event_ok e" "steps_after (cascade (wk_state wk) e) \<le> k"
    by (auto simp: ends_within_def split: list.splits)
  have ok: "session_ok env wk" "has_row (wk_session_id wk) w"
    using assms(3) eqs by (simp_all add: activity_ok_def)
  obtain r where r: "transition (cd_px (sh_codec env)) (wk_state wk) e (sh_config env) = Inr r"
    "session_ok env (wk\<lparr>wk_state := new_state r\<rparr>)"
    by (rule transition_keeps_session [OF assms(1) ok(1) k(2)])
  obtain w1 where w1: "persist env (wk\<lparr>wk_state := new_state r\<rparr>) w = (Inr (), w1)"
    by (rule persist_kept [OF assms(1,2) r(2)]) (use ok(2) in simp_all)
  have link: "link_inv (wk_state wk)" using ok(1) by (simp add: session_ok_def machine_inv_def)
  obtain n where n: "cascade (wk_state wk) e = Suc n"
    using cascade_bounds(1) [of "wk_state wk" e] by (cases "cascade (wk_state wk) e") simp_all
  have "length (commands r) \<le> 4" by (rule row_length [OF transition_row [OF r(1)]])
  moreover have "follows (new_state r) (Suc n) (concat ess)"
    if "list_all2 answers_command (commands r) ess" for ess
    using cascade_shrinks [OF r(1) link that] n by simp
  ultimately have "ends_within (Executing (wk\<lparr>wk_state := new_state r\<rparr>) b c (commands r) [] [] m) (k - 1)"
    for b c m
    using k(3) n by (auto simp: ends_within_def steps_after_def intro!: exI [of _ n])
  then show ?thesis using assms(5) eqs r(1) w1 k n by (auto simp: Let_def steps_after_def)
next
  case (3 env' wk before after c cs raised queue m v)
  then have eqs: "env' = env" "v = w" "a = Executing wk before after (c # cs) raised queue m" by simp_all
  with assms(4) obtain n where n: "queue = []" "length cs + 2 + steps_after n \<le> k"
    "\<forall>ess. list_all2 answers_command (c # cs) ess \<longrightarrow> follows (wk_state wk) (Suc n) (raised @ concat ess)"
    by (auto simp: ends_within_def)
  have ok: "session_ok env wk" using assms(3) eqs by (simp add: activity_ok_def)
  obtain out w1 where one: "execute_one env before after wk c w = (out, w1)" by fastforce
  note x = execute_one_cases [OF one ok]
  show ?thesis
  proof (cases out)
    case (Inl err)
    with assms(5) eqs one n(2) show ?thesis by (auto simp: ends_within_def)
  next
    case (Inr p)
    obtain wk1 es where p: "p = (wk1, es)" by fastforce
    with x Inr have same: "wk_state wk1 = wk_state wk" and es: "answers_command c es"
      by (simp_all add: same_session_def)
    have "follows (wk_state wk1) (Suc n) ((raised @ es) @ concat ess)" if "list_all2 answers_command cs ess" for ess
      using n(3) [rule_format, of "es # ess"] es that same by simp
    then have "ends_within (Executing wk1 before after cs (raised @ es) [] m) (k - 1)"
      using n(2) by (auto simp: ends_within_def intro!: exI [of _ n])
    with assms(5) eqs one Inr p n show ?thesis by auto
  qed
next
  case (4 env' wk before after raised queue m v)
  then have eqs: "env' = env" "v = w" "a = Executing wk before after [] raised queue m" by simp_all
  with assms(4) obtain n where n: "queue = []" "1 + steps_after n \<le> k" "follows (wk_state wk) (Suc n) raised"
    by (auto simp: ends_within_def)
  have "ends_within (Driving wk raised) (k - 1)"
    by (rule follows_queue [OF n(3)]) (use n(2) in simp)
  moreover have "ends_within (Finished res) (k - 1)" for res by (simp add: ends_within_def)
  ultimately show ?thesis using assms(5) eqs n by (auto split: if_splits sum.splits prod.splits)
next
  case (5 env' t v)
  then have eqs: "env' = env" "v = w" "a = Assessing t" by simp_all
  obtain out w1 where run: "shell_run_assessor env t w = (out, w1)" by fastforce
  note x = shell_run_assessor_cases [OF run]
  show ?thesis using assms(4,5) eqs run x by (cases out) (auto simp: ends_within_def)
next
  case (6 env' sid e v)
  then have eqs: "env' = env" "v = w" "a = Assessed sid e" by simp_all
  with assms(4) have e: "event_ok e" "quiet_event e" "20 \<le> k" by (simp_all add: ends_within_def)
  have "ends_within (Driving wk [e]) (k - 1)" for wk
    using e quiet_cascade [OF e(2), of "wk_state wk"] by (simp add: ends_within_def steps_after_def)
  moreover have "ends_within (Finished res) (k - 1)" for res by (simp add: ends_within_def)
  ultimately show ?thesis using assms(5) eqs e(3) by (auto split: sum.splits)
next
  case (7 env' res v)
  with assms(6) show ?thesis by auto
qed


text \<open>Every activity a race starts ends within 21 of its own steps.\<close>

definition all_end :: "world \<times> activity list \<Rightarrow> bool" where
  "all_end x \<longleftrightarrow> list_all (\<lambda>a. ends_within a 21) (snd x)"

lemma finished_stays: "advance env (Finished res) w = (Finished res, w)"
  by simp

lemma advance_ends:
  assumes "env_sound env" and "world_ok env w" and "activity_ok env w a" and "ends_within a k"
    and "advance env a w = (a', w')"
  shows "ends_within a' k"
proof (cases "\<exists>res. a = Finished res")
  case True
  with assms(5) show ?thesis by (auto simp: ends_within_def)
next
  case False
  with own_step_counts [OF assms(1-5)] show ?thesis by (auto intro: ends_within_mono)
qed

lemma race_step_all_end:
  assumes "race_step env x y" and "env_sound env" and "race_ok env x" and "all_end x"
  shows "all_end y"
  using assms(1)
proof (cases rule: race_step.cases)
  case (created sid w w1 wk plan_doc w2 acts now)
  with assms(4) show ?thesis
    by (simp add: all_end_def ends_within_def event_ok_def cascade_def steps_after_def)
next
  case (posts sid w wk acts said now)
  with assms(4) show ?thesis
    by (simp add: all_end_def posted_def Let_def ends_within_def event_ok_def cascade_def steps_after_def)
next
  case (advances i acts w a w1)
  then have ok: "world_ok env w" "activity_ok env w (acts ! i)" "ends_within (acts ! i) 21"
    using assms(3,4) by (simp_all add: race_ok_def all_end_def list_all_length)
  have "ends_within a 21" by (rule advance_ends [OF assms(2) ok advances(4)])
  then show ?thesis
    using assms(4) advances set_update_subset_insert [of acts i a] by (auto simp: all_end_def list_all_iff)
qed (use assms(4) in \<open>simp_all add: all_end_def ends_within_def\<close>)

lemma race_all_end:
  assumes "(race_step env)\<^sup>*\<^sup>* x y" and "env_sound env" and "race_ok env x" and "all_end x"
  shows "all_end y"
  using assms(1)
proof (induction rule: rtranclp_induct)
  case (step y z)
  have "race_ok env y" using race_ok_run [OF step(1) assms(2,3)] ..
  with race_step_all_end [OF step(2) assms(2)] step(3) show ?case by blast
qed (rule assms(4))

text \<open>
  A race seen from the activity with number \<open>i\<close>: how many steps it has taken itself, while
  it was not finished, among any steps of the others.
\<close>

inductive own_steps ::
  "shell_env \<Rightarrow> nat \<Rightarrow> world \<times> activity list \<Rightarrow> nat \<Rightarrow> world \<times> activity list \<Rightarrow> bool"
  for env :: shell_env and i :: nat and x :: "world \<times> activity list" where
  none: "own_steps env i x 0 x"
| own: "own_steps env i x n (w, acts) \<Longrightarrow> i < length acts \<Longrightarrow> \<forall>res. acts ! i \<noteq> Finished res \<Longrightarrow>
    advance env (acts ! i) w = (a, w1) \<Longrightarrow> own_steps env i x (Suc n) (w1, acts[i := a])"
| others: "own_steps env i x n y \<Longrightarrow> race_step env y z \<Longrightarrow> i < length (snd y) \<Longrightarrow>
    snd z ! i = snd y ! i \<Longrightarrow> own_steps env i x n z"

lemma own_steps_race: "own_steps env i x n y \<Longrightarrow> (race_step env)\<^sup>*\<^sup>* x y"
proof (induction rule: own_steps.induct)
  case (own n w acts a w1)
  from race_step.advances [OF own(2,4)] own(5) show ?case by (rule rtranclp.rtrancl_into_rtrancl [rotated])
next
  case (others n y z)
  from others(5,2) show ?case by (rule rtranclp.rtrancl_into_rtrancl)
qed simp

lemma own_steps_bounded:
  assumes "own_steps env i x n y" and "env_sound env" and "race_ok env x" and "i < length (snd x)"
    and "ends_within (snd x ! i) k"
  shows "n \<le> k \<and> i < length (snd y) \<and> ends_within (snd y ! i) (k - n)"
  using assms(1)
proof (induction rule: own_steps.induct)
  case none
  then show ?case using assms(4,5) by simp
next
  case (own n w acts a w1)
  have ok: "world_ok env w" "activity_ok env w (acts ! i)"
    using race_ok_run [OF own_steps_race [OF own(1)] assms(2,3)] own(2) by (simp_all add: race_ok_def list_all_length)
  from own(5) have b: "n \<le> k" "ends_within (acts ! i) (k - n)" by simp_all
  from own_step_counts [OF assms(2) ok b(2) own(4)] own(3) show ?case using own(2) b(1) by auto
next
  case (others n y z)
  have "length (snd y) \<le> length (snd z)" using others(2) by (cases rule: race_step.cases) simp_all
  with others show ?case by simp
qed

lemma own_steps_trans:
  assumes "own_steps env i y m z" and "own_steps env i x n y"
  shows "own_steps env i x (n + m) z"
  using assms
proof (induction rule: own_steps.induct)
  case (own m w acts a w1)
  then show ?case using own_steps.own [of env i x "n + m" w acts a w1] by simp
next
  case (others m y z)
  then show ?case using own_steps.others [of env i x "n + m" y z] by simp
qed simp

lemma own_steps_end:
  assumes "env_sound env" and "race_ok env y" and "i < length (snd y)" and "ends_within (snd y ! i) k"
  shows "\<exists>m z res. own_steps env i y m z \<and> snd z ! i = Finished res"
  using assms(2-4)
proof (induction k arbitrary: y rule: less_induct)
  case (less k)
  obtain w acts where y: "y = (w, acts)" by fastforce
  show ?case
  proof (cases "\<exists>res. acts ! i = Finished res")
    case True
    then show ?thesis using own_steps.none [of env i y] y by auto
  next
    case False
    obtain a w1 where a: "advance env (acts ! i) w = (a, w1)" by fastforce
    have ok: "world_ok env w" "activity_ok env w (acts ! i)" "i < length acts"
      using less.prems(1,2) by (simp_all add: y race_ok_def list_all_length)
    have k: "0 < k" "ends_within a (k - 1)"
      using own_step_counts [OF assms(1) ok(1,2) _ a] less.prems(3) False y by auto
    have step: "own_steps env i y 1 (w1, acts[i := a])"
      using own_steps.own [OF own_steps.none [of env i y, unfolded y] ok(3) _ a] False y by simp
    have "race_ok env (w1, acts[i := a])"
      using race_ok_run [OF own_steps_race [OF step] assms(1) less.prems(1)] ..
    from less.IH [OF _ this, of "k - 1"] k ok(3)
    obtain m z res where "own_steps env i (w1, acts[i := a]) m z" "snd z ! i = Finished res" by auto
    with own_steps_trans [OF _ step] show ?thesis by blast
  qed
qed

text \<open>
  C11: every request ends. In any race from a sound world, however many sessions, turns and
  assessments run at once, an activity takes at most 21 steps of its own, whatever the others
  do between them; and from any point on, its own steps alone take it to its end within
  those 21, since no activity waits for another.
\<close>

theorem activities_end:
  assumes "env_sound env" and "world_ok env w" and "(race_step env)\<^sup>*\<^sup>* (w, []) (w1, acts)"
    and "i < length acts" and "own_steps env i (w1, acts) n (w2, acts2)"
  shows "n \<le> 21 \<and> (\<exists>m w3 acts3 res. n + m \<le> 21 \<and> own_steps env i (w2, acts2) m (w3, acts3)
    \<and> acts3 ! i = Finished res)"
proof -
  have start: "race_ok env (w, [])" "all_end (w, [])" using assms(2) by (simp_all add: race_ok_def all_end_def)
  have ok: "race_ok env (w1, acts)" using race_ok_run [OF assms(3,1) start(1)] ..
  have "ends_within (acts ! i) 21"
    using race_all_end [OF assms(3,1) start] assms(4) by (simp add: all_end_def list_all_length)
  note bounded = own_steps_bounded [OF _ assms(1) ok, of i _ _ 21, unfolded snd_conv, OF _ assms(4) this]
  have two: "n \<le> 21" "i < length acts2" "ends_within (acts2 ! i) (21 - n)"
    using bounded [OF assms(5)] by simp_all
  have "race_ok env (w2, acts2)" using race_ok_run [OF own_steps_race [OF assms(5)] assms(1) ok] ..
  from own_steps_end [OF assms(1) this, of i "21 - n"] two
  obtain m w3 acts3 res where m: "own_steps env i (w2, acts2) m (w3, acts3)" "acts3 ! i = Finished res"
    by auto
  have "n + m \<le> 21" using bounded [OF own_steps_trans [OF m(1) assms(5)]] by simp
  with two(1) m show ?thesis by blast
qed

theorem activities_end_witness:
  "\<exists>m w acts res. m \<le> 21
    \<and> own_steps demo_shell 0 (demo_world demo_tech, [posted (demo_working demo_tech) ''answer'' 5]) m (w, acts)
    \<and> acts ! 0 = Finished res"
proof -
  have "race_step demo_shell (demo_world demo_tech, [])
      (demo_world demo_tech, [] @ [posted (demo_working demo_tech) ''answer'' 5])"
    by (rule race_step.posts [OF demo_load [OF demo_sessions(3)]])
      (simp add: accepts_turn_def demo_working_def demo_states)
  then have run: "(race_step demo_shell)\<^sup>*\<^sup>* (demo_world demo_tech, [])
      (demo_world demo_tech, [posted (demo_working demo_tech) ''answer'' 5])" by simp
  from activities_end [OF demo_shell_sound demo_world_ok [OF demo_sessions(3)] run _ own_steps.none, of 0]
  show ?thesis by simp
qed


section \<open>One activity per session at a time\<close>

text \<open>An activity holds a session while it works on a loaded copy of it.\<close>

definition held :: "activity \<Rightarrow> working option" where
  "held a = (case a of Driving wk _ \<Rightarrow> Some wk | Executing wk _ _ _ _ _ _ \<Rightarrow> Some wk | _ \<Rightarrow> None)"

definition holds :: "uuid \<Rightarrow> activity \<Rightarrow> bool" where
  "holds sid a \<longleftrightarrow> (case held a of Some wk \<Rightarrow> wk_session_id wk = sid | None \<Rightarrow> False)"

definition held_ids :: "activity \<Rightarrow> uuid list" where
  "held_ids a = (case held a of Some wk \<Rightarrow> [wk_session_id wk] | None \<Rightarrow> [])"

definition serial :: "activity list \<Rightarrow> bool" where
  "serial acts \<longleftrightarrow> distinct (concat (map held_ids acts))"

lemma holds_iff: "holds sid a \<longleftrightarrow> sid \<in> set (held_ids a)"
  by (auto simp: holds_def held_ids_def split: option.split)

lemma serial_unique:
  assumes "serial acts" and "i < length acts" and "j < length acts"
    and "holds sid (acts ! i)" and "holds sid (acts ! j)"
  shows "i = j"
  using assms
proof (induction acts arbitrary: i j)
  case (Cons a acts)
  have rest: "holds sid (acts ! k) \<Longrightarrow> k < length acts \<Longrightarrow> \<not> holds sid a" for k
    using Cons.prems(1) by (fastforce simp: serial_def holds_iff)
  show ?case
    using Cons rest [of "i - 1"] rest [of "j - 1"] by (cases i; cases j) (auto simp: serial_def)
qed simp

definition serial_step :: "shell_env \<Rightarrow> world \<times> activity list \<Rightarrow> world \<times> activity list \<Rightarrow> bool" where
  "serial_step env x y \<longleftrightarrow> race_step env x y \<and> serial (snd y)"

text \<open>The copy a session's holder works on: the stored state, with a longer transcript.\<close>

definition current :: "shell_env \<Rightarrow> world \<Rightarrow> activity \<Rightarrow> bool" where
  "current env w a \<longleftrightarrow> (case held a of None \<Rightarrow> True | Some wk \<Rightarrow>
     (\<exists>v. load env (wk_session_id wk) w = Inr v \<and> wk_state v = wk_state wk
        \<and> grows (wk_transcript v) (wk_transcript wk)))"

text \<open>How a stored session may change.\<close>

definition session_advances :: "shell_env \<Rightarrow> working \<Rightarrow> working \<Rightarrow> bool" where
  "session_advances env v v' \<longleftrightarrow> grows (wk_transcript v) (wk_transcript v')
     \<and> (\<exists>es. machine_run env (wk_state v) es (wk_state v'))"

definition store_advances :: "shell_env \<Rightarrow> world \<Rightarrow> world \<Rightarrow> bool" where
  "store_advances env w w' \<longleftrightarrow> (\<forall>sid v. load env sid w = Inr v \<longrightarrow>
     (\<exists>v'. load env sid w' = Inr v' \<and> session_advances env v v'))"

lemma machine_run_trans:
  assumes "machine_run env s es s'" and "machine_run env s' fs s''"
  shows "machine_run env s (es @ fs) s''"
proof -
  have "\<exists>cs. run_events step s (es @ fs) = Inr (s'', cs)"
    if "run_events step s es = Inr (s', cs)" "run_events step s' fs = Inr (s'', ds)" for step cs ds
    using that by (induction es arbitrary: s cs) (auto simp: and_then_eq_Inr split: prod.splits)
  with assms show ?thesis unfolding machine_run_def by auto
qed

lemma session_advances_refl [simp]: "session_advances env v v"
  unfolding session_advances_def machine_run_def by (auto intro: exI [of _ "[]"])

lemma session_advances_trans:
  "session_advances env u v \<Longrightarrow> session_advances env v w \<Longrightarrow> session_advances env u w"
  unfolding session_advances_def using machine_run_trans grows_trans by blast

lemma store_advances_refl [simp]: "store_advances env w w"
  by (simp add: store_advances_def)

lemma store_advances_trans:
  "store_advances env u v \<Longrightarrow> store_advances env v w \<Longrightarrow> store_advances env u w"
  unfolding store_advances_def using session_advances_trans by meson

lemma store_advances_store: "same_store w w' \<Longrightarrow> store_advances env w w'"
  by (simp add: store_advances_def load_store)

lemma current_store: "same_store w w' \<Longrightarrow> current env w' a = current env w a"
  using load_store [of w w'] by (simp add: current_def split: option.split)

lemma current_others:
  assumes "others_same env sid w w'" and "\<not> holds sid a" and "current env w a"
  shows "current env w' a"
  using assms by (auto simp: current_def holds_def others_same_def split: option.splits)

text \<open>Writing a session back: others read as before, it reads as written.\<close>

lemma persist_advances:
  assumes "env_sound env" and "session_ok env wk" and "has_row (wk_session_id wk) w"
    and "\<forall>v. load env (wk_session_id wk) w = Inr v \<longrightarrow> session_advances env v wk"
  obtains w' where "persist env wk w = (Inr (), w')" "load env (wk_session_id wk) w' = Inr wk"
    "others_same env (wk_session_id wk) w w'" "store_advances env w w'"
proof -
  obtain w' where w': "persist env wk w = (Inr (), w')" "others_same env (wk_session_id wk) w w'"
    by (rule persist_total [OF assms(3)])
  note stored = persist_load [OF assms(1,2) w'(1)]
  have "store_advances env w w'"
    unfolding store_advances_def
  proof (intro allI impI)
    fix sid v
    assume "load env sid w = Inr v"
    then show "\<exists>v'. load env sid w' = Inr v' \<and> session_advances env v v'"
      using stored w'(2) assms(4) by (cases "sid = wk_session_id wk") (auto simp: others_same_def)
  qed
  with that w' stored show thesis by blast
qed

lemma current_held:
  assumes "current env w a" and "held a = Some wk"
  obtains v where "load env (wk_session_id wk) w = Inr v" "wk_state v = wk_state wk"
    "grows (wk_transcript v) (wk_transcript wk)"
  using assms by (auto simp: current_def)

lemma advance_current:
  assumes "env_sound env" and "world_ok env w" and "activity_ok env w a" and "current env w a"
    and "advance env a w = (a', w')"
  shows "store_advances env w w' \<and> current env w' a'
    \<and> (\<forall>sid. \<not> holds sid a \<longrightarrow> load env sid w' = load env sid w)"
proof (cases "(env, a, w)" rule: advance.cases)
  case (1 env' wk v)
  with assms(5) show ?thesis by (auto simp: current_def held_def)
next
  case (2 env' wk e queue v)
  then have eqs: "env' = env" "v = w" "a = Driving wk (e # queue)" by simp_all
  then have ok: "session_ok env wk" "event_ok e" "has_row (wk_session_id wk) w"
    using assms(3) by (simp_all add: activity_ok_def)
  obtain r where r: "transition (cd_px (sh_codec env)) (wk_state wk) e (sh_config env) = Inr r"
    "session_ok env (wk\<lparr>wk_state := new_state r\<rparr>)"
    by (rule transition_keeps_session [OF assms(1) ok(1,2)])
  let ?wk = "wk\<lparr>wk_state := new_state r\<rparr>"
  obtain u where u: "load env (wk_session_id wk) w = Inr u" "wk_state u = wk_state wk"
    "grows (wk_transcript u) (wk_transcript wk)"
    by (rule current_held [OF assms(4)]) (simp_all add: eqs held_def)
  have "session_advances env u ?wk"
    using u(2,3) machine_run_one [OF r(1) ok(2)] by (auto simp: session_advances_def)
  then have stored: "\<forall>v. load env (wk_session_id ?wk) w = Inr v \<longrightarrow> session_advances env v ?wk" using u(1) by simp
  have row: "has_row (wk_session_id ?wk) w" using ok(3) by simp
  from stored obtain w1 where w1: "persist env ?wk w = (Inr (), w1)" "load env (wk_session_id ?wk) w1 = Inr ?wk"
    "others_same env (wk_session_id ?wk) w w1" "store_advances env w w1"
    by (rule persist_advances [OF assms(1) r(2) row])
  with assms(5) eqs r(1) show ?thesis
    by (auto simp: Let_def current_def held_def holds_def others_same_def)
next
  case (3 env' wk before after c cs raised queue m v)
  then have eqs: "env' = env" "v = w" "a = Executing wk before after (c # cs) raised queue m" by simp_all
  then have ok: "session_ok env wk" using assms(3) by (simp add: activity_ok_def)
  obtain out w1 where one: "execute_one env before after wk c w = (out, w1)" by fastforce
  note x = execute_one_cases [OF one ok]
  then have same: "same_store w w1" by blast
  obtain u where u: "load env (wk_session_id wk) w = Inr u" "wk_state u = wk_state wk"
    "grows (wk_transcript u) (wk_transcript wk)"
    by (rule current_held [OF assms(4)]) (simp_all add: eqs held_def)
  have "current env w1 (Executing wk1 b d ds fs q k)" if "same_session wk wk1" for wk1 b d ds fs q k
    using that u load_store [OF same] by (auto simp: current_def held_def same_session_def intro: grows_trans)
  with assms(5) eqs one x store_advances_store [OF same] load_store [OF same] show ?thesis
    by (cases out) (auto simp: current_def [of _ _ "Finished _"] held_def)
next
  case (4 env' wk before after raised queue m v)
  then have eqs: "env' = env" "v = w" "a = Executing wk before after [] raised queue m" by simp_all
  then have ok: "session_ok env wk" "has_row (wk_session_id wk) w"
    using assms(3) by (simp_all add: activity_ok_def)
  obtain u where u: "load env (wk_session_id wk) w = Inr u" "wk_state u = wk_state wk"
    "grows (wk_transcript u) (wk_transcript wk)"
    by (rule current_held [OF assms(4)]) (simp_all add: eqs held_def)
  have "session_advances env u wk"
    using u(2,3) by (auto simp: session_advances_def machine_run_def intro!: exI [of _ "[]"])
  then have "\<forall>v. load env (wk_session_id wk) w = Inr v \<longrightarrow> session_advances env v wk" using u(1) by simp
  then obtain w1 where w1: "persist env wk w = (Inr (), w1)" "load env (wk_session_id wk) w1 = Inr wk"
    "others_same env (wk_session_id wk) w w1" "store_advances env w w1"
    by (rule persist_advances [OF assms(1) ok])
  have "current env w (Driving wk q)" for q using u by (auto simp: current_def held_def)
  with assms(5) eqs w1 show ?thesis
    by (auto simp: current_def held_def holds_def others_same_def split: if_splits)
next
  case (5 env' t v)
  then have eqs: "env' = env" "v = w" "a = Assessing t" by simp_all
  obtain out w1 where run: "shell_run_assessor env t w = (out, w1)" by fastforce
  have same: "same_store w w1" using shell_run_assessor_cases [OF run] by blast
  with assms(5) eqs run store_advances_store [OF same] load_store [OF same] show ?thesis
    by (cases out) (auto simp: current_def held_def)
next
  case (6 env' sid e v)
  then have eqs: "env' = env" "v = w" "a = Assessed sid e" by simp_all
  show ?thesis
  proof (cases "load env sid w")
    case (Inr wk)
    with assms(5) eqs load_Inr [OF Inr] show ?thesis by (auto simp: current_def held_def)
  qed (use assms(5) eqs in \<open>auto simp: current_def held_def\<close>)
next
  case (7 env' res v)
  with assms(4,5) show ?thesis by auto
qed


definition serial_ok :: "shell_env \<Rightarrow> world \<times> activity list \<Rightarrow> bool" where
  "serial_ok env x \<longleftrightarrow> race_ok env x \<and> serial (snd x) \<and> list_all (current env (fst x)) (snd x)"

lemma held_row: "activity_ok env w a \<Longrightarrow> holds sid a \<Longrightarrow> has_row sid w"
  by (auto simp: activity_ok_def holds_def held_def split: activity.splits)

lemma not_holding: "held a = None \<Longrightarrow> current env w a"
  by (simp add: current_def)

lemma current_cong:
  "(\<And>sid. holds sid a \<Longrightarrow> load env sid w' = load env sid w) \<Longrightarrow> current env w' a = current env w a"
  by (simp add: current_def holds_def split: option.split)

lemma serial_step_advances:
  assumes "serial_step env x y" and "env_sound env" and "serial_ok env x"
  shows "store_advances env (fst x) (fst y) \<and> list_all (current env (fst y)) (snd y)"
proof -
  have step: "race_step env x y" using assms(1) by (simp add: serial_step_def)
  from step show ?thesis
  proof (cases rule: race_step.cases)
    case (created sid w w1 wk plan_doc w2 acts now)
    have ok: "world_ok env w" "list_all (activity_ok env w) acts" "list_all (current env w) acts"
      using assms(3) created(1) by (simp_all add: serial_ok_def race_ok_def)
    have wk: "wk_session_id wk = sid" "session_ok env wk"
      using created(4) initial_session_ok by simp_all
    from created(3) have row: "\<not> has_row sid w" "has_row sid w1" "others_same env sid w w1"
      by (auto elim: insert_session_cases [where env = env])
    obtain w' where w': "persist env wk w1 = (Inr (), w')" "others_same env (wk_session_id wk) w1 w'"
      by (rule persist_total) (use row(2) wk(1) in auto)
    then have same: "others_same env sid w w2" and w2: "w' = w2"
      using created(5) wk(1) row(3) others_same_trans by auto
    have loaded: "load env sid w2 = Inr wk"
      using persist_load [OF assms(2) wk(2) created(5)] wk(1) by simp
    have "load env u w \<noteq> Inr v" if "u = sid" for u v using that row(1) load_Inr [of env u w v] by blast
    then have adv: "store_advances env w w2"
      unfolding store_advances_def using same unfolding others_same_def by (metis session_advances_refl)
    have "current env w2 a" if "a \<in> set acts" for a
      using that ok(2,3) same row(1) held_row current_others unfolding list_all_iff by metis
    with adv loaded wk(1) created show ?thesis by (auto simp: list_all_iff current_def held_def)
  next
    case (posts sid w wk acts said now)
    then show ?thesis
      using assms(3) load_Inr [OF posts(3)]
      by (auto simp: serial_ok_def posted_def Let_def current_def held_def)
  next
    case (assesses t w acts)
    let ?w = "w\<lparr>wd_tasks := remove1 t (wd_tasks w)\<rparr>"
    have "current env ?w a = current env w a" for a by (rule current_store) simp
    with assesses assms(3) show ?thesis
      by (simp add: serial_ok_def store_advances_store list_all_iff not_holding held_def)
  next
    case (advances i acts w a w1)
    have ok: "world_ok env w" "activity_ok env w (acts ! i)" "current env w (acts ! i)" "serial acts"
      "list_all (current env w) acts"
      using assms(3) advances by (simp_all add: serial_ok_def race_ok_def list_all_length)
    note x = advance_current [OF assms(2) ok(1-3) advances(4)]
    have "current env w1 (acts[i := a] ! j)" if "j < length acts" for j
    proof (cases "j = i")
      case False
      have "\<not> holds sid (acts ! i)" if "holds sid (acts ! j)" for sid
        using serial_unique [OF ok(4)] False that \<open>j < length acts\<close> advances(3) by blast
      then have "current env w1 (acts ! j) = current env w (acts ! j)"
        using x by (intro current_cong) blast
      with ok(5) that False show ?thesis by (simp add: list_all_length)
    qed (use x advances(3) in simp)
    with x advances show ?thesis by (simp add: list_all_length)
  next
    case (elsewhere w w1 acts)
    with assms(3) current_store store_advances_store show ?thesis by (simp add: serial_ok_def list_all_iff)
  qed
qed

lemma serial_run_advances:
  assumes "(serial_step env)\<^sup>*\<^sup>* x y" and "env_sound env" and "serial_ok env x"
  shows "serial_ok env y \<and> store_advances env (fst x) (fst y)"
  using assms(1)
proof (induction rule: rtranclp_induct)
  case (step y z)
  have "race_ok env y" using step(3) by (simp add: serial_ok_def)
  moreover have "race_step env y z" "serial (snd z)" using step(2) by (simp_all add: serial_step_def)
  ultimately have "serial_ok env z"
    using race_step_ok [of env y z] assms(2) serial_step_advances [OF step(2) assms(2)] step(3)
    by (simp add: serial_ok_def)
  with serial_step_advances [OF step(2) assms(2)] step(3) show ?case
    using store_advances_trans by blast
qed (simp add: assms(3))

lemma machine_run_phase:
  assumes "session_ok env v" and "env_sound env" and "machine_run env (wk_state v) es s'"
  shows "phase (wk_state v) \<le> phase s'"
proof -
  from assms(3) obtain cs where run: "\<forall>e \<in> set es. event_ok e"
    "run_events (machine_step (cd_px (sh_codec env)) (sh_config env)) (wk_state v) es = Inr (s', cs)"
    unfolding machine_run_def by blast
  have inv: "config_ok (sh_config env)" "machine_inv (cd_px (sh_codec env)) (sh_config env) (wk_state v)"
    using assms(1,2) by (simp_all add: session_ok_def env_sound_def)
  show ?thesis
  proof (rule machine_run_relation [where P = "\<lambda>s cs s'. phase s \<le> phase s'", OF _ _ _ inv run])
    fix s e r
    assume "transition (cd_px (sh_codec env)) s e (sh_config env) = Inr r"
    then show "phase s \<le> phase (new_state r)" using transition_row row_rank by blast
  qed auto
qed

text \<open>
  C10: requests that do not overlap lose nothing. As long as no two activities work on copies
  of the same session at once, however many sessions are in use and whatever else changes,
  each stored session only advances: its transcript keeps every entry, its state is where the
  machine arrives from the old one by some events, and its phase never goes back.
\<close>

theorem serial_sessions_only_advance:
  assumes "env_sound env" and "world_ok env w" and "(serial_step env)\<^sup>*\<^sup>* (w, []) (w', acts)"
    and "load env sid w = Inr wk"
  shows "\<exists>wk' said es. load env sid w' = Inr wk' \<and> wk_transcript wk' = wk_transcript wk @ said
    \<and> machine_run env (wk_state wk) es (wk_state wk') \<and> phase (wk_state wk) \<le> phase (wk_state wk')"
proof -
  have "serial_ok env (w, [])" using assms(2) by (simp add: serial_ok_def race_ok_def serial_def)
  from serial_run_advances [OF assms(3,1) this] assms(4)
  obtain wk' where wk': "load env sid w' = Inr wk'" "session_advances env wk wk'"
    by (auto simp: store_advances_def)
  then obtain said es where adv: "wk_transcript wk' = wk_transcript wk @ said"
    "machine_run env (wk_state wk) es (wk_state wk')"
    unfolding session_advances_def grows_def by blast
  have "session_ok env wk" using assms(2,4) by (simp add: world_ok_def)
  from machine_run_phase [OF this assms(1) adv(2)] wk'(1) adv show ?thesis by blast
qed

theorem serial_sessions_only_advance_witness:
  "\<exists>w' a wk' said. (serial_step demo_shell)\<^sup>*\<^sup>* (demo_world demo_tech, []) (w', [a])
    \<and> load demo_shell 7 w' = Inr wk' \<and> wk_transcript wk' = wk_transcript (demo_working demo_tech) @ said
    \<and> Tech \<le> phase (wk_state wk')"
proof -
  note ok = demo_world_ok [OF demo_sessions(3)] and loaded = demo_load [OF demo_sessions(3)]
  let ?p = "posted (demo_working demo_tech) ''answer'' 5"
  obtain a w' where a: "advance demo_shell ?p (demo_world demo_tech) = (a, w')" by fastforce
  have "race_step demo_shell (demo_world demo_tech, []) (demo_world demo_tech, [] @ [?p])"
    by (rule race_step.posts [OF loaded]) (simp add: accepts_turn_def demo_working_def demo_states)
  moreover have "race_step demo_shell (demo_world demo_tech, [?p]) (w', [a])"
    using race_step.advances [of 0 "[?p]" demo_shell "demo_world demo_tech" a w'] a by simp
  ultimately have "serial_step demo_shell (demo_world demo_tech, []) (demo_world demo_tech, [?p])"
    "serial_step demo_shell (demo_world demo_tech, [?p]) (w', [a])"
    by (simp_all add: serial_step_def serial_def held_ids_def split: option.split)
  then have run: "(serial_step demo_shell)\<^sup>*\<^sup>* (demo_world demo_tech, []) (w', [a])"
    by (auto intro: rtranclp.rtrancl_into_rtrancl)
  have "phase (wk_state (demo_working demo_tech)) = Tech" by (simp add: demo_working_def demo_states)
  with serial_sessions_only_advance [OF demo_shell_sound ok run loaded] run show ?thesis by metis
qed

end
