(* ===== verification/Flag_Service.thy ===== *)
theory Flag_Service
  imports Boot
begin

text \<open>
  The life of the flag service in a process, \<open>app/backend/services/feature_flags.py\<close>: the
  listener task with its connection and its reconnects, \<open>start\<close> and \<open>stop\<close>, and the
  module's installed instance that every gate asks. Events are what the task is woken by: a
  connection attempt answered, a connection lost, a delay slept, a notification, a call of
  \<open>start\<close> or \<open>stop\<close>. A call of \<open>stop\<close> is one event: it sets the flag, cancels the
  task and awaits it, and the lifespan handler calls nothing in between.
\<close>

section \<open>The connection string\<close>

text \<open>\<open>replace("+asyncpg", "")\<close>, scanning from the left without overlaps.\<close>

definition driver_tag :: string where "driver_tag = ''+asyncpg''"

function asyncpg_dsn :: "string \<Rightarrow> string" where
  "asyncpg_dsn dsn =
     (case dsn of [] \<Rightarrow> []
      | c # cs \<Rightarrow> if take 8 dsn = driver_tag then asyncpg_dsn (drop 8 dsn) else c # asyncpg_dsn cs)"
  by pat_completeness auto
termination by (relation "measure length") auto

declare asyncpg_dsn.simps [simp del]

section \<open>The listener\<close>

text \<open>
  Where the task is: awaiting the connection, awaiting \<open>add_listener\<close>, in its inner sleep
  loop, sleeping the delay before the next attempt, or returned.
\<close>

datatype listener = Connecting | Attaching | Listening | BackingOff | Ended

text \<open>The service's fields; of the connection, whether it is still open.\<close>

record flag_process =
  fp_service :: flag_service
  fp_listener :: "listener option"
  fp_open :: "bool option"
  fp_stopped :: bool
  fp_backoff :: rat

datatype flag_event =
    StartCalled
  | StopCalled
  | Connected bool
  | Attached bool
  | ConnectionLost
  | Woken
  | DelaySlept
  | Notified string

definition new_process :: "flag_service \<Rightarrow> flag_process" where
  "new_process s = \<lparr>fp_service = s, fp_listener = None, fp_open = None, fp_stopped = False,
     fp_backoff = backoff_initial_s\<rparr>"

definition start_listener :: "flag_process \<Rightarrow> flag_process" where
  "start_listener p =
     (if fp_listener p \<in> {None, Some Ended}
      then p\<lparr>fp_stopped := False, fp_listener := Some Connecting, fp_backoff := backoff_initial_s\<rparr>
      else p)"

text \<open>The cancellation ends the task; inside the \<open>try\<close> its \<open>finally\<close> closes the connection.\<close>

definition cancel_listener :: "flag_process \<Rightarrow> flag_process" where
  "cancel_listener p = (case fp_listener p of
     None \<Rightarrow> p
   | Some l \<Rightarrow> p\<lparr>fp_listener := None,
       fp_open := if l \<in> {Connecting, Attaching, Listening} then None else fp_open p\<rparr>)"

definition stop_listener :: "flag_process \<Rightarrow> flag_process" where
  "stop_listener p =
     (let q = cancel_listener (p\<lparr>fp_stopped := True\<rparr>)
      in if fp_open q = Some True then q\<lparr>fp_open := None\<rparr> else q)"

text \<open>The end of an attempt: the \<open>finally\<close>, then the return or the delay.\<close>

definition attempt_over :: "flag_process \<Rightarrow> flag_process" where
  "attempt_over p =
     p\<lparr>fp_open := None, fp_listener := Some (if fp_stopped p then Ended else BackingOff)\<rparr>"

text \<open>One event; one that the task is not waiting for does nothing.\<close>

fun listener_step :: "flag_event \<Rightarrow> flag_process \<Rightarrow> flag_process" where
  "listener_step StartCalled p = start_listener p"
| "listener_step StopCalled p = stop_listener p"
| "listener_step (Connected ok) p =
     (if fp_listener p \<noteq> Some Connecting then p
      else if ok then p\<lparr>fp_open := Some True, fp_listener := Some Attaching\<rparr>
      else attempt_over p)"
| "listener_step (Attached ok) p =
     (if fp_listener p \<noteq> Some Attaching then p
      else if ok \<and> fp_open p = Some True
      then p\<lparr>fp_listener := Some Listening, fp_backoff := backoff_initial_s\<rparr>
      else attempt_over p)"
| "listener_step ConnectionLost p =
     (if fp_open p = Some True then p\<lparr>fp_open := Some False\<rparr> else p)"
| "listener_step Woken p =
     (if fp_listener p \<noteq> Some Listening then p
      else if \<not> fp_stopped p \<and> fp_open p = Some True then p
      else attempt_over p)"
| "listener_step DelaySlept p =
     (if fp_listener p \<noteq> Some BackingOff then p
      else p\<lparr>fp_backoff := min (fp_backoff p * 2) backoff_cap_s,
             fp_listener := Some (if fp_stopped p then Ended else Connecting)\<rparr>)"
| "listener_step (Notified payload) p =
     (if fp_listener p = Some Listening \<and> fp_open p = Some True
      then p\<lparr>fp_service := on_notify (fp_service p) payload\<rparr> else p)"

definition run_listener :: "flag_event list \<Rightarrow> flag_process \<Rightarrow> flag_process" where
  "run_listener es p = fold listener_step es p"

section \<open>The installed service\<close>

datatype service_failure = NotInitialised | QueryFailed flag_error

definition set_service :: "flag_process option \<Rightarrow> flag_process option \<Rightarrow> flag_process option" where
  "set_service given installed = given"

definition get_service :: "flag_process option \<Rightarrow> service_failure + flag_process" where
  "get_service installed = (case installed of None \<Rightarrow> Inl NotInitialised | Some p \<Rightarrow> Inr p)"

definition module_is_enabled ::
  "flag_process option \<Rightarrow> flag_table option \<Rightarrow> string \<Rightarrow> rat
    \<Rightarrow> (service_failure + bool) \<times> flag_process option" where
  "module_is_enabled installed db name now = (case get_service installed of
     Inl e \<Rightarrow> (Inl e, installed)
   | Inr p \<Rightarrow>
       (case is_enabled (fp_service p) db name now of
          (Inl e, s) \<Rightarrow> (Inl (QueryFailed e), Some (p\<lparr>fp_service := s\<rparr>))
        | (Inr v, s) \<Rightarrow> (Inr v, Some (p\<lparr>fp_service := s\<rparr>))))"

text \<open>The flag half of the lifespan handler: start, then install; stop, then clear.\<close>

definition lifespan_enter :: "flag_service option \<Rightarrow> flag_process option" where
  "lifespan_enter built = (case built of
     None \<Rightarrow> None
   | Some s \<Rightarrow> set_service (Some (start_listener (new_process s))) None)"

definition lifespan_exit :: "flag_process option \<Rightarrow> flag_process option \<times> flag_process option" where
  "lifespan_exit installed = (case installed of
     None \<Rightarrow> (None, None)
   | Some p \<Rightarrow> (Some (stop_listener p), set_service None (Some p)))"

section \<open>Facts\<close>

lemma asyncpg_dsn_length: "length (asyncpg_dsn dsn) \<le> length dsn"
proof (induction dsn rule: asyncpg_dsn.induct)
  case (1 dsn)
  show ?case
  proof (cases dsn)
    case (Cons c cs)
    then show ?thesis
      using 1 by (subst asyncpg_dsn.simps) (auto simp: le_diff_conv split: if_splits)
  qed (simp add: asyncpg_dsn.simps)
qed

lemma asyncpg_dsn_without_tag:
  assumes "\<And>xs ys. dsn \<noteq> xs @ driver_tag @ ys"
  shows "asyncpg_dsn dsn = dsn"
  using assms
proof (induction dsn)
  case (Cons c cs)
  have "take 8 (c # cs) \<noteq> driver_tag"
    using Cons.prems [of "[]"] append_take_drop_id [of 8 "c # cs"] by (metis append_Nil)
  moreover have "cs \<noteq> xs @ driver_tag @ ys" for xs ys
    using Cons.prems [of "c # xs" ys] by simp
  ultimately show ?case using Cons.IH by (subst asyncpg_dsn.simps) simp
qed (simp add: asyncpg_dsn.simps)

lemma asyncpg_dsn_demo:
  "asyncpg_dsn ''postgresql+asyncpg://u@h/db'' = ''postgresql://u@h/db''"
  by (simp add: asyncpg_dsn.simps driver_tag_def)

definition listener_ok :: "flag_process \<Rightarrow> bool" where
  "listener_ok p \<longleftrightarrow>
     (fp_open p \<noteq> None \<longleftrightarrow> fp_listener p \<in> {Some Attaching, Some Listening})
     \<and> 1 \<le> fp_backoff p \<and> fp_backoff p \<le> 30
     \<and> fp_listener p \<noteq> Some Ended
     \<and> (fp_listener p \<noteq> None \<longrightarrow> \<not> fp_stopped p)"

lemmas listener_defs = start_listener_def stop_listener_def cancel_listener_def attempt_over_def
  new_process_def backoff_initial_s_def backoff_cap_s_def

lemma new_process_ok: "listener_ok (new_process s)"
  by (simp add: listener_ok_def listener_defs)

lemma stop_from_ok:
  assumes "listener_ok p"
  shows "stop_listener p = p\<lparr>fp_listener := None, fp_open := None, fp_stopped := True\<rparr>"
  using assms by (cases p) (auto simp: listener_ok_def stop_listener_def cancel_listener_def Let_def
    split: option.splits listener.splits)

lemma listener_step_ok: "listener_ok p \<Longrightarrow> listener_ok (listener_step e p)"
proof (cases e)
  case StopCalled
  then show "listener_ok p \<Longrightarrow> listener_ok (listener_step e p)"
    by (simp add: stop_from_ok) (simp add: listener_ok_def)
qed (auto simp: listener_ok_def listener_defs min_def)

lemma run_listener_ok: "listener_ok p \<Longrightarrow> listener_ok (run_listener es p)"
  unfolding run_listener_def by (induction es arbitrary: p) (auto intro: listener_step_ok)

text \<open>A stopped service stays as it is until it is started.\<close>

lemma stopped_stays:
  assumes "StartCalled \<notin> set es" and "fp_listener p = None" and "fp_open p = None" and "fp_stopped p"
  shows "run_listener es p = p"
  using assms unfolding run_listener_def
proof (induction es)
  case (Cons e es)
  have "listener_step e p = p"
  proof (cases e)
    case StopCalled
    then show ?thesis using Cons.prems by (cases p) (simp add: stop_listener_def cancel_listener_def)
  qed (use Cons.prems in auto)
  then show ?case using Cons by simp
qed simp

text \<open>A running listener is listening again within four events of its own.\<close>

definition recovery :: "flag_process \<Rightarrow> flag_event list" where
  "recovery p = (case fp_listener p of
     Some Connecting \<Rightarrow> [Connected True, Attached True]
   | Some Attaching \<Rightarrow>
       (if fp_open p = Some True then [Attached True]
        else [Attached True, DelaySlept, Connected True, Attached True])
   | Some BackingOff \<Rightarrow> [DelaySlept, Connected True, Attached True]
   | Some Listening \<Rightarrow>
       (if fp_open p = Some True then []
        else [Woken, DelaySlept, Connected True, Attached True])
   | _ \<Rightarrow> [])"

lemma recovery_listens:
  assumes "listener_ok p" and "fp_listener p \<noteq> None"
  shows "length (recovery p) \<le> 4
    \<and> fp_listener (run_listener (recovery p) p) = Some Listening
    \<and> fp_open (run_listener (recovery p) p) = Some True"
  using assms by (auto simp: recovery_def run_listener_def listener_ok_def attempt_over_def
    split: option.splits listener.splits)

text \<open>The listener only takes entries out of the cache.\<close>

lemma listener_step_service:
  "fp_service (listener_step e p) = fp_service p
   \<or> (\<exists>payload. fp_service (listener_step e p) = on_notify (fp_service p) payload)"
  by (cases e) (auto simp: listener_defs Let_def split: option.splits)

lemma on_notify_answer:
  "cached_answer (on_notify s payload) name now
     \<in> {cached_answer s name now} \<union> (if name \<in> dict_keys (fs_registry s) then {Inr None} else {})"
  by (auto simp: cached_answer_def dict_simps split: option.splits)

lemma run_listener_answer:
  "fs_registry (fp_service (run_listener es p)) = fs_registry (fp_service p)
   \<and> cached_answer (fp_service (run_listener es p)) name now
     \<in> {cached_answer (fp_service p) name now}
       \<union> (if name \<in> dict_keys (fs_registry (fp_service p)) then {Inr None} else {})"
  unfolding run_listener_def
proof (induction es arbitrary: p)
  case (Cons e es)
  have "fs_registry (fp_service (listener_step e p)) = fs_registry (fp_service p)
    \<and> cached_answer (fp_service (listener_step e p)) name now
     \<in> {cached_answer (fp_service p) name now}
       \<union> (if name \<in> dict_keys (fs_registry (fp_service p)) then {Inr None} else {})"
    using listener_step_service [of e p] on_notify_answer [of "fp_service p" _ name now]
    by (elim disjE exE) simp_all
  then show ?case using Cons.IH [of "listener_step e p"] by (auto split: if_splits)
qed simp

text \<open>The gates of the routes ask the installed service: what they answer is its answer.\<close>

lemma gate_asks_installed:
  assumes "st_flags st = map_option fp_service installed"
  shows "fst (flag_gate name ar st) =
      (case fst (module_is_enabled installed (ar_flag_table ar) name (ar_monotonic ar)) of
         Inl _ \<Rightarrow> Inl 500 | Inr on \<Rightarrow> if on then Inr () else Inl 404)
    \<and> st_flags (snd (flag_gate name ar st)) =
      map_option fp_service (snd (module_is_enabled installed (ar_flag_table ar) name (ar_monotonic ar)))"
  using assms by (cases installed) (auto simp: flag_gate_def module_is_enabled_def get_service_def
    split: prod.splits sum.splits)

lemma lifespan_installs:
  assumes "startup env = Inr ps"
  shows "map_option fp_service (lifespan_enter (ps_flags ps)) = ps_flags ps
    \<and> map_option fp_service (snd (lifespan_exit (lifespan_enter (ps_flags ps)))) = ps_flags (shutdown ps)"
  by (cases "ps_flags ps") (simp_all add: lifespan_enter_def lifespan_exit_def set_service_def
    shutdown_def start_listener_def new_process_def)

text \<open>
  C23: the life of the flag listener. Whatever connects, fails, is lost or is called, a
  connection is held exactly while the task attaches or listens, the delay stays between one
  and thirty seconds, and the task never ends by itself: unless it has been stopped it can
  listen again within four events. A second start changes nothing, a stop lets go of task
  and connection for good until the next start, and the listener never invents an answer: a
  query finds the cached answer of before or has to read, and has to read right after the
  flag's notification.
\<close>

theorem listener_lifecycle:
  assumes "run_listener es (new_process s) = p" and "name \<in> dict_keys (fs_registry s)"
  shows "(fp_open p \<noteq> None \<longleftrightarrow> fp_listener p \<in> {Some Attaching, Some Listening})
    \<and> 1 \<le> fp_backoff p \<and> fp_backoff p \<le> 30 \<and> fp_listener p \<noteq> Some Ended
    \<and> (fp_listener p \<noteq> None \<longrightarrow> \<not> fp_stopped p \<and> listener_step StartCalled p = p
        \<and> (\<exists>more. length more \<le> 4 \<and> fp_listener (run_listener more p) = Some Listening
             \<and> fp_open (run_listener more p) = Some True))
    \<and> (StartCalled \<notin> set later \<longrightarrow>
        run_listener (StopCalled # later) p = p\<lparr>fp_listener := None, fp_open := None, fp_stopped := True\<rparr>)
    \<and> cached_answer (fp_service p) name now \<in> {cached_answer s name now, Inr None}
    \<and> (fp_listener p = Some Listening \<and> fp_open p = Some True \<and> name \<noteq> '''' \<longrightarrow>
        cached_answer (fp_service (listener_step (Notified name) p)) name now = Inr None)"
proof -
  have ok: "listener_ok p" using run_listener_ok [OF new_process_ok] assms(1) by blast
  have start: "listener_step StartCalled p = p" if "fp_listener p \<noteq> None"
    using ok that by (auto simp: listener_ok_def start_listener_def)
  have stop: "run_listener (StopCalled # later) p = p\<lparr>fp_listener := None, fp_open := None, fp_stopped := True\<rparr>"
    if "StartCalled \<notin> set later"
    using stopped_stays [OF that] by (simp add: run_listener_def stop_from_ok [OF ok])
  have service: "fp_service (new_process s) = s" by (simp add: new_process_def)
  note answer = run_listener_answer [of es "new_process s" name now, unfolded assms(1) service]
  have name: "name \<in> dict_keys (fs_registry (fp_service p))" using answer assms(2) by simp
  show ?thesis
    using ok start stop recovery_listens [OF ok] answer assms(2) name
    by (auto simp: listener_ok_def cached_answer_def dict_simps)
qed

theorem listener_lifecycle_witness:
  "let p = run_listener [StartCalled, Connected True, Attached True, ConnectionLost, Woken,
       DelaySlept, Connected False, DelaySlept, Connected True] (new_process demo_flags)
   in fp_listener p = Some Attaching \<and> fp_backoff p = 4 \<and> \<not> fp_stopped p
    \<and> run_listener [StopCalled, Attached True, Notified ''enable_live_orchestrator''] p
        = p\<lparr>fp_listener := None, fp_open := None, fp_stopped := True\<rparr>"
proof -
  define es where "es = [StartCalled, Connected True, Attached True, ConnectionLost, Woken,
       DelaySlept, Connected False, DelaySlept, Connected True]"
  have declared: "''enable_live_orchestrator'' \<in> dict_keys (fs_registry demo_flags)"
    by (simp add: demo_flags_def dict_keys_def)
  have run: "fp_listener (run_listener es (new_process demo_flags)) = Some Attaching
      \<and> fp_backoff (run_listener es (new_process demo_flags)) = 4"
    by (simp add: es_def run_listener_def listener_defs min_def)
  show ?thesis
    using listener_lifecycle [OF refl declared, of es "[Attached True, Notified ''enable_live_orchestrator'']"] run
    unfolding Let_def es_def [symmetric] by simp
qed

end
