(* ===== verification/Trace_Views.thy ===== *)
theory Trace_Views
  imports Dev_Session_Audit Logging_Props
begin

text \<open>
  What leaves the audit trail: the rows as the trace listing shows them
  (\<open>TraceRow\<close>, \<open>TraceList\<close> and the body of \<open>list_traces\<close> in
  \<open>services/dev_session.py\<close>) and the \<open>llm_call\<close> log event of a recorded call
  (\<open>_emit_log\<close> in \<open>llm/vertex.py\<close>) on its way through the log pipeline.
\<close>

section \<open>Six decimal places\<close>

text \<open>
  \<open>str\<close> of a decimal with six places, as the \<open>NUMERIC(12, 6)\<close> column returns it: its
  digits, with the point before the last six and zeros in front where there are fewer. The
  exponent form is for smaller exponents only.
\<close>

definition pointed :: "string \<Rightarrow> string" where
  "pointed ds =
     (if length ds \<le> 6 then ''0.'' @ replicate (6 - length ds) (CHR ''0'') @ ds
      else take (length ds - 6) ds @ ''.'' @ drop (length ds - 6) ds)"

definition decimal_str :: "rat \<Rightarrow> string" where
  "decimal_str q =
     (let n = \<lfloor>q * 1000000\<rfloor>
      in (if n < 0 then ''-'' else '''') @ pointed (show_nat (nat \<bar>n\<bar>)))"

text \<open>What such a text denotes: the number of its digits, over ten to the places.\<close>

definition written_value :: "string \<Rightarrow> rat" where
  "written_value s =
     (let ds = filter (\<lambda>c. c \<noteq> CHR ''.'' \<and> c \<noteq> CHR ''-'') s;
          places = length s - Suc (length (takeWhile (\<lambda>c. c \<noteq> CHR ''.'') s))
      in (if CHR ''-'' \<in> set s then -1 else 1) * of_nat (read_nat ds) / 10 ^ places)"

lemma show_nat_chars: "c \<in> set (show_nat n) \<Longrightarrow> c \<noteq> CHR ''.'' \<and> c \<noteq> CHR ''-''"
  using show_nat_digits [of n] by (auto simp: list_all_iff digit_at_def)

lemma read_zeros: "read_nat (replicate k (CHR ''0'') @ ds) = read_nat ds"
  by (induction k) auto

lemma digits_only:
  assumes "\<And>c. c \<in> set ds \<Longrightarrow> c \<noteq> CHR ''.'' \<and> c \<noteq> CHR ''-''"
  shows "filter (\<lambda>c. c \<noteq> CHR ''.'' \<and> c \<noteq> CHR ''-'') ds = ds"
    and "takeWhile (\<lambda>c. c \<noteq> CHR ''.'') (ds @ CHR ''.'' # r) = ds"
    and "CHR ''-'' \<notin> set ds"
  using assms by (auto simp: filter_id_conv takeWhile_append2)

lemma written_value_pointed:
  assumes "\<And>c. c \<in> set ds \<Longrightarrow> c \<noteq> CHR ''.'' \<and> c \<noteq> CHR ''-''"
  shows "written_value (pointed ds) = of_nat (read_nat ds) / 1000000"
    and "written_value (CHR ''-'' # pointed ds) = - of_nat (read_nat ds) / 1000000"
proof -
  obtain fr bk where p: "pointed ds = fr @ CHR ''.'' # bk"
    and len: "length bk = 6" and read: "read_nat (fr @ bk) = read_nat ds"
    and set: "set (fr @ bk) \<subseteq> insert (CHR ''0'') (set ds)"
  proof (cases "length ds \<le> 6")
    case True
    show ?thesis
      by (rule that [of "''0''" "replicate (6 - length ds) (CHR ''0'') @ ds"])
        (use True read_zeros [of "Suc (6 - length ds)" ds] in \<open>auto simp: pointed_def\<close>)
  next
    case False
    show ?thesis
      by (rule that [of "take (length ds - 6) ds" "drop (length ds - 6) ds"])
        (use False in \<open>auto simp: pointed_def\<close>)
  qed
  have clean: "c \<noteq> CHR ''.'' \<and> c \<noteq> CHR ''-''" if "c \<in> set (fr @ bk)" for c
    using set that assms by auto
  have fr: "c \<noteq> CHR ''.'' \<and> c \<noteq> CHR ''-''" if "c \<in> set fr" for c using clean that by simp
  have bk: "c \<noteq> CHR ''.'' \<and> c \<noteq> CHR ''-''" if "c \<in> set bk" for c using clean that by simp
  note parts = digits_only [OF fr] digits_only [OF bk]
  show "written_value (pointed ds) = of_nat (read_nat ds) / 1000000"
    and "written_value (CHR ''-'' # pointed ds) = - of_nat (read_nat ds) / 1000000"
    unfolding p written_value_def Let_def using parts len read
    by (simp_all del: read_nat.simps)
qed

lemma decimal_str_value: "written_value (decimal_str (of_int n / 1000000)) = of_int n / 1000000"
proof -
  have digits: "c \<noteq> CHR ''.'' \<and> c \<noteq> CHR ''-''" if "c \<in> set (show_nat (nat \<bar>n\<bar>))" for c
    using show_nat_chars [OF that] .
  show ?thesis
    using written_value_pointed [of "show_nat (nat \<bar>n\<bar>)", OF digits]
    by (cases "n < 0") (simp_all add: decimal_str_def read_show_nat del: read_nat.simps)
qed

text \<open>A value of the column.\<close>

definition column_value :: "rat \<Rightarrow> bool" where
  "column_value q \<longleftrightarrow> (\<exists>n. q = of_int n / 1000000)"

lemma column_value_roundtrip: "column_value q \<Longrightarrow> written_value (decimal_str q) = q"
  using decimal_str_value unfolding column_value_def by metis

lemma inserted_column_value:
  assumes "numeric_12_6 x = Some q"
  shows "column_value q"
proof -
  have "\<exists>n :: int. q = of_int n / 1000000"
    using assms unfolding numeric_12_6_def Let_def by (metis option.distinct(1) option.inject)
  then show ?thesis by (simp add: column_value_def)
qed

section \<open>The listing\<close>

record trace_view =
  tv_id :: uuid
  tv_created_at :: time
  tv_interview_session_id :: uuid
  tv_turn_id :: "uuid option"
  tv_agent :: string
  tv_prompt_version :: string
  tv_model :: string
  tv_model_version :: "string option"
  tv_outcome :: trace_outcome
  tv_wrapper_outcome :: "wrapper_outcome option"
  tv_attempts :: int
  tv_latency_ms :: int
  tv_input_tokens :: int
  tv_output_tokens :: int
  tv_cost_usd :: string
  tv_prompt_sha :: string
  tv_system_prompt :: string
  tv_user_payload :: string
  tv_response_text :: string
  tv_parsed :: "(string, json) dict option"
  tv_error_message :: "trace_error option"
  tv_transition :: "transition_context option"

definition view_row :: "turn_trace_row \<Rightarrow> trace_view" where
  "view_row r = \<lparr>
     tv_id = row_id r, tv_created_at = row_created_at r, tv_interview_session_id = row_session r,
     tv_turn_id = row_turn_id r, tv_agent = row_agent r, tv_prompt_version = row_prompt_version r,
     tv_model = row_model r, tv_model_version = row_model_version r, tv_outcome = row_outcome r,
     tv_wrapper_outcome = row_wrapper_outcome r, tv_attempts = row_attempts r,
     tv_latency_ms = row_latency_ms r, tv_input_tokens = row_input_tokens r,
     tv_output_tokens = row_output_tokens r, tv_cost_usd = decimal_str (row_cost_usd r),
     tv_prompt_sha = row_prompt_sha r, tv_system_prompt = row_system_prompt r,
     tv_user_payload = row_user_payload r, tv_response_text = row_response_text r,
     tv_parsed = row_parsed r, tv_error_message = row_error_message r,
     tv_transition = row_transition r\<rparr>"

text \<open>The 200 body: \<open>list_traces\<close> with its rows as the model shows them.\<close>

definition trace_list :: "shell_env \<Rightarrow> uuid \<Rightarrow> world \<Rightarrow> shell_error + trace_view list" where
  "trace_list env sid w = and_then (list_traces env sid w) (\<lambda>rows. Inr (map view_row rows))"

text \<open>What the view says of a row can be read back from it.\<close>

definition row_of_view :: "trace_view \<Rightarrow> turn_trace_row" where
  "row_of_view v = \<lparr>
     row_id = tv_id v, row_created_at = tv_created_at v, row_session = tv_interview_session_id v,
     row_turn_id = tv_turn_id v, row_transition = tv_transition v, row_agent = tv_agent v,
     row_prompt_version = tv_prompt_version v, row_model = tv_model v,
     row_model_version = tv_model_version v, row_outcome = tv_outcome v,
     row_wrapper_outcome = tv_wrapper_outcome v, row_attempts = tv_attempts v,
     row_latency_ms = tv_latency_ms v, row_input_tokens = tv_input_tokens v,
     row_output_tokens = tv_output_tokens v, row_cost_usd = written_value (tv_cost_usd v),
     row_prompt_sha = tv_prompt_sha v, row_error_message = tv_error_message v,
     row_system_prompt = tv_system_prompt v, row_user_payload = tv_user_payload v,
     row_response_text = tv_response_text v, row_parsed = tv_parsed v\<rparr>"

lemma row_of_view_row: "column_value (row_cost_usd r) \<Longrightarrow> row_of_view (view_row r) = r"
  by (simp add: row_of_view_def view_row_def column_value_roundtrip)

definition column_costs :: "trace_db \<Rightarrow> bool" where
  "column_costs db \<longleftrightarrow> list_all (\<lambda>r. column_value (row_cost_usd r)) (db_turn_trace db)"

lemma insert_column_costs:
  "insert_turn_trace db r = Some db' \<Longrightarrow> column_costs db \<Longrightarrow> column_costs db'"
  by (auto simp: insert_turn_trace_def column_costs_def Let_def dest: inserted_column_value
    split: option.splits if_splits)

text \<open>A posted turn leaves only such costs in the table.\<close>

lemma rows_added_costs:
  assumes "rows_added (replayable env sid) p q" and "column_costs (pg_db p)"
  shows "column_costs (pg_db q)"
  using assms
  by (auto simp: rows_added_def column_costs_def list_all_iff replayable_def dest: inserted_column_value)

text \<open>Two stable sorts: by time, and by id among equal times.\<close>

definition listed_before :: "trace_view \<Rightarrow> trace_view \<Rightarrow> bool" where
  "listed_before v u \<longleftrightarrow> tv_created_at v < tv_created_at u
     \<or> tv_created_at v = tv_created_at u \<and> unat (tv_id v) \<le> unat (tv_id u)"

lemma sorted_two_keys:
  fixes f :: "'a \<Rightarrow> 'b::linorder" and g :: "'a \<Rightarrow> 'c::linorder"
  assumes "sorted (map f ys)" and "\<And>k. sorted (map g (filter (\<lambda>x. f x = k) ys))"
  shows "sorted_wrt (\<lambda>x y. f x < f y \<or> f x = f y \<and> g x \<le> g y) ys"
  using assms
proof (induction ys)
  case (Cons y ys)
  have "sorted (map g (filter (\<lambda>x. f x = k) ys))" for k
    using Cons.prems(2) [of k] by (simp split: if_splits)
  moreover have "f y < f x \<or> f y = f x \<and> g y \<le> g x" if "x \<in> set ys" for x
  proof (cases "f y = f x")
    case True
    with that have "x \<in> set (filter (\<lambda>x. f x = f y) ys)" by simp
    with Cons.prems(2) [of "f y"] True show ?thesis by simp
  next
    case False
    with that Cons.prems(1) show ?thesis by (simp add: order.not_eq_order_implies_strict)
  qed
  ultimately show ?case using Cons by simp
qed simp

lemma two_sorts:
  fixes f :: "'a \<Rightarrow> 'b::linorder" and g :: "'a \<Rightarrow> 'c::linorder"
  shows "sorted_wrt (\<lambda>x y. f x < f y \<or> f x = f y \<and> g x \<le> g y) (sort_key f (sort_key g xs))"
proof (rule sorted_two_keys)
  show "sorted (map g (filter (\<lambda>x. f x = k) (sort_key f (sort_key g xs))))" for k
    by (simp add: sort_key_stable) (simp add: sorted_filter)
qed simp

lemma listing_rows:
  assumes "column_costs (pg_db (wd_pg w))"
  shows "case trace_list env sid w of
      Inl e \<Rightarrow> load env sid w = Inl e
    | Inr vs \<Rightarrow>
        (\<exists>wk. load env sid w = Inr wk)
        \<and> mset (map row_of_view vs) = mset (filter (\<lambda>r. row_session r = sid) (db_turn_trace (pg_db (wd_pg w))))
        \<and> sorted_wrt listed_before vs"
proof (cases "load env sid w")
  case (Inl e)
  then show ?thesis by (simp add: trace_list_def list_traces_def)
next
  case (Inr wk)
  define rows where "rows = filter (\<lambda>r. row_session r = sid) (db_turn_trace (pg_db (wd_pg w)))"
  define listed where "listed = sort_key row_created_at (sort_key (\<lambda>r. unat (row_id r)) rows)"
  have vs: "trace_list env sid w = Inr (map view_row listed)"
    using Inr by (simp add: trace_list_def list_traces_def listed_def rows_def)
  have "row_of_view (view_row r) = r" if "r \<in> set listed" for r
    using assms that by (auto simp: listed_def rows_def column_costs_def list_all_iff row_of_view_row)
  then have "map row_of_view (map view_row listed) = listed" by (simp add: map_idI)
  moreover have "sorted_wrt listed_before (map view_row listed)"
    using two_sorts [of row_created_at "\<lambda>r. unat (row_id r)" rows]
    by (simp add: listed_def listed_before_def [abs_def] view_row_def sorted_wrt_map)
  ultimately show ?thesis using Inr unfolding vs by (simp add: listed_def rows_def)
qed

text \<open>
  C32: the trace listing is the audit trail. For a session that exists, the listing has one
  entry for every row recorded for the session and no other, in the order of time and then
  id, and every entry shows its whole row: the row can be rebuilt from the entry, the cost
  text included; for a session that does not exist it is refused. A posted turn, whatever it
  does or raises, keeps the listing of every session of that form.
\<close>

theorem listing_is_the_audit_trail:
  assumes "same_float_text env" and "column_costs (pg_db (wd_pg w))"
  shows "(case trace_list env sid w of
      Inl e \<Rightarrow> load env sid w = Inl e
    | Inr vs \<Rightarrow>
        (\<exists>wk. load env sid w = Inr wk)
        \<and> mset (map row_of_view vs) = mset (filter (\<lambda>r. row_session r = sid) (db_turn_trace (pg_db (wd_pg w))))
        \<and> sorted_wrt listed_before vs)
    \<and> column_costs (pg_db (wd_pg (snd (post_turn env other said w))))"
  using listing_rows [OF assms(2)] rows_added_costs [OF turn_rows [OF assms(1) surjective_pairing] assms(2)]
  by blast

text \<open>Two recorded calls of the demonstration session, the later one inserted first.\<close>

definition demo_traced :: world where
  "demo_traced = (demo_world demo_tech)\<lparr>wd_pg := demo_db\<lparr>pg_db := \<lparr>db_sessions = [7], db_turn_trace =
     [demo_row\<lparr>row_id := 2, row_created_at := 9, row_cost_usd := 21 / 100000\<rparr>, demo_row]\<rparr>\<rparr>\<rparr>"

theorem listing_is_the_audit_trail_witness:
  "\<exists>vs. trace_list demo_shell 7 demo_traced = Inr vs
    \<and> mset (map row_of_view vs)
        = {#demo_row, demo_row\<lparr>row_id := 2, row_created_at := 9, row_cost_usd := 21 / 100000\<rparr>#}
    \<and> sorted_wrt listed_before vs"
proof -
  have load: "load demo_shell 7 demo_traced = Inr (demo_working demo_tech)"
    using demo_load [OF demo_sessions(3)] load_frame [of demo_traced "demo_world demo_tech" demo_shell 7]
    by (simp add: demo_traced_def)
  have costs: "column_costs (pg_db (wd_pg demo_traced))"
    using exI [of "\<lambda>n. 6 = rat_of_int n / 1000000" 6000000]
      exI [of "\<lambda>n. 21 / 100000 = rat_of_int n / 1000000" 210]
    by (simp add: column_costs_def demo_traced_def demo_row_def column_value_def)
  have float: "same_float_text demo_shell"
    by (simp add: same_float_text_def demo_shell_def demo_env_def)
  obtain vs where vs: "trace_list demo_shell 7 demo_traced = Inr vs"
    using load by (simp add: trace_list_def list_traces_def)
  with listing_is_the_audit_trail [OF float costs, of 7] show ?thesis
    by (intro exI [of _ vs]) (simp add: demo_traced_def demo_row_def add_mset_commute)
qed

section \<open>The log event of a call\<close>

definition outcome_name :: "trace_outcome \<Rightarrow> string" where
  "outcome_name out = (case out of
     TraceOk \<Rightarrow> ''ok'' | TraceSchemaError \<Rightarrow> ''schema_error'' | TraceTimeout \<Rightarrow> ''timeout''
   | TraceUpstreamUnavailable \<Rightarrow> ''upstream_unavailable'' | TraceBudgetExceeded \<Rightarrow> ''budget_exceeded''
   | TraceConfigError \<Rightarrow> ''config_error'' | TraceTraceWriteError \<Rightarrow> ''trace_write_error'')"

text \<open>\<open>_emit_log\<close>: the event and its fields; \<open>dec\<close> is \<open>str\<close> of a \<open>Decimal\<close>.\<close>

definition llm_call_event :: "(rat \<Rightarrow> string) \<Rightarrow> trace_record \<Rightarrow> event_dict" where
  "llm_call_event dec r = [
     (''event'', LogText (char_codes ''llm_call'')),
     (''trace_id'', LogText (char_codes (uuid_str (tr_id r)))),
     (''agent'', LogText (char_codes (tr_agent r))),
     (''model'', LogText (char_codes (tr_model r))),
     (''model_version'', case tr_model_version r of None \<Rightarrow> LogOther JNull | Some v \<Rightarrow> LogText (char_codes v)),
     (''session_id'', LogText (char_codes (uuid_str (tr_session_id r)))),
     (''outcome'', LogText (char_codes (outcome_name (tr_outcome r)))),
     (''attempts'', LogOther (JInt (tr_attempts r))),
     (''latency_ms'', LogOther (JInt (tr_latency_ms r))),
     (''cost_usd'', LogText (char_codes (dec (tr_cost_usd r)))),
     (''input_tokens'', LogOther (JInt (tr_input_tokens r))),
     (''output_tokens'', LogOther (JInt (tr_output_tokens r)))]"

lemma address_has_at: "address word a \<Longrightarrow> 64 \<in> set a"
  by (auto simp: address_def)

lemma event_passes_redaction:
  "pii_redaction_processor word (llm_call_event dec r) = llm_call_event dec r"
proof -
  have "64 \<notin> set (char_codes ''llm_call'')" by (simp add: char_codes_def)
  then have "\<not> mentions_address word (char_codes ''llm_call'')"
    using address_has_at by (fastforce simp: mentions_address_def)
  then have scrubbed: "scrub word (char_codes ''llm_call'') = char_codes ''llm_call''"
    by (rule scrub_unchanged)
  have "''candidate_email'' \<notin> dict_keys (llm_call_event dec r)"
    by (simp add: llm_call_event_def dict_keys_def)
  moreover have event: "dict_get (llm_call_event dec r) ''event'' = Some (LogText (char_codes ''llm_call''))"
    by (simp add: llm_call_event_def dict_get_def)
  ultimately show ?thesis
    using dict_set_same [OF event] scrubbed
    by (simp add: pii_redaction_processor_def pii_fields_def redact_field_def Let_def)
qed

text \<open>
  The log line of a call tells nothing of what was said. The event of two recorded calls
  of one session to one model with the same outcome, attempts, duration and token counts is
  the same whatever the prompts, the response, the parsed answer and the error text were, and the
  log pipeline, which rewrites only addresses, passes it on unchanged.
\<close>

lemma call_log_is_content_free:
  assumes "rq_agent q' = rq_agent q" and "rq_session_id q' = rq_session_id q"
    and "map_option raw_model_version raw' = map_option raw_model_version raw"
    and "map_option raw_input_tokens raw' = map_option raw_input_tokens raw"
    and "map_option raw_output_tokens raw' = map_option raw_output_tokens raw"
  shows "pii_redaction_processor word
      (llm_call_event dec (build_trace_record env q' model outcome attempts raw' cost message' parsed'))
    = llm_call_event dec (build_trace_record env q model outcome attempts raw cost message parsed)"
  unfolding event_passes_redaction using assms
  by (cases raw; cases raw') (simp_all add: llm_call_event_def build_trace_record_def)

lemma call_log_is_content_free_witness:
  "pii_redaction_processor (\<lambda>c. 128 \<le> c)
      (llm_call_event (\<lambda>_. ''0.0'') (build_trace_record demo_env
        (demo_request\<lparr>rq_user_payload := ''my name is a@b.ua''\<rparr>) ''m'' TraceOk 1
        (Some (demo_raw\<lparr>raw_text := ''call me at a@b.ua''\<rparr>)) 2 None None))
    = llm_call_event (\<lambda>_. ''0.0'')
        (build_trace_record demo_env demo_request ''m'' TraceOk 1 (Some demo_raw) 2 None None)"
  by (rule call_log_is_content_free) simp_all

section \<open>A plan before there is a session\<close>

definition validate_plan_shape :: "pydantic \<Rightarrow> (string, json) dict \<Rightarrow> plan_error + plan_snapshot" where
  "validate_plan_shape px d = validate_plan px (JObj d)"

text \<open>What it refuses, the start of a new session refuses.\<close>

lemma refused_shape_refuses_session:
  assumes "validate_plan_shape (cd_px (sh_codec env)) d = Inl e" and "env_sound env"
    and "create_session env d sid w = (res, w')" and "\<not> has_row sid w"
  shows "res = Inl DevSessionPlanInvalid"
  using assms(2,3)
proof (cases rule: create_session_cases)
  case (started wk' now fs)
  then show ?thesis using assms(1) by (simp add: validate_plan_shape_def)
qed (use assms(4) in simp)

end
