(* ===== verification/Spec2Isabelle.thy ===== *)
theory Spec2Isabelle
  imports Orchestrator_Props Llm_Props Dev_Session_Props Dev_Session_Audit Dev_Session_Races_Props Auth_Props
    Feature_Flags_Cache Http_Props Rubric_Gate Rubric_Convert_Props Boot Auth_Claims_Props
    Logging_Props Flag_Check_Props Flag_Sync Schema_Props Tools Rubric_Serve Dev_Session_Serial Flag_Service Trace_Views
begin

text \<open>
  A model of TechScreen, a backend that conducts technical interviews: a deterministic state
  machine decides what happens next, two language-model agents phrase questions and score
  answers, and everything that was asked of a model is kept in append-only audit tables.

  \<^bold>\<open>How the parts interact.\<close> A request reaches a route (\<open>app/backend/api\<close>), which passes the
  feature-flag gate and the role gate before it calls a service. The dev-session service loads
  the stored session, drives the pure state machine with one event, executes the commands it
  answers with (a model call, a scripted line, a recorded decision, a scheduled assessment)
  and feeds their results back as further events, persisting after every transition. Model
  calls go through one wrapper, which retries, checks the answer against its schema, charges a
  cost ledger and writes one audit row per call. Position templates and the rubric they refer
  to are edited and seeded beside the interviews. The sign-in gate of the identity provider,
  the configuration-sync scripts and the migrations stand around the server.

  \<^bold>\<open>Which theory models what.\<close> Definitions keep the names of the code in snake case; a class
  is a record, an enumeration or tagged union a datatype, a method a function of the state.

  Foundations. \<open>TS_Prelude\<close>: dictionaries with the locale \<open>dict_ops\<close>, JSON values, error
  results. \<open>Py_Text\<close>, \<open>Json_Text\<close>, \<open>Sha256\<close>, \<open>Uuid5\<close>: the Python library functions the code
  uses. \<open>Pydantic\<close>: the parameter that coerces scalars.

  Interview core (\<open>app/backend/orchestrator\<close>). \<open>Orch_Config\<close> is \<open>config.py\<close>, \<open>Plan\<close> is
  \<open>plan.py\<close>, \<open>Orchestrator\<close> is \<open>state_machine.py\<close> (every handler, \<open>transition\<close> and
  \<open>adjudicate\<close>), \<open>Persistence\<close> is \<open>persistence.py\<close>. \<open>Orchestrator_Inv\<close> proves the state
  invariant of every handler and that no well-formed event fails, through the locale
  \<open>safe_machine\<close>; \<open>Orchestrator_Table\<close> states the transition table of
  \<open>docs/contracts/state-machine.md\<close> as an inductive relation, with the refinement;
  \<open>Orchestrator_Runs\<close> composes step relations over runs; \<open>Orchestrator_Props\<close> has the
  properties.

  Model calls (\<open>app/backend/llm\<close>). \<open>Llm_Backend\<close> (\<open>errors.py\<close>, \<open>_backend_protocol.py\<close>,
  \<open>_real_backend.py\<close>), \<open>Llm_Config\<close> (\<open>pricing.py\<close>, \<open>models_config.py\<close>, \<open>limits_config.py\<close>,
  \<open>settings.py\<close>), \<open>Llm_Trace\<close> (both sinks and both ledgers, with the locales \<open>trace_sink\<close>,
  \<open>cost_ledger\<close> and \<open>llm_world\<close>, each interpreted on the in-memory and on the PostgreSQL
  pair), \<open>Llm_Mock\<close> (\<open>_mock_backend.py\<close>), \<open>Llm_Schema\<close> and \<open>Llm_Wrapper\<close> (\<open>vertex.py\<close>).
  \<open>Llm_Props\<close>: one trace per call, the retry policy, the budget, the validator.

  Agents and sessions. \<open>Agent_Types\<close> and \<open>Agents\<close> are \<open>app/backend/agents\<close>;
  \<open>Dev_Session\<close> is \<open>services/dev_session.py\<close>. \<open>Dev_Session_Inv\<close> shows what every operation
  keeps of the stored session and how far an event cascades; \<open>Dev_Session_Props\<close> has the
  contracts of creating, posting and resuming; \<open>Dev_Session_Audit\<close>, in the locale
  \<open>trail_relation\<close>, what a drive does to the audit rows and to the spending.
  \<open>Dev_Session_Races\<close> takes the same operations apart at their awaits and interleaves
  requests and assessments of the same sessions; \<open>Dev_Session_Races_Props\<close> shows that one
  activity alone is the sequential model, what every interleaving keeps, and what it can lose;
  \<open>Dev_Session_Serial\<close> that activities always end, and that sessions only go forward while no
  two activities of one session overlap. \<open>Trace_Views\<close> is what leaves the audit trail: the
  rows as the trace listing shows them and the log event of a call.

  Access. \<open>Auth\<close> is \<open>services/auth.py\<close> and \<open>api/deps.py\<close>; \<open>Auth_Claims\<close> is
  \<open>infra/functions/auth_claims\<close>; \<open>Http\<close> is the three routers of \<open>app/backend/api\<close>; \<open>Boot\<close>
  is \<open>main.py\<close>. Their \<open>_Props\<close> theories show who is let in, that the two ends of sign-in
  agree, that closed gates write nothing and that served state stays valid.

  Feature flags. \<open>Feature_Flags\<close> is \<open>services/feature_flags.py\<close> and the upsert of the sync;
  \<open>Feature_Flags_Cache\<close> its interleavings as a step relation, with what the cache guarantees and
  the change it can miss; \<open>Flag_Service\<close> the listener task with its connection, \<open>start\<close>,
  \<open>stop\<close> and the installed service; \<open>Flag_Sync\<close> the sync run of
  \<open>scripts/sync_feature_flags_to_db.py\<close>; \<open>Flag_Check\<close> the guard
  \<open>scripts/check-feature-flag-registration.py\<close>.

  Templates and rubric. \<open>Position_Template\<close> is \<open>services/position_template.py\<close> with its
  schemas; \<open>Rubric_Tables\<close> the rubric tables; \<open>Rubric_Snapshot\<close> is
  \<open>services/rubric_snapshot.py\<close>; \<open>Rubric_Seed\<close> and \<open>Rubric_Convert\<close> are
  \<open>services/rubric_importer.py\<close>; \<open>Rubric_Serve\<close> composes them, from the rows of a workbook to
  the levels of the snapshot a session freezes; \<open>Rubric_Gate\<close> is
  \<open>scripts/sync_rubric_to_db.py\<close>; \<open>Tools\<close> the command-line entry points.

  Database. \<open>Schema\<close> has the statements the migrations use, over a catalog, and what a role
  may do to rows; \<open>Migrations\<close> the seven files of \<open>alembic/versions\<close> and
  \<open>scripts/cloud-db-grants.sql\<close>; \<open>Orm\<close> the classes of \<open>app/backend/db/models\<close>;
  \<open>Schema_Props\<close> their properties. \<open>Logging\<close> is \<open>logging.py\<close>.

  \<^bold>\<open>Conventions.\<close> A Python \<open>str\<close> is the string of its UTF-8 bytes (in \<open>Logging\<close>, whose
  pattern counts characters, the list of its code points); \<open>strip\<close>, \<open>splitlines\<close> and
  \<open>lower\<close> act on the ASCII range, and where Unicode lower-casing matters it is a parameter.
  Python integers are \<open>int\<close>; \<open>Decimal\<close> and \<open>float\<close> are \<open>rat\<close>, rounded where a column rounds.
  An exception is an \<open>Inl\<close>, its text left out; one nothing catches is status 1 of a script and
  500 of a route. A table is a dictionary or a list of rows in insertion order, a transaction
  takes effect at once or not at all. Keys, times and clocks the database or the process
  provide are arguments. JSON-Schema validation, the JWT library, YAML, the workbook reader
  and the model provider are parameters.

  \<^bold>\<open>Bounds and fuel.\<close> The retry loop runs on the three attempts of the code. The drive loop
  runs on the code's own guard of 64 steps; at most four are ever taken, since a
  reply leads to at most one delivery, so the guard never fires; taken apart at its awaits, an
  activity needs at most 21 steps of its own. Draining the assessments runs
  once per task in the queue: an assessment schedules none. A listener that has not been stopped
  listens again within four events.

  \<^bold>\<open>Not modelled.\<close> Engine and session construction (\<open>db/session.py\<close>, \<open>db/base.py\<close>), the
  migration runner (\<open>alembic/env.py\<close>) and the cached loaders that read a file once are wiring
  without logic. Log lines (but for the \<open>llm_call\<close> event), printed messages and argument
  parsing have no effect the properties speak of. A model call is one step of a race: what other activities write to the
  audit rows during it is covered by a step that may change anything but stored sessions.
  The frontend, the infrastructure and the
  workflows are in other languages; tests and documents are not code of the program.
\<close>

end
